(* ===== verification/Prelude.thy ===== *)
theory Prelude
  imports Main "HOL-Library.Word" "HOL-Library.List_Lexorder" "HOL-Library.Char_ord"
begin

text \<open>
  Shared ground of the development: the exceptions of \<^verbatim>\<open>include/pkgctl/error.h\<close> and of the two
  journals as one datatype, the result type of every fallible operation and its combinators,
  sorting and de-duplication as \<^verbatim>\<open>std::sort\<close> followed by \<^verbatim>\<open>std::unique\<close> do it, and decimal
  rendering as \<^verbatim>\<open>std::to_string\<close> does it. An exception is its class and its code; the message
  text is not modelled.
\<close>

unbundle bit_operations_syntax

section \<open>Exceptions and results\<close>

datatype error_code =
    invalid_request | invalid_session | invalid_effect_request | invalid_effect_session
  | invalid_construction_request | invalid_construction_session | invalid_check_request
  | invalid_check_session | invalid_preparation_request | invalid_progression
  | construction_driver_contract_violation | check_driver_contract_violation
  | preparation_driver_contract_violation | driver_contract_violation | identity_failure
  | invalid_dispatch_policy | invalid_transaction_run | invalid_dispatch

datatype journal_error_code =
    invalid_nonce | invalid_record | invalid_transition | corrupt_encoding | unsupported_encoding
  | store_open_failed | store_read_failed | store_write_failed | store_sync_failed
  | store_conflict | store_corrupt | store_contract_violation

datatype evidence_error_code =
    evidence_invalid_record | evidence_corrupt_encoding | evidence_unsupported_encoding
  | evidence_store_open_failed | evidence_store_read_failed | evidence_store_write_failed
  | evidence_store_sync_failed | evidence_store_conflict | evidence_store_corrupt
  | evidence_store_contract_violation | evidence_missing | recovery_context_mismatch
  | recovery_decode_failed

datatype progress_error_code =
    invalid_progress_record | progress_evidence_missing | evidence_mismatch | unresolved_history
  | progress_mismatch

datatype codec_error_code = session_corrupt | session_unsupported | session_mismatch

datatype exn =
    Error error_code
  | Run_journal_error journal_error_code
  | Effect_journal_error journal_error_code
  | Out_of_range
  | Std_exception
  | State_error
  | Lease_error
  | Undefined_behaviour
  | Diverges
  | Evidence_error evidence_error_code
  | Progress_error progress_error_code
  | Construction_codec_error codec_error_code
  | Check_codec_error codec_error_code
  | Check_execution_error
  | Execution_error
  | Authority_unavailable
  | Unknown_exception

text \<open>
  \<open>Out_of_range\<close> is what \<^verbatim>\<open>std::map::at\<close> throws, \<open>State_error\<close> and \<open>Lease_error\<close> are
  the foreign \<^verbatim>\<open>pkgstate::state_error\<close> and \<^verbatim>\<open>pkgapply::mutation_lease_error\<close>, which the code catches,
  as it does \<open>Check_execution_error\<close> and \<open>Execution_error\<close>, the \<^verbatim>\<open>error\<close> classes of \<^verbatim>\<open>pkgcheck_exec\<close> and
  \<^verbatim>\<open>pkgexec\<close>, \<open>Authority_unavailable\<close> is \<^verbatim>\<open>transaction_effect_authority_unavailable\<close>,
  \<open>Unknown_exception\<close> a thrown value that is no \<^verbatim>\<open>std::exception\<close>,
  \<open>Std_exception\<close> is any other standard exception, \<open>Undefined_behaviour\<close> the value of reading an
  absent optional or the back of an empty vector,
  and \<open>Diverges\<close> is the value of a loop that exhausted its fuel: it stands for not returning.
\<close>

text \<open>What \<^verbatim>\<open>catch (const std::exception&)\<close> catches: every exception of the controller and of its libraries.\<close>

definition std_exception :: "exn \<Rightarrow> bool" where
  "std_exception e \<longleftrightarrow> e \<notin> {Undefined_behaviour, Diverges, Unknown_exception}"

type_synonym byte = "8 word"
type_synonym u64 = "64 word"
text \<open>\<^verbatim>\<open>std::numeric_limits<std::uint64_t>::max()\<close>.\<close>

abbreviation max_u64 :: u64 where
  "max_u64 \<equiv> - 1"

type_synonym 'a res = "exn + 'a"

named_theorems res_simps "rewriting of results and their combinators"
named_theorems res_intros "what a successful result consists of"

definition bindE :: "'e + 'a \<Rightarrow> ('a \<Rightarrow> 'e + 'b) \<Rightarrow> 'e + 'b" where
  "bindE m f = (case m of Inl e \<Rightarrow> Inl e | Inr x \<Rightarrow> f x)"

lemma bindE_simps [simp, res_simps]:
  "bindE (Inl e) f = Inl e"
  "bindE (Inr x) f = f x"
  by (simp_all add: bindE_def)

lemma bindE_Inr_iff [res_simps]: "bindE m f = Inr y \<longleftrightarrow> (\<exists>x. m = Inr x \<and> f x = Inr y)"
  by (cases m) simp_all

lemma bindE_cong [fundef_cong]:
  "m = m' \<Longrightarrow> (\<And>x. m' = Inr x \<Longrightarrow> f x = f' x) \<Longrightarrow> bindE m f = bindE m' f'"
  by (cases m') simp_all

lemma bindE_assoc: "bindE (bindE m f) g = bindE m (\<lambda>x. bindE (f x) g)"
  by (cases m) simp_all

text \<open>\<open>require b e\<close> is the guard \<^verbatim>\<open>if (!b) throw e\<close>.\<close>

definition require :: "bool \<Rightarrow> 'e \<Rightarrow> 'e + unit" where
  "require b e = (if b then Inr () else Inl e)"

lemma require_simps [simp, res_simps]:
  "require True e = Inr ()"
  "require False e = Inl e"
  "require b e = Inr u \<longleftrightarrow> b"
  "require b e = Inl e' \<longleftrightarrow> \<not> b \<and> e' = e"
  by (auto simp: require_def)

lemma bindE_require [res_simps]: "bindE (require b e) f = Inr y \<longleftrightarrow> b \<and> f () = Inr y"
  by (cases b) simp_all

text \<open>A run of guards \<^verbatim>\<open>if (bad) throw e\<close> that all throw the same exception.\<close>

definition reject :: "'e \<Rightarrow> bool list \<Rightarrow> 'e + unit" where
  "reject e conditions = (if list_ex id conditions then Inl e else Inr ())"

lemma reject_iff [res_simps]: "reject e cs = Inr u \<longleftrightarrow> list_all Not cs"
  by (auto simp: reject_def list_ex_iff list_all_iff)

lemma reject_cases: "reject e cs = Inr () \<or> reject e cs = Inl e"
  by (simp add: reject_def)

text \<open>A loop that throws or falls through, and a loop that collects one value per element.\<close>

fun forE :: "('a \<Rightarrow> 'e + unit) \<Rightarrow> 'a list \<Rightarrow> 'e + unit" where
  "forE f [] = Inr ()"
| "forE f (x # xs) = bindE (f x) (\<lambda>_. forE f xs)"

fun mapE :: "('a \<Rightarrow> 'e + 'b) \<Rightarrow> 'a list \<Rightarrow> 'e + 'b list" where
  "mapE f [] = Inr []"
| "mapE f (x # xs) = bindE (f x) (\<lambda>y. bindE (mapE f xs) (\<lambda>ys. Inr (y # ys)))"

lemma forE_Inr_iff [res_simps]: "forE f xs = Inr u \<longleftrightarrow> (\<forall>x \<in> set xs. f x = Inr ())"
  by (induction xs) (auto simp: bindE_Inr_iff)

lemma forE_cong [fundef_cong]:
  "xs = ys \<Longrightarrow> (\<And>x. x \<in> set ys \<Longrightarrow> f x = g x) \<Longrightarrow> forE f xs = forE g ys"
  by (induction ys arbitrary: xs) (auto intro!: bindE_cong)

lemma mapE_cong [fundef_cong]:
  "xs = ys \<Longrightarrow> (\<And>x. x \<in> set ys \<Longrightarrow> f x = g x) \<Longrightarrow> mapE f xs = mapE g ys"
  by (induction ys arbitrary: xs) (auto intro!: bindE_cong)

lemma mapE_Inr: "(\<And>x. x \<in> set xs \<Longrightarrow> f x = Inr (g x)) \<Longrightarrow> mapE f xs = Inr (map g xs)"
  by (induction xs) simp_all

lemma mapE_length: "mapE f xs = Inr ys \<Longrightarrow> length ys = length xs"
  by (induction xs arbitrary: ys) (auto simp: bindE_Inr_iff)

section \<open>Sorting and de-duplication\<close>

text \<open>\<^verbatim>\<open>std::sort\<close>, then \<^verbatim>\<open>erase(std::unique(...))\<close>.\<close>

definition sort_unique :: "'a::linorder list \<Rightarrow> 'a list" where
  "sort_unique xs = remdups_adj (sort xs)"

lemma set_sort_unique [simp]: "set (sort_unique xs) = set xs"
  by (simp add: sort_unique_def)

lemma remdups_adj_strict: "sorted (xs :: 'a::linorder list) \<Longrightarrow> sorted_wrt (<) (remdups_adj xs)"
proof (induction xs rule: remdups_adj.induct)
  case (3 x y xs)
  have "\<forall>z \<in> set (remdups_adj (y # xs)). y \<le> z"
    using "3.prems" by (auto simp del: remdups_adj.simps)
  with 3 show ?case
    by (cases "x = y") (auto simp: order_le_less)
qed simp_all

lemma strict_sort_unique [simp]: "sorted_wrt (<) (sort_unique xs)"
  by (simp add: sort_unique_def remdups_adj_strict)

lemma sorted_sort_unique [simp]: "sorted (sort_unique xs)"
  using strict_sort_unique [of xs] by (simp add: strict_sorted_iff)

lemma distinct_sort_unique [simp]: "distinct (sort_unique xs)"
  using strict_sort_unique [of xs] by (simp add: strict_sorted_iff)

lemma sort_unique_Nil_iff [simp]: "sort_unique xs = [] \<longleftrightarrow> xs = []"
  by (metis set_empty set_sort_unique)

text \<open>
  Adjacent elements of a sorted list without adjacent duplicates are strictly increasing, which is
  what the canonical-member checks (\<^verbatim>\<open>std::is_sorted\<close> and \<^verbatim>\<open>std::adjacent_find\<close>) establish.
\<close>

fun adjacent_duplicate :: "('a \<Rightarrow> 'a \<Rightarrow> bool) \<Rightarrow> 'a list \<Rightarrow> bool" where
  "adjacent_duplicate eq (x # y # xs) = (eq x y \<or> adjacent_duplicate eq (y # xs))"
| "adjacent_duplicate eq _ = False"

lemma canonical_iff_strict:
  "sorted xs \<and> \<not> adjacent_duplicate (=) xs \<longleftrightarrow> sorted_wrt (<) (xs :: 'a::linorder list)"
proof (induction xs rule: induct_list012)
  case (3 x y zs)
  then show ?case
    by (auto simp: order_le_less dest: order_less_trans)
qed simp_all

lemma canonical_map_iff_strict:
  "sorted (map f xs) \<and> \<not> adjacent_duplicate (\<lambda>a b. f a = f b) xs
    \<longleftrightarrow> sorted_wrt (<) (map f xs :: 'a::linorder list)"
proof -
  have "adjacent_duplicate (\<lambda>a b. f a = f b) xs = adjacent_duplicate (=) (map f xs)"
    by (induction xs rule: induct_list012) simp_all
  then show ?thesis by (simp add: canonical_iff_strict)
qed

section \<open>Decimal rendering\<close>

definition digit_char :: "nat \<Rightarrow> char" where
  "digit_char d = char_of (48 + d)"

fun to_string :: "nat \<Rightarrow> string" where
  "to_string n = (if n < 10 then [digit_char n] else to_string (n div 10) @ [digit_char (n mod 10)])"

declare to_string.simps [simp del]

lemma digit_char_inj: "a < 10 \<Longrightarrow> b < 10 \<Longrightarrow> digit_char a = digit_char b \<longleftrightarrow> a = b"
proof -
  assume *: "a < 10" "b < 10"
  have "of_char (char_of (48 + a) :: char) = 48 + a" "of_char (char_of (48 + b) :: char) = 48 + b"
    using * by (simp_all add: of_char_of)
  then show ?thesis
    unfolding digit_char_def by (metis add_left_cancel)
qed

lemma to_string_nonempty [simp]: "to_string n \<noteq> []" "[] \<noteq> to_string n"
  by (subst to_string.simps, simp)+

text \<open>Decimal rendering is injective: no two numbers hash under the same field.\<close>

lemma to_string_inj: "to_string m = to_string n \<longleftrightarrow> m = n"
proof
  show "to_string m = to_string n \<Longrightarrow> m = n"
  proof (induction m arbitrary: n rule: to_string.induct)
    case (1 m)
    show ?case
    proof (cases "m < 10")
      case True
      with "1.prems" show ?thesis
        by (subst (asm) (1 2) to_string.simps)
          (auto split: if_splits simp: digit_char_inj to_string_nonempty)
    next
      case False
      from "1.prems" False have n: "\<not> n < 10"
        by (subst (asm) (1 2) to_string.simps) (auto split: if_splits simp: to_string_nonempty)
      with "1.prems" False
      have eq: "to_string (m div 10) = to_string (n div 10)" "digit_char (m mod 10) = digit_char (n mod 10)"
        by (subst (asm) (1 2) to_string.simps, simp)+
      from "1.IH" [OF False eq(1)] eq(2) show ?thesis
        by (metis digit_char_inj div_mult_mod_eq mod_less_divisor zero_less_numeral)
    qed
  qed
qed simp

end
