(* ===== verification/Identity.thy ===== *)
theory Identity
  imports Prelude
begin

text \<open>
  \<^verbatim>\<open>src/identity.cpp\<close> and the three 32-byte nonces. Bytes are \<^typ>\<open>8 word\<close>, a
  \<^verbatim>\<open>std::string\<close> is a \<^typ>\<open>string\<close> (one \<^typ>\<open>char\<close> per byte). SHA-256 is OpenSSL code and stays a
  parameter \<open>sha\<close> of every definition that hashes; what the controller itself does, the
  length-prefixed framing of the hashed fields and the hexadecimal rendering, is modelled in full.
  A \<^verbatim>\<open>session_identity\<close> is its canonical hexadecimal text.
\<close>

type_synonym session_identity = string
type_synonym digest = "byte list \<Rightarrow> byte list"

section \<open>Big-endian integers and byte strings\<close>

definition be_bytes :: "nat \<Rightarrow> 'a::len word \<Rightarrow> byte list" where
  "be_bytes k w = map (\<lambda>i. ucast (drop_bit (8 * i) w)) (rev [0..<k])"

definition be_value :: "byte list \<Rightarrow> 'a::len word" where
  "be_value bs = foldl (\<lambda>v b. push_bit 8 v OR ucast b) 0 bs"

lemma length_be_bytes [simp]: "length (be_bytes k w) = k"
  by (simp add: be_bytes_def)

lemma be_bytes_0 [simp]: "be_bytes 0 w = []"
  by (simp add: be_bytes_def)

lemma be_bytes_Suc: "be_bytes (Suc k) w = be_bytes k (drop_bit 8 w) @ [ucast w]"
proof -
  have "[0..<Suc k] = 0 # map Suc [0..<k]"
    by (simp add: map_Suc_upt upt_conv_Cons del: upt_Suc)
  then have "rev [0..<Suc k] = map Suc (rev [0..<k]) @ [0]"
    by (simp add: rev_map)
  then show ?thesis
    by (simp add: be_bytes_def add.commute)
qed

lemma be_value_snoc: "be_value (bs @ [b]) = push_bit 8 (be_value bs) OR ucast b"
  by (simp add: be_value_def)

lemma be_value_be_bytes: "be_value (be_bytes k w) = (take_bit (8 * k) w :: 'a::len word)"
proof (induction k arbitrary: w)
  case 0
  show ?case by (simp add: be_value_def)
next
  case (Suc k)
  have "push_bit 8 (take_bit (8 * k) (drop_bit 8 w)) OR ucast (ucast w :: byte)
      = (take_bit (8 * Suc k) w :: 'a word)"
    by (rule bit_word_eqI) (auto simp: bit_simps)
  then show ?case
    by (simp add: be_bytes_Suc be_value_snoc Suc.IH)
qed

lemma be_value_be_bytes_64 [simp]: "be_value (be_bytes 8 w) = (w :: u64)"
  by (simp add: be_value_be_bytes take_bit_word_eq_self)

lemma be_bytes_inj_64: "be_bytes 8 v = be_bytes 8 w \<longleftrightarrow> v = (w :: u64)"
  by (metis be_value_be_bytes_64)

definition bytes_of_string :: "string \<Rightarrow> byte list" where
  "bytes_of_string s = map (\<lambda>c. word_of_nat (of_char c)) s"

definition string_of_bytes :: "byte list \<Rightarrow> string" where
  "string_of_bytes bs = map (\<lambda>b. char_of (unat b)) bs"

lemma unat_byte_of_char: "unat (word_of_nat (of_char c) :: byte) = of_char c"
proof -
  have "unat (word_of_nat (of_char c) :: byte) = (of_char c :: nat) mod 2 ^ LENGTH(8)"
    by (rule unat_of_nat)
  also have "(2::nat) ^ LENGTH(8) = 256" by simp
  finally show ?thesis by (simp only: of_char_mod_256)
qed

lemma string_of_bytes_of_string [simp]: "string_of_bytes (bytes_of_string s) = s"
  unfolding string_of_bytes_def bytes_of_string_def map_map
  by (rule map_idI) (simp only: unat_byte_of_char o_apply char_of_char)

lemma bytes_of_string_of_bytes [simp]: "bytes_of_string (string_of_bytes bs) = bs"
proof -
  have "word_of_nat (of_char (char_of (unat b))) = b" for b :: byte
  proof -
    have "unat b < 256" using unsigned_less [of b, where ?'a = nat] by simp
    then have "of_char (char_of (unat b)) = unat b" by (simp add: of_char_of)
    then show ?thesis by simp
  qed
  then show ?thesis
    by (simp add: string_of_bytes_def bytes_of_string_def o_def)
qed

lemma length_bytes_of_string [simp]: "length (bytes_of_string s) = length s"
  by (simp add: bytes_of_string_def)

lemma length_string_of_bytes [simp]: "length (string_of_bytes bs) = length bs"
  by (simp add: string_of_bytes_def)

lemma bytes_of_string_inj: "bytes_of_string s = bytes_of_string t \<longleftrightarrow> s = t"
  by (metis string_of_bytes_of_string)

section \<open>Hexadecimal\<close>

definition hex_digits :: string where
  "hex_digits = ''0123456789abcdef''"

text \<open>\<^verbatim>\<open>hex(bytes, size)\<close>: two digits per byte, high nibble first.\<close>

definition hex_of_byte :: "byte \<Rightarrow> string" where
  "hex_of_byte b = [hex_digits ! unat (drop_bit 4 b AND 15), hex_digits ! unat (b AND 15)]"

definition hex_of_bytes :: "byte list \<Rightarrow> string" where
  "hex_of_bytes bs = concat (map hex_of_byte bs)"

text \<open>\<^verbatim>\<open>hexadecimal_digit\<close>, with the exception its caller throws on any other character.\<close>

definition is_lower_hex :: "char \<Rightarrow> bool" where
  "is_lower_hex c \<longleftrightarrow> (CHR ''0'' \<le> c \<and> c \<le> CHR ''9'') \<or> (CHR ''a'' \<le> c \<and> c \<le> CHR ''f'')"

definition hexadecimal_digit :: "exn \<Rightarrow> char \<Rightarrow> byte res" where
  "hexadecimal_digit e c =
     (if CHR ''0'' \<le> c \<and> c \<le> CHR ''9'' then Inr (word_of_nat (of_char c - 48))
      else if CHR ''a'' \<le> c \<and> c \<le> CHR ''f'' then Inr (word_of_nat (of_char c - 97 + 10))
      else Inl e)"

text \<open>The loop that assembles one byte from two digits.\<close>

fun bytes_of_hex :: "exn \<Rightarrow> string \<Rightarrow> byte list res" where
  "bytes_of_hex e (h # l # s) =
     bindE (hexadecimal_digit e h) (\<lambda>high.
     bindE (hexadecimal_digit e l) (\<lambda>low.
     bindE (bytes_of_hex e s) (\<lambda>bs. Inr ((push_bit 4 high OR low) # bs))))"
| "bytes_of_hex e _ = Inr []"

definition hexadecimal_nibble :: "exn \<Rightarrow> nat \<Rightarrow> bool" where
  "hexadecimal_nibble e n \<longleftrightarrow>
     hexadecimal_digit e (hex_digits ! n) = Inr (word_of_nat n) \<and> is_lower_hex (hex_digits ! n)"

lemma hexadecimal_nibbles: "n < 16 \<Longrightarrow> hexadecimal_nibble e n"
proof -
  assume "n < 16"
  then have "n \<in> {0, 1, 2, 3, 4, 5, 6, 7, 8, 9, 10, 11, 12, 13, 14, 15}"
    unfolding insert_iff empty_iff by presburger
  then show ?thesis
    by (auto simp: hexadecimal_nibble_def hexadecimal_digit_def hex_digits_def is_lower_hex_def
        less_eq_char_def)
qed

lemma unat_and_15: "unat (b AND 15 :: byte) < 16"
proof -
  have "b AND 15 \<le> 15" by (rule word_and_le1)
  then show ?thesis by (simp add: word_le_nat_alt)
qed

lemma hexadecimal_digit_nibble:
  "hexadecimal_digit e (hex_digits ! unat (b AND 15)) = Inr (b AND 15 :: byte)"
  using hexadecimal_nibbles [OF unat_and_15, of e b] by (simp add: hexadecimal_nibble_def)

lemma byte_cases_8: "n < LENGTH(8) \<Longrightarrow> n = 0 \<or> n = 1 \<or> n = 2 \<or> n = 3 \<or> n = 4 \<or> n = 5 \<or> n = 6 \<or> n = 7"
  by (simp, presburger)

lemma nibbles_join: "push_bit 4 (drop_bit 4 b) AND 240 OR (b AND 15) = (b :: byte)"
  by (rule bit_word_eqI, drule byte_cases_8) (elim disjE, simp_all add: bit_simps)

lemma length_hex_of_bytes [simp]: "length (hex_of_bytes bs) = 2 * length bs"
  by (induction bs) (simp_all add: hex_of_bytes_def hex_of_byte_def)

lemma bytes_of_hex_of_bytes [simp]: "bytes_of_hex e (hex_of_bytes bs) = Inr bs"
  by (induction bs)
    (simp_all add: hex_of_bytes_def hex_of_byte_def hexadecimal_digit_nibble nibbles_join)

lemma hex_of_bytes_inj: "hex_of_bytes as = hex_of_bytes bs \<longleftrightarrow> as = bs"
  by (metis bytes_of_hex_of_bytes sum.inject(2))

lemma hex_of_bytes_lower: "list_all is_lower_hex (hex_of_bytes bs)"
  using hexadecimal_nibbles [OF unat_and_15, of Out_of_range]
  by (induction bs) (auto simp: hex_of_bytes_def hex_of_byte_def hexadecimal_nibble_def)


lemma hexadecimal_digit_of_nat:
  assumes "hexadecimal_digit e c = Inr v"
  obtains n where "c = char_of (n :: nat)" and "n \<in> {48, 49, 50, 51, 52, 53, 54, 55, 56, 57} \<union> {97, 98, 99, 100, 101, 102}"
    and "v = word_of_nat (if n < 58 then n - 48 else n - 87)"
proof
  let ?n = "of_char c :: nat"
  show "c = char_of ?n" by simp
  from assms have range: "(48 \<le> ?n \<and> ?n \<le> 57) \<or> (97 \<le> ?n \<and> ?n \<le> 102)"
    by (auto simp: hexadecimal_digit_def less_eq_char_def split: if_splits)
  then show "?n \<in> {48, 49, 50, 51, 52, 53, 54, 55, 56, 57} \<union> {97, 98, 99, 100, 101, 102}"
    unfolding Un_iff insert_iff empty_iff by presburger
  from assms range show "v = word_of_nat (if ?n < 58 then ?n - 48 else ?n - 87)"
    by (auto simp: hexadecimal_digit_def less_eq_char_def split: if_splits)
qed

lemma hexadecimal_digit_sound:
  assumes "hexadecimal_digit e c = Inr v"
  shows "hex_digits ! unat v = c \<and> v AND 15 = v"
  using assms
proof (rule hexadecimal_digit_of_nat)
  fix n :: nat
  assume "c = char_of n" and "n \<in> {48, 49, 50, 51, 52, 53, 54, 55, 56, 57} \<union> {97, 98, 99, 100, 101, 102}"
    and "v = word_of_nat (if n < 58 then n - 48 else n - 87)"
  then show ?thesis
    by (auto simp: hex_digits_def char_of_def bit_0)
qed

lemma nibble_split:
  assumes "h AND 15 = (h :: byte)" and "l AND 15 = l"
  shows "drop_bit 4 (push_bit 4 h OR l) AND 15 = h" and "(push_bit 4 h OR l) AND 15 = l"
proof -
  have "drop_bit 4 (push_bit 4 (h AND 15) OR (l AND 15)) AND 15 = h AND 15"
    by (rule bit_word_eqI, drule byte_cases_8) (elim disjE, simp_all add: bit_simps)
  moreover have "(push_bit 4 (h AND 15) OR (l AND 15)) AND 15 = l AND 15"
    by (rule bit_word_eqI, drule byte_cases_8) (elim disjE, simp_all add: bit_simps)
  ultimately show "drop_bit 4 (push_bit 4 h OR l) AND 15 = h" and "(push_bit 4 h OR l) AND 15 = l"
    using assms by simp_all
qed

text \<open>Reading hexadecimal accepts only the canonical rendering of the bytes it returns.\<close>

lemma bytes_of_hex_sound:
  "bytes_of_hex e s = Inr bs \<Longrightarrow> even (length s) \<Longrightarrow> hex_of_bytes bs = s \<and> length s = 2 * length bs"
proof (induction e s arbitrary: bs rule: bytes_of_hex.induct)
  case (1 e h l s)
  from "1.prems" obtain hv lv bs' where
    d: "hexadecimal_digit e h = Inr hv" "hexadecimal_digit e l = Inr lv"
    and rest: "bytes_of_hex e s = Inr bs'" and bs: "bs = (push_bit 4 hv OR lv) # bs'"
    by (auto simp: bindE_Inr_iff)
  have "hex_of_bytes bs' = s \<and> length s = 2 * length bs'"
    using "1.IH" [OF d rest] "1.prems"(2) by simp
  moreover have "hex_of_byte (push_bit 4 hv OR lv) = [h, l]"
    using hexadecimal_digit_sound [OF d(1)] hexadecimal_digit_sound [OF d(2)]
    by (simp only: hex_of_byte_def nibble_split)
  ultimately show ?case
    by (simp add: bs hex_of_bytes_def)
qed (simp_all add: hex_of_bytes_def)

section \<open>Session identities\<close>

text \<open>
  \<^verbatim>\<open>add_field\<close> hashes the 64-bit big-endian length of a field, then the field;
  \<^verbatim>\<open>make_session_identity\<close> hashes the domain and the fields this way and renders the digest.
\<close>

definition add_field :: "string \<Rightarrow> byte list" where
  "add_field value = be_bytes 8 (word_of_nat (length value) :: u64) @ bytes_of_string value"

definition identity_preimage :: "string \<Rightarrow> string list \<Rightarrow> byte list" where
  "identity_preimage domain fields = concat (map add_field (domain # fields))"

definition make_session_identity :: "digest \<Rightarrow> string \<Rightarrow> string list \<Rightarrow> session_identity" where
  "make_session_identity sha domain fields = hex_of_bytes (sha (identity_preimage domain fields))"

definition session_identity_from_hex :: "string \<Rightarrow> session_identity res" where
  "session_identity_from_hex value =
     (if length value \<noteq> 64 then Inl (Error identity_failure)
      else if \<not> list_all is_lower_hex value then Inl (Error identity_failure)
      else Inr value)"

definition identity_text_ok :: "string \<Rightarrow> bool" where
  "identity_text_ok s \<longleftrightarrow> length s = 64 \<and> list_all is_lower_hex s"

lemma session_identity_from_hex_Inr [res_simps]:
  "session_identity_from_hex v = Inr i \<longleftrightarrow> identity_text_ok v \<and> i = v"
  by (auto simp: session_identity_from_hex_def identity_text_ok_def)

text \<open>What the code relies on: SHA-256 yields 32 bytes.\<close>

definition digest_ok :: "digest \<Rightarrow> bool" where
  "digest_ok sha \<longleftrightarrow> (\<forall>bs. length (sha bs) = 32)"

lemma make_session_identity_ok [simp]:
  "digest_ok sha \<Longrightarrow> identity_text_ok (make_session_identity sha d fs)"
  by (simp add: digest_ok_def identity_text_ok_def make_session_identity_def hex_of_bytes_lower)

text \<open>The framing is uniquely decodable, so distinct field lists never share a preimage.\<close>

abbreviation hashable :: "string \<Rightarrow> bool" where
  "hashable s \<equiv> length s < 2 ^ 64"

lemma word_of_length_inj:
  assumes "hashable s" and "hashable t" and "(word_of_nat (length s) :: u64) = word_of_nat (length t)"
  shows "length s = length t"
proof -
  have "unat (word_of_nat (length u) :: u64) = length u" if "hashable u" for u
    using that by (simp only: unat_of_nat len_of_numeral_defs mod_less) simp
  with assms show ?thesis by metis
qed

lemma take_drop_add_field:
  "take 8 (add_field s @ xs) = be_bytes 8 (word_of_nat (length s) :: u64)"
  "drop 8 (add_field s @ xs) = bytes_of_string s @ xs"
  by (simp_all add: add_field_def)

lemma add_field_append_inj:
  assumes eq: "add_field s @ xs = add_field t @ ys" and "hashable s" and "hashable t"
  shows "s = t \<and> xs = ys"
proof -
  have "(word_of_nat (length s) :: u64) = word_of_nat (length t)"
    using arg_cong [OF eq, of "take 8"] by (simp only: take_drop_add_field be_bytes_inj_64)
  then have "length s = length t"
    using assms(2,3) word_of_length_inj by blast
  moreover have "bytes_of_string s @ xs = bytes_of_string t @ ys"
    using arg_cong [OF eq, of "drop 8"] by (simp only: take_drop_add_field)
  ultimately show ?thesis by (simp add: bytes_of_string_inj)
qed

lemma concat_add_field_inj:
  "concat (map add_field fs) = concat (map add_field gs) \<Longrightarrow> \<forall>f \<in> set fs. hashable f
    \<Longrightarrow> \<forall>g \<in> set gs. hashable g \<Longrightarrow> fs = gs"
proof (induction fs arbitrary: gs)
  case Nil
  then show ?case
    by (cases gs) (auto simp: add_field_def dest: arg_cong [where f = length])
next
  case (Cons f fs)
  show ?case
  proof (cases gs)
    case Nil
    with Cons.prems show ?thesis
      by (auto simp: add_field_def dest: arg_cong [where f = length])
  next
    case (Cons g gs')
    with Cons.prems have "f = g \<and> concat (map add_field fs) = concat (map add_field gs')"
      by (intro add_field_append_inj) simp_all
    with Cons Cons.prems Cons.IH [of gs'] show ?thesis by simp
  qed
qed

lemma identity_preimage_inj:
  assumes "identity_preimage d fs = identity_preimage d' fs'"
    and "\<forall>f \<in> set (d # fs). hashable f" and "\<forall>f \<in> set (d' # fs'). hashable f"
  shows "d = d' \<and> fs = fs'"
  using concat_add_field_inj [of "d # fs" "d' # fs'"] assms by (simp add: identity_preimage_def)

text \<open>Equal identities of different fields are a digest collision.\<close>

lemma make_session_identity_eq:
  assumes "make_session_identity sha d fs = make_session_identity sha d' fs'"
  shows "sha (identity_preimage d fs) = sha (identity_preimage d' fs')"
  using assms by (simp add: make_session_identity_def hex_of_bytes_inj)

end
