(* ===== verification/Nonce.thy ===== *)
theory Nonce
  imports Identity
begin

text \<open>
  The caller-issued 32-byte nonces: of a dispatch reservation (\<^verbatim>\<open>src/dispatch.cpp\<close>), of a durable
  run history (\<^verbatim>\<open>src/run_journal.cpp\<close>) and of an effect attempt (\<^verbatim>\<open>src/effect_journal.cpp\<close>). Each
  has the contract of the locale \<open>hex_nonce\<close>, stated once and interpreted for all three.
\<close>

type_synonym nonce = "byte list"

definition nonce_ok :: "nonce \<Rightarrow> bool" where
  "nonce_ok n \<longleftrightarrow> length n = 32 \<and> (\<exists>b \<in> set n. b \<noteq> 0)"

section \<open>The contract of a nonce class\<close>

locale hex_nonce =
  fixes from_bytes :: "byte list \<Rightarrow> nonce res"
    and from_hex :: "string \<Rightarrow> nonce res"
    and hex :: "nonce \<Rightarrow> string"
    and failure :: exn
  assumes bytes_zero: "\<forall>b \<in> set bs. b = 0 \<Longrightarrow> from_bytes bs = Inl failure"
    and bytes_nonzero: "\<exists>b \<in> set bs. b \<noteq> 0 \<Longrightarrow> from_bytes bs = Inr bs"
    and hex_length: "length s \<noteq> 64 \<Longrightarrow> from_hex s = Inl failure"
    and hex_read: "length bs = 32 \<Longrightarrow> from_hex (hex_of_bytes bs) = from_bytes bs"
    and hex_sound: "from_hex s = Inr n \<Longrightarrow> hex_of_bytes n = s"
    and hex_render: "hex n = hex_of_bytes n"
begin

lemma from_bytes_Inr: "from_bytes bs = Inr n \<longleftrightarrow> n = bs \<and> (\<exists>b \<in> set bs. b \<noteq> 0)"
  by (metis bytes_zero bytes_nonzero sum.inject(2) sum.distinct(1))

lemma from_hex_ok: "from_hex s = Inr n \<Longrightarrow> nonce_ok n \<and> hex n = s"
proof -
  assume a: "from_hex s = Inr n"
  then have s: "hex_of_bytes n = s" by (rule hex_sound)
  moreover have "length s = 64" using a hex_length by fastforce
  ultimately have n: "length n = 32" using length_hex_of_bytes [of n] by simp
  with a s have "from_bytes n = Inr n" by (metis hex_read)
  with n s show ?thesis by (simp add: nonce_ok_def from_bytes_Inr hex_render)
qed

lemma hex_roundtrip: "nonce_ok n \<Longrightarrow> from_hex (hex n) = Inr n"
  by (simp add: nonce_ok_def hex_read hex_render bytes_nonzero)

lemma hex_inj: "hex m = hex n \<longleftrightarrow> m = n"
  by (simp add: hex_render hex_of_bytes_inj)

lemma from_hex_iff: "from_hex s = Inr n \<longleftrightarrow> nonce_ok n \<and> s = hex n"
  using from_hex_ok hex_roundtrip by blast

end

section \<open>Dispatch nonces\<close>

definition dispatch_nonce_from_bytes :: "byte list \<Rightarrow> nonce res" where
  "dispatch_nonce_from_bytes bytes =
     (let all_zero = list_all (\<lambda>v. v = 0) bytes in
      if all_zero then Inl (Error invalid_dispatch) else Inr bytes)"

definition dispatch_nonce_from_hex :: "string \<Rightarrow> nonce res" where
  "dispatch_nonce_from_hex value =
     (if length value \<noteq> 64 then Inl (Error invalid_dispatch)
      else bindE (bytes_of_hex (Error invalid_dispatch) value) dispatch_nonce_from_bytes)"

definition dispatch_nonce_hex :: "nonce \<Rightarrow> string" where
  "dispatch_nonce_hex n = hex_of_bytes n"

section \<open>Run nonces\<close>

definition run_nonce_from_bytes :: "byte list \<Rightarrow> nonce res" where
  "run_nonce_from_bytes bytes =
     (let all_zero = list_all (\<lambda>v. v = 0) bytes in
      if all_zero then Inl (Run_journal_error invalid_nonce) else Inr bytes)"

definition run_nonce_from_hex :: "string \<Rightarrow> nonce res" where
  "run_nonce_from_hex value =
     (if length value \<noteq> 64 then Inl (Run_journal_error invalid_nonce)
      else bindE (bytes_of_hex (Run_journal_error invalid_nonce) value) run_nonce_from_bytes)"

definition run_nonce_hex :: "nonce \<Rightarrow> string" where
  "run_nonce_hex n = hex_of_bytes n"

section \<open>Effect-attempt nonces\<close>

text \<open>
  This class checks the whole text first (\<^verbatim>\<open>lowercase_hex\<close>) and then reads digits without a check.
\<close>

definition lowercase_hex :: "string \<Rightarrow> bool" where
  "lowercase_hex value = (if length value \<noteq> 64 then False else list_all is_lower_hex value)"

definition lower_digit :: "char \<Rightarrow> byte" where
  "lower_digit c = (if c \<le> CHR ''9'' then word_of_nat (of_char c - 48)
                    else word_of_nat (of_char c - 97 + 10))"

fun bytes_of_lower_hex :: "string \<Rightarrow> byte list" where
  "bytes_of_lower_hex (h # l # s) = (push_bit 4 (lower_digit h) OR lower_digit l) # bytes_of_lower_hex s"
| "bytes_of_lower_hex _ = []"

definition effect_nonce_from_bytes :: "byte list \<Rightarrow> nonce res" where
  "effect_nonce_from_bytes bytes =
     (if list_all (\<lambda>v. v = 0) bytes then Inl (Effect_journal_error invalid_nonce) else Inr bytes)"

definition effect_nonce_from_hex :: "string \<Rightarrow> nonce res" where
  "effect_nonce_from_hex value =
     (if \<not> lowercase_hex value then Inl (Effect_journal_error invalid_nonce)
      else effect_nonce_from_bytes (bytes_of_lower_hex value))"

definition effect_nonce_hex :: "nonce \<Rightarrow> string" where
  "effect_nonce_hex n = hex_of_bytes n"

lemma hexadecimal_digit_lower: "is_lower_hex c \<Longrightarrow> hexadecimal_digit e c = Inr (lower_digit c)"
  by (auto simp: is_lower_hex_def hexadecimal_digit_def lower_digit_def less_eq_char_def)

lemma bytes_of_hex_lower: "list_all is_lower_hex s \<Longrightarrow> bytes_of_hex e s = Inr (bytes_of_lower_hex s)"
  by (induction s rule: bytes_of_lower_hex.induct) (simp_all add: hexadecimal_digit_lower)

section \<open>The contract holds of all three\<close>

lemma from_hex_sound_by_bytes:
  assumes "length s = 64" and "bytes_of_hex e s = Inr bs"
  shows "hex_of_bytes bs = s"
  using bytes_of_hex_sound [OF assms(2)] assms(1) by simp

interpretation dispatch_nonce: hex_nonce dispatch_nonce_from_bytes dispatch_nonce_from_hex
  dispatch_nonce_hex "Error invalid_dispatch"
  by unfold_locales
    (auto simp: dispatch_nonce_from_bytes_def dispatch_nonce_from_hex_def dispatch_nonce_hex_def
      list_all_iff bindE_Inr_iff from_hex_sound_by_bytes split: if_splits)

interpretation run_nonce: hex_nonce run_nonce_from_bytes run_nonce_from_hex
  run_nonce_hex "Run_journal_error invalid_nonce"
  by unfold_locales
    (auto simp: run_nonce_from_bytes_def run_nonce_from_hex_def run_nonce_hex_def
      list_all_iff bindE_Inr_iff from_hex_sound_by_bytes split: if_splits)

lemma lowercase_hex_of_bytes: "length bs = 32 \<Longrightarrow> lowercase_hex (hex_of_bytes bs)"
  by (simp add: lowercase_hex_def hex_of_bytes_lower)

lemma bytes_of_lower_hex_of_bytes: "bytes_of_lower_hex (hex_of_bytes bs) = bs"
  using bytes_of_hex_lower [OF hex_of_bytes_lower, of Out_of_range bs] by simp

lemma not_lowercase_hex: "length s \<noteq> 64 \<Longrightarrow> \<not> lowercase_hex s"
  by (simp add: lowercase_hex_def)

lemma lower_hex_sound: "lowercase_hex s \<Longrightarrow> hex_of_bytes (bytes_of_lower_hex s) = s"
  using bytes_of_hex_lower [of s Out_of_range] from_hex_sound_by_bytes
  by (auto simp: lowercase_hex_def split: if_splits)

interpretation effect_nonce: hex_nonce effect_nonce_from_bytes effect_nonce_from_hex
  effect_nonce_hex "Effect_journal_error invalid_nonce"
  by unfold_locales
    (auto simp: effect_nonce_from_bytes_def effect_nonce_from_hex_def effect_nonce_hex_def
      list_all_iff lowercase_hex_of_bytes bytes_of_lower_hex_of_bytes lower_hex_sound
      not_lowercase_hex split: if_splits)

end
