(* ===== verification/External.thy ===== *)
theory External
  imports Nonce
begin

text \<open>
  What the controller receives from libraries that are not part of this repository
  (\<^verbatim>\<open>libpkgtransaction\<close>, \<^verbatim>\<open>libpkgstate\<close>, \<^verbatim>\<open>libpkgapply\<close>, \<^verbatim>\<open>libpkgapply-exec\<close>, \<^verbatim>\<open>libpkgbuild\<close>, OpenSSL),
  reduced to the accessors the modelled code calls. Values are records of those accessors; an
  accessor that is a lookup is a function field, and what the code relies on about it is a named
  predicate. Functions of those libraries are the fields of \<open>ext\<close>, the first argument of every
  definition that calls one. Identities of those libraries are their text: their \<^verbatim>\<open>==\<close> and \<^verbatim>\<open><\<close>
  are taken to be those of the hexadecimal text the controller stores, as for \<^verbatim>\<open>session_identity\<close>.
\<close>

section \<open>Transaction programs (libpkgtransaction)\<close>

type_synonym node_identity = string

datatype transaction_action_kind =
  Act_build | Act_check | Act_install | Act_upgrade | Act_remove | Act_lifecycle | Act_retain

datatype transaction_edge_kind = Edge_phase | Edge_requirement | Edge_other

datatype phase_order_kind =
  Pre_lifecycle_before_action | Action_before_post_lifecycle | Build_before_check | Build_before_target

datatype requirement_scope = Scope_build | Scope_check | Scope_other string

record installed_package =
  installed_identity :: string
  installed_release_name :: string
  installed_version :: string
  installed_release_number :: nat
  installed_control :: string

record catalog_candidate =
  candidate_source :: string
  candidate_release :: string
  candidate_package :: string

record package_selection =
  selection_identity :: string
  selection_package :: string
  selection_installed :: "installed_package option"
  selection_source :: string
  selection_release :: string
  selection_version :: string
  selection_release_number :: nat
  selection_candidate :: "catalog_candidate option"

datatype resolution_environment = Environment_target | Environment_other

record transaction_node =
  node_id :: node_identity
  node_action :: transaction_action_kind
  node_environment :: resolution_environment
  node_package :: string
  node_selection :: "package_selection option"
  node_installed :: "installed_package option"
  node_lifecycle :: "string option"

record transaction_edge =
  edge_id :: string
  edge_kind :: transaction_edge_kind
  edge_before :: node_identity
  edge_after :: node_identity
  edge_phase_order :: "phase_order_kind option"
  edge_scope :: "requirement_scope option"
  edge_witness :: "string option"

record transaction_program =
  program_identity :: string
  program_nodes :: "transaction_node list"
  program_edges :: "transaction_edge list"
  program_find :: "node_identity \<Rightarrow> transaction_node option"

text \<open>
  What a sealed program guarantees: node identities are unique, \<^verbatim>\<open>find\<close> finds exactly the nodes of
  the program, and both ends of every edge are two different nodes of the program.
\<close>

definition program_ok :: "transaction_program \<Rightarrow> bool" where
  "program_ok p \<longleftrightarrow>
     distinct (map node_id (program_nodes p)) \<and>
     (\<forall>i. program_find p i = find (\<lambda>n. node_id n = i) (program_nodes p)) \<and>
     (\<forall>e \<in> set (program_edges p). edge_before e \<in> node_id ` set (program_nodes p) \<and>
        edge_after e \<in> node_id ` set (program_nodes p) \<and> edge_before e \<noteq> edge_after e)"

section \<open>Installed state (libpkgstate)\<close>

type_synonym snapshot_identity = string

record snapshot =
  snapshot_id :: snapshot_identity
  snapshot_target_binding :: string
  snapshot_managed_target :: string
  snapshot_root_view :: string
  snapshot_ownership :: string
  snapshot_find_package :: "string \<Rightarrow> installed_package option"

datatype state_publication_outcome =
    Published | Published_durability_unconfirmed | Stale_expected_state | Request_rejected
  | Failed_before_publication | Publication_indeterminate

record installation_reason =
  reason_kind_code :: nat
  reason_issuer_package :: "string option"
  reason_issuer_profile :: "string option"
  reason_issuer_profile_identity :: "string option"
  reason_policy :: "string option"

record state_publication_request =
  publication_request_id :: string
  publication_transaction_evidence :: "string option"
  publication_expected_snapshot :: snapshot_identity
  publication_target_binding :: string

record state_publication_receipt =
  receipt_id :: string
  receipt_request :: string
  receipt_expected_prior :: snapshot_identity
  receipt_actual_prior :: snapshot_identity
  receipt_target_binding :: string
  receipt_resulting_snapshot :: "snapshot_identity option"
  receipt_outcome :: state_publication_outcome

section \<open>Application and lifecycle execution (libpkgapply, libpkgapply-exec)\<close>

datatype application_attempt_outcome =
    Application_completed | Precondition_refused | Failed_before_target_mutation
  | Failed_fully_recovered | Failed_with_partial_effects
  | Effects_visible_durability_unconfirmed | Application_indeterminate

datatype operation_kind = Kind_install | Kind_upgrade | Kind_remove

text \<open>
  \<^verbatim>\<open>pkgapply::package_application_request\<close>: exactly one of \<^verbatim>\<open>installation()\<close>, \<^verbatim>\<open>upgrade()\<close> and
  \<^verbatim>\<open>removal()\<close> is the body, and the accessors of its plan that the controller reads are the body's fields.
\<close>

record operation_plan =
  plan_installed_snapshot :: string
  plan_ownership_inventory :: string
  plan_release_name :: string

datatype application_body =
    Installation operation_plan
  | Upgrade operation_plan (old_package: string) (old_control: string)
  | Removal operation_plan (removed_package: string) (removed_control: string)

record application_target =
  target_identity :: string
  target_managed :: string
  target_root_view :: string
  target_lifecycle_executor :: "string option"

record incoming_authority =
  incoming_source :: string
  incoming_release :: string

record package_application_request =
  application_id :: string
  application_plan :: string
  application_kind :: operation_kind
  application_body :: "application_body option"
  application_target_of :: application_target
  application_control :: string
  application_incoming :: "incoming_authority option"

record application_receipt =
  application_receipt_id :: string
  application_outcome :: application_attempt_outcome
  application_journal :: "string option"
  application_completed_evidence :: "string option"
  application_receipt_request :: string
  application_receipt_plan :: string
  application_receipt_kind :: operation_kind
  application_receipt_target :: string
  application_receipt_control :: string
  application_receipt_projection :: string

datatype lifecycle_subject = Subject_incoming | Subject_installed

record lifecycle_node =
  lifecycle_node_id :: string
  lifecycle_application :: string
  lifecycle_plan :: string
  lifecycle_operation :: operation_kind
  lifecycle_target :: string
  lifecycle_executor :: string
  lifecycle_action :: string
  lifecycle_program :: string
  lifecycle_release_name :: string
  lifecycle_version :: string
  lifecycle_release :: string
  lifecycle_subject_of :: lifecycle_subject
  lifecycle_source :: "string option"
  lifecycle_installed_control :: "string option"

record execution_credentials =
  credential_interpreter :: string
  credential_user :: nat
  credential_group :: nat
  credential_groups :: "nat list"

record admitted_lifecycle_session =
  lifecycle_request :: string
  lifecycle_node_of :: lifecycle_node
  lifecycle_execution_root :: string
  lifecycle_target_root :: string
  lifecycle_credentials :: execution_credentials

record lifecycle_execution_result =
  lifecycle_result_id :: string
  lifecycle_result_succeeded :: bool
  lifecycle_result_node :: string
  lifecycle_result_program :: string
  lifecycle_result_is_lifecycle :: bool
  lifecycle_result_action :: "string option"
  lifecycle_result_root_view :: string
  lifecycle_result_credentials :: execution_credentials
  lifecycle_result_no_new_privileges :: bool
  lifecycle_result_network_denied :: bool

text \<open>The durable history of an application, as the owner library reopens it.\<close>

record application_header =
  header_identity :: string
  header_request :: string
  header_plan :: string
  header_kind :: operation_kind
  header_target :: string
  header_control :: string

record application_declaration =
  declaration_identity :: string
  declaration_header :: application_header
  declaration_effects :: "string list"

record application_journal_record =
  journal_header :: application_header
  journal_effects :: "string list"
  journal_receipt :: "string option"
  journal_completed_evidence :: "string option"

datatype application_restart_disposition =
  Application_restart_terminal | Application_restart_external | Application_restart_continue

section \<open>Functions of those libraries\<close>

text \<open>
  SHA-256; the numeric values of two foreign enumerations, which the controller hashes and stores;
  the \<^verbatim>\<open>parse\<close> functions of foreign identity types, of which it uses whether they accept;
  \<^verbatim>\<open>transaction_evidence_identity::from_sha256\<close>; \<^verbatim>\<open>apply_adapter::project_completed_application\<close>, which makes the publication request of a completed
  application, and \<^verbatim>\<open>pkgstate::project_publication_request\<close>, the state a publication request leads to;
  and \<^verbatim>\<open>pkgapply::assess_application_restart\<close>, whose other dispositions the controller does not distinguish.
\<close>

record ext =
  sha256 :: digest
  application_outcome_code :: "application_attempt_outcome \<Rightarrow> nat"
  publication_outcome_code :: "state_publication_outcome \<Rightarrow> nat"
  parse_application_receipt :: "string \<Rightarrow> bool"
  parse_application_journal :: "string \<Rightarrow> bool"
  parse_completed_evidence :: "string \<Rightarrow> bool"
  parse_transaction_evidence :: "string \<Rightarrow> bool"
  parse_publication_request :: "string \<Rightarrow> bool"
  parse_publication_receipt :: "string \<Rightarrow> bool"
  parse_snapshot :: "string \<Rightarrow> bool"
  evidence_of_sha256 :: "byte list \<Rightarrow> string"
  project_completed :: "snapshot \<Rightarrow> string \<Rightarrow> package_application_request \<Rightarrow> string \<Rightarrow>
     installation_reason option \<Rightarrow> string \<Rightarrow> state_publication_request res"
  project_publication_request :: "state_publication_request \<Rightarrow> snapshot \<Rightarrow> snapshot res"
  assess_application_restart :: "application_journal_record \<Rightarrow> application_restart_disposition"

abbreviation make_identity :: "ext \<Rightarrow> string \<Rightarrow> string list \<Rightarrow> session_identity" where
  "make_identity X \<equiv> make_session_identity (sha256 X)"

lemma program_find_Some:
  "program_ok p \<Longrightarrow> program_find p i = Some n \<longleftrightarrow> n \<in> set (program_nodes p) \<and> node_id n = i"
proof -
  assume ok: "program_ok p"
  have "find (\<lambda>n. node_id n = i) ns = Some n \<longleftrightarrow> n \<in> set ns \<and> node_id n = i"
    if "distinct (map node_id ns)" for ns
    using that by (induction ns) (auto simp: image_iff)
  with ok show ?thesis by (simp add: program_ok_def)
qed

lemma program_find_None:
  "program_ok p \<Longrightarrow> program_find p i = None \<longleftrightarrow> i \<notin> node_id ` set (program_nodes p)"
  by (auto simp: program_ok_def find_None_iff)

end
