(* ===== verification/Evidence.thy ===== *)
theory Evidence
  imports External
begin

text \<open>
  The controller's own sessions and terminal evidence, as the progression, dispatch and journal
  code reads them: the transaction session of \<^verbatim>\<open>include/pkgctl/session.h\<close>, construction and check
  sessions and results of \<^verbatim>\<open>construction.h\<close> and \<^verbatim>\<open>check.h\<close>, and effectful-operation sessions and
  results of \<^verbatim>\<open>effect.h\<close>. A record field is the accessor of the same name; chains of accessors into
  foreign values (\<^verbatim>\<open>build().build().identity()\<close>) are one field.
\<close>

record transaction_session =
  transaction_id :: session_identity
  transaction_program_of :: transaction_program
  transaction_installed :: snapshot

section \<open>Construction\<close>

datatype input_scope = Input_build | Input_check

record build_input =
  input_scope_of :: input_scope
  input_requirement :: string
  input_selection :: package_selection
  input_package :: string
  input_id :: string

text \<open>
  \<^verbatim>\<open>pkgbuild::build_policy\<close> with the fields of its environment policy, \<^verbatim>\<open>pkgfetch::acquisition_policy\<close>, and
  the sealed \<^verbatim>\<open>pkgbuild::build_request\<close>; \<open>build_request_inputs\<close> is \<^verbatim>\<open>inputs().for_scope(build)\<close>.
\<close>

record environment_policy =
  environment_id :: string
  environment_parallelism :: "32 word"
  environment_mask :: "32 word"
  environment_epoch :: "64 word option"

record build_policy =
  build_policy_id :: string
  build_environment :: environment_policy
  build_output_layout :: byte

record acquisition_policy =
  max_object_bytes :: u64
  max_redirects :: "32 word"
  allow_http :: bool
  allow_https :: bool

record build_request =
  build_request_id :: string
  build_request_source :: string
  build_request_subject :: string
  build_request_inputs :: "build_input list"
  build_request_policy :: build_policy

record construction_request =
  construction_transaction :: transaction_session
  construction_build_node :: node_identity
  construction_build_of :: build_request
  construction_acquisition :: acquisition_policy
  construction_request_id :: session_identity

abbreviation construction_build_inputs :: "construction_request \<Rightarrow> build_input list" where
  "construction_build_inputs r \<equiv> build_request_inputs (construction_build_of r)"

text \<open>Paths are their text. A user or group is a 64-bit number.\<close>

record construction_paths =
  local_source_root :: string
  content_store_root :: string
  build_root_view :: string
  root_view_path :: string
  session_root :: string
  package_output_root :: string
  artifact_path :: string

record package_input_resource =
  resource_input :: string
  resource_tree :: string
  resource_path :: string

record execution_identity =
  identity_interpreter :: string
  identity_user :: u64
  identity_group :: u64
  identity_groups :: "u64 list"

datatype artifact_compression = Compression_none | Compression_other byte

record construction_session =
  construction_request_of :: construction_request
  construction_paths_of :: construction_paths
  construction_inputs_of :: "package_input_resource list"
  construction_identity_of :: execution_identity
  construction_compression_of :: artifact_compression
  construction_session_id :: session_identity

text \<open>What \<^verbatim>\<open>pkgfetch\<close> and \<^verbatim>\<open>pkgbuild_exec\<close> return, by the accessors the controller calls.\<close>

record source_materialization =
  materialization_id :: string
  materialization_source :: string

record build_execution_result =
  build_result_id :: string
  build_result_request :: string
  build_result_succeeded :: bool
  build_sealing_failed :: bool
  build_image_authority :: bool
  build_execution_id :: string
  build_execution_request :: string
  build_backend :: string

datatype construction_outcome = Build_failed | Construction_completed

fun construction_outcome_code :: "construction_outcome \<Rightarrow> nat" where
  "construction_outcome_code Build_failed = 0"
| "construction_outcome_code Construction_completed = 1"

record construction_result =
  construction_session_of :: construction_session
  construction_materialization :: source_materialization
  construction_build :: build_execution_result
  construction_outcome_of :: construction_outcome
  construction_id :: session_identity

definition construction_succeeded :: "construction_result \<Rightarrow> bool" where
  "construction_succeeded c \<longleftrightarrow> construction_outcome_of c = Construction_completed"

abbreviation construction_node :: "construction_result \<Rightarrow> node_identity" where
  "construction_node c \<equiv> construction_build_node (construction_request_of (construction_session_of c))"

abbreviation construction_build_id :: "construction_result \<Rightarrow> string" where
  "construction_build_id c \<equiv> build_result_id (construction_build c)"

abbreviation construction_build_subject :: "construction_result \<Rightarrow> string" where
  "construction_build_subject c \<equiv>
     build_request_subject (construction_build_of (construction_request_of (construction_session_of c)))"

section \<open>Check\<close>

text \<open>
  \<open>check_authority\<close> is the \<^verbatim>\<open>pkgcheck::check_request\<close> a controller check request carries, and
  \<open>admitted_check_session\<close> the \<^verbatim>\<open>pkgcheck_exec::admitted_check_session\<close>.
\<close>

record check_authority =
  authority_id :: string
  authority_transaction :: string
  authority_check_node :: node_identity
  authority_build_node :: node_identity
  authority_build :: string
  authority_inputs :: "build_input list"

record constructed_input =
  constructed_input_id :: string
  constructed_input_result :: construction_result

record transaction_check_request =
  check_transaction :: transaction_session
  check_prepared_from :: session_identity
  check_node_of :: node_identity
  check_construction :: construction_result
  check_authority_of :: check_authority
  check_constructed_inputs :: "constructed_input list"
  check_request_id :: session_identity

record resource_limits =
  limits_id :: string
  limit_cpu_time :: "u64 option"
  limit_address_space :: "u64 option"
  limit_file_size :: "u64 option"
  limit_open_files :: "u64 option"
  limit_processes :: "u64 option"

record admitted_check_session =
  checked_source :: string
  checked_source_tree :: string
  checked_source_path :: string
  checked_artifact :: string
  checked_package_tree :: string
  checked_package_path :: string
  check_input_resources :: "package_input_resource list"
  check_root_view :: string
  check_root_view_path :: string
  check_temporary_root :: string
  check_identity_of :: execution_identity
  check_limits :: resource_limits

record transaction_check_session =
  check_request_of :: transaction_check_request
  check_execution_session :: admitted_check_session
  check_execution_request :: string
  check_session_id :: session_identity

text \<open>What \<^verbatim>\<open>pkgcheck_exec\<close> returns; of its outcome the controller asks whether it is \<^verbatim>\<open>passed\<close> and hashes the value.\<close>

record check_execution_result =
  executed_check_id :: string
  executed_check_authority :: string
  executed_check_passed :: bool
  executed_outcome_code :: nat
  executed_id :: string
  executed_request :: string
  executed_is_check :: bool
  executed_backend :: string

record transaction_check_result =
  check_session_of :: transaction_check_session
  check_execution :: check_execution_result
  check_id :: session_identity

definition check_succeeded :: "transaction_check_result \<Rightarrow> bool" where
  "check_succeeded c \<longleftrightarrow> executed_check_passed (check_execution c)"

abbreviation check_executed_authority :: "transaction_check_result \<Rightarrow> string" where
  "check_executed_authority c \<equiv> executed_check_authority (check_execution c)"

abbreviation check_executed_request :: "transaction_check_result \<Rightarrow> string" where
  "check_executed_request c \<equiv> executed_request (check_execution c)"

abbreviation check_node :: "transaction_check_result \<Rightarrow> node_identity" where
  "check_node c \<equiv> check_node_of (check_request_of (check_session_of c))"

section \<open>Effectful operation\<close>

record lifecycle_order =
  order_before :: "node_identity list"
  order_after :: "node_identity list"

record effectful_operation_request =
  effect_transaction :: transaction_session
  effect_expected_state :: snapshot
  effect_action_node :: node_identity
  effect_application_request :: package_application_request
  effect_lifecycle :: lifecycle_order
  effect_installation_reason :: "installation_reason option"
  effect_request_id :: session_identity

record effectful_operation_session =
  effect_request_of :: effectful_operation_request
  effect_session_before :: "admitted_lifecycle_session list"
  effect_session_after :: "admitted_lifecycle_session list"
  effect_session_id :: session_identity

abbreviation effect_session_before_count :: "effectful_operation_session \<Rightarrow> nat" where
  "effect_session_before_count s \<equiv> length (effect_session_before s)"

abbreviation effect_session_after_count :: "effectful_operation_session \<Rightarrow> nat" where
  "effect_session_after_count s \<equiv> length (effect_session_after s)"

datatype effectful_operation_outcome =
    Lifecycle_failed_before_application | Application_not_completed
  | Lifecycle_failed_after_application | Outer_lease_lost | State_publication_not_completed
  | State_publication_indeterminate | Effect_completed | Application_resolution_required

record effectful_operation_result =
  effect_session_of :: effectful_operation_session
  effect_outcome :: effectful_operation_outcome
  effect_before :: "lifecycle_execution_result list"
  effect_application :: "application_receipt option"
  effect_after :: "lifecycle_execution_result list"
  effect_transaction_evidence :: "string option"
  effect_publication_request :: "state_publication_request option"
  effect_publication_receipt :: "state_publication_receipt option"
  effect_reconciled_state :: "snapshot_identity option"
  effect_id :: session_identity

definition effect_succeeded :: "effectful_operation_result \<Rightarrow> bool" where
  "effect_succeeded r \<longleftrightarrow> effect_outcome r = Effect_completed"

abbreviation effect_request :: "effectful_operation_result \<Rightarrow> effectful_operation_request" where
  "effect_request r \<equiv> effect_request_of (effect_session_of r)"

abbreviation effect_node :: "effectful_operation_result \<Rightarrow> node_identity" where
  "effect_node r \<equiv> effect_action_node (effect_request r)"

text \<open>The value \<^verbatim>\<open>static_cast<unsigned int>(outcome)\<close>.\<close>

fun effect_outcome_code :: "effectful_operation_outcome \<Rightarrow> nat" where
  "effect_outcome_code Lifecycle_failed_before_application = 0"
| "effect_outcome_code Application_not_completed = 1"
| "effect_outcome_code Lifecycle_failed_after_application = 2"
| "effect_outcome_code Outer_lease_lost = 3"
| "effect_outcome_code State_publication_not_completed = 4"
| "effect_outcome_code State_publication_indeterminate = 5"
| "effect_outcome_code Effect_completed = 6"
| "effect_outcome_code Application_resolution_required = 7"

end
