(* ===== verification/Progression.thy ===== *)
theory Progression
  imports Evidence
begin

text \<open>
  \<^verbatim>\<open>src/progression.cpp\<close>: evidence-driven progression of one transaction program. The units of a
  program are its build nodes, its check nodes and its target actions together with their lifecycle
  nodes; node statuses are derived from the accepted terminal evidence by a fixpoint loop; a
  progress value is always the result of \<open>rebuild\<close>, and \<open>advance_construction\<close>, \<open>advance_check\<close> and
  \<open>advance_effect\<close> accept one more piece of evidence. The status map is keyed by the hexadecimal
  text of a node, which is the node identity here.
\<close>

section \<open>Data\<close>

datatype transaction_node_status = Pending | Ready | Satisfied | Failed | Blocked

datatype transaction_unit_kind = Construction_unit | Check_unit | Operation_unit

record unit_spec =
  spec_kind :: transaction_unit_kind
  spec_primary :: node_identity
  spec_members :: "node_identity list"

record ready_transaction_unit =
  unit_kind :: transaction_unit_kind
  unit_primary :: node_identity
  unit_members :: "node_identity list"
  unit_id :: session_identity

record transaction_progress =
  progress_transaction :: transaction_session
  progress_state :: snapshot
  progress_constructions :: "construction_result list"
  progress_checks :: "transaction_check_result list"
  progress_effects :: "effectful_operation_result list"
  progress_nodes :: "(node_identity \<times> transaction_node_status) list"
  progress_ready_units :: "ready_transaction_unit list"
  progress_id :: session_identity

type_synonym status_map = "node_identity \<Rightarrow> transaction_node_status option"

fun status_code :: "transaction_node_status \<Rightarrow> nat" where
  "status_code Pending = 0"
| "status_code Ready = 1"
| "status_code Satisfied = 2"
| "status_code Failed = 3"
| "status_code Blocked = 4"

fun unit_kind_code :: "transaction_unit_kind \<Rightarrow> nat" where
  "unit_kind_code Construction_unit = 0"
| "unit_kind_code Check_unit = 1"
| "unit_kind_code Operation_unit = 2"

section \<open>Units\<close>

definition target_action :: "transaction_action_kind \<Rightarrow> bool" where
  "target_action a \<longleftrightarrow> a = Act_install \<or> a = Act_upgrade \<or> a = Act_remove"

text \<open>The lifecycle nodes one edge attaches to an action.\<close>

definition phase_members :: "node_identity \<Rightarrow> transaction_edge \<Rightarrow> node_identity list" where
  "phase_members action e =
     (if edge_kind e \<noteq> Edge_phase \<or> edge_phase_order e = None then []
      else (if edge_phase_order e = Some Pre_lifecycle_before_action \<and> edge_after e = action
            then [edge_before e] else []) @
           (if edge_phase_order e = Some Action_before_post_lifecycle \<and> edge_before e = action
            then [edge_after e] else []))"

definition lifecycle_members :: "transaction_program \<Rightarrow> node_identity \<Rightarrow> node_identity list" where
  "lifecycle_members program action =
     sort_unique (action # concat (map (phase_members action) (program_edges program)))"

type_synonym owner_map = "node_identity \<Rightarrow> node_identity option"

text \<open>Each lifecycle member of an operation must be a lifecycle node owned by no other operation.\<close>

fun claim_members ::
  "transaction_program \<Rightarrow> node_identity \<Rightarrow> node_identity list \<Rightarrow> owner_map \<Rightarrow> owner_map res" where
  "claim_members program action [] owner = Inr owner"
| "claim_members program action (member # members) owner =
     (if member = action then claim_members program action members owner
      else case program_find program member of
        None \<Rightarrow> Inl (Error invalid_progression)
      | Some lifecycle \<Rightarrow>
          if node_action lifecycle \<noteq> Act_lifecycle then Inl (Error invalid_progression)
          else case owner member of
            None \<Rightarrow> claim_members program action members (owner(member \<mapsto> action))
          | Some other \<Rightarrow>
              if other \<noteq> action then Inl (Error invalid_progression)
              else claim_members program action members owner)"

definition single_spec :: "transaction_unit_kind \<Rightarrow> node_identity \<Rightarrow> unit_spec" where
  "single_spec kind i = \<lparr>spec_kind = kind, spec_primary = i, spec_members = [i]\<rparr>"

definition operation_spec :: "transaction_program \<Rightarrow> node_identity \<Rightarrow> unit_spec" where
  "operation_spec program i =
     \<lparr>spec_kind = Operation_unit, spec_primary = i, spec_members = lifecycle_members program i\<rparr>"

fun collect_units ::
  "transaction_program \<Rightarrow> transaction_node list \<Rightarrow> owner_map \<Rightarrow> (unit_spec list \<times> owner_map) res" where
  "collect_units program [] owner = Inr ([], owner)"
| "collect_units program (node # nodes) owner =
     (let i = node_id node in
      if node_action node = Act_build then
        bindE (collect_units program nodes owner) (\<lambda>(us, owner').
          Inr (single_spec Construction_unit i # us, owner'))
      else if node_action node = Act_check then
        bindE (collect_units program nodes owner) (\<lambda>(us, owner').
          Inr (single_spec Check_unit i # us, owner'))
      else if target_action (node_action node) then
        bindE (claim_members program i (lifecycle_members program i) owner) (\<lambda>owner1.
        bindE (collect_units program nodes owner1) (\<lambda>(us, owner').
          Inr (operation_spec program i # us, owner')))
      else collect_units program nodes owner)"

definition units :: "transaction_session \<Rightarrow> unit_spec list res" where
  "units transaction =
     (let program = transaction_program_of transaction in
      bindE (collect_units program (program_nodes program) Map.empty) (\<lambda>(result, lifecycle_owner).
        if \<exists>node \<in> set (program_nodes program).
             node_action node = Act_lifecycle \<and> lifecycle_owner (node_id node) = None
        then Inl (Error invalid_progression)
        else Inr (sort_key spec_primary result)))"

section \<open>Statuses\<close>

definition find_construction ::
  "construction_result list \<Rightarrow> node_identity \<Rightarrow> construction_result option" where
  "find_construction values node = find (\<lambda>v. construction_node v = node) values"

definition find_check ::
  "transaction_check_result list \<Rightarrow> node_identity \<Rightarrow> transaction_check_result option" where
  "find_check values node = find (\<lambda>v. check_node v = node) values"

definition find_effect ::
  "effectful_operation_result list \<Rightarrow> node_identity \<Rightarrow> effectful_operation_result option" where
  "find_effect values node = find (\<lambda>v. effect_node v = node) values"

fun apply_lifecycle_results ::
  "status_map \<Rightarrow> node_identity list \<Rightarrow> lifecycle_execution_result list \<Rightarrow> status_map" where
  "apply_lifecycle_results state [] results = state"
| "apply_lifecycle_results state (n # order) [] =
     apply_lifecycle_results (state(n \<mapsto> Blocked)) order []"
| "apply_lifecycle_results state (n # order) (r # results) =
     apply_lifecycle_results
       (state(n \<mapsto> (if lifecycle_result_succeeded r then Satisfied else Failed))) order results"

fun assign_all :: "status_map \<Rightarrow> node_identity list \<Rightarrow> transaction_node_status \<Rightarrow> status_map" where
  "assign_all state [] s = state"
| "assign_all state (m # ms) s = assign_all (state(m \<mapsto> s)) ms s"

text \<open>\<^verbatim>\<open>emplace\<close> keeps the first value of a key.\<close>

fun initial_statuses :: "transaction_node list \<Rightarrow> status_map \<Rightarrow> status_map" where
  "initial_statuses [] state = state"
| "initial_statuses (node # nodes) state =
     initial_statuses nodes
       (if state (node_id node) = None
        then state(node_id node \<mapsto> (if node_action node = Act_retain then Satisfied else Pending))
        else state)"

definition outcome_status :: "bool \<Rightarrow> transaction_node_status" where
  "outcome_status ok = (if ok then Satisfied else Failed)"

definition apply_evidence ::
  "construction_result list \<Rightarrow> transaction_check_result list \<Rightarrow> effectful_operation_result list \<Rightarrow>
   status_map \<Rightarrow> unit_spec \<Rightarrow> status_map" where
  "apply_evidence constructions checks effects state u =
     (case spec_kind u of
        Construction_unit \<Rightarrow>
          (case find_construction constructions (spec_primary u) of
             None \<Rightarrow> state
           | Some evidence \<Rightarrow>
               state(spec_primary u \<mapsto> outcome_status (construction_succeeded evidence)))
      | Check_unit \<Rightarrow>
          (case find_check checks (spec_primary u) of
             None \<Rightarrow> state
           | Some evidence \<Rightarrow> state(spec_primary u \<mapsto> outcome_status (check_succeeded evidence)))
      | Operation_unit \<Rightarrow>
          (case find_effect effects (spec_primary u) of
             None \<Rightarrow> state
           | Some evidence \<Rightarrow>
               if effect_succeeded evidence then assign_all state (spec_members u) Satisfied
               else
                 let state = assign_all state (spec_members u) Blocked;
                     state = state(spec_primary u \<mapsto> Failed);
                     lifecycle = effect_lifecycle (effect_request evidence);
                     state = apply_lifecycle_results state (order_before lifecycle) (effect_before evidence)
                 in apply_lifecycle_results state (order_after lifecycle) (effect_after evidence)))"

text \<open>
  The inner loop of one unit over the edges that enter it from outside (\<^verbatim>\<open>state.at\<close> throws on an
  unknown predecessor). The members are sorted, so \<^verbatim>\<open>std::binary_search\<close> is membership.
\<close>

fun scan_edges ::
  "status_map \<Rightarrow> node_identity list \<Rightarrow> transaction_edge list \<Rightarrow> bool \<Rightarrow> bool \<Rightarrow> (bool \<times> bool) res" where
  "scan_edges state members [] all_satisfied dependency_failed = Inr (all_satisfied, dependency_failed)"
| "scan_edges state members (e # es) all_satisfied dependency_failed =
     (if edge_after e \<notin> set members \<or> edge_before e \<in> set members
      then scan_edges state members es all_satisfied dependency_failed
      else case state (edge_before e) of
        None \<Rightarrow> Inl Out_of_range
      | Some predecessor \<Rightarrow>
          scan_edges state members es
            (all_satisfied \<and> predecessor = Satisfied)
            (dependency_failed \<or> predecessor = Failed \<or> predecessor = Blocked))"

definition derived_status :: "bool \<Rightarrow> bool \<Rightarrow> transaction_node_status" where
  "derived_status all_satisfied dependency_failed =
     (if dependency_failed then Blocked else if all_satisfied then Ready else Pending)"

text \<open>\<^verbatim>\<open>state[member]\<close> of an absent key is the zero enumerator, \<open>Pending\<close>.\<close>

fun settle_members ::
  "status_map \<Rightarrow> node_identity list \<Rightarrow> transaction_node_status \<Rightarrow> bool \<Rightarrow> status_map \<times> bool" where
  "settle_members state [] derived changed = (state, changed)"
| "settle_members state (m # ms) derived changed =
     settle_members (state(m \<mapsto> derived)) ms derived
       (changed \<or> (case state m of None \<Rightarrow> Pending | Some s \<Rightarrow> s) \<noteq> derived)"

definition settle_unit ::
  "transaction_edge list \<Rightarrow> unit_spec \<Rightarrow> status_map \<Rightarrow> bool \<Rightarrow> (status_map \<times> bool) res" where
  "settle_unit es u state changed =
     (case state (spec_primary u) of
        None \<Rightarrow> Inl Out_of_range
      | Some primary_status \<Rightarrow>
          if primary_status = Satisfied \<or> primary_status = Failed then Inr (state, changed)
          else bindE (scan_edges state (spec_members u) es True False)
                 (\<lambda>(all_satisfied, dependency_failed).
                   Inr (settle_members state (spec_members u)
                          (derived_status all_satisfied dependency_failed) changed)))"

fun settle_pass ::
  "transaction_edge list \<Rightarrow> unit_spec list \<Rightarrow> status_map \<Rightarrow> bool \<Rightarrow> (status_map \<times> bool) res" where
  "settle_pass es [] state changed = Inr (state, changed)"
| "settle_pass es (u # us) state changed =
     bindE (settle_unit es u state changed) (\<lambda>(state', changed'). settle_pass es us state' changed')"

text \<open>The \<^verbatim>\<open>while (changed)\<close> loop; out of fuel is \<open>Diverges\<close>.\<close>

fun settle :: "nat \<Rightarrow> transaction_edge list \<Rightarrow> unit_spec list \<Rightarrow> status_map \<Rightarrow> status_map res" where
  "settle 0 es us state = Inl Diverges"
| "settle (Suc fuel) es us state =
     bindE (settle_pass es us state False) (\<lambda>(state', changed).
       if changed then settle fuel es us state' else Inr state')"

definition settle_fuel :: "unit_spec list \<Rightarrow> nat" where
  "settle_fuel us = length us + 2"

definition evidence_statuses ::
  "transaction_session \<Rightarrow> construction_result list \<Rightarrow> transaction_check_result list \<Rightarrow>
   effectful_operation_result list \<Rightarrow> unit_spec list \<Rightarrow> status_map" where
  "evidence_statuses transaction constructions checks effects unit_specs =
     foldl (apply_evidence constructions checks effects)
       (initial_statuses (program_nodes (transaction_program_of transaction)) Map.empty) unit_specs"

definition derive_statuses ::
  "transaction_session \<Rightarrow> construction_result list \<Rightarrow> transaction_check_result list \<Rightarrow>
   effectful_operation_result list \<Rightarrow> unit_spec list \<Rightarrow> status_map res" where
  "derive_statuses transaction constructions checks effects unit_specs =
     settle (settle_fuel unit_specs) (program_edges (transaction_program_of transaction)) unit_specs
       (evidence_statuses transaction constructions checks effects unit_specs)"

section \<open>Progress values\<close>

definition ready_unit_identity :: "ext \<Rightarrow> session_identity \<Rightarrow> unit_spec \<Rightarrow> session_identity" where
  "ready_unit_identity X transaction u =
     make_identity X ''pkgctl/transaction-ready-unit/1''
       ([transaction, to_string (unit_kind_code (spec_kind u)), spec_primary u,
         to_string (length (spec_members u))] @ spec_members u)"

definition seal_unit :: "ext \<Rightarrow> session_identity \<Rightarrow> unit_spec \<Rightarrow> ready_transaction_unit" where
  "seal_unit X transaction u =
     \<lparr>unit_kind = spec_kind u, unit_primary = spec_primary u, unit_members = spec_members u,
      unit_id = ready_unit_identity X transaction u\<rparr>"

definition status_at :: "status_map \<Rightarrow> node_identity \<Rightarrow> transaction_node_status res" where
  "status_at state i = (case state i of None \<Rightarrow> Inl Out_of_range | Some s \<Rightarrow> Inr s)"

fun collect_ready ::
  "ext \<Rightarrow> session_identity \<Rightarrow> status_map \<Rightarrow> unit_spec list \<Rightarrow> ready_transaction_unit list res" where
  "collect_ready X transaction status [] = Inr []"
| "collect_ready X transaction status (u # us) =
     bindE (status_at status (spec_primary u)) (\<lambda>s.
     bindE (collect_ready X transaction status us) (\<lambda>ready.
       Inr (if s \<noteq> Ready then ready else seal_unit X transaction u # ready)))"

definition progress_identity ::
  "ext \<Rightarrow> transaction_session \<Rightarrow> snapshot \<Rightarrow> construction_result list \<Rightarrow> transaction_check_result list \<Rightarrow>
   effectful_operation_result list \<Rightarrow> (node_identity \<times> transaction_node_status) list \<Rightarrow>
   ready_transaction_unit list \<Rightarrow> session_identity" where
  "progress_identity X transaction current_state constructions checks effects nodes ready =
     make_identity X ''pkgctl/transaction-progress/1''
       ([transaction_id transaction, snapshot_id current_state, to_string (length constructions)]
        @ concat (map (\<lambda>v. [construction_node v, construction_id v]) constructions)
        @ [to_string (length checks)] @ concat (map (\<lambda>v. [check_node v, check_id v]) checks)
        @ [to_string (length effects)] @ concat (map (\<lambda>v. [effect_node v, effect_id v]) effects)
        @ [to_string (length nodes)]
        @ concat (map (\<lambda>(n, s). [n, to_string (status_code s)]) nodes)
        @ [to_string (length ready)] @ map unit_id ready)"

definition rebuild ::
  "ext \<Rightarrow> transaction_session \<Rightarrow> snapshot \<Rightarrow> construction_result list \<Rightarrow> transaction_check_result list \<Rightarrow>
   effectful_operation_result list \<Rightarrow> transaction_progress res" where
  "rebuild X transaction current_state constructions checks effects =
     bindE (units transaction) (\<lambda>unit_specs.
     bindE (derive_statuses transaction constructions checks effects unit_specs) (\<lambda>status.
     bindE (mapE (\<lambda>node. bindE (status_at status (node_id node)) (\<lambda>s. Inr (node_id node, s)))
              (program_nodes (transaction_program_of transaction))) (\<lambda>nodes.
     bindE (collect_ready X (transaction_id transaction) status unit_specs) (\<lambda>ready.
       Inr \<lparr>progress_transaction = transaction, progress_state = current_state,
            progress_constructions = constructions, progress_checks = checks,
            progress_effects = effects, progress_nodes = nodes, progress_ready_units = ready,
            progress_id = progress_identity X transaction current_state constructions checks effects
              nodes ready\<rparr>))))"

definition progress_begin :: "ext \<Rightarrow> transaction_session \<Rightarrow> transaction_progress res" where
  "progress_begin X transaction =
     rebuild X transaction (transaction_installed transaction) [] [] []"

definition progress_status :: "transaction_progress \<Rightarrow> node_identity \<Rightarrow> transaction_node_status res" where
  "progress_status p node =
     (case find (\<lambda>v. fst v = node) (progress_nodes p) of
        None \<Rightarrow> Inl (Error invalid_progression)
      | Some v \<Rightarrow> Inr (snd v))"

definition progress_construction :: "transaction_progress \<Rightarrow> node_identity \<Rightarrow> construction_result option" where
  "progress_construction p = find_construction (progress_constructions p)"

definition progress_check :: "transaction_progress \<Rightarrow> node_identity \<Rightarrow> transaction_check_result option" where
  "progress_check p = find_check (progress_checks p)"

definition progress_effect :: "transaction_progress \<Rightarrow> node_identity \<Rightarrow> effectful_operation_result option" where
  "progress_effect p = find_effect (progress_effects p)"

definition progress_complete :: "transaction_progress \<Rightarrow> bool" where
  "progress_complete p \<longleftrightarrow> list_all (\<lambda>v. snd v = Satisfied) (progress_nodes p)"

definition progress_failed :: "transaction_progress \<Rightarrow> bool" where
  "progress_failed p \<longleftrightarrow> list_ex (\<lambda>v. snd v = Failed) (progress_nodes p)"

text \<open>\<^verbatim>\<open>contains_unit\<close>: exact unit authority, whether or not the unit is ready now.\<close>

definition contains_unit :: "ext \<Rightarrow> transaction_progress \<Rightarrow> ready_transaction_unit \<Rightarrow> bool res" where
  "contains_unit X p u =
     bindE (units (progress_transaction p)) (\<lambda>unit_specs.
       Inr (case find (\<lambda>c. spec_kind c = unit_kind u \<and> spec_primary c = unit_primary u \<and>
                         spec_members c = unit_members u) unit_specs of
              None \<Rightarrow> False
            | Some found \<Rightarrow> ready_unit_identity X (transaction_id (progress_transaction p)) found = unit_id u))"

text \<open>\<^verbatim>\<open>ready_transaction_unit::restore\<close>, from durable fields.\<close>

definition restore_unit ::
  "ext \<Rightarrow> session_identity \<Rightarrow> transaction_unit_kind \<Rightarrow> node_identity \<Rightarrow> node_identity list \<Rightarrow>
   session_identity \<Rightarrow> ready_transaction_unit res" where
  "restore_unit X transaction kind primary_node members expected_identity =
     (if members = [] \<or> primary_node \<notin> set members \<or> \<not> sorted members \<or>
         adjacent_duplicate (=) members
      then Inl (Error invalid_transaction_run)
      else if (kind = Construction_unit \<or> kind = Check_unit) \<and>
              (length members \<noteq> 1 \<or> hd members \<noteq> primary_node)
      then Inl (Error invalid_transaction_run)
      else
        let specification = \<lparr>spec_kind = kind, spec_primary = primary_node, spec_members = members\<rparr>;
            identity = ready_unit_identity X transaction specification
        in if identity \<noteq> expected_identity then Inl (Error invalid_transaction_run)
           else Inr \<lparr>unit_kind = kind, unit_primary = primary_node, unit_members = members,
                     unit_id = identity\<rparr>)"

section \<open>Accepting evidence\<close>

definition advance_construction ::
  "ext \<Rightarrow> transaction_progress \<Rightarrow> construction_result \<Rightarrow> transaction_progress res" where
  "advance_construction X p c =
     (let request = construction_request_of (construction_session_of c);
          node = construction_build_node request in
      if transaction_id (construction_transaction request) \<noteq> transaction_id (progress_transaction p)
      then Inl (Error invalid_progression)
      else bindE (progress_status p node) (\<lambda>s.
        if s \<noteq> Ready then Inl (Error invalid_progression)
        else if progress_construction p node \<noteq> None then Inl (Error invalid_progression)
        else rebuild X (progress_transaction p) (progress_state p)
               (sort_key construction_node (progress_constructions p @ [c]))
               (progress_checks p) (progress_effects p)))"

definition advance_check ::
  "ext \<Rightarrow> transaction_progress \<Rightarrow> transaction_check_result \<Rightarrow> transaction_progress res" where
  "advance_check X p c =
     (let session = check_session_of c;
          request = check_request_of session;
          authority = check_authority_of request;
          node = check_node_of request in
      if transaction_id (check_transaction request) \<noteq> transaction_id (progress_transaction p)
      then Inl (Error invalid_progression)
      else if authority_transaction authority
                \<noteq> program_identity (transaction_program_of (progress_transaction p))
      then Inl (Error invalid_progression)
      else if authority_check_node authority \<noteq> node then Inl (Error invalid_progression)
      else if check_executed_authority c \<noteq> authority_id authority then Inl (Error invalid_progression)
      else if check_executed_request c \<noteq> check_execution_request session
      then Inl (Error invalid_progression)
      else bindE (progress_status p node) (\<lambda>s.
        if s \<noteq> Ready then Inl (Error invalid_progression)
        else if progress_check p node \<noteq> None then Inl (Error invalid_progression)
        else case progress_construction p (authority_build_node authority) of
          None \<Rightarrow> Inl (Error invalid_progression)
        | Some construction \<Rightarrow>
            if \<not> construction_succeeded construction \<or>
               construction_id construction \<noteq> construction_id (check_construction request) \<or>
               construction_build_id construction \<noteq> authority_build authority
            then Inl (Error invalid_progression)
            else rebuild X (progress_transaction p) (progress_state p) (progress_constructions p)
                   (sort_key check_node (progress_checks p @ [c])) (progress_effects p)))"

definition definitive_failure :: "effectful_operation_outcome \<Rightarrow> bool" where
  "definitive_failure outcome \<longleftrightarrow>
     outcome = Lifecycle_failed_before_application \<or> outcome = Application_not_completed \<or>
     outcome = Lifecycle_failed_after_application \<or> outcome = State_publication_not_completed"

definition validate_effect_success ::
  "transaction_progress \<Rightarrow> effectful_operation_result \<Rightarrow> snapshot \<Rightarrow> unit res" where
  "validate_effect_success p effect resulting_state =
     (case effect_publication_request effect of
        None \<Rightarrow> Inl (Error invalid_progression)
      | Some request \<Rightarrow>
          if publication_expected_snapshot request \<noteq> snapshot_id (progress_state p) \<or>
             publication_target_binding request \<noteq> snapshot_target_binding (progress_state p) \<or>
             snapshot_target_binding resulting_state \<noteq> snapshot_target_binding (progress_state p)
          then Inl (Error invalid_progression)
          else bindE
            (case effect_publication_receipt effect of
               Some receipt \<Rightarrow>
                 require (\<not> (receipt_request receipt \<noteq> publication_request_id request \<or>
                     receipt_expected_prior receipt \<noteq> snapshot_id (progress_state p) \<or>
                     receipt_actual_prior receipt \<noteq> snapshot_id (progress_state p) \<or>
                     receipt_target_binding receipt \<noteq> snapshot_target_binding (progress_state p) \<or>
                     receipt_resulting_snapshot receipt = None \<or>
                     receipt_resulting_snapshot receipt \<noteq> Some (snapshot_id resulting_state)))
                   (Error invalid_progression)
             | None \<Rightarrow>
                 require (\<not> (effect_reconciled_state effect = None \<or>
                     effect_reconciled_state effect \<noteq> Some (snapshot_id resulting_state)))
                   (Error invalid_progression))
            (\<lambda>_. require (\<not> (effect_reconciled_state effect \<noteq> None \<and>
                     effect_reconciled_state effect \<noteq> Some (snapshot_id resulting_state)))
                   (Error invalid_progression)))"

definition advance_effect ::
  "ext \<Rightarrow> transaction_progress \<Rightarrow> effectful_operation_result \<Rightarrow> snapshot option \<Rightarrow>
   transaction_progress res" where
  "advance_effect X p effect resulting_state =
     (let request = effect_request effect;
          node = effect_action_node request in
      if transaction_id (effect_transaction request) \<noteq> transaction_id (progress_transaction p)
      then Inl (Error invalid_progression)
      else if snapshot_id (effect_expected_state request) \<noteq> snapshot_id (progress_state p) \<or>
              snapshot_target_binding (effect_expected_state request)
                \<noteq> snapshot_target_binding (progress_state p)
      then Inl (Error invalid_progression)
      else bindE (progress_status p node) (\<lambda>s.
        if s \<noteq> Ready then Inl (Error invalid_progression)
        else if progress_effect p node \<noteq> None then Inl (Error invalid_progression)
        else bindE
          (if effect_succeeded effect then
             (case resulting_state of
                None \<Rightarrow> Inl (Error invalid_progression)
              | Some next \<Rightarrow> bindE (validate_effect_success p effect next) (\<lambda>_. Inr next))
           else
             (if resulting_state \<noteq> None then Inl (Error invalid_progression)
              else if \<not> definitive_failure (effect_outcome effect) then Inl (Error invalid_progression)
              else Inr (progress_state p)))
          (\<lambda>next_state.
             rebuild X (progress_transaction p) next_state (progress_constructions p)
               (progress_checks p) (sort_key effect_node (progress_effects p @ [effect])))))"

end
