(* ===== verification/Settle.thy ===== *)
theory Settle
  imports Progression
begin

text \<open>
  The fixpoint loop of \<^verbatim>\<open>derive_statuses\<close>. A unit without terminal evidence is \<^emph>\<open>undecided\<close>; the loop
  only moves undecided units, from \<open>Pending\<close> to \<open>Ready\<close> or \<open>Blocked\<close>, so the number of
  pending units bounds the number of passes. The result is given in closed form: a unit is ready
  when all its external predecessors are satisfied, and blocked when it is \<open>doomed\<close>: a failed or
  blocked node reaches it through undecided units.
\<close>

section \<open>The edges that enter a unit\<close>

definition entering :: "transaction_edge list \<Rightarrow> node_identity list \<Rightarrow> node_identity set" where
  "entering es ms = {edge_before e |e. e \<in> set es \<and> edge_after e \<in> set ms \<and> edge_before e \<notin> set ms}"

definition all_satisfied :: "transaction_edge list \<Rightarrow> status_map \<Rightarrow> unit_spec \<Rightarrow> bool" where
  "all_satisfied es st u \<longleftrightarrow> (\<forall>n \<in> entering es (spec_members u). st n = Some Satisfied)"

definition some_failed :: "transaction_edge list \<Rightarrow> status_map \<Rightarrow> unit_spec \<Rightarrow> bool" where
  "some_failed es st u \<longleftrightarrow>
     (\<exists>n \<in> entering es (spec_members u). st n = Some Failed \<or> st n = Some Blocked)"

lemma entering_Cons:
  "entering (e # es) ms =
     (if edge_after e \<in> set ms \<and> edge_before e \<notin> set ms then insert (edge_before e) (entering es ms)
      else entering es ms)"
  by (auto simp: entering_def)

lemma scan_edges_closed:
  assumes "\<forall>n \<in> entering es ms. st n \<noteq> None"
  shows "scan_edges st ms es a d =
    Inr (a \<and> (\<forall>n \<in> entering es ms. st n = Some Satisfied),
         d \<or> (\<exists>n \<in> entering es ms. st n = Some Failed \<or> st n = Some Blocked))"
  using assms
proof (induction es arbitrary: a d)
  case Nil
  then show ?case by (simp add: entering_def)
next
  case (Cons e es)
  then show ?case
    by (auto simp: entering_Cons split: option.splits if_splits)
qed

definition override :: "status_map \<Rightarrow> node_identity list \<Rightarrow> transaction_node_status \<Rightarrow> status_map" where
  "override st ms s = (\<lambda>n. if n \<in> set ms then Some s else st n)"

lemma assign_all_override: "assign_all st ms s = override st ms s"
  by (induction ms arbitrary: st) (auto simp: override_def fun_eq_iff)

lemma settle_members_closed:
  "settle_members st ms s ch =
     (override st ms s, ch \<or> (\<exists>m \<in> set ms. (case st m of None \<Rightarrow> Pending | Some t \<Rightarrow> t) \<noteq> s))"
  by (induction ms arbitrary: st ch) (auto simp: override_def fun_eq_iff)

lemma override_same: "\<forall>m \<in> set ms. st m = Some s \<Longrightarrow> override st ms s = st"
  by (auto simp: override_def fun_eq_iff)

section \<open>The invariant of the loop\<close>

definition undecided :: "status_map \<Rightarrow> unit_spec \<Rightarrow> bool" where
  "undecided E u \<longleftrightarrow> E (spec_primary u) \<noteq> Some Satisfied \<and> E (spec_primary u) \<noteq> Some Failed"

inductive doomed :: "transaction_edge list \<Rightarrow> unit_spec list \<Rightarrow> status_map \<Rightarrow> unit_spec \<Rightarrow> bool"
  for es us E where
  failed_before: "u \<in> set us \<Longrightarrow> undecided E u \<Longrightarrow> n \<in> entering es (spec_members u) \<Longrightarrow>
    E n = Some Failed \<or> E n = Some Blocked \<Longrightarrow> doomed es us E u"
| doomed_before: "u \<in> set us \<Longrightarrow> undecided E u \<Longrightarrow> n \<in> entering es (spec_members u) \<Longrightarrow>
    doomed es us E v \<Longrightarrow> n \<in> set (spec_members v) \<Longrightarrow> doomed es us E u"

definition settle_ok :: "transaction_edge list \<Rightarrow> unit_spec list \<Rightarrow> status_map \<Rightarrow> bool" where
  "settle_ok es us E \<longleftrightarrow>
     (\<forall>u \<in> set us. spec_primary u \<in> set (spec_members u)) \<and>
     (\<forall>u \<in> set us. \<forall>v \<in> set us. u \<noteq> v \<longrightarrow> set (spec_members u) \<inter> set (spec_members v) = {}) \<and>
     (\<forall>e \<in> set es. E (edge_before e) \<noteq> None) \<and>
     (\<forall>u \<in> set us. undecided E u \<longrightarrow> (\<forall>m \<in> set (spec_members u). E m = Some Pending))"

definition unit_sound ::
  "transaction_edge list \<Rightarrow> unit_spec list \<Rightarrow> status_map \<Rightarrow> status_map \<Rightarrow> unit_spec \<Rightarrow> bool" where
  "unit_sound es us E st u \<longleftrightarrow>
     (\<exists>s. (\<forall>m \<in> set (spec_members u). st m = Some s) \<and>
       (s = Pending \<or> (s = Ready \<and> all_satisfied es E u) \<or>
        (s = Blocked \<and> some_failed es st u \<and> doomed es us E u)))"

definition settle_inv :: "transaction_edge list \<Rightarrow> unit_spec list \<Rightarrow> status_map \<Rightarrow> status_map \<Rightarrow> bool" where
  "settle_inv es us E st \<longleftrightarrow>
     (\<forall>n. (\<forall>u \<in> set us. undecided E u \<longrightarrow> n \<notin> set (spec_members u)) \<longrightarrow> st n = E n) \<and>
     (\<forall>u \<in> set us. undecided E u \<longrightarrow> unit_sound es us E st u)"

lemma settle_inv_start: "settle_ok es us E \<Longrightarrow> settle_inv es us E E"
  by (auto simp: settle_ok_def settle_inv_def unit_sound_def)

lemma inv_uniform:
  assumes "settle_inv es us E st" and "u \<in> set us" and "undecided E u"
  obtains s where "\<forall>m \<in> set (spec_members u). st m = Some s"
  using assms unfolding settle_inv_def unit_sound_def by blast

lemma settle_ok_member:
  assumes "settle_ok es us E" and "u \<in> set us" and "v \<in> set us"
    and "n \<in> set (spec_members u)" and "n \<in> set (spec_members v)"
  shows "u = v"
  using assms unfolding settle_ok_def by blast

lemma inv_status:
  assumes ok: "settle_ok es us E" and inv: "settle_inv es us E st" and E: "E n \<noteq> None"
  shows "st n \<noteq> None" and "st n = Some Satisfied \<longleftrightarrow> E n = Some Satisfied"
    and "st n = Some Failed \<longleftrightarrow> E n = Some Failed"
proof -
  have "st n \<noteq> None \<and> (st n = Some Satisfied \<longleftrightarrow> E n = Some Satisfied) \<and>
      (st n = Some Failed \<longleftrightarrow> E n = Some Failed)"
  proof (cases "\<exists>u \<in> set us. undecided E u \<and> n \<in> set (spec_members u)")
    case True
    then obtain u where u: "u \<in> set us" "undecided E u" "n \<in> set (spec_members u)" by blast
    with ok have "E n = Some Pending" by (simp add: settle_ok_def)
    moreover from u inv have "unit_sound es us E st u" by (simp add: settle_inv_def)
    ultimately show ?thesis using u(3) by (auto simp: unit_sound_def)
  next
    case False
    with inv have "st n = E n" by (simp add: settle_inv_def)
    with E show ?thesis by simp
  qed
  then show "st n \<noteq> None" and "st n = Some Satisfied \<longleftrightarrow> E n = Some Satisfied"
    and "st n = Some Failed \<longleftrightarrow> E n = Some Failed"
    by simp_all
qed

lemma entering_known:
  "settle_ok es us E \<Longrightarrow> n \<in> entering es ms \<Longrightarrow> E n \<noteq> None"
  by (auto simp: entering_def settle_ok_def)

lemma all_satisfied_inv:
  assumes "settle_ok es us E" and "settle_inv es us E st"
  shows "all_satisfied es st u = all_satisfied es E u"
  using inv_status(2) [OF assms] entering_known [OF assms(1)] by (auto simp: all_satisfied_def)

lemma satisfied_not_failed: "all_satisfied es st u \<Longrightarrow> \<not> some_failed es st u"
  by (auto simp: all_satisfied_def some_failed_def)

lemma undecided_inv:
  assumes ok: "settle_ok es us E" and inv: "settle_inv es us E st" and u: "u \<in> set us"
  shows "undecided st u \<longleftrightarrow> undecided E u"
proof (cases "E (spec_primary u) = None")
  case True
  then have "undecided E u" by (simp add: undecided_def)
  moreover from True u ok have "spec_primary u \<in> set (spec_members u)" by (simp add: settle_ok_def)
  ultimately have False using ok u True by (auto simp: settle_ok_def)
  then show ?thesis ..
next
  case False
  show ?thesis using inv_status [OF ok inv False] by (simp add: undecided_def)
qed

lemma some_failed_doomed:
  assumes ok: "settle_ok es us E" and inv: "settle_inv es us E st"
    and u: "u \<in> set us" "undecided E u" and f: "some_failed es st u"
  shows "doomed es us E u"
proof -
  from f obtain n where n: "n \<in> entering es (spec_members u)"
    and s: "st n = Some Failed \<or> st n = Some Blocked" by (auto simp: some_failed_def)
  show ?thesis
  proof (cases "\<exists>v \<in> set us. undecided E v \<and> n \<in> set (spec_members v)")
    case True
    then obtain v where v: "v \<in> set us" "undecided E v" "n \<in> set (spec_members v)" by blast
    with inv have "unit_sound es us E st v" by (simp add: settle_inv_def)
    with v(3) s have "doomed es us E v" by (auto simp: unit_sound_def)
    with u n v(3) show ?thesis by (blast intro: doomed.doomed_before)
  next
    case False
    with inv have "st n = E n" by (simp add: settle_inv_def)
    with u n s show ?thesis by (auto intro: doomed.failed_before)
  qed
qed

section \<open>One unit, one pass\<close>

abbreviation derived_of :: "transaction_edge list \<Rightarrow> status_map \<Rightarrow> status_map \<Rightarrow> unit_spec \<Rightarrow> transaction_node_status" where
  "derived_of es E st u \<equiv> derived_status (all_satisfied es E u) (some_failed es st u)"

lemma settle_unit_closed:
  assumes ok: "settle_ok es us E" and inv: "settle_inv es us E st" and u: "u \<in> set us"
  shows "settle_unit es u st ch =
    (if undecided E u
     then Inr (override st (spec_members u) (derived_of es E st u),
               ch \<or> st (spec_primary u) \<noteq> Some (derived_of es E st u))
     else Inr (st, ch))"
proof -
  have prim: "spec_primary u \<in> set (spec_members u)" using ok u by (simp add: settle_ok_def)
  have known: "\<forall>n \<in> entering es (spec_members u). st n \<noteq> None"
    using entering_known [OF ok] inv_status(1) [OF ok inv] by blast
  show ?thesis
  proof (cases "undecided E u")
    case True
    from inv_uniform [OF inv u True] obtain s where s: "\<forall>m \<in> set (spec_members u). st m = Some s" .
    with prim have p: "st (spec_primary u) = Some s" by simp
    have "undecided st u" using undecided_inv [OF ok inv u] True by simp
    then have ns: "s \<noteq> Satisfied" "s \<noteq> Failed" using p by (auto simp: undecided_def)
    have "(\<exists>m \<in> set (spec_members u). (case st m of None \<Rightarrow> Pending | Some t \<Rightarrow> t) \<noteq> d) = (s \<noteq> d)" for d
      using s prim by auto
    then show ?thesis
      using True p ns
      by (simp add: settle_unit_def scan_edges_closed [OF known] settle_members_closed
          all_satisfied_inv [OF ok inv, symmetric])
        (simp add: all_satisfied_def some_failed_def)
  next
    case False
    then have "st (spec_primary u) = Some Satisfied \<or> st (spec_primary u) = Some Failed"
      using undecided_inv [OF ok inv u] by (auto simp: undecided_def)
    with False show ?thesis by (auto simp: settle_unit_def)
  qed
qed

text \<open>A settled status is never left: \<open>Ready\<close> and \<open>Blocked\<close> units derive the same status again.\<close>

lemma settled_stays:
  assumes ok: "settle_ok es us E" and inv: "settle_inv es us E st" and u: "u \<in> set us" "undecided E u"
    and s: "st (spec_primary u) = Some s" and "s \<noteq> Pending"
  shows "derived_of es E st u = s"
proof -
  have "spec_primary u \<in> set (spec_members u)" using ok u by (simp add: settle_ok_def)
  with inv u s \<open>s \<noteq> Pending\<close>
  have "(s = Ready \<and> all_satisfied es E u) \<or> (s = Blocked \<and> some_failed es st u)"
    unfolding settle_inv_def unit_sound_def by (metis option.inject)
  then show ?thesis
    using satisfied_not_failed all_satisfied_inv [OF ok inv] by (auto simp: derived_status_def)
qed

lemma some_failed_mono:
  assumes "some_failed es st u" and "\<And>n. st n = Some Failed \<or> st n = Some Blocked \<Longrightarrow> st' n = st n"
  shows "some_failed es st' u"
  using assms unfolding some_failed_def by metis

lemma settle_unit_step:
  assumes ok: "settle_ok es us E" and inv: "settle_inv es us E st" and u: "u \<in> set us" "undecided E u"
  defines "st' \<equiv> override st (spec_members u) (derived_of es E st u)"
  shows "settle_inv es us E st'"
    and "\<And>n. st n \<noteq> None \<Longrightarrow> st n \<noteq> Some Pending \<Longrightarrow> st' n = st n"
proof -
  have prim: "spec_primary u \<in> set (spec_members u)" using ok u by (simp add: settle_ok_def)
  from inv_uniform [OF inv u] obtain s where s: "\<forall>m \<in> set (spec_members u). st m = Some s" .
  show keep: "st' n = st n" if "st n \<noteq> None" "st n \<noteq> Some Pending" for n
    using that s prim settled_stays [OF ok inv u, of s] by (auto simp: st'_def override_def)
  have fail: "some_failed es st' v" if "some_failed es st v" for v
    using that by (rule some_failed_mono) (auto intro: keep)
  have "unit_sound es us E st' v" if v: "v \<in> set us" "undecided E v" for v
  proof (cases "v = u")
    case True
    have "all_satisfied es E u \<Longrightarrow> \<not> some_failed es st u"
      using satisfied_not_failed all_satisfied_inv [OF ok inv] by blast
    moreover have "some_failed es st u \<Longrightarrow> doomed es us E u"
      using some_failed_doomed [OF ok inv u] .
    ultimately show ?thesis
      using True fail [of u] by (auto simp: unit_sound_def st'_def override_def derived_status_def)
  next
    case False
    have "st' m = st m" if "m \<in> set (spec_members v)" for m
      using settle_ok_member [OF ok u(1) v(1) _ that] False by (auto simp: st'_def override_def)
    moreover have "unit_sound es us E st v" using inv v by (simp add: settle_inv_def)
    ultimately show ?thesis using fail by (auto simp: unit_sound_def)
  qed
  moreover have "st' n = E n" if "\<forall>v \<in> set us. undecided E v \<longrightarrow> n \<notin> set (spec_members v)" for n
    using that u inv by (auto simp: st'_def override_def settle_inv_def)
  ultimately show "settle_inv es us E st'" by (simp add: settle_inv_def)
qed

definition pending_units :: "unit_spec list \<Rightarrow> status_map \<Rightarrow> status_map \<Rightarrow> unit_spec set" where
  "pending_units us E st = {u \<in> set us. undecided E u \<and> st (spec_primary u) = Some Pending}"

lemma finite_pending [simp]: "finite (pending_units us E st)"
  by (simp add: pending_units_def)

lemma settle_unit_pending:
  assumes ok: "settle_ok es us E" and inv: "settle_inv es us E st" and u: "u \<in> set us" "undecided E u"
  defines "d \<equiv> derived_of es E st u"
  defines "st' \<equiv> override st (spec_members u) d"
  shows "pending_units us E st' \<subseteq> pending_units us E st"
    and "st (spec_primary u) \<noteq> Some d \<Longrightarrow> u \<in> pending_units us E st - pending_units us E st'"
    and "st (spec_primary u) = Some d \<Longrightarrow> st' = st"
proof -
  have prim: "\<And>v. v \<in> set us \<Longrightarrow> spec_primary v \<in> set (spec_members v)" using ok by (simp add: settle_ok_def)
  from inv_uniform [OF inv u] obtain s where s: "\<forall>m \<in> set (spec_members u). st m = Some s" .
  have p: "st (spec_primary u) = Some s" using s prim u by blast
  show "st' = st" if "st (spec_primary u) = Some d"
    using that p s by (auto simp: st'_def intro: override_same)
  have other: "st' (spec_primary v) = st (spec_primary v)" if "v \<in> set us" "v \<noteq> u" for v
    using settle_ok_member [OF ok u(1) that(1) _ prim [OF that(1)]] that(2)
    by (auto simp: st'_def override_def)
  have own: "st' (spec_primary u) = Some d" using prim u by (simp add: st'_def override_def)
  have moved: "s = Pending \<and> d \<noteq> Pending" if "s \<noteq> d"
    using that settled_stays [OF ok inv u p] by (auto simp: d_def)
  show "pending_units us E st' \<subseteq> pending_units us E st"
  proof
    fix v assume v: "v \<in> pending_units us E st'"
    show "v \<in> pending_units us E st"
    proof (cases "v = u")
      case True
      with v own moved p u show ?thesis by (cases "s = d") (auto simp: pending_units_def)
    next
      case False
      with v other show ?thesis by (auto simp: pending_units_def)
    qed
  qed
  show "u \<in> pending_units us E st - pending_units us E st'" if "st (spec_primary u) \<noteq> Some d"
    using that p moved own u by (auto simp: pending_units_def)
qed

definition settled_at ::
  "transaction_edge list \<Rightarrow> status_map \<Rightarrow> status_map \<Rightarrow> unit_spec \<Rightarrow> bool" where
  "settled_at es E st u \<longleftrightarrow>
     (undecided E u \<longrightarrow> st (spec_primary u) = Some (derived_of es E st u))"

lemma settle_pass_step:
  assumes ok: "settle_ok es us E"
  shows "set vs \<subseteq> set us \<Longrightarrow> settle_inv es us E st \<Longrightarrow>
    \<exists>st' ch'. settle_pass es vs st ch = Inr (st', ch') \<and> settle_inv es us E st' \<and>
      pending_units us E st' \<subseteq> pending_units us E st \<and>
      (ch' \<longrightarrow> ch \<or> pending_units us E st' \<subset> pending_units us E st) \<and>
      (\<not> ch' \<longrightarrow> \<not> ch \<and> st' = st \<and> (\<forall>u \<in> set vs. settled_at es E st u))"
proof (induction vs arbitrary: st ch)
  case Nil
  then show ?case by simp
next
  case (Cons u vs)
  then have u: "u \<in> set us" and vs: "set vs \<subseteq> set us" and inv: "settle_inv es us E st" by simp_all
  show ?case
  proof (cases "undecided E u")
    case False
    then show ?thesis
      using Cons.IH [OF vs inv, of ch] settle_unit_closed [OF ok inv u, of ch]
      by (auto simp: settled_at_def)
  next
    case True
    let ?d = "derived_of es E st u"
    let ?st = "override st (spec_members u) ?d" and ?ch = "ch \<or> st (spec_primary u) \<noteq> Some ?d"
    have inv': "settle_inv es us E ?st" using settle_unit_step(1) [OF ok inv u True] .
    note pend = settle_unit_pending [OF ok inv u True]
    have unit: "settle_unit es u st ch = Inr (?st, ?ch)"
      using settle_unit_closed [OF ok inv u, of ch] True by simp
    from Cons.IH [OF vs inv', of ?ch] obtain st' ch' where
      pass: "settle_pass es vs ?st ?ch = Inr (st', ch')" "settle_inv es us E st'"
        "pending_units us E st' \<subseteq> pending_units us E ?st"
      and grow: "ch' \<longrightarrow> ?ch \<or> pending_units us E st' \<subset> pending_units us E ?st"
      and same: "\<not> ch' \<longrightarrow> \<not> ?ch \<and> st' = ?st \<and> (\<forall>u \<in> set vs. settled_at es E ?st u)"
      by blast
    have "ch' \<longrightarrow> ch \<or> pending_units us E st' \<subset> pending_units us E st"
      using grow pass(3) pend(1,2) by blast
    moreover have "\<not> ch' \<longrightarrow> \<not> ch \<and> st' = st \<and> (\<forall>v \<in> set (u # vs). settled_at es E st v)"
      using same pend(3) by (auto simp: settled_at_def)
    moreover have "settle_pass es (u # vs) st ch = Inr (st', ch')"
      using unit pass(1) by simp
    ultimately show ?thesis using pass pend(1) by blast
  qed
qed

section \<open>The loop\<close>

lemma settle_terminates:
  assumes ok: "settle_ok es us E"
  shows "settle_inv es us E st \<Longrightarrow> card (pending_units us E st) < fuel \<Longrightarrow>
    \<exists>st'. settle fuel es us st = Inr st' \<and> settle_inv es us E st' \<and> (\<forall>u \<in> set us. settled_at es E st' u)"
proof (induction fuel arbitrary: st)
  case 0
  then show ?case by simp
next
  case (Suc fuel)
  from settle_pass_step [OF ok order_refl Suc.prems(1), of False] obtain st' ch' where
    pass: "settle_pass es us st False = Inr (st', ch')" and inv: "settle_inv es us E st'"
    and shrink: "ch' \<longrightarrow> pending_units us E st' \<subset> pending_units us E st"
    and same: "\<not> ch' \<longrightarrow> st' = st \<and> (\<forall>u \<in> set us. settled_at es E st u)"
    by blast
  show ?case
  proof (cases ch')
    case True
    with shrink have "card (pending_units us E st') < card (pending_units us E st)"
      by (simp add: psubset_card_mono)
    with Suc.prems(2) have "card (pending_units us E st') < fuel" by simp
    from Suc.IH [OF inv this] pass True show ?thesis by auto
  next
    case False
    with pass same inv show ?thesis by auto
  qed
qed

lemma pending_bound: "card (pending_units us E st) \<le> length us"
proof -
  have "card (pending_units us E st) \<le> card (set us)"
    by (rule card_mono) (auto simp: pending_units_def)
  also have "\<dots> \<le> length us" by (rule card_length)
  finally show ?thesis .
qed

text \<open>What the loop computes: the status each node has when it stops.\<close>

definition settled_status ::
  "transaction_edge list \<Rightarrow> unit_spec list \<Rightarrow> status_map \<Rightarrow> unit_spec \<Rightarrow> transaction_node_status" where
  "settled_status es us E u = derived_status (all_satisfied es E u) (doomed es us E u)"

lemma settled_blocked:
  assumes ok: "settle_ok es us E" and inv: "settle_inv es us E st" and fin: "settled_at es E st u"
    and u: "u \<in> set us" "undecided E u" and f: "some_failed es st u"
  shows "\<forall>m \<in> set (spec_members u). st m = Some Blocked"
proof -
  from inv_uniform [OF inv u] obtain s where s: "\<forall>m \<in> set (spec_members u). st m = Some s" .
  moreover have "spec_primary u \<in> set (spec_members u)" using ok u by (simp add: settle_ok_def)
  moreover have "st (spec_primary u) = Some Blocked"
    using fin u(2) f by (simp add: settled_at_def derived_status_def)
  ultimately show ?thesis by simp
qed

lemma doomed_blocked:
  assumes ok: "settle_ok es us E" and inv: "settle_inv es us E st"
    and fin: "\<forall>u \<in> set us. settled_at es E st u"
  shows "doomed es us E u \<Longrightarrow> some_failed es st u \<and> (\<forall>m \<in> set (spec_members u). st m = Some Blocked)"
proof (induction rule: doomed.induct)
  case (failed_before u n)
  have "E n \<noteq> Some Pending" using failed_before(4) by auto
  then have "\<forall>v \<in> set us. undecided E v \<longrightarrow> n \<notin> set (spec_members v)"
    using ok unfolding settle_ok_def by blast
  with inv have "st n = E n" by (simp add: settle_inv_def)
  with failed_before(3,4) have f: "some_failed es st u" by (auto simp: some_failed_def)
  with settled_blocked [OF ok inv _ failed_before(1,2)] fin failed_before(1) show ?case by blast
next
  case (doomed_before u n v)
  then have f: "some_failed es st u" unfolding some_failed_def by blast
  with settled_blocked [OF ok inv _ doomed_before(1,2)] fin doomed_before(1) show ?case by blast
qed

lemma settled_closed:
  assumes ok: "settle_ok es us E" and inv: "settle_inv es us E st"
    and fin: "\<forall>u \<in> set us. settled_at es E st u"
    and u: "u \<in> set us" "undecided E u" and m: "m \<in> set (spec_members u)"
  shows "st m = Some (settled_status es us E u)"
proof -
  from inv_uniform [OF inv u] obtain s where s: "\<forall>m \<in> set (spec_members u). st m = Some s" .
  have "spec_primary u \<in> set (spec_members u)" using ok u by (simp add: settle_ok_def)
  with s fin u have "s = derived_of es E st u" by (auto simp: settled_at_def)
  moreover have "some_failed es st u = doomed es us E u"
    using some_failed_doomed [OF ok inv u] doomed_blocked [OF ok inv fin] by blast
  ultimately show ?thesis using s m by (simp add: settled_status_def)
qed

lemma settle_total:
  assumes ok: "settle_ok es us E"
  obtains st where "settle (settle_fuel us) es us E = Inr st"
    and "\<And>n. (\<forall>u \<in> set us. undecided E u \<longrightarrow> n \<notin> set (spec_members u)) \<Longrightarrow> st n = E n"
    and "\<And>u m. u \<in> set us \<Longrightarrow> undecided E u \<Longrightarrow> m \<in> set (spec_members u) \<Longrightarrow>
           st m = Some (settled_status es us E u)"
proof -
  have "card (pending_units us E E) < settle_fuel us"
    using pending_bound [of us E E] by (simp add: settle_fuel_def)
  from settle_terminates [OF ok settle_inv_start [OF ok] this] obtain st where
    st: "settle (settle_fuel us) es us E = Inr st" and inv: "settle_inv es us E st"
    and fin: "\<forall>u \<in> set us. settled_at es E st u" by blast
  show thesis
  proof (rule that [OF st])
    show "st n = E n" if "\<forall>u \<in> set us. undecided E u \<longrightarrow> n \<notin> set (spec_members u)" for n
      using that inv by (simp add: settle_inv_def)
  qed (rule settled_closed [OF ok inv fin])
qed

end
