(* ===== verification/Units.thy ===== *)
theory Units
  imports Settle
begin

text \<open>
  The unit decomposition of \<^verbatim>\<open>units()\<close>: every build, check and target node is the primary of exactly
  one unit, units share no member, every lifecycle node belongs to exactly one operation, and the
  statuses the evidence assigns satisfy what the fixpoint loop needs.
\<close>

section \<open>Owners of lifecycle nodes\<close>

definition lifecycle_node :: "transaction_program \<Rightarrow> node_identity \<Rightarrow> bool" where
  "lifecycle_node p m \<longleftrightarrow> (\<exists>l. program_find p m = Some l \<and> node_action l = Act_lifecycle)"

lemma claim_members_facts:
  "claim_members p a ms own = Inr own' \<Longrightarrow>
     own \<subseteq>\<^sub>m own' \<and> (\<forall>m \<in> set ms. m \<noteq> a \<longrightarrow> own' m = Some a \<and> lifecycle_node p m) \<and>
     (\<forall>m. own' m \<noteq> own m \<longrightarrow> m \<in> set ms \<and> m \<noteq> a)"
proof (induction ms arbitrary: own)
  case (Cons m ms)
  show ?case
  proof (cases "m = a")
    case True
    with Cons.prems have "claim_members p a ms own = Inr own'" by simp
    from Cons.IH [OF this] True show ?thesis by simp blast
  next
    case False
    with Cons.prems obtain l where l: "program_find p m = Some l" "node_action l = Act_lifecycle"
      by (auto split: option.splits if_splits)
    then have lc: "lifecycle_node p m" by (simp add: lifecycle_node_def)
    let ?own = "if own m = None then own(m \<mapsto> a) else own"
    from Cons.prems False l have claim: "claim_members p a ms ?own = Inr own'" and m: "?own m = Some a"
      by (auto split: option.splits if_splits)
    from Cons.IH [OF claim] have IH: "?own \<subseteq>\<^sub>m own'"
      "\<forall>m \<in> set ms. m \<noteq> a \<longrightarrow> own' m = Some a \<and> lifecycle_node p m"
      "\<forall>m. own' m \<noteq> ?own m \<longrightarrow> m \<in> set ms \<and> m \<noteq> a"
      by blast+
    have "own \<subseteq>\<^sub>m ?own" by (auto simp: map_le_def dom_def)
    with IH(1) have "own \<subseteq>\<^sub>m own'" using map_le_trans by blast
    moreover from IH(1) m have "own' m = Some a" unfolding map_le_def by (metis domI)
    moreover have "n = m \<or> n \<in> set ms \<and> n \<noteq> a" if "own' n \<noteq> own n" for n
    proof (cases "n = m")
      case n: False
      then have "?own n = own n" by simp
      with that IH(3) show ?thesis by metis
    qed simp
    ultimately show ?thesis using IH(2) lc False by simp metis
  qed
qed simp

definition unit_of :: "transaction_program \<Rightarrow> transaction_node \<Rightarrow> unit_spec option" where
  "unit_of p n =
     (if node_action n = Act_build then Some (single_spec Construction_unit (node_id n))
      else if node_action n = Act_check then Some (single_spec Check_unit (node_id n))
      else if target_action (node_action n) then Some (operation_spec p (node_id n))
      else None)"

definition owned :: "transaction_program \<Rightarrow> owner_map \<Rightarrow> unit_spec \<Rightarrow> bool" where
  "owned p own u \<longleftrightarrow>
     (\<forall>m \<in> set (spec_members u). m \<noteq> spec_primary u \<longrightarrow> own m = Some (spec_primary u) \<and> lifecycle_node p m)"

lemma owned_mono: "owned p own u \<Longrightarrow> own \<subseteq>\<^sub>m own' \<Longrightarrow> owned p own' u"
  unfolding owned_def map_le_def dom_def by (metis (mono_tags, lifting) mem_Collect_eq option.distinct(1))

lemma collect_units_facts:
  "collect_units p ns own = Inr (us, own') \<Longrightarrow>
     us = List.map_filter (unit_of p) ns \<and> own \<subseteq>\<^sub>m own' \<and> (\<forall>u \<in> set us. owned p own' u) \<and>
     (\<forall>m. own' m \<noteq> own m \<longrightarrow> (\<exists>u \<in> set us. spec_kind u = Operation_unit \<and> m \<in> set (spec_members u)))"
proof (induction p ns own arbitrary: us own' rule: collect_units.induct)
  case (1 p own)
  then show ?case by (simp add: map_filter_simps)
next
  case (2 p n ns own)
  let ?i = "node_id n"
  show ?case
  proof (cases "target_action (node_action n)")
    case True
    with "2.prems" obtain own1 vs where
      claim: "claim_members p ?i (lifecycle_members p ?i) own = Inr own1"
      and rest: "collect_units p ns own1 = Inr (vs, own')" and us: "us = operation_spec p ?i # vs"
      by (auto simp: Let_def bindE_Inr_iff target_action_def)
    have tgt: "node_action n \<noteq> Act_build" "node_action n \<noteq> Act_check"
      using True by (auto simp: target_action_def)
    have IH: "vs = List.map_filter (unit_of p) ns \<and> own1 \<subseteq>\<^sub>m own' \<and> (\<forall>u \<in> set vs. owned p own' u) \<and>
       (\<forall>m. own' m \<noteq> own1 m \<longrightarrow> (\<exists>u \<in> set vs. spec_kind u = Operation_unit \<and> m \<in> set (spec_members u)))"
      using "2.IH"(3) [OF refl tgt True claim rest] .
    note C = claim_members_facts [OF claim]
    have "owned p own1 (operation_spec p ?i)"
      using C by (auto simp: owned_def operation_spec_def)
    then have "owned p own' (operation_spec p ?i)" using IH owned_mono by blast
    moreover have "own \<subseteq>\<^sub>m own'" using IH C map_le_trans by blast
    moreover have "\<exists>u \<in> set us. spec_kind u = Operation_unit \<and> m \<in> set (spec_members u)"
      if "own' m \<noteq> own m" for m
      using that IH C us by (cases "own1 m = own m") (auto simp: operation_spec_def)
    moreover have "unit_of p n = Some (operation_spec p ?i)"
      using tgt True by (simp add: unit_of_def)
    ultimately show ?thesis
      using IH us by (simp add: map_filter_simps)
  next
    case False
    then show ?thesis
      using 2 by (auto simp: Let_def bindE_Inr_iff map_filter_simps unit_of_def owned_def single_spec_def
          split: if_splits)
  qed
qed


section \<open>The units of a session\<close>

definition session_ok :: "transaction_session \<Rightarrow> bool" where
  "session_ok ts \<longleftrightarrow> program_ok (transaction_program_of ts)"

abbreviation session_nodes :: "transaction_session \<Rightarrow> transaction_node list" where
  "session_nodes ts \<equiv> program_nodes (transaction_program_of ts)"

abbreviation session_edges :: "transaction_session \<Rightarrow> transaction_edge list" where
  "session_edges ts \<equiv> program_edges (transaction_program_of ts)"

lemma set_map_filter: "set (List.map_filter f xs) = {y. \<exists>x \<in> set xs. f x = Some y}"
  by (induction xs) (auto simp: map_filter_simps split: option.splits)

lemma unit_of_primary: "unit_of p n = Some u \<Longrightarrow> spec_primary u = node_id n"
  by (auto simp: unit_of_def single_spec_def operation_spec_def split: if_splits)

lemma unit_of_member: "unit_of p n = Some u \<Longrightarrow> spec_primary u \<in> set (spec_members u)"
  by (auto simp: unit_of_def single_spec_def operation_spec_def lifecycle_members_def split: if_splits)

lemma unit_of_strict: "unit_of p n = Some u \<Longrightarrow> sorted_wrt (<) (spec_members u)"
  by (auto simp: unit_of_def single_spec_def operation_spec_def lifecycle_members_def split: if_splits)

lemma units_Inr:
  assumes "units ts = Inr us"
  obtains own where "us = sort_key spec_primary (List.map_filter (unit_of (transaction_program_of ts)) (session_nodes ts))"
    and "\<And>u. u \<in> set us \<Longrightarrow> owned (transaction_program_of ts) own u"
    and "\<And>m. own m \<noteq> None \<Longrightarrow> \<exists>u \<in> set us. spec_kind u = Operation_unit \<and> m \<in> set (spec_members u)"
    and "\<And>n. n \<in> set (session_nodes ts) \<Longrightarrow> node_action n = Act_lifecycle \<Longrightarrow> own (node_id n) \<noteq> None"
proof -
  let ?p = "transaction_program_of ts"
  from assms obtain vs own where c: "collect_units ?p (session_nodes ts) Map.empty = Inr (vs, own)"
    and lc: "\<forall>n \<in> set (session_nodes ts). node_action n = Act_lifecycle \<longrightarrow> own (node_id n) \<noteq> None"
    and us: "us = sort_key spec_primary vs"
    by (auto simp: units_def Let_def bindE_Inr_iff split: if_splits)
  from collect_units_facts [OF c] us lc show thesis
    by (intro that [of own]) auto
qed

lemma units_set:
  assumes "units ts = Inr us"
  shows "u \<in> set us \<longleftrightarrow> (\<exists>n \<in> set (session_nodes ts). unit_of (transaction_program_of ts) n = Some u)"
  using assms by (rule units_Inr) (simp add: set_map_filter)

lemma units_primary:
  assumes "units ts = Inr us" and "u \<in> set us"
  shows "spec_primary u \<in> set (spec_members u)" and "sorted_wrt (<) (spec_members u)"
  using assms by (auto simp: units_set unit_of_member unit_of_strict)

lemma unit_of_action:
  "unit_of p n = Some u \<Longrightarrow> node_action n \<noteq> Act_lifecycle \<and> node_action n \<noteq> Act_retain"
  by (auto simp: unit_of_def target_action_def split: if_splits)

lemma session_node_unique:
  assumes "session_ok ts" and "m \<in> set (session_nodes ts)" and "n \<in> set (session_nodes ts)"
    and "node_id m = node_id n"
  shows "m = n"
  using assms by (auto simp: session_ok_def program_ok_def distinct_map inj_on_def)

lemma lifecycle_node_in:
  "session_ok ts \<Longrightarrow> lifecycle_node (transaction_program_of ts) m \<longleftrightarrow>
     (\<exists>n \<in> set (session_nodes ts). node_id n = m \<and> node_action n = Act_lifecycle)"
  by (auto simp: lifecycle_node_def session_ok_def program_find_Some)

lemma primary_not_lifecycle:
  assumes "session_ok ts" and "units ts = Inr us" and "u \<in> set us"
  shows "\<not> lifecycle_node (transaction_program_of ts) (spec_primary u)"
proof -
  from assms(3) obtain n where n: "n \<in> set (session_nodes ts)" "unit_of (transaction_program_of ts) n = Some u"
    by (auto simp: units_set [OF assms(2)])
  show ?thesis
  proof
    assume "lifecycle_node (transaction_program_of ts) (spec_primary u)"
    then obtain k where k: "k \<in> set (session_nodes ts)" "node_id k = node_id n" "node_action k = Act_lifecycle"
      by (auto simp: lifecycle_node_in [OF assms(1)] unit_of_primary [OF n(2)])
    from session_node_unique [OF assms(1) k(1) n(1) k(2)] k(3) unit_of_action [OF n(2)] show False
      by simp
  qed
qed

lemma units_primary_inj:
  assumes "session_ok ts" and "units ts = Inr us" and "u \<in> set us" and "v \<in> set us"
    and "spec_primary u = spec_primary v"
  shows "u = v"
proof -
  from assms obtain m n where "m \<in> set (session_nodes ts)" "unit_of (transaction_program_of ts) m = Some u"
    "n \<in> set (session_nodes ts)" "unit_of (transaction_program_of ts) n = Some v"
    by (auto simp: units_set)
  with session_node_unique [OF assms(1)] assms(5) show ?thesis
    by (metis unit_of_primary option.inject)
qed

text \<open>No two units share a member.\<close>

lemma units_disjoint:
  assumes ok: "session_ok ts" and us: "units ts = Inr us" and u: "u \<in> set us" and v: "v \<in> set us"
    and m: "m \<in> set (spec_members u)" "m \<in> set (spec_members v)"
  shows "u = v"
  using us
proof (rule units_Inr)
  fix own
  assume owned: "\<And>w. w \<in> set us \<Longrightarrow> owned (transaction_program_of ts) own w"
  have np: "m = spec_primary w \<longleftrightarrow> \<not> lifecycle_node (transaction_program_of ts) m"
    if "w \<in> set us" "m \<in> set (spec_members w)" for w
    using that owned [OF that(1)] primary_not_lifecycle [OF ok us that(1)] by (auto simp: owned_def)
  show ?thesis
  proof (cases "lifecycle_node (transaction_program_of ts) m")
    case True
    with np u v m owned have "own m = Some (spec_primary u)" "own m = Some (spec_primary v)"
      unfolding owned_def by metis+
    then show ?thesis using units_primary_inj [OF ok us u v] by simp
  next
    case False
    with np u v m show ?thesis using units_primary_inj [OF ok us u v] by metis
  qed
qed

lemma units_members_in:
  assumes ok: "session_ok ts" and us: "units ts = Inr us" and u: "u \<in> set us"
    and m: "m \<in> set (spec_members u)"
  shows "\<exists>n \<in> set (session_nodes ts). node_id n = m \<and> node_action n \<noteq> Act_retain"
  using us
proof (rule units_Inr)
  fix own
  assume owned: "\<And>w. w \<in> set us \<Longrightarrow> owned (transaction_program_of ts) own w"
  show ?thesis
  proof (cases "m = spec_primary u")
    case True
    with u unit_of_primary unit_of_action show ?thesis by (auto simp: units_set [OF us])
  next
    case False
    with owned [OF u] m have "lifecycle_node (transaction_program_of ts) m" by (simp add: owned_def)
    then show ?thesis by (auto simp: lifecycle_node_in [OF ok])
  qed
qed

text \<open>Every node that is not retained is a member of some unit.\<close>

lemma units_cover:
  assumes us: "units ts = Inr us" and n: "n \<in> set (session_nodes ts)" "node_action n \<noteq> Act_retain"
  shows "\<exists>u \<in> set us. node_id n \<in> set (spec_members u)"
  using us
proof (rule units_Inr)
  fix own
  assume cover: "\<And>m. own m \<noteq> None \<Longrightarrow> \<exists>u \<in> set us. spec_kind u = Operation_unit \<and> m \<in> set (spec_members u)"
    and lc: "\<And>n. n \<in> set (session_nodes ts) \<Longrightarrow> node_action n = Act_lifecycle \<Longrightarrow> own (node_id n) \<noteq> None"
  show ?thesis
  proof (cases "unit_of (transaction_program_of ts) n")
    case None
    with n have "node_action n = Act_lifecycle"
      by (cases "node_action n") (auto simp: unit_of_def target_action_def)
    with cover lc n show ?thesis by blast
  next
    case (Some u)
    with n show ?thesis using units_set [OF us] unit_of_member unit_of_primary by metis
  qed
qed

section \<open>Statuses assigned by the evidence\<close>

lemma apply_lifecycle_results_frame:
  "n \<notin> set order \<Longrightarrow> apply_lifecycle_results st order rs n = st n"
  by (induction st order rs rule: apply_lifecycle_results.induct) auto

lemma apply_lifecycle_results_local:
  "st n = st' n \<Longrightarrow> apply_lifecycle_results st order rs n = apply_lifecycle_results st' order rs n"
proof (induction st order rs arbitrary: st' rule: apply_lifecycle_results.induct)
  case (2 st m order)
  have "(st(m \<mapsto> Blocked)) n = (st'(m \<mapsto> Blocked)) n" using "2.prems" by simp
  from "2.IH" [where st' = "st'(m \<mapsto> Blocked)", OF this] show ?case unfolding apply_lifecycle_results.simps .
next
  case (3 st m order r rs)
  let ?s = "if lifecycle_result_succeeded r then Satisfied else Failed"
  have "(st(m \<mapsto> ?s)) n = (st'(m \<mapsto> ?s)) n" using "3.prems" by simp
  from "3.IH" [where st' = "st'(m \<mapsto> ?s)", OF this] show ?case unfolding apply_lifecycle_results.simps .
qed simp

lemma apply_lifecycle_results_known:
  "st n \<noteq> None \<Longrightarrow> apply_lifecycle_results st order rs n \<noteq> None"
  by (induction st order rs rule: apply_lifecycle_results.induct) auto

lemma initial_statuses_nodes:
  "distinct (map node_id ns) \<Longrightarrow> \<forall>n \<in> set ns. st (node_id n) = None \<Longrightarrow>
    initial_statuses ns st i =
      (case find (\<lambda>n. node_id n = i) ns of
         None \<Rightarrow> st i
       | Some n \<Rightarrow> Some (if node_action n = Act_retain then Satisfied else Pending))"
proof (induction ns arbitrary: st)
  case (Cons n ns)
  define st1 where "st1 = st(node_id n \<mapsto> (if node_action n = Act_retain then Satisfied else Pending))"
  have fresh: "node_id n \<notin> node_id ` set ns" and "distinct (map node_id ns)" using Cons.prems(1) by auto
  moreover have "\<forall>k \<in> set ns. st1 (node_id k) = None"
  proof
    fix k assume "k \<in> set ns"
    with fresh have "node_id k \<noteq> node_id n" by (metis imageI)
    with Cons.prems(2) \<open>k \<in> set ns\<close> show "st1 (node_id k) = None" by (simp add: st1_def)
  qed
  ultimately have IH: "initial_statuses ns st1 i =
      (case find (\<lambda>n. node_id n = i) ns of None \<Rightarrow> st1 i
       | Some n \<Rightarrow> Some (if node_action n = Act_retain then Satisfied else Pending))"
    using Cons.IH by blast
  have step: "initial_statuses (n # ns) st = initial_statuses ns st1"
    using Cons.prems(2) by (simp add: st1_def)
  show ?case
  proof (cases "node_id n = i")
    case True
    with fresh have "find (\<lambda>n. node_id n = i) ns = None" unfolding find_None_iff by (metis imageI)
    with True IH step show ?thesis by (simp add: st1_def)
  next
    case False
    then have "st1 i = st i" by (simp add: st1_def)
    then show ?thesis using IH False unfolding step by (auto split: option.splits)
  qed
qed simp

section \<open>The lifecycle order of an effect\<close>

text \<open>
  \<^verbatim>\<open>required_lifecycle\<close> and \<^verbatim>\<open>validate_lifecycle_order\<close> of \<^verbatim>\<open>src/effect.cpp\<close>, which every effect request
  passed: its order is exactly the phase nodes the program attaches to its action.
\<close>

definition required_lifecycle :: "transaction_program \<Rightarrow> node_identity \<Rightarrow> bool \<Rightarrow> node_identity list" where
  "required_lifecycle program action before =
     sort (concat (map (\<lambda>e.
       if edge_kind e \<noteq> Edge_phase \<or> edge_phase_order e = None then []
       else (if before \<and> edge_phase_order e = Some Pre_lifecycle_before_action \<and> edge_after e = action
             then [edge_before e] else []) @
            (if \<not> before \<and> edge_phase_order e = Some Action_before_post_lifecycle \<and> edge_before e = action
             then [edge_after e] else [])) (program_edges program)))"

definition validate_lifecycle_order ::
  "transaction_program \<Rightarrow> node_identity \<Rightarrow> lifecycle_order \<Rightarrow> unit res" where
  "validate_lifecycle_order program action order =
     require (\<not> (sort (order_before order) \<noteq> required_lifecycle program action True \<or>
                 sort (order_after order) \<noteq> required_lifecycle program action False))
       (Error invalid_effect_request)"

definition effect_local :: "transaction_program \<Rightarrow> effectful_operation_result \<Rightarrow> bool" where
  "effect_local p e \<longleftrightarrow>
     validate_lifecycle_order p (effect_node e) (effect_lifecycle (effect_request e)) = Inr ()"

lemma effect_local_members:
  assumes l: "effect_local p e" and ok: "\<forall>d \<in> set (program_edges p). edge_before d \<noteq> edge_after d"
  shows "set (order_before (effect_lifecycle (effect_request e))) \<union>
     set (order_after (effect_lifecycle (effect_request e))) = set (lifecycle_members p (effect_node e)) - {effect_node e}"
proof -
  let ?o = "effect_lifecycle (effect_request e)" and ?n = "effect_node e"
  from l have "sort (order_before ?o) = required_lifecycle p ?n True"
    and "sort (order_after ?o) = required_lifecycle p ?n False"
    by (simp_all add: effect_local_def validate_lifecycle_order_def)
  then have s: "set (order_before ?o) = set (required_lifecycle p ?n True)"
    "set (order_after ?o) = set (required_lifecycle p ?n False)"
    by (metis set_sort)+
  have "set (required_lifecycle p ?n True) \<union> set (required_lifecycle p ?n False) =
      set (concat (map (phase_members ?n) (program_edges p)))"
    by (auto simp: required_lifecycle_def phase_members_def split: if_splits)
  moreover have "?n \<notin> set (concat (map (phase_members ?n) (program_edges p)))"
    using ok by (auto simp: phase_members_def split: if_splits)
  ultimately show ?thesis unfolding s by (auto simp: lifecycle_members_def)
qed

end
