(* ===== verification/Statuses.thy ===== *)
theory Statuses
  imports Units
begin

text \<open>
  The statuses \<^verbatim>\<open>derive_statuses\<close> computes from accepted evidence, in closed form. Evidence of a unit
  changes only the nodes of that unit; a unit without evidence is pending before the fixpoint loop,
  so the loop always ends and no lookup of \<^verbatim>\<open>rebuild\<close> is out of range.
\<close>

section \<open>Evidence is local to its unit\<close>

definition effects_local :: "transaction_program \<Rightarrow> effectful_operation_result list \<Rightarrow> bool" where
  "effects_local p es \<longleftrightarrow>
     (\<forall>e \<in> set (program_edges p). edge_before e \<noteq> edge_after e) \<and> list_all (effect_local p) es"

definition unit_shape :: "transaction_program \<Rightarrow> unit_spec \<Rightarrow> bool" where
  "unit_shape p u \<longleftrightarrow> spec_primary u \<in> set (spec_members u) \<and>
     (spec_kind u = Operation_unit \<longrightarrow> spec_members u = lifecycle_members p (spec_primary u))"

lemma unit_of_shape: "unit_of p n = Some u \<Longrightarrow> unit_shape p u"
  by (auto simp: unit_of_def unit_shape_def single_spec_def operation_spec_def lifecycle_members_def
      split: if_splits)

lemma units_shape: "units ts = Inr us \<Longrightarrow> u \<in> set us \<Longrightarrow> unit_shape (transaction_program_of ts) u"
  by (auto simp: units_set unit_of_shape)

lemma find_effect_Some:
  "find_effect es n = Some e \<Longrightarrow> e \<in> set es \<and> effect_node e = n"
  by (auto simp: find_effect_def find_Some_iff)

lemma find_effect_local:
  assumes "effects_local p es" and "find_effect es (spec_primary u) = Some e" and "unit_shape p u"
    and "spec_kind u = Operation_unit"
  shows "set (order_before (effect_lifecycle (effect_request e))) \<subseteq> set (spec_members u) - {spec_primary u}"
    and "set (order_after (effect_lifecycle (effect_request e))) \<subseteq> set (spec_members u) - {spec_primary u}"
proof -
  have "e \<in> set es" and n: "effect_node e = spec_primary u" using find_effect_Some [OF assms(2)] by simp_all
  then have l: "effect_local p e" using assms(1) by (simp add: effects_local_def list_all_iff)
  have "spec_members u = lifecycle_members p (spec_primary u)" using assms(3,4) by (simp add: unit_shape_def)
  with l n show "set (order_before (effect_lifecycle (effect_request e))) \<subseteq> set (spec_members u) - {spec_primary u}"
    and "set (order_after (effect_lifecycle (effect_request e))) \<subseteq> set (spec_members u) - {spec_primary u}"
    using effect_local_members [OF l] assms(1) by (auto simp: effects_local_def)
qed

lemma apply_evidence_frame:
  assumes "effects_local p es" and "unit_shape p u" and "n \<notin> set (spec_members u)"
  shows "apply_evidence cs ks es st u n = st n"
proof (cases "spec_kind u")
  case Operation_unit
  show ?thesis
  proof (cases "find_effect es (spec_primary u)")
    case (Some e)
    note L = find_effect_local [OF assms(1) Some assms(2) Operation_unit]
    have "n \<notin> set (order_before (effect_lifecycle (effect_request e)))"
      and "n \<notin> set (order_after (effect_lifecycle (effect_request e)))" and "n \<noteq> spec_primary u"
      using L assms by (auto simp: unit_shape_def)
    then show ?thesis using Operation_unit Some assms(3)
      by (simp add: apply_evidence_def Let_def apply_lifecycle_results_frame assign_all_override override_def)
  qed (simp add: apply_evidence_def Operation_unit)
qed (use assms in \<open>auto simp: apply_evidence_def unit_shape_def split: option.splits\<close>)

lemma apply_evidence_local:
  assumes "st n = st' n"
  shows "apply_evidence cs ks es st u n = apply_evidence cs ks es st' u n"
proof (cases "spec_kind u")
  case Operation_unit
  show ?thesis
  proof (cases "find_effect es (spec_primary u)")
    case (Some e)
    have "override st ms s n = override st' ms s n" for ms s using assms by (simp add: override_def)
    then have "((override st ms s)(i := t)) n = ((override st' ms s)(i := t)) n" for ms s i t by simp
    with \<open>\<And>ms s. override st ms s n = override st' ms s n\<close> show ?thesis using Operation_unit Some
      by (simp add: apply_evidence_def Let_def assign_all_override apply_lifecycle_results_local
          [OF apply_lifecycle_results_local, of _ n])
  qed (simp add: apply_evidence_def Operation_unit assms)
qed (use assms in \<open>auto simp: apply_evidence_def split: option.splits\<close>)

lemma foldl_evidence_frame:
  assumes "effects_local p es" and "\<forall>u \<in> set us. unit_shape p u" and "\<forall>u \<in> set us. n \<notin> set (spec_members u)"
  shows "foldl (apply_evidence cs ks es) st us n = st n"
  using assms by (induction us arbitrary: st) (auto simp: apply_evidence_frame)

lemma foldl_evidence_member:
  assumes local: "effects_local p es"
  shows "\<forall>v \<in> set us. unit_shape p v \<Longrightarrow> distinct us \<Longrightarrow>
      \<forall>v \<in> set us. v \<noteq> u \<longrightarrow> n \<notin> set (spec_members v) \<Longrightarrow> u \<in> set us \<Longrightarrow>
    foldl (apply_evidence cs ks es) st us n = apply_evidence cs ks es st u n"
proof (induction us arbitrary: st)
  case (Cons v us)
  show ?case
  proof (cases "v = u")
    case True
    then have "\<forall>w \<in> set us. n \<notin> set (spec_members w)" using Cons.prems(2,3) by auto
    then show ?thesis using foldl_evidence_frame [OF local, of us n] Cons.prems(1) True by simp
  next
    case False
    have "unit_shape p v" and "n \<notin> set (spec_members v)" using Cons.prems(1,3) False by simp_all
    then have "apply_evidence cs ks es st v n = st n"
      using apply_evidence_frame [OF local] by blast
    then have "apply_evidence cs ks es (apply_evidence cs ks es st v) u n = apply_evidence cs ks es st u n"
      by (rule apply_evidence_local)
    moreover have "foldl (apply_evidence cs ks es) (apply_evidence cs ks es st v) us n
        = apply_evidence cs ks es (apply_evidence cs ks es st v) u n"
      using Cons.IH Cons.prems False by simp
    ultimately show ?thesis by simp
  qed
qed simp

section \<open>Evidence statuses of a session\<close>

definition unit_evidence ::
  "construction_result list \<Rightarrow> transaction_check_result list \<Rightarrow> effectful_operation_result list \<Rightarrow>
   unit_spec \<Rightarrow> bool" where
  "unit_evidence cs ks es u \<longleftrightarrow>
     (case spec_kind u of
        Construction_unit \<Rightarrow> find_construction cs (spec_primary u) \<noteq> None
      | Check_unit \<Rightarrow> find_check ks (spec_primary u) \<noteq> None
      | Operation_unit \<Rightarrow> find_effect es (spec_primary u) \<noteq> None)"

definition unit_satisfied ::
  "construction_result list \<Rightarrow> transaction_check_result list \<Rightarrow> effectful_operation_result list \<Rightarrow>
   unit_spec \<Rightarrow> bool" where
  "unit_satisfied cs ks es u \<longleftrightarrow>
     (case spec_kind u of
        Construction_unit \<Rightarrow>
          (case find_construction cs (spec_primary u) of None \<Rightarrow> False | Some c \<Rightarrow> construction_succeeded c)
      | Check_unit \<Rightarrow>
          (case find_check ks (spec_primary u) of None \<Rightarrow> False | Some c \<Rightarrow> check_succeeded c)
      | Operation_unit \<Rightarrow>
          (case find_effect es (spec_primary u) of None \<Rightarrow> False | Some e \<Rightarrow> effect_succeeded e))"

lemma unit_satisfied_evidence: "unit_satisfied cs ks es u \<Longrightarrow> unit_evidence cs ks es u"
  by (auto simp: unit_satisfied_def unit_evidence_def split: transaction_unit_kind.splits option.splits)

lemma apply_evidence_none:
  "\<not> unit_evidence cs ks es u \<Longrightarrow> apply_evidence cs ks es st u = st"
  by (auto simp: unit_evidence_def apply_evidence_def split: transaction_unit_kind.splits)

lemma apply_evidence_primary:
  assumes "effects_local p es" and "unit_shape p u" and "unit_evidence cs ks es u"
  shows "apply_evidence cs ks es st u (spec_primary u) =
    Some (if unit_satisfied cs ks es u then Satisfied else Failed)"
proof (cases "spec_kind u")
  case Operation_unit
  with assms(3) obtain e where e: "find_effect es (spec_primary u) = Some e"
    by (auto simp: unit_evidence_def)
  note L = find_effect_local [OF assms(1) e assms(2) Operation_unit]
  have "spec_primary u \<notin> set (order_before (effect_lifecycle (effect_request e)))"
    and "spec_primary u \<notin> set (order_after (effect_lifecycle (effect_request e)))"
    using L by auto
  then show ?thesis using Operation_unit e assms(2)
    by (auto simp: apply_evidence_def unit_satisfied_def Let_def apply_lifecycle_results_frame
        assign_all_override override_def unit_shape_def)
qed (use assms in \<open>auto simp: apply_evidence_def unit_satisfied_def unit_evidence_def outcome_status_def
      split: option.splits\<close>)

lemma apply_evidence_satisfied:
  assumes "unit_satisfied cs ks es u" and "spec_kind u \<noteq> Operation_unit \<Longrightarrow> spec_members u = [spec_primary u]"
    and "n \<in> set (spec_members u)"
  shows "apply_evidence cs ks es st u n = Some Satisfied"
  using assms
  by (cases "spec_kind u")
    (auto simp: unit_satisfied_def apply_evidence_def outcome_status_def assign_all_override override_def
      split: option.splits)

lemma apply_evidence_known:
  assumes "st n \<noteq> None"
  shows "apply_evidence cs ks es st u n \<noteq> None"
proof (cases "spec_kind u")
  case Operation_unit
  show ?thesis
  proof (cases "find_effect es (spec_primary u)")
    case (Some e)
    have "override st (spec_members u) s n \<noteq> None" for s using assms by (simp add: override_def)
    then show ?thesis
      using Operation_unit Some apply_lifecycle_results_known [of _ n]
      by (auto simp: apply_evidence_def Let_def assign_all_override)
  qed (simp add: apply_evidence_def Operation_unit assms)
qed (use assms in \<open>auto simp: apply_evidence_def split: option.splits\<close>)

section \<open>The loop on a session\<close>

abbreviation start_statuses :: "transaction_session \<Rightarrow> status_map" where
  "start_statuses ts \<equiv> initial_statuses (session_nodes ts) Map.empty"

lemma start_statuses:
  assumes "session_ok ts"
  shows "start_statuses ts i =
    (case program_find (transaction_program_of ts) i of
       None \<Rightarrow> None | Some n \<Rightarrow> Some (if node_action n = Act_retain then Satisfied else Pending))"
proof -
  have "distinct (map node_id (session_nodes ts))"
    and "program_find (transaction_program_of ts) i = find (\<lambda>n. node_id n = i) (session_nodes ts)"
    using assms by (auto simp: session_ok_def program_ok_def)
  then show ?thesis using initial_statuses_nodes [of "session_nodes ts" Map.empty i] by simp
qed

lemma start_node:
  assumes "session_ok ts" and "n \<in> set (session_nodes ts)"
  shows "start_statuses ts (node_id n) = Some (if node_action n = Act_retain then Satisfied else Pending)"
proof -
  have "program_find (transaction_program_of ts) (node_id n) = Some n"
    using assms by (simp add: session_ok_def program_find_Some)
  then show ?thesis using start_statuses [OF assms(1)] by simp
qed

lemma distinct_map_filter:
  assumes "distinct (map f xs)" and "\<And>x y. g x = Some y \<Longrightarrow> h y = f x"
  shows "distinct (map h (List.map_filter g xs))"
  using assms(1)
proof (induction xs)
  case (Cons x xs)
  have "h ` set (List.map_filter g xs) \<subseteq> f ` set xs" using assms(2) by (force simp: set_map_filter)
  with Cons show ?case using assms(2) by (auto simp: map_filter_simps split: option.splits)
qed (simp add: map_filter_simps)

lemma units_distinct:
  assumes "session_ok ts" and "units ts = Inr us"
  shows "distinct (map spec_primary us)" and "distinct us" and "sorted (map spec_primary us)"
proof -
  let ?vs = "List.map_filter (unit_of (transaction_program_of ts)) (session_nodes ts)"
  have us: "us = sort_key spec_primary ?vs" using assms(2) by (rule units_Inr)
  have "distinct (map spec_primary ?vs)"
    using assms(1) unit_of_primary by (intro distinct_map_filter) (auto simp: session_ok_def program_ok_def)
  then show d: "distinct (map spec_primary us)" unfolding us by (simp add: distinct_map)
  then show "distinct us" by (simp add: distinct_map)
  show "sorted (map spec_primary us)" unfolding us by simp
qed

lemma evidence_member:
  assumes ok: "session_ok ts" and us: "units ts = Inr us"
    and local: "effects_local (transaction_program_of ts) es"
    and u: "u \<in> set us" "n \<in> set (spec_members u)"
  shows "evidence_statuses ts cs ks es us n = apply_evidence cs ks es (start_statuses ts) u n"
  unfolding evidence_statuses_def
proof (rule foldl_evidence_member [OF local])
  show "\<forall>v \<in> set us. v \<noteq> u \<longrightarrow> n \<notin> set (spec_members v)"
    using units_disjoint [OF ok us] u by blast
qed (use units_shape [OF us] units_distinct [OF ok us] u in auto)

lemma evidence_outside:
  assumes us: "units ts = Inr us" and local: "effects_local (transaction_program_of ts) es"
    and "\<forall>u \<in> set us. n \<notin> set (spec_members u)"
  shows "evidence_statuses ts cs ks es us n = start_statuses ts n"
  unfolding evidence_statuses_def
  by (rule foldl_evidence_frame [OF local]) (use units_shape [OF us] assms(3) in auto)

lemma evidence_known:
  assumes ok: "session_ok ts" and us: "units ts = Inr us"
    and local: "effects_local (transaction_program_of ts) es" and n: "n \<in> set (session_nodes ts)"
  shows "evidence_statuses ts cs ks es us (node_id n) \<noteq> None"
proof (cases "\<exists>u \<in> set us. node_id n \<in> set (spec_members u)")
  case True
  then show ?thesis
    using evidence_member [OF ok us local] apply_evidence_known start_node [OF ok n] by fastforce
next
  case False
  then show ?thesis using evidence_outside [OF us local] start_node [OF ok n] by simp
qed

lemma start_member:
  assumes ok: "session_ok ts" and us: "units ts = Inr us" and u: "u \<in> set us" "n \<in> set (spec_members u)"
  shows "start_statuses ts n = Some Pending"
  using units_members_in [OF ok us u] start_node [OF ok] by auto

lemma undecided_iff:
  assumes ok: "session_ok ts" and us: "units ts = Inr us"
    and local: "effects_local (transaction_program_of ts) es" and u: "u \<in> set us"
  shows "undecided (evidence_statuses ts cs ks es us) u \<longleftrightarrow> \<not> unit_evidence cs ks es u"
proof -
  note m = evidence_member [OF ok us local u units_primary(1) [OF us u], of cs ks]
  show ?thesis
  proof (cases "unit_evidence cs ks es u")
    case True
    then show ?thesis
      using m apply_evidence_primary [OF local units_shape [OF us u] True] by (simp add: undecided_def)
  next
    case False
    then show ?thesis
      using m apply_evidence_none [OF False] start_member [OF ok us u units_primary(1) [OF us u]]
      by (simp add: undecided_def)
  qed
qed

lemma settle_ok_session:
  assumes ok: "session_ok ts" and us: "units ts = Inr us"
    and local: "effects_local (transaction_program_of ts) es"
  shows "settle_ok (session_edges ts) us (evidence_statuses ts cs ks es us)"
  unfolding settle_ok_def
proof (intro conjI ballI impI)
  fix u assume u: "u \<in> set us"
  show "spec_primary u \<in> set (spec_members u)" using units_primary(1) [OF us u] .
  fix v assume "v \<in> set us" "u \<noteq> v"
  then show "set (spec_members u) \<inter> set (spec_members v) = {}"
    using units_disjoint [OF ok us u] by blast
next
  fix e assume "e \<in> set (session_edges ts)"
  then obtain n where "n \<in> set (session_nodes ts)" "node_id n = edge_before e"
    using ok by (auto simp: session_ok_def program_ok_def image_iff)
  then show "evidence_statuses ts cs ks es us (edge_before e) \<noteq> None"
    using evidence_known [OF ok us local] by metis
next
  fix u m assume u: "u \<in> set us" "undecided (evidence_statuses ts cs ks es us) u" "m \<in> set (spec_members u)"
  then have "\<not> unit_evidence cs ks es u" using undecided_iff [OF ok us local] by blast
  then show "evidence_statuses ts cs ks es us m = Some Pending"
    using evidence_member [OF ok us local u(1,3)] start_member [OF ok us u(1,3)] by (simp add: apply_evidence_none)
qed

text \<open>\<open>final_statuses\<close>: the map the loop ends with.\<close>

definition final_statuses ::
  "transaction_session \<Rightarrow> construction_result list \<Rightarrow> transaction_check_result list \<Rightarrow>
   effectful_operation_result list \<Rightarrow> unit_spec list \<Rightarrow> status_map" where
  "final_statuses ts cs ks es us =
     (case derive_statuses ts cs ks es us of Inr st \<Rightarrow> st | Inl _ \<Rightarrow> Map.empty)"

lemma derive_statuses_closed:
  fixes cs ks
  assumes ok: "session_ok ts" and us: "units ts = Inr us"
    and local: "effects_local (transaction_program_of ts) es"
  defines "E \<equiv> evidence_statuses ts cs ks es us"
  shows "derive_statuses ts cs ks es us = Inr (final_statuses ts cs ks es us)"
    and "u \<in> set us \<Longrightarrow> m \<in> set (spec_members u) \<Longrightarrow> \<not> unit_evidence cs ks es u \<Longrightarrow>
      final_statuses ts cs ks es us m = Some (settled_status (session_edges ts) us E u)"
    and "u \<in> set us \<Longrightarrow> m \<in> set (spec_members u) \<Longrightarrow> unit_evidence cs ks es u \<Longrightarrow>
      final_statuses ts cs ks es us m = E m"
    and "\<forall>u \<in> set us. m \<notin> set (spec_members u) \<Longrightarrow> final_statuses ts cs ks es us m = E m"
proof -
  have sok: "settle_ok (session_edges ts) us E" unfolding E_def by (rule settle_ok_session [OF ok us local])
  obtain st where st: "settle (settle_fuel us) (session_edges ts) us E = Inr st"
    and frame: "\<And>n. (\<forall>u \<in> set us. undecided E u \<longrightarrow> n \<notin> set (spec_members u)) \<Longrightarrow> st n = E n"
    and own: "\<And>u m. u \<in> set us \<Longrightarrow> undecided E u \<Longrightarrow> m \<in> set (spec_members u) \<Longrightarrow>
           st m = Some (settled_status (session_edges ts) us E u)"
    using settle_total [OF sok] by metis
  have d: "derive_statuses ts cs ks es us = Inr st" using st by (simp add: derive_statuses_def E_def)
  then have f: "final_statuses ts cs ks es us = st" by (simp add: final_statuses_def)
  show "derive_statuses ts cs ks es us = Inr (final_statuses ts cs ks es us)" using d f by simp
  note und = undecided_iff [OF ok us local, of _ cs ks, folded E_def]
  show "final_statuses ts cs ks es us m = Some (settled_status (session_edges ts) us E u)"
    if "u \<in> set us" "m \<in> set (spec_members u)" "\<not> unit_evidence cs ks es u"
    unfolding f using own that und by blast
  show "final_statuses ts cs ks es us m = E m"
    if "u \<in> set us" "m \<in> set (spec_members u)" "unit_evidence cs ks es u"
    unfolding f by (rule frame) (use that und units_disjoint [OF ok us] in metis)
  show "final_statuses ts cs ks es us m = E m" if "\<forall>u \<in> set us. m \<notin> set (spec_members u)"
    unfolding f by (rule frame) (use that in blast)
qed

end
