(* ===== verification/Progress.thy ===== *)
theory Progress
  imports Statuses
begin

text \<open>
  What a \<^verbatim>\<open>transaction_progress\<close> promises. A rebuild of a well-formed session always returns; the
  statuses solve the equations of the unit graph (ready when every predecessor is satisfied, blocked
  when one failed or is blocked); accepting evidence never takes back a satisfied, failed or blocked
  node and never withdraws another ready unit; only a completed effect changes the state epoch.
\<close>

section \<open>The status equations\<close>

lemma doomed_undecided: "doomed es us E u \<Longrightarrow> u \<in> set us \<and> undecided E u"
  by (auto elim: doomed.cases)

lemma satisfied_not_doomed:
  assumes ok: "settle_ok es us E" and sat: "all_satisfied es E u"
  shows "\<not> doomed es us E u"
proof
  assume "doomed es us E u"
  then show False
  proof cases
    case (failed_before n)
    with sat show ?thesis by (auto simp: all_satisfied_def)
  next
    case (doomed_before n v)
    have "E n = Some Pending"
      using doomed_undecided [OF doomed_before(4)] doomed_before(5) ok by (auto simp: settle_ok_def)
    with doomed_before(3) sat show ?thesis by (auto simp: all_satisfied_def)
  qed
qed

definition entering_status :: "transaction_session \<Rightarrow> status_map \<Rightarrow> unit_spec \<Rightarrow> transaction_node_status" where
  "entering_status ts st u =
     derived_status (all_satisfied (session_edges ts) st u) (some_failed (session_edges ts) st u)"

lemma settled_status_cases:
  assumes ok: "settle_ok es us E"
  shows "settled_status es us E u = Ready \<longleftrightarrow> all_satisfied es E u"
    and "settled_status es us E u = Blocked \<longleftrightarrow> doomed es us E u"
    and "settled_status es us E u \<in> {Pending, Ready, Blocked}"
  using satisfied_not_doomed [OF ok] by (auto simp: settled_status_def derived_status_def)

text \<open>The assumptions under which a session's statuses are studied.\<close>

definition sound_session ::
  "transaction_session \<Rightarrow> effectful_operation_result list \<Rightarrow> unit_spec list \<Rightarrow> bool" where
  "sound_session ts es us \<longleftrightarrow>
     session_ok ts \<and> units ts = Inr us \<and> effects_local (transaction_program_of ts) es"

lemma sound_sessionD:
  assumes "sound_session ts es us"
  shows "session_ok ts" and "units ts = Inr us" and "effects_local (transaction_program_of ts) es"
  using assms by (auto simp: sound_session_def)

lemma evidence_settle_ok:
  "sound_session ts es us \<Longrightarrow> settle_ok (session_edges ts) us (evidence_statuses ts cs ks es us)"
  by (simp add: sound_session_def settle_ok_session)

lemma evidence_undecided:
  "sound_session ts es us \<Longrightarrow> u \<in> set us \<Longrightarrow>
     undecided (evidence_statuses ts cs ks es us) u \<longleftrightarrow> \<not> unit_evidence cs ks es u"
  by (simp add: sound_session_def undecided_iff)

lemma final_open:
  assumes S: "sound_session ts es us" and u: "u \<in> set us" "m \<in> set (spec_members u)"
    and ev: "\<not> unit_evidence cs ks es u"
  defines "E \<equiv> evidence_statuses ts cs ks es us"
  shows "final_statuses ts cs ks es us m = Some (settled_status (session_edges ts) us E u)"
    and "E m = Some Pending"
proof -
  show "final_statuses ts cs ks es us m = Some (settled_status (session_edges ts) us E u)"
    unfolding E_def by (rule derive_statuses_closed(2) [OF sound_sessionD [OF S] u ev])
  show "E m = Some Pending"
    using evidence_settle_ok [OF S] evidence_undecided [OF S u(1)] u ev
    unfolding settle_ok_def E_def by blast
qed

lemma final_closed:
  assumes S: "sound_session ts es us"
    and ev: "\<And>u. u \<in> set us \<Longrightarrow> m \<in> set (spec_members u) \<Longrightarrow> unit_evidence cs ks es u"
  shows "final_statuses ts cs ks es us m = evidence_statuses ts cs ks es us m"
proof (cases "\<exists>u \<in> set us. m \<in> set (spec_members u)")
  case True
  then obtain u where u: "u \<in> set us" "m \<in> set (spec_members u)" by blast
  show ?thesis by (rule derive_statuses_closed(3) [OF sound_sessionD [OF S] u ev [OF u]])
next
  case False
  then show ?thesis by (intro derive_statuses_closed(4) [OF sound_sessionD [OF S]]) blast
qed

lemma final_cases:
  assumes "sound_session ts es us"
  obtains (open_unit) u where "u \<in> set us" "m \<in> set (spec_members u)" "\<not> unit_evidence cs ks es u"
    "final_statuses ts cs ks es us m =
       Some (settled_status (session_edges ts) us (evidence_statuses ts cs ks es us) u)"
    "evidence_statuses ts cs ks es us m = Some Pending"
  | (decided) "final_statuses ts cs ks es us m = evidence_statuses ts cs ks es us m"
  using final_open [OF assms] final_closed [OF assms] by metis

lemma settled_statusD:
  assumes "sound_session ts es us" and "settled_status (session_edges ts) us (evidence_statuses ts cs ks es us) u = s"
  shows "s = Pending \<or> s = Ready \<or> s = Blocked"
  using settled_status_cases(3) [OF evidence_settle_ok [OF assms(1)]] assms(2) by blast

lemma final_decided:
  assumes S: "sound_session ts es us" and s: "s = Satisfied \<or> s = Failed"
  shows "final_statuses ts cs ks es us m = Some s \<longleftrightarrow> evidence_statuses ts cs ks es us m = Some s"
proof (cases rule: final_cases [OF S, of m cs ks])
  case (1 u)
  then show ?thesis using settled_statusD [OF S refl, of cs ks u] s by auto
qed simp

lemma all_satisfied_final:
  assumes "sound_session ts es us"
  shows "all_satisfied (session_edges ts) (final_statuses ts cs ks es us) u =
    all_satisfied (session_edges ts) (evidence_statuses ts cs ks es us) u"
  by (simp add: all_satisfied_def final_decided [OF assms])

lemma doomed_final:
  assumes S: "sound_session ts es us" and u: "u \<in> set us" "\<not> unit_evidence cs ks es u"
  defines "E \<equiv> evidence_statuses ts cs ks es us" and "st \<equiv> final_statuses ts cs ks es us"
  shows "doomed (session_edges ts) us E u \<longleftrightarrow> some_failed (session_edges ts) st u"
proof
  assume "doomed (session_edges ts) us E u"
  then show "some_failed (session_edges ts) st u"
  proof cases
    case (failed_before n)
    then have "st n = E n" unfolding E_def st_def by (cases rule: final_cases [OF S, of n cs ks]) auto
    with failed_before show ?thesis by (auto simp: some_failed_def)
  next
    case (doomed_before n v)
    note v = doomed_undecided [OF doomed_before(4)]
    then have "\<not> unit_evidence cs ks es v" using evidence_undecided [OF S] unfolding E_def by blast
    from final_open(1) [OF S _ doomed_before(5) this] v doomed_before(4)
    have "st n = Some Blocked"
      using settled_status_cases(2) [OF evidence_settle_ok [OF S]] by (simp add: E_def st_def)
    with doomed_before(3) show ?thesis by (auto simp: some_failed_def)
  qed
next
  have und: "undecided E u" using evidence_undecided [OF S u(1)] u(2) unfolding E_def by blast
  assume "some_failed (session_edges ts) st u"
  then obtain n where n: "n \<in> entering (session_edges ts) (spec_members u)"
    and s: "st n = Some Failed \<or> st n = Some Blocked" by (auto simp: some_failed_def)
  show "doomed (session_edges ts) us E u"
  proof (cases rule: final_cases [OF S, of n cs ks])
    case (1 v)
    then have "settled_status (session_edges ts) us E v = Blocked"
      using s settled_statusD [OF S refl, of cs ks v] by (auto simp: E_def st_def)
    then have "doomed (session_edges ts) us E v"
      using settled_status_cases(2) [OF evidence_settle_ok [OF S]] by (simp add: E_def)
    with n u(1) und 1 show ?thesis by (blast intro: doomed.doomed_before)
  next
    case 2
    with s n u(1) und show ?thesis by (auto simp: E_def st_def intro: doomed.failed_before)
  qed
qed

text \<open>The final statuses solve the equations of the unit graph.\<close>

lemma final_equation:
  assumes S: "sound_session ts es us" and u: "u \<in> set us" "m \<in> set (spec_members u)"
    and ev: "\<not> unit_evidence cs ks es u"
  shows "final_statuses ts cs ks es us m =
    Some (entering_status ts (final_statuses ts cs ks es us) u)"
  using final_open(1) [OF S u ev] doomed_final [OF S u(1) ev]
  by (simp add: entering_status_def settled_status_def all_satisfied_final [OF S])

lemma final_known:
  assumes S: "sound_session ts es us" and n: "n \<in> set (session_nodes ts)"
  shows "final_statuses ts cs ks es us (node_id n) \<noteq> None"
proof (cases rule: final_cases [OF S, of "node_id n" cs ks])
  case 2
  then show ?thesis using evidence_known [OF sound_sessionD [OF S] n] by simp
qed simp

lemma final_evidence:
  assumes S: "sound_session ts es us" and u: "u \<in> set us" and ev: "unit_evidence cs ks es u"
  shows "final_statuses ts cs ks es us (spec_primary u) =
    Some (if unit_satisfied cs ks es u then Satisfied else Failed)"
proof -
  note D = sound_sessionD [OF S]
  have m: "spec_primary u \<in> set (spec_members u)" using units_primary(1) [OF D(2) u] .
  have "final_statuses ts cs ks es us (spec_primary u) = evidence_statuses ts cs ks es us (spec_primary u)"
    by (rule final_closed [OF S]) (use ev units_disjoint [OF D(1,2) u _ m] in metis)
  also have "\<dots> = Some (if unit_satisfied cs ks es u then Satisfied else Failed)"
    unfolding evidence_member [OF D u m] by (rule apply_evidence_primary [OF D(3) units_shape [OF D(2) u] ev])
  finally show ?thesis .
qed

lemma final_ready:
  assumes S: "sound_session ts es us" and u: "u \<in> set us"
  shows "final_statuses ts cs ks es us (spec_primary u) = Some Ready \<longleftrightarrow>
    \<not> unit_evidence cs ks es u \<and> all_satisfied (session_edges ts) (final_statuses ts cs ks es us) u"
proof (cases "unit_evidence cs ks es u")
  case True
  then show ?thesis using final_evidence [OF S u] by simp
next
  case False
  have "all_satisfied (session_edges ts) st u \<Longrightarrow> \<not> some_failed (session_edges ts) st u" for st
    by (rule satisfied_not_failed)
  then show ?thesis
    using final_equation [OF S u units_primary(1) [OF sound_sessionD(2) [OF S] u] False] False
    by (auto simp: entering_status_def derived_status_def)
qed

section \<open>Rebuild\<close>

definition rebuilt ::
  "ext \<Rightarrow> transaction_session \<Rightarrow> snapshot \<Rightarrow> construction_result list \<Rightarrow> transaction_check_result list \<Rightarrow>
   effectful_operation_result list \<Rightarrow> unit_spec list \<Rightarrow> transaction_progress" where
  "rebuilt X ts s cs ks es us =
     (let st = final_statuses ts cs ks es us;
          nodes = map (\<lambda>n. (node_id n, the (st (node_id n)))) (session_nodes ts);
          ready = map (seal_unit X (transaction_id ts)) (filter (\<lambda>u. st (spec_primary u) = Some Ready) us)
      in \<lparr>progress_transaction = ts, progress_state = s, progress_constructions = cs,
          progress_checks = ks, progress_effects = es, progress_nodes = nodes,
          progress_ready_units = ready, progress_id = progress_identity X ts s cs ks es nodes ready\<rparr>)"

lemma rebuilt_fields [simp]:
  "progress_transaction (rebuilt X ts s cs ks es us) = ts"
  "progress_state (rebuilt X ts s cs ks es us) = s"
  "progress_constructions (rebuilt X ts s cs ks es us) = cs"
  "progress_checks (rebuilt X ts s cs ks es us) = ks"
  "progress_effects (rebuilt X ts s cs ks es us) = es"
  by (simp_all add: rebuilt_def Let_def)

lemma collect_ready_closed:
  assumes "\<And>u. u \<in> set us \<Longrightarrow> st (spec_primary u) \<noteq> None"
  shows "collect_ready X t st us = Inr (map (seal_unit X t) (filter (\<lambda>u. st (spec_primary u) = Some Ready) us))"
  using assms
proof (induction us)
  case (Cons u us)
  then obtain s where "st (spec_primary u) = Some s" by fastforce
  with Cons show ?case by (auto simp: status_at_def)
qed simp

lemma node_statuses_closed:
  assumes "\<And>n. n \<in> set ns \<Longrightarrow> st (node_id n) \<noteq> None"
  shows "mapE (\<lambda>n. bindE (status_at st (node_id n)) (\<lambda>s. Inr (node_id n, s))) ns =
    Inr (map (\<lambda>n. (node_id n, the (st (node_id n)))) ns)"
  using assms
proof (induction ns)
  case (Cons n ns)
  then obtain s where "st (node_id n) = Some s" by fastforce
  with Cons show ?case by (auto simp: status_at_def)
qed simp

lemma primary_known:
  assumes S: "sound_session ts es us" and u: "u \<in> set us"
  shows "final_statuses ts cs ks es us (spec_primary u) \<noteq> None"
proof -
  note D = sound_sessionD [OF S]
  from u obtain n where "n \<in> set (session_nodes ts)" "unit_of (transaction_program_of ts) n = Some u"
    by (auto simp: units_set [OF D(2)])
  then show ?thesis using final_known [OF S] unit_of_primary by metis
qed

lemma rebuild_closed:
  assumes S: "sound_session ts es us"
  shows "rebuild X ts s cs ks es = Inr (rebuilt X ts s cs ks es us)"
proof -
  note D = sound_sessionD [OF S]
  let ?st = "final_statuses ts cs ks es us"
  have "mapE (\<lambda>n. bindE (status_at ?st (node_id n)) (\<lambda>s. Inr (node_id n, s))) (session_nodes ts) =
      Inr (map (\<lambda>n. (node_id n, the (?st (node_id n)))) (session_nodes ts))"
    by (rule node_statuses_closed) (rule final_known [OF S])
  moreover have "collect_ready X t ?st us =
      Inr (map (seal_unit X t) (filter (\<lambda>u. ?st (spec_primary u) = Some Ready) us))" for t
    by (rule collect_ready_closed) (rule primary_known [OF S])
  ultimately show ?thesis
    using derive_statuses_closed(1) [OF D, of cs ks] D(2)
    by (simp add: rebuild_def rebuilt_def Let_def)
qed

lemma rebuilt_status:
  assumes S: "sound_session ts es us" and st: "final_statuses ts cs ks es us = st"
  shows "progress_status (rebuilt X ts s cs ks es us) i =
    (if i \<in> node_id ` set (session_nodes ts) then Inr (the (st i)) else Inl (Error invalid_progression))"
proof -
  have "find (\<lambda>v. fst v = i) (map (\<lambda>n. (node_id n, the (st (node_id n)))) ns) =
      (if i \<in> node_id ` set ns then Some (i, the (st i)) else None)" for ns
    by (induction ns) auto
  from this [of "session_nodes ts"] show ?thesis
    using st by (cases "i \<in> node_id ` set (session_nodes ts)") (simp_all add: progress_status_def rebuilt_def Let_def)
qed

lemma rebuilt_status_iff:
  assumes S: "sound_session ts es us" and i: "i \<in> node_id ` set (session_nodes ts)"
  shows "progress_status (rebuilt X ts s cs ks es us) i = Inr v \<longleftrightarrow>
    final_statuses ts cs ks es us i = Some v"
  using rebuilt_status [OF S refl, of X s cs ks i] final_known [OF S, of _ cs ks] i by auto

lemma rebuilt_ready:
  assumes S: "sound_session ts es us"
  shows "r \<in> set (progress_ready_units (rebuilt X ts s cs ks es us)) \<longleftrightarrow>
    (\<exists>u \<in> set us. r = seal_unit X (transaction_id ts) u \<and> \<not> unit_evidence cs ks es u \<and>
       all_satisfied (session_edges ts) (final_statuses ts cs ks es us) u)"
  using final_ready [OF S] by (auto simp: rebuilt_def Let_def)

section \<open>More evidence\<close>

definition evidence_le ::
  "construction_result list \<Rightarrow> transaction_check_result list \<Rightarrow> effectful_operation_result list \<Rightarrow>
   construction_result list \<Rightarrow> transaction_check_result list \<Rightarrow> effectful_operation_result list \<Rightarrow> bool" where
  "evidence_le cs ks es cs' ks' es' \<longleftrightarrow>
     find_construction cs \<subseteq>\<^sub>m find_construction cs' \<and> find_check ks \<subseteq>\<^sub>m find_check ks' \<and>
     find_effect es \<subseteq>\<^sub>m find_effect es'"

lemma map_le_Some: "f \<subseteq>\<^sub>m g \<Longrightarrow> f x \<noteq> None \<Longrightarrow> g x = f x"
  by (auto simp: map_le_def dom_def)

lemma evidence_le_unit:
  assumes le: "evidence_le cs ks es cs' ks' es'" and ev: "unit_evidence cs ks es u"
  shows "unit_evidence cs' ks' es' u"
    and "apply_evidence cs' ks' es' st u = apply_evidence cs ks es st u"
    and "unit_satisfied cs' ks' es' u = unit_satisfied cs ks es u"
  using ev le map_le_Some [of "find_construction cs" "find_construction cs'" "spec_primary u"]
    map_le_Some [of "find_check ks" "find_check ks'" "spec_primary u"]
    map_le_Some [of "find_effect es" "find_effect es'" "spec_primary u"]
  by (cases "spec_kind u"; simp add: evidence_le_def unit_evidence_def apply_evidence_def unit_satisfied_def)+

lemma evidence_grows:
  assumes S: "sound_session ts es us" and S': "sound_session ts es' us"
    and le: "evidence_le cs ks es cs' ks' es'"
    and E: "evidence_statuses ts cs ks es us n \<noteq> Some Pending"
  shows "evidence_statuses ts cs' ks' es' us n = evidence_statuses ts cs ks es us n"
proof (cases "\<exists>u \<in> set us. n \<in> set (spec_members u)")
  case True
  then obtain u where u: "u \<in> set us" "n \<in> set (spec_members u)" by blast
  note D = sound_sessionD [OF S] and D' = sound_sessionD [OF S']
  have "unit_evidence cs ks es u"
    using final_open(2) [OF S u] E by blast
  then show ?thesis
    unfolding evidence_member [OF D u] evidence_member [OF D' u] by (simp add: evidence_le_unit(2) [OF le])
next
  case False
  then show ?thesis
    using evidence_outside [OF sound_sessionD(2,3) [OF S]] evidence_outside [OF sound_sessionD(2,3) [OF S']]
    by simp
qed

lemma all_satisfied_grows:
  assumes S: "sound_session ts es us" and S': "sound_session ts es' us"
    and le: "evidence_le cs ks es cs' ks' es'"
    and sat: "all_satisfied (session_edges ts) (final_statuses ts cs ks es us) u"
  shows "all_satisfied (session_edges ts) (final_statuses ts cs' ks' es' us) u"
  using sat evidence_grows [OF S S' le]
  unfolding all_satisfied_final [OF S] all_satisfied_final [OF S'] by (simp add: all_satisfied_def)

text \<open>New evidence only for units that are not doomed leaves every doomed unit doomed.\<close>

lemma doomed_grows:
  assumes S: "sound_session ts es us" and S': "sound_session ts es' us"
    and le: "evidence_le cs ks es cs' ks' es'"
    and new: "\<And>u. u \<in> set us \<Longrightarrow> unit_evidence cs' ks' es' u \<Longrightarrow> \<not> unit_evidence cs ks es u \<Longrightarrow>
      final_statuses ts cs ks es us (spec_primary u) = Some Ready"
    and d: "doomed (session_edges ts) us (evidence_statuses ts cs ks es us) u"
  shows "doomed (session_edges ts) us (evidence_statuses ts cs' ks' es' us) u"
proof -
  let ?E = "evidence_statuses ts cs ks es us" and ?E' = "evidence_statuses ts cs' ks' es' us"
  have und: "undecided ?E' v" if v: "doomed (session_edges ts) us ?E v" for v
  proof -
    note v' = doomed_undecided [OF v]
    then have ev: "\<not> unit_evidence cs ks es v" using evidence_undecided [OF S] by blast
    have "\<not> all_satisfied (session_edges ts) (final_statuses ts cs ks es us) v"
      unfolding all_satisfied_final [OF S] using satisfied_not_doomed [OF evidence_settle_ok [OF S]] v by blast
    then have "\<not> unit_evidence cs' ks' es' v" using final_ready [OF S] new ev v' by blast
    then show ?thesis using evidence_undecided [OF S'] v' by blast
  qed
  from d show ?thesis
  proof (induction rule: doomed.induct)
    case (failed_before u n)
    then have "?E' n = Some Failed \<or> ?E' n = Some Blocked"
      using evidence_grows [OF S S' le, of n] by auto
    with failed_before und show ?case by (blast intro: doomed.failed_before)
  next
    case (doomed_before u n v)
    with und show ?case by (blast intro: doomed.doomed_before)
  qed
qed

lemma final_grows:
  assumes S: "sound_session ts es us" and S': "sound_session ts es' us"
    and le: "evidence_le cs ks es cs' ks' es'"
    and new: "\<And>u. u \<in> set us \<Longrightarrow> unit_evidence cs' ks' es' u \<Longrightarrow> \<not> unit_evidence cs ks es u \<Longrightarrow>
      final_statuses ts cs ks es us (spec_primary u) = Some Ready"
    and s: "final_statuses ts cs ks es us n = Some s" "s = Satisfied \<or> s = Failed \<or> s = Blocked"
  shows "final_statuses ts cs' ks' es' us n = Some s"
proof (cases rule: final_cases [OF S, of n cs ks])
  case (1 u)
  let ?E = "evidence_statuses ts cs ks es us" and ?E' = "evidence_statuses ts cs' ks' es' us"
  have b: "s = Blocked" using 1(4) s settled_statusD [OF S refl, of cs ks u] by auto
  then have d: "doomed (session_edges ts) us ?E u"
    using 1(4) s(1) settled_status_cases(2) [OF evidence_settle_ok [OF S]] by (metis option.inject)
  then have d': "doomed (session_edges ts) us ?E' u" using doomed_grows [OF S S' le new] by blast
  then have "\<not> unit_evidence cs' ks' es' u"
    using doomed_undecided evidence_undecided [OF S'] by blast
  then show ?thesis
    using final_open(1) [OF S' 1(1,2), of cs' ks'] d' b
      settled_status_cases(2) [OF evidence_settle_ok [OF S']] by simp
next
  case 2
  have E: "evidence_statuses ts cs ks es us n = Some s" using 2 s(1) by simp
  then have "evidence_statuses ts cs' ks' es' us n = Some s"
    using evidence_grows [OF S S' le, of n] s(2) by auto
  then show ?thesis using s(2) by (cases rule: final_cases [OF S', of n cs' ks']) auto
qed

section \<open>Accepting evidence\<close>

definition keyed :: "('a \<Rightarrow> node_identity) \<Rightarrow> 'a list \<Rightarrow> bool" where
  "keyed f xs \<longleftrightarrow> sorted_wrt (<) (map f xs)"

lemma keyed_distinct: "keyed f xs \<Longrightarrow> distinct (map f xs)"
  by (simp add: keyed_def strict_sorted_iff)

lemma find_distinct:
  "distinct (map f xs) \<Longrightarrow> find (\<lambda>v. f v = n) xs = Some v \<longleftrightarrow> v \<in> set xs \<and> f v = n"
  by (induction xs) (auto simp: image_iff)

lemma keyed_insert:
  assumes "keyed f xs" and "find (\<lambda>v. f v = f c) xs = None"
  shows "keyed f (sort_key f (xs @ [c]))"
    and "find (\<lambda>v. f v = n) (sort_key f (xs @ [c])) =
      (if n = f c then Some c else find (\<lambda>v. f v = n) xs)"
proof -
  have d: "distinct (map f (xs @ [c]))"
    using keyed_distinct [OF assms(1)] assms(2) by (auto simp: find_None_iff image_iff)
  then have d': "distinct (map f (sort_key f (xs @ [c])))"
    by (auto simp: distinct_map)
  then show "keyed f (sort_key f (xs @ [c]))"
    by (simp add: keyed_def strict_sorted_iff)
  have dx: "distinct (map f xs)" using d by simp
  have "find (\<lambda>v. f v = n) (sort_key f (xs @ [c])) = Some v \<longleftrightarrow>
      (if n = f c then Some c else find (\<lambda>v. f v = n) xs) = Some v" for v
    using d unfolding find_distinct [OF d'] find_distinct [OF dx] if_distrib [of "\<lambda>x. x = Some v"]
    by (auto simp: image_iff)
  then show "find (\<lambda>v. f v = n) (sort_key f (xs @ [c])) =
      (if n = f c then Some c else find (\<lambda>v. f v = n) xs)"
    by (metis not_Some_eq)
qed

text \<open>The invariant of a progress value: it is the rebuild of its own fields.\<close>

definition progress_ok :: "ext \<Rightarrow> transaction_progress \<Rightarrow> bool" where
  "progress_ok X p \<longleftrightarrow>
     session_ok (progress_transaction p) \<and>
     effects_local (transaction_program_of (progress_transaction p)) (progress_effects p) \<and>
     keyed construction_node (progress_constructions p) \<and> keyed check_node (progress_checks p) \<and>
     keyed effect_node (progress_effects p) \<and>
     rebuild X (progress_transaction p) (progress_state p) (progress_constructions p)
       (progress_checks p) (progress_effects p) = Inr p"

lemma progress_okE:
  assumes "progress_ok X p"
  obtains us where "sound_session (progress_transaction p) (progress_effects p) us"
    and "p = rebuilt X (progress_transaction p) (progress_state p) (progress_constructions p)
       (progress_checks p) (progress_effects p) us"
proof -
  obtain us where us: "units (progress_transaction p) = Inr us"
    using assms by (auto simp: progress_ok_def rebuild_def bindE_Inr_iff)
  then have S: "sound_session (progress_transaction p) (progress_effects p) us"
    using assms by (simp add: progress_ok_def sound_session_def)
  from rebuild_closed [OF S] assms that [OF S] show thesis by (simp add: progress_ok_def)
qed

lemma rebuild_ok:
  assumes "session_ok ts" and "effects_local (transaction_program_of ts) es"
    and "keyed construction_node cs" "keyed check_node ks" "keyed effect_node es"
    and r: "rebuild X ts s cs ks es = Inr p"
  shows "progress_ok X p" and "progress_transaction p = ts" and "progress_state p = s"
    and "progress_constructions p = cs" and "progress_checks p = ks" and "progress_effects p = es"
proof -
  from r show f: "progress_transaction p = ts" "progress_state p = s"
    "progress_constructions p = cs" "progress_checks p = ks" "progress_effects p = es"
    by (auto simp: rebuild_def bindE_Inr_iff)
  show "progress_ok X p" using assms f by (simp add: progress_ok_def)
qed

text \<open>What accepting one piece of evidence for node \<open>i\<close> does to the statuses and the ready units.\<close>

definition advanced ::
  "transaction_progress \<Rightarrow> node_identity \<Rightarrow> transaction_progress \<Rightarrow> bool" where
  "advanced p i p' \<longleftrightarrow>
     progress_transaction p' = progress_transaction p \<and>
     evidence_le (progress_constructions p) (progress_checks p) (progress_effects p)
       (progress_constructions p') (progress_checks p') (progress_effects p') \<and>
     (\<forall>u. spec_primary u \<noteq> i \<longrightarrow>
        unit_evidence (progress_constructions p') (progress_checks p') (progress_effects p') u =
        unit_evidence (progress_constructions p) (progress_checks p) (progress_effects p) u) \<and>
     progress_status p i = Inr Ready"

lemma advanced_statuses:
  assumes ok: "progress_ok X p" and ok': "progress_ok X p'" and adv: "advanced p i p'"
    and s: "progress_status p n = Inr s" "s = Satisfied \<or> s = Failed \<or> s = Blocked"
  shows "progress_status p' n = Inr s"
proof -
  obtain us where S: "sound_session (progress_transaction p) (progress_effects p) us"
    and p: "p = rebuilt X (progress_transaction p) (progress_state p) (progress_constructions p)
       (progress_checks p) (progress_effects p) us"
    using progress_okE [OF ok] by metis
  obtain us' where S': "sound_session (progress_transaction p') (progress_effects p') us'"
    and p': "p' = rebuilt X (progress_transaction p') (progress_state p') (progress_constructions p')
       (progress_checks p') (progress_effects p') us'"
    using progress_okE [OF ok'] by metis
  have t: "progress_transaction p' = progress_transaction p" using adv by (simp add: advanced_def)
  then have us': "us' = us" using sound_sessionD(2) [OF S] sound_sessionD(2) [OF S'] by simp
  note S'' = S' [unfolded t us']
  let ?st = "final_statuses (progress_transaction p) (progress_constructions p) (progress_checks p)
    (progress_effects p) us"
  have nodes: "m \<in> node_id ` set (session_nodes (progress_transaction p))"
    if "progress_status p m = Inr v" for m v
    using that rebuilt_status [OF S refl, of X "progress_state p" "progress_constructions p" "progress_checks p" m]
    by (subst (asm) p) (auto split: if_splits)
  note st = rebuilt_status_iff [OF S, of _ X "progress_state p" "progress_constructions p" "progress_checks p",
      folded p]
  have "final_statuses (progress_transaction p) (progress_constructions p') (progress_checks p')
      (progress_effects p') us n = Some s"
  proof (rule final_grows [OF S S''])
    fix u assume u: "u \<in> set us"
      "unit_evidence (progress_constructions p') (progress_checks p') (progress_effects p') u"
      "\<not> unit_evidence (progress_constructions p) (progress_checks p) (progress_effects p) u"
    then have "spec_primary u = i" using adv unfolding advanced_def by metis
    moreover have r: "progress_status p i = Inr Ready" using adv by (simp add: advanced_def)
    ultimately show "?st (spec_primary u) = Some Ready" using iffD1 [OF st [OF nodes [OF r]] r] by simp
  next
    show "?st n = Some s" by (rule iffD1 [OF st [OF nodes [OF s(1)]] s(1)])
  qed (use adv s(2) in \<open>simp_all add: advanced_def\<close>)
  then show ?thesis
    using rebuilt_status_iff [OF S' , of n X "progress_state p'" "progress_constructions p'" "progress_checks p'",
      folded p'] nodes [OF s(1)] by (simp add: t us')
qed

lemma advanced_ready:
  assumes ok: "progress_ok X p" and ok': "progress_ok X p'" and adv: "advanced p i p'"
    and r: "r \<in> set (progress_ready_units p)" "unit_primary r \<noteq> i"
  shows "r \<in> set (progress_ready_units p')"
proof -
  obtain us where S: "sound_session (progress_transaction p) (progress_effects p) us"
    and p: "p = rebuilt X (progress_transaction p) (progress_state p) (progress_constructions p)
       (progress_checks p) (progress_effects p) us"
    using progress_okE [OF ok] by metis
  obtain us' where S': "sound_session (progress_transaction p') (progress_effects p') us'"
    and p': "p' = rebuilt X (progress_transaction p') (progress_state p') (progress_constructions p')
       (progress_checks p') (progress_effects p') us'"
    using progress_okE [OF ok'] by metis
  have t: "progress_transaction p' = progress_transaction p" using adv by (simp add: advanced_def)
  then have us': "us' = us" using sound_sessionD(2) [OF S] sound_sessionD(2) [OF S'] by simp
  note S'' = S' [unfolded t us']
  from r(1) obtain u where u: "u \<in> set us" "r = seal_unit X (transaction_id (progress_transaction p)) u"
    "\<not> unit_evidence (progress_constructions p) (progress_checks p) (progress_effects p) u"
    and sat: "all_satisfied (session_edges (progress_transaction p))
       (final_statuses (progress_transaction p) (progress_constructions p) (progress_checks p)
         (progress_effects p) us) u"
    by (subst (asm) p) (auto simp: rebuilt_ready [OF S])
  have "spec_primary u \<noteq> i" using r(2) u(2) by (simp add: seal_unit_def)
  then have "\<not> unit_evidence (progress_constructions p') (progress_checks p') (progress_effects p') u"
    using adv u(3) by (simp add: advanced_def)
  moreover have "all_satisfied (session_edges (progress_transaction p))
       (final_statuses (progress_transaction p) (progress_constructions p') (progress_checks p')
         (progress_effects p') us) u"
    using all_satisfied_grows [OF S S'' _ sat] adv by (simp add: advanced_def)
  ultimately have "r \<in> set (progress_ready_units (rebuilt X (progress_transaction p') (progress_state p')
      (progress_constructions p') (progress_checks p') (progress_effects p') us'))"
    unfolding rebuilt_ready [OF S'] unfolding t us' using u(1,2) by blast
  then show ?thesis by (subst p')
qed

section \<open>The three ways to advance\<close>

lemma find_construction_insert:
  assumes "keyed construction_node cs" and "find_construction cs (construction_node c) = None"
  shows "find_construction (sort_key construction_node (cs @ [c])) n =
    (if n = construction_node c then Some c else find_construction cs n)"
  using keyed_insert(2) [of construction_node cs c n] assms by (simp add: find_construction_def)

lemma find_check_insert:
  assumes "keyed check_node cs" and "find_check cs (check_node c) = None"
  shows "find_check (sort_key check_node (cs @ [c])) n =
    (if n = check_node c then Some c else find_check cs n)"
  using keyed_insert(2) [of check_node cs c n] assms by (simp add: find_check_def)

lemma find_effect_insert:
  assumes "keyed effect_node cs" and "find_effect cs (effect_node c) = None"
  shows "find_effect (sort_key effect_node (cs @ [c])) n =
    (if n = effect_node c then Some c else find_effect cs n)"
  using keyed_insert(2) [of effect_node cs c n] assms by (simp add: find_effect_def)

lemma progress_okD:
  assumes "progress_ok X p"
  shows "session_ok (progress_transaction p)"
    and "effects_local (transaction_program_of (progress_transaction p)) (progress_effects p)"
    and "keyed construction_node (progress_constructions p)"
    and "keyed check_node (progress_checks p)" and "keyed effect_node (progress_effects p)"
  using assms by (auto simp: progress_ok_def)

lemma advance_constructionD:
  assumes "advance_construction X p c = Inr p'"
  shows "progress_status p (construction_node c) = Inr Ready"
    and "find_construction (progress_constructions p) (construction_node c) = None"
    and "rebuild X (progress_transaction p) (progress_state p)
           (sort_key construction_node (progress_constructions p @ [c]))
           (progress_checks p) (progress_effects p) = Inr p'"
  using assms by (auto simp: advance_construction_def Let_def bindE_Inr_iff progress_construction_def split: if_splits)

lemma advance_checkD:
  assumes "advance_check X p c = Inr p'"
  shows "progress_status p (check_node c) = Inr Ready"
    and "find_check (progress_checks p) (check_node c) = None"
    and "rebuild X (progress_transaction p) (progress_state p) (progress_constructions p)
           (sort_key check_node (progress_checks p @ [c])) (progress_effects p) = Inr p'"
  using assms
  by (auto simp: advance_check_def Let_def bindE_Inr_iff progress_check_def split: if_splits option.splits)

lemma advance_effectD:
  assumes "advance_effect X p e s = Inr p'"
  obtains s' where "progress_status p (effect_node e) = Inr Ready"
    and "find_effect (progress_effects p) (effect_node e) = None"
    and "rebuild X (progress_transaction p) s' (progress_constructions p) (progress_checks p)
           (sort_key effect_node (progress_effects p @ [e])) = Inr p'"
    and "effect_succeeded e \<Longrightarrow> s = Some s' \<and> validate_effect_success p e s' = Inr ()"
    and "\<not> effect_succeeded e \<Longrightarrow> s = None \<and> s' = progress_state p \<and> definitive_failure (effect_outcome e)"
  using assms
  by (auto simp: advance_effect_def Let_def bindE_Inr_iff progress_effect_def split: if_splits option.splits)

lemma advance_construction_sound:
  assumes ok: "progress_ok X p" and a: "advance_construction X p c = Inr p'"
  shows "progress_ok X p' \<and> advanced p (construction_node c) p' \<and> progress_state p' = progress_state p"
proof -
  note D = advance_constructionD [OF a] and O = progress_okD [OF ok]
  have k: "keyed construction_node (sort_key construction_node (progress_constructions p @ [c]))"
    using keyed_insert(1) O(3) D(2) by (simp add: find_construction_def)
  note R = rebuild_ok [OF O(1,2) k O(4,5) D(3)] and F = find_construction_insert [OF O(3) D(2)]
  have "evidence_le (progress_constructions p) (progress_checks p) (progress_effects p)
      (progress_constructions p') (progress_checks p') (progress_effects p')"
    using D(2) by (auto simp: evidence_le_def R map_le_def F dom_def)
  moreover have "spec_primary u \<noteq> construction_node c \<Longrightarrow>
      unit_evidence (progress_constructions p') (progress_checks p') (progress_effects p') u =
      unit_evidence (progress_constructions p) (progress_checks p) (progress_effects p) u" for u
    by (cases "spec_kind u") (simp_all add: unit_evidence_def R F)
  ultimately show ?thesis using D(1) R by (simp add: advanced_def)
qed

lemma advance_check_sound:
  assumes ok: "progress_ok X p" and a: "advance_check X p c = Inr p'"
  shows "progress_ok X p' \<and> advanced p (check_node c) p' \<and> progress_state p' = progress_state p"
proof -
  note D = advance_checkD [OF a] and O = progress_okD [OF ok]
  have k: "keyed check_node (sort_key check_node (progress_checks p @ [c]))"
    using keyed_insert(1) O(4) D(2) by (simp add: find_check_def)
  note R = rebuild_ok [OF O(1,2,3) k O(5) D(3)] and F = find_check_insert [OF O(4) D(2)]
  have "evidence_le (progress_constructions p) (progress_checks p) (progress_effects p)
      (progress_constructions p') (progress_checks p') (progress_effects p')"
    using D(2) by (auto simp: evidence_le_def R map_le_def F dom_def)
  moreover have "spec_primary u \<noteq> check_node c \<Longrightarrow>
      unit_evidence (progress_constructions p') (progress_checks p') (progress_effects p') u =
      unit_evidence (progress_constructions p) (progress_checks p) (progress_effects p) u" for u
    by (cases "spec_kind u") (simp_all add: unit_evidence_def R F)
  ultimately show ?thesis using D(1) R by (simp add: advanced_def)
qed

lemma effects_local_insert:
  assumes "effects_local P es" and "effect_local P e"
  shows "effects_local P (sort_key f (es @ [e]))"
  using assms by (simp add: effects_local_def list_all_iff)

lemma advance_effect_sound:
  assumes ok: "progress_ok X p" and a: "advance_effect X p e s = Inr p'"
    and l: "effect_local (transaction_program_of (progress_transaction p)) e"
  shows "progress_ok X p' \<and> advanced p (effect_node e) p' \<and>
    progress_state p' = (if effect_succeeded e then the s else progress_state p)"
proof -
  note O = progress_okD [OF ok]
  from a show ?thesis
  proof (rule advance_effectD)
    fix s'
    assume r: "progress_status p (effect_node e) = Inr Ready"
      and n: "find_effect (progress_effects p) (effect_node e) = None"
      and re: "rebuild X (progress_transaction p) s' (progress_constructions p) (progress_checks p)
           (sort_key effect_node (progress_effects p @ [e])) = Inr p'"
      and s: "effect_succeeded e \<Longrightarrow> s = Some s' \<and> validate_effect_success p e s' = Inr ()"
        "\<not> effect_succeeded e \<Longrightarrow> s = None \<and> s' = progress_state p \<and> definitive_failure (effect_outcome e)"
    have k: "keyed effect_node (sort_key effect_node (progress_effects p @ [e]))"
      using keyed_insert(1) O(5) n by (simp add: find_effect_def)
    note R = rebuild_ok [OF O(1) effects_local_insert [OF O(2) l] O(3,4) k re]
      and F = find_effect_insert [OF O(5) n]
    have "evidence_le (progress_constructions p) (progress_checks p) (progress_effects p)
        (progress_constructions p') (progress_checks p') (progress_effects p')"
      using n by (auto simp: evidence_le_def R map_le_def F dom_def)
    moreover have "spec_primary u \<noteq> effect_node e \<Longrightarrow>
        unit_evidence (progress_constructions p') (progress_checks p') (progress_effects p') u =
        unit_evidence (progress_constructions p) (progress_checks p) (progress_effects p) u" for u
      by (cases "spec_kind u") (simp_all add: unit_evidence_def R F)
    ultimately show ?thesis using r R s by (auto simp: advanced_def)
  qed
qed

end
