(* ===== verification/Progress_Steps.thy ===== *)
theory Progress_Steps
  imports Progress
begin

text \<open>
  Progress values as a transition system: one step accepts one piece of evidence, by the operations
  \<^verbatim>\<open>advance_construction\<close>, \<^verbatim>\<open>advance_check\<close> and \<^verbatim>\<open>advance_effect\<close> of \<^verbatim>\<open>progression.h\<close>. The facts here carry the
  properties of \<open>Progress_Properties\<close> along every sequence of steps.
\<close>

inductive progress_step ::
  "ext \<Rightarrow> transaction_progress \<Rightarrow> node_identity \<Rightarrow> transaction_progress \<Rightarrow> bool" for X p where
  accept_construction: "advance_construction X p c = Inr p' \<Longrightarrow> progress_step X p (construction_node c) p'"
| accept_check: "advance_check X p k = Inr p' \<Longrightarrow> progress_step X p (check_node k) p'"
| accept_effect: "advance_effect X p e s = Inr p' \<Longrightarrow>
    effect_local (transaction_program_of (progress_transaction p)) e \<Longrightarrow> progress_step X p (effect_node e) p'"

inductive_cases progress_stepE: "progress_step X p i p'"

abbreviation progresses :: "ext \<Rightarrow> transaction_progress \<Rightarrow> transaction_progress \<Rightarrow> bool" where
  "progresses X \<equiv> (\<lambda>p p'. \<exists>i. progress_step X p i p')\<^sup>*\<^sup>*"

lemma progress_step_sound:
  assumes "progress_ok X p" and "progress_step X p i p'"
  shows "progress_ok X p'" and "advanced p i p'"
  using assms(2) advance_construction_sound [OF assms(1)] advance_check_sound [OF assms(1)]
    advance_effect_sound [OF assms(1)]
  by (auto elim!: progress_stepE)

lemma progresses_induct:
  assumes "progresses X p p'" and "progress_ok X p" and "\<And>q. R q q" and "\<And>a b c. R a b \<Longrightarrow> R b c \<Longrightarrow> R a c"
    and "\<And>a i b. progress_ok X a \<Longrightarrow> progress_ok X b \<Longrightarrow> progress_step X a i b \<Longrightarrow> R a b"
  shows "progress_ok X p' \<and> R p p'"
  using assms(1)
proof (induction rule: rtranclp_induct)
  case (step q q')
  then show ?case using progress_step_sound assms(4,5) by blast
qed (use assms(2,3) in blast)

lemma progress_begin_ok:
  assumes "session_ok ts" and "progress_begin X ts = Inr p"
  shows "progress_ok X p"
  using rebuild_ok(1) [OF assms(1) _ _ _ _ assms(2) [unfolded progress_begin_def]] assms(1)
  by (simp add: keyed_def effects_local_def session_ok_def program_ok_def)

lemma progresses_transaction:
  assumes "progresses X p p'" and "progress_ok X p"
  shows "progress_transaction p' = progress_transaction p"
  using progresses_induct [OF assms, of "\<lambda>a b. progress_transaction b = progress_transaction a"]
    progress_step_sound(2) by (force simp: advanced_def)

lemma rebuild_fields:
  assumes "rebuild X ts s cs ks es = Inr p"
  shows "progress_transaction p = ts" and "progress_state p = s" and "progress_constructions p = cs"
    and "progress_checks p = ks" and "progress_effects p = es"
  using assms by (auto simp: rebuild_def bindE_Inr_iff)

section \<open>Accepting evidence never fails in the rebuild\<close>

lemma rebuild_more:
  assumes ok: "progress_ok X p"
    and l: "effects_local (transaction_program_of (progress_transaction p)) es"
  shows "\<exists>p'. rebuild X (progress_transaction p) s cs ks es = Inr p'"
proof -
  obtain us where "sound_session (progress_transaction p) (progress_effects p) us"
    by (rule progress_okE [OF ok])
  then have "sound_session (progress_transaction p) es us" using l by (simp add: sound_session_def)
  from rebuild_closed [OF this] show ?thesis by blast
qed

lemma accept_construction_iff:
  assumes "progress_ok X p"
  shows "(\<exists>p'. advance_construction X p c = Inr p') \<longleftrightarrow>
    transaction_id (construction_transaction (construction_request_of (construction_session_of c)))
      = transaction_id (progress_transaction p) \<and>
    progress_status p (construction_node c) = Inr Ready \<and> progress_construction p (construction_node c) = None"
  using rebuild_more [OF assms progress_okD(2) [OF assms]]
  by (auto simp: advance_construction_def Let_def bindE_Inr_iff split: if_splits)

lemma accept_effect_iff:
  assumes ok: "progress_ok X p" and l: "effect_local (transaction_program_of (progress_transaction p)) e"
  shows "(\<exists>p'. advance_effect X p e s = Inr p') \<longleftrightarrow>
    transaction_id (effect_transaction (effect_request e)) = transaction_id (progress_transaction p) \<and>
    snapshot_id (effect_expected_state (effect_request e)) = snapshot_id (progress_state p) \<and>
    snapshot_target_binding (effect_expected_state (effect_request e)) =
      snapshot_target_binding (progress_state p) \<and>
    progress_status p (effect_node e) = Inr Ready \<and> progress_effect p (effect_node e) = None \<and>
    (if effect_succeeded e then \<exists>next. s = Some next \<and> validate_effect_success p e next = Inr ()
     else s = None \<and> definitive_failure (effect_outcome e))"
proof -
  have "effects_local (transaction_program_of (progress_transaction p))
      (sort_key effect_node (progress_effects p @ [e]))"
    by (rule effects_local_insert [OF progress_okD(2) [OF ok] l])
  from rebuild_more [OF ok this] show ?thesis
    by (auto simp: advance_effect_def Let_def bindE_Inr_iff split: if_splits option.splits)
qed

section \<open>The fixpoint loop\<close>

lemma settle_more_fuel: "settle f es us st = Inr st' \<Longrightarrow> settle (f + k) es us st = Inr st'"
proof (induction f arbitrary: st)
  case (Suc f)
  then show ?case by (cases "settle_pass es us st False") (auto split: if_splits)
qed simp

section \<open>Durable ready units\<close>

lemma restore_sealed_unit:
  assumes "spec_primary u \<in> set (spec_members u)" and "sorted_wrt (<) (spec_members u)"
    and "spec_kind u \<noteq> Operation_unit \<Longrightarrow> spec_members u = [spec_primary u]"
  shows "restore_unit X t (spec_kind u) (spec_primary u) (spec_members u) (ready_unit_identity X t u) =
    Inr (seal_unit X t u)"
proof -
  have "sorted (spec_members u) \<and> \<not> adjacent_duplicate (=) (spec_members u)"
    using assms(2) canonical_iff_strict by blast
  moreover have e: "\<lparr>spec_kind = spec_kind u, spec_primary = spec_primary u, spec_members = spec_members u\<rparr> = u"
    by simp
  ultimately show ?thesis using assms(1,3)
    unfolding restore_unit_def Let_def e seal_unit_def by (cases "spec_kind u") auto
qed

end
