(* ===== verification/Effect_Journal.thy ===== *)
theory Effect_Journal
  imports Nonce Evidence
begin

text \<open>
  \<^verbatim>\<open>src/effect_journal.cpp\<close>: the attempt journal of one effectful operation. An \<open>effect_attempt_record\<close>
  is one immutable snapshot; \<open>admit\<close> makes the first, every operation makes the \<open>successor\<close> of a
  snapshot, and every snapshot is validated twice, as a value (\<open>validate_record_shape\<close>) and against
  its predecessor (\<open>validate_effect_successor\<close>). A size and an index is a 64-bit word, as
  \<^verbatim>\<open>std::size_t\<close> is.
\<close>

section \<open>Data\<close>

datatype effect_attempt_stage =
    Admitted | Before_intent | Before_terminal | Application_intent | Application_terminal
  | After_intent | After_terminal | Publication_intent | Publication_terminal | Terminal

fun stage_code :: "effect_attempt_stage \<Rightarrow> nat" where
  "stage_code Admitted = 1"
| "stage_code Before_intent = 2"
| "stage_code Before_terminal = 3"
| "stage_code Application_intent = 4"
| "stage_code Application_terminal = 5"
| "stage_code After_intent = 6"
| "stage_code After_terminal = 7"
| "stage_code Publication_intent = 8"
| "stage_code Publication_terminal = 9"
| "stage_code Terminal = 10"

record effect_lifecycle_fact =
  fact_result :: session_identity
  fact_succeeded :: bool

record effect_application_fact =
  app_receipt :: string
  app_outcome :: application_attempt_outcome
  app_journal :: "string option"
  app_completed_evidence :: "string option"

record effect_publication_fact =
  pub_receipt :: string
  pub_outcome :: state_publication_outcome
  pub_resulting_snapshot :: "string option"

record effect_attempt_record =
  ea_identity :: session_identity
  ea_attempt :: session_identity
  ea_session :: session_identity
  ea_nonce :: nonce
  ea_sequence :: u64
  ea_previous :: "session_identity option"
  ea_before_total :: u64
  ea_after_total :: u64
  ea_stage :: effect_attempt_stage
  ea_active_index :: "u64 option"
  ea_before :: "effect_lifecycle_fact list"
  ea_application :: "effect_application_fact option"
  ea_after :: "effect_lifecycle_fact list"
  ea_transaction_evidence :: "string option"
  ea_publication_request :: "string option"
  ea_publication :: "effect_publication_fact option"
  ea_terminal_outcome :: "effectful_operation_outcome option"
  ea_reconciled_state :: "string option"

definition maximum_effect_lifecycle_count :: nat where
  "maximum_effect_lifecycle_count = 65536"

abbreviation effect_record_error :: "'a res" where
  "effect_record_error \<equiv> Inl (Effect_journal_error invalid_record)"

abbreviation effect_transition_error :: "'a res" where
  "effect_transition_error \<equiv> Inl (Effect_journal_error invalid_transition)"

definition text_of :: "string option \<Rightarrow> string" where
  "text_of v = (case v of None \<Rightarrow> [] | Some s \<Rightarrow> s)"

section \<open>Identity of a record\<close>

definition bool_text :: "bool \<Rightarrow> string" where
  "bool_text b = (if b then ''1'' else ''0'')"

definition lifecycle_fields :: "effect_lifecycle_fact list \<Rightarrow> string list" where
  "lifecycle_fields facts = concat (map (\<lambda>f. [fact_result f, bool_text (fact_succeeded f)]) facts)"

definition identity_fields :: "ext \<Rightarrow> effect_attempt_record \<Rightarrow> string list" where
  "identity_fields X r =
     [ea_attempt r, ea_session r, effect_nonce_hex (ea_nonce r), to_string (unat (ea_sequence r)),
      text_of (ea_previous r), to_string (unat (ea_before_total r)), to_string (unat (ea_after_total r)),
      to_string (stage_code (ea_stage r)),
      (case ea_active_index r of None \<Rightarrow> [] | Some i \<Rightarrow> to_string (unat i)),
      to_string (length (ea_before r))]
     @ lifecycle_fields (ea_before r)
     @ (case ea_application r of
          None \<Rightarrow> [[], [], [], []]
        | Some a \<Rightarrow> [app_receipt a, to_string (application_outcome_code X (app_outcome a)),
                     text_of (app_journal a), text_of (app_completed_evidence a)])
     @ [to_string (length (ea_after r))]
     @ lifecycle_fields (ea_after r)
     @ [text_of (ea_transaction_evidence r), text_of (ea_publication_request r)]
     @ (case ea_publication r of
          None \<Rightarrow> [[], [], []]
        | Some p \<Rightarrow> [pub_receipt p, to_string (publication_outcome_code X (pub_outcome p)),
                     text_of (pub_resulting_snapshot p)])
     @ [(case ea_terminal_outcome r of None \<Rightarrow> [] | Some t \<Rightarrow> to_string (effect_outcome_code t)),
        text_of (ea_reconciled_state r)]"

definition effect_record_identity :: "ext \<Rightarrow> effect_attempt_record \<Rightarrow> session_identity" where
  "effect_record_identity X r = make_identity X ''pkgctl/effect-attempt-record/1'' (identity_fields X r)"

definition effect_attempt_identity :: "ext \<Rightarrow> session_identity \<Rightarrow> nonce \<Rightarrow> session_identity" where
  "effect_attempt_identity X session nonce =
     make_identity X ''pkgctl/effect-attempt/1'' [session, effect_nonce_hex nonce]"

section \<open>Sequence number of a stage\<close>

definition lease_lost_count ::
  "u64 \<Rightarrow> u64 \<Rightarrow> u64 \<Rightarrow> effect_attempt_record \<Rightarrow> u64 res" where
  "lease_lost_count application_base after_base publication_base r =
     (if ea_publication r \<noteq> None then Inr (publication_base + 3)
      else if ea_transaction_evidence r \<noteq> None then effect_record_error
      else if ea_after r \<noteq> [] then Inr (after_base + word_of_nat (length (ea_after r)) * 2 + 1)
      else if ea_application r \<noteq> None then Inr (application_base + 3)
      else if ea_before r \<noteq> [] then Inr (word_of_nat (length (ea_before r)) * 2 + 1)
      else Inr 1)"

definition retained_transition_count :: "effect_attempt_record \<Rightarrow> u64 res" where
  "retained_transition_count r =
     (let before_count = word_of_nat (length (ea_before r));
          after_count = word_of_nat (length (ea_after r));
          application_base = ea_before_total r * 2;
          after_base = application_base + 2;
          publication_base = after_base + ea_after_total r * 2
      in case ea_stage r of
           Admitted \<Rightarrow> Inr 0
         | Before_intent \<Rightarrow> Inr (before_count * 2 + 1)
         | Before_terminal \<Rightarrow> Inr (before_count * 2)
         | Application_intent \<Rightarrow> Inr (application_base + 1)
         | Application_terminal \<Rightarrow> Inr (application_base + 2)
         | After_intent \<Rightarrow> Inr (after_base + after_count * 2 + 1)
         | After_terminal \<Rightarrow> Inr (after_base + after_count * 2)
         | Publication_intent \<Rightarrow> Inr (publication_base + 1)
         | Publication_terminal \<Rightarrow> Inr (publication_base + 2)
         | Terminal \<Rightarrow>
             (case ea_terminal_outcome r of
                None \<Rightarrow> effect_record_error
              | Some outcome \<Rightarrow>
                  (case outcome of
                     Lifecycle_failed_before_application \<Rightarrow> Inr (before_count * 2 + 1)
                   | Application_not_completed \<Rightarrow> Inr (application_base + 3)
                   | Lifecycle_failed_after_application \<Rightarrow> Inr (after_base + after_count * 2 + 1)
                   | State_publication_not_completed \<Rightarrow> Inr (publication_base + 3)
                   | State_publication_indeterminate \<Rightarrow> Inr (publication_base + 3)
                   | Effect_completed \<Rightarrow>
                       Inr (publication_base + (if ea_publication r \<noteq> None then 3 else 2))
                   | Application_resolution_required \<Rightarrow> effect_record_error
                   | Outer_lease_lost \<Rightarrow>
                       lease_lost_count application_base after_base publication_base r)))"

section \<open>Validation of a record as a value\<close>

datatype application_effect_classification =
    Class_completed | Class_definitive_failure | Class_external_resolution_required

fun classify_application_effect :: "application_attempt_outcome \<Rightarrow> application_effect_classification" where
  "classify_application_effect Application_completed = Class_completed"
| "classify_application_effect Precondition_refused = Class_definitive_failure"
| "classify_application_effect Failed_before_target_mutation = Class_definitive_failure"
| "classify_application_effect Failed_fully_recovered = Class_definitive_failure"
| "classify_application_effect Failed_with_partial_effects = Class_external_resolution_required"
| "classify_application_effect Effects_visible_durability_unconfirmed = Class_external_resolution_required"
| "classify_application_effect Application_indeterminate = Class_external_resolution_required"

text \<open>\<^verbatim>\<open>require_typed_identity\<close>: an absent value passes.\<close>

definition typed_identity :: "(string \<Rightarrow> bool) \<Rightarrow> string option \<Rightarrow> bool" where
  "typed_identity parse v = (case v of None \<Rightarrow> True | Some s \<Rightarrow> parse s)"

definition facts_succeeded :: "effect_lifecycle_fact list \<Rightarrow> bool" where
  "facts_succeeded facts = list_all fact_succeeded facts"

definition prefix_succeeded :: "effect_lifecycle_fact list \<Rightarrow> bool" where
  "prefix_succeeded facts = (facts = [] \<or> list_all fact_succeeded (butlast facts))"

definition before_complete :: "effect_attempt_record \<Rightarrow> bool" where
  "before_complete r \<longleftrightarrow>
     length (ea_before r) = unat (ea_before_total r) \<and> facts_succeeded (ea_before r)"

definition application_complete :: "effect_attempt_record \<Rightarrow> bool" where
  "application_complete r \<longleftrightarrow>
     (case ea_application r of None \<Rightarrow> False | Some a \<Rightarrow> app_outcome a = Application_completed)"

definition after_complete :: "effect_attempt_record \<Rightarrow> bool" where
  "after_complete r \<longleftrightarrow>
     length (ea_after r) = unat (ea_after_total r) \<and> facts_succeeded (ea_after r)"

definition has_publication_authority :: "effect_attempt_record \<Rightarrow> bool" where
  "has_publication_authority r \<longleftrightarrow>
     ea_transaction_evidence r \<noteq> None \<or> ea_publication_request r \<noteq> None \<or> ea_publication r \<noteq> None"

definition publication_outcome_in :: "effect_attempt_record \<Rightarrow> state_publication_outcome list \<Rightarrow> bool" where
  "publication_outcome_in r outcomes =
     (case ea_publication r of None \<Rightarrow> False | Some p \<Rightarrow> pub_outcome p \<in> set outcomes)"

definition header_conditions :: "effect_attempt_record \<Rightarrow> bool list" where
  "header_conditions r =
     (let stage = ea_stage r;
          intent = (stage = Before_intent \<or> stage = After_intent)
      in [length (ea_before r) > unat (ea_before_total r) \<or> length (ea_after r) > unat (ea_after_total r),
          (ea_sequence r = 0) \<noteq> (ea_previous r = None),
          (ea_sequence r = 0) \<noteq> (stage = Admitted),
          stage \<noteq> Terminal \<and> ea_terminal_outcome r \<noteq> None,
          stage = Terminal \<and> ea_terminal_outcome r = None,
          ea_reconciled_state r \<noteq> None \<and>
            (stage \<noteq> Terminal \<or> ea_terminal_outcome r \<noteq> Some Effect_completed),
          intent \<noteq> (ea_active_index r \<noteq> None),
          stage = Before_intent \<and> ea_active_index r \<noteq> Some (word_of_nat (length (ea_before r))),
          stage = After_intent \<and> ea_active_index r \<noteq> Some (word_of_nat (length (ea_after r))),
          stage = Before_terminal \<and> ea_before r = [],
          stage = Application_intent \<and> ea_application r \<noteq> None,
          stage = Application_terminal \<and> ea_application r = None,
          (stage = Publication_intent \<or> stage = Publication_terminal) \<and>
            (ea_transaction_evidence r = None \<or> ea_publication_request r = None),
          stage = Publication_intent \<and> ea_publication r \<noteq> None,
          stage = Publication_terminal \<and> ea_publication r = None])"

definition typed_conditions :: "ext \<Rightarrow> effect_attempt_record \<Rightarrow> bool list" where
  "typed_conditions X r =
     (case ea_application r of
        None \<Rightarrow> []
      | Some a \<Rightarrow>
          [\<not> typed_identity (parse_application_receipt X) (Some (app_receipt a)),
           \<not> typed_identity (parse_application_journal X) (app_journal a),
           \<not> typed_identity (parse_completed_evidence X) (app_completed_evidence a),
           app_outcome a = Application_completed \<and> app_completed_evidence a = None,
           app_outcome a \<noteq> Application_completed \<and> app_completed_evidence a \<noteq> None])
     @ [\<not> typed_identity (parse_transaction_evidence X) (ea_transaction_evidence r),
        \<not> typed_identity (parse_publication_request X) (ea_publication_request r)]
     @ (case ea_publication r of
          None \<Rightarrow> []
        | Some p \<Rightarrow>
            [\<not> typed_identity (parse_publication_receipt X) (Some (pub_receipt p)),
             \<not> typed_identity (parse_snapshot X) (pub_resulting_snapshot p)])
     @ [\<not> typed_identity (parse_snapshot X) (ea_reconciled_state r)]"

definition causal_conditions :: "effect_attempt_record \<Rightarrow> bool list" where
  "causal_conditions r =
     [ea_application r \<noteq> None \<and> \<not> before_complete r,
      ea_after r \<noteq> [] \<and> \<not> application_complete r,
      has_publication_authority r \<and>
        (\<not> application_complete r \<or> \<not> after_complete r \<or>
         ea_transaction_evidence r = None \<or> ea_publication_request r = None),
      ea_publication r \<noteq> None \<and> ea_publication_request r = None]"

definition terminal_rejected :: "effect_attempt_record \<Rightarrow> effectful_operation_outcome \<Rightarrow> bool" where
  "terminal_rejected r outcome =
     (case outcome of
        Lifecycle_failed_before_application \<Rightarrow>
          ea_before r = [] \<or> fact_succeeded (last (ea_before r)) \<or> ea_application r \<noteq> None \<or>
          ea_after r \<noteq> [] \<or> has_publication_authority r
      | Application_not_completed \<Rightarrow>
          (case ea_application r of
             None \<Rightarrow> True
           | Some a \<Rightarrow> application_complete r \<or> ea_after r \<noteq> [] \<or> has_publication_authority r \<or>
               classify_application_effect (app_outcome a) \<noteq> Class_definitive_failure)
      | Application_resolution_required \<Rightarrow> True
      | Lifecycle_failed_after_application \<Rightarrow>
          \<not> application_complete r \<or> ea_after r = [] \<or> fact_succeeded (last (ea_after r)) \<or>
          has_publication_authority r
      | Outer_lease_lost \<Rightarrow>
          ea_active_index r \<noteq> None \<or>
          (ea_publication_request r \<noteq> None \<and> ea_transaction_evidence r = None)
      | State_publication_not_completed \<Rightarrow>
          \<not> publication_outcome_in r [Stale_expected_state, Request_rejected, Failed_before_publication]
      | State_publication_indeterminate \<Rightarrow>
          \<not> publication_outcome_in r [Published_durability_unconfirmed, Publication_indeterminate]
      | Effect_completed \<Rightarrow>
          \<not> publication_outcome_in r [Published] \<and>
          \<not> (ea_reconciled_state r \<noteq> None \<and>
              (ea_publication r = None \<or>
               publication_outcome_in r [Published_durability_unconfirmed, Publication_indeterminate])))"

definition stage_rejected :: "effect_attempt_record \<Rightarrow> bool" where
  "stage_rejected r =
     (case ea_stage r of
        Admitted \<Rightarrow>
          ea_before r \<noteq> [] \<or> ea_application r \<noteq> None \<or> ea_after r \<noteq> [] \<or> has_publication_authority r
      | Before_intent \<Rightarrow>
          \<not> facts_succeeded (ea_before r) \<or> length (ea_before r) \<ge> unat (ea_before_total r) \<or>
          ea_application r \<noteq> None \<or> ea_after r \<noteq> [] \<or> has_publication_authority r
      | Before_terminal \<Rightarrow>
          ea_before r = [] \<or> length (ea_before r) > unat (ea_before_total r) \<or>
          \<not> prefix_succeeded (ea_before r) \<or> ea_application r \<noteq> None \<or> ea_after r \<noteq> [] \<or>
          has_publication_authority r
      | Application_intent \<Rightarrow>
          \<not> before_complete r \<or> ea_application r \<noteq> None \<or> ea_after r \<noteq> [] \<or> has_publication_authority r
      | Application_terminal \<Rightarrow>
          \<not> before_complete r \<or> ea_application r = None \<or> ea_after r \<noteq> [] \<or> has_publication_authority r
      | After_intent \<Rightarrow>
          \<not> before_complete r \<or> \<not> application_complete r \<or> \<not> facts_succeeded (ea_after r) \<or>
          length (ea_after r) \<ge> unat (ea_after_total r) \<or> has_publication_authority r
      | After_terminal \<Rightarrow>
          \<not> before_complete r \<or> \<not> application_complete r \<or> ea_after r = [] \<or>
          length (ea_after r) > unat (ea_after_total r) \<or> \<not> prefix_succeeded (ea_after r) \<or>
          has_publication_authority r
      | Publication_intent \<Rightarrow>
          \<not> before_complete r \<or> \<not> application_complete r \<or> \<not> after_complete r \<or>
          ea_transaction_evidence r = None \<or> ea_publication_request r = None \<or> ea_publication r \<noteq> None
      | Publication_terminal \<Rightarrow>
          \<not> before_complete r \<or> \<not> application_complete r \<or> \<not> after_complete r \<or>
          ea_transaction_evidence r = None \<or> ea_publication_request r = None \<or> ea_publication r = None
      | Terminal \<Rightarrow>
          (case ea_terminal_outcome r of None \<Rightarrow> True | Some outcome \<Rightarrow> terminal_rejected r outcome))"

definition effect_record_shape :: "ext \<Rightarrow> effect_attempt_record \<Rightarrow> unit res" where
  "effect_record_shape X r =
     bindE (reject (Effect_journal_error invalid_record)
              (header_conditions r @ typed_conditions X r @ causal_conditions r @ [stage_rejected r])) (\<lambda>_.
     bindE (retained_transition_count r) (\<lambda>count.
       reject (Effect_journal_error invalid_record)
         [ea_sequence r \<noteq> count, ea_identity r \<noteq> effect_record_identity X r]))"

definition effect_restore :: "ext \<Rightarrow> effect_attempt_record \<Rightarrow> effect_attempt_record res" where
  "effect_restore X r = bindE (effect_record_shape X r) (\<lambda>_. Inr r)"

section \<open>Validation against the predecessor\<close>

definition appended_lifecycle_fact ::
  "effect_lifecycle_fact list \<Rightarrow> effect_lifecycle_fact list \<Rightarrow> bool" where
  "appended_lifecycle_fact previous next \<longleftrightarrow>
     length next = length previous + 1 \<and> take (length previous) next = previous"

definition same_effect_evidence :: "effect_attempt_record \<Rightarrow> effect_attempt_record \<Rightarrow> bool" where
  "same_effect_evidence l r \<longleftrightarrow>
     ea_before l = ea_before r \<and> ea_application l = ea_application r \<and> ea_after l = ea_after r \<and>
     ea_transaction_evidence l = ea_transaction_evidence r \<and>
     ea_publication_request l = ea_publication_request r \<and> ea_publication l = ea_publication r"

definition last_succeeded :: "effect_lifecycle_fact list \<Rightarrow> bool" where
  "last_succeeded facts \<longleftrightarrow> facts \<noteq> [] \<and> fact_succeeded (last facts)"

definition unresolved_intent :: "effect_attempt_stage \<Rightarrow> bool" where
  "unresolved_intent s \<longleftrightarrow>
     s = Before_intent \<or> s = Application_intent \<or> s = After_intent \<or> s = Publication_intent"

definition definitive_application_failure :: "effect_attempt_record \<Rightarrow> bool" where
  "definitive_application_failure r =
     (case ea_application r of
        None \<Rightarrow> False
      | Some a \<Rightarrow> classify_application_effect (app_outcome a) = Class_definitive_failure)"

definition terminal_successor_rejected ::
  "effect_attempt_record \<Rightarrow> effectful_operation_outcome \<Rightarrow> bool" where
  "terminal_successor_rejected previous outcome =
     (case outcome of
        Lifecycle_failed_before_application \<Rightarrow> ea_stage previous \<noteq> Before_terminal
      | Application_not_completed \<Rightarrow>
          ea_stage previous \<noteq> Application_terminal \<or> \<not> definitive_application_failure previous
      | Application_resolution_required \<Rightarrow> True
      | Lifecycle_failed_after_application \<Rightarrow> ea_stage previous \<noteq> After_terminal
      | Outer_lease_lost \<Rightarrow> unresolved_intent (ea_stage previous)
      | State_publication_not_completed \<Rightarrow> ea_stage previous \<noteq> Publication_terminal
      | State_publication_indeterminate \<Rightarrow> ea_stage previous \<noteq> Publication_terminal
      | Effect_completed \<Rightarrow>
          ea_stage previous \<noteq> Publication_intent \<and> ea_stage previous \<noteq> Publication_terminal)"

definition stage_successor_rejected ::
  "effect_attempt_record \<Rightarrow> effect_attempt_record \<Rightarrow> bool" where
  "stage_successor_rejected previous next =
     (case ea_stage next of
        Admitted \<Rightarrow> True
      | Before_intent \<Rightarrow>
          \<not> (ea_stage previous = Admitted \<or>
             (ea_stage previous = Before_terminal \<and> last_succeeded (ea_before previous))) \<or>
          ea_active_index next \<noteq> Some (word_of_nat (length (ea_before previous))) \<or>
          \<not> same_effect_evidence previous next
      | Before_terminal \<Rightarrow>
          ea_stage previous \<noteq> Before_intent \<or>
          \<not> appended_lifecycle_fact (ea_before previous) (ea_before next) \<or>
          ea_application previous \<noteq> ea_application next \<or> ea_after previous \<noteq> ea_after next \<or>
          ea_transaction_evidence previous \<noteq> ea_transaction_evidence next \<or>
          ea_publication_request previous \<noteq> ea_publication_request next \<or>
          ea_publication previous \<noteq> ea_publication next
      | Application_intent \<Rightarrow>
          \<not> ((ea_before_total previous = 0 \<and> ea_stage previous = Admitted) \<or>
             ea_stage previous = Before_terminal) \<or>
          \<not> same_effect_evidence previous next
      | Application_terminal \<Rightarrow>
          ea_stage previous \<noteq> Application_intent \<or> ea_before previous \<noteq> ea_before next \<or>
          ea_application previous \<noteq> None \<or> ea_application next = None \<or>
          ea_after previous \<noteq> ea_after next \<or>
          ea_transaction_evidence previous \<noteq> ea_transaction_evidence next \<or>
          ea_publication_request previous \<noteq> ea_publication_request next \<or>
          ea_publication previous \<noteq> ea_publication next
      | After_intent \<Rightarrow>
          \<not> (ea_stage previous = Application_terminal \<or>
             (ea_stage previous = After_terminal \<and> last_succeeded (ea_after previous))) \<or>
          ea_active_index next \<noteq> Some (word_of_nat (length (ea_after previous))) \<or>
          \<not> same_effect_evidence previous next
      | After_terminal \<Rightarrow>
          ea_stage previous \<noteq> After_intent \<or> ea_before previous \<noteq> ea_before next \<or>
          ea_application previous \<noteq> ea_application next \<or>
          \<not> appended_lifecycle_fact (ea_after previous) (ea_after next) \<or>
          ea_transaction_evidence previous \<noteq> ea_transaction_evidence next \<or>
          ea_publication_request previous \<noteq> ea_publication_request next \<or>
          ea_publication previous \<noteq> ea_publication next
      | Publication_intent \<Rightarrow>
          \<not> ((ea_after_total previous = 0 \<and> ea_stage previous = Application_terminal) \<or>
             ea_stage previous = After_terminal) \<or>
          ea_transaction_evidence previous \<noteq> None \<or> ea_publication_request previous \<noteq> None \<or>
          ea_publication previous \<noteq> None \<or> ea_before previous \<noteq> ea_before next \<or>
          ea_application previous \<noteq> ea_application next \<or> ea_after previous \<noteq> ea_after next \<or>
          ea_publication next \<noteq> None
      | Publication_terminal \<Rightarrow>
          ea_stage previous \<noteq> Publication_intent \<or> ea_before previous \<noteq> ea_before next \<or>
          ea_application previous \<noteq> ea_application next \<or> ea_after previous \<noteq> ea_after next \<or>
          ea_transaction_evidence previous \<noteq> ea_transaction_evidence next \<or>
          ea_publication_request previous \<noteq> ea_publication_request next \<or>
          ea_publication previous \<noteq> None \<or> ea_publication next = None
      | Terminal \<Rightarrow>
          \<not> same_effect_evidence previous next \<or>
          (case ea_terminal_outcome next of
             None \<Rightarrow> True | Some outcome \<Rightarrow> terminal_successor_rejected previous outcome))"

definition validate_effect_successor :: "effect_attempt_record \<Rightarrow> effect_attempt_record \<Rightarrow> unit res" where
  "validate_effect_successor previous next =
     reject (Effect_journal_error invalid_transition)
       [ea_stage previous = Terminal,
        ea_sequence previous = max_u64 \<or> ea_sequence next \<noteq> ea_sequence previous + 1 \<or>
          ea_previous next = None \<or> ea_previous next \<noteq> Some (ea_identity previous),
        ea_attempt next \<noteq> ea_attempt previous \<or> ea_session next \<noteq> ea_session previous \<or>
          ea_nonce next \<noteq> ea_nonce previous \<or> ea_before_total next \<noteq> ea_before_total previous \<or>
          ea_after_total next \<noteq> ea_after_total previous,
        stage_successor_rejected previous next]"

section \<open>Operations\<close>

text \<open>\<open>effect_record_identity\<close> does not read the identity field, so a record is sealed by filling it in.\<close>

definition seal_record :: "ext \<Rightarrow> effect_attempt_record \<Rightarrow> effect_attempt_record" where
  "seal_record X r = r\<lparr>ea_identity := effect_record_identity X r\<rparr>"

definition admit :: "ext \<Rightarrow> session_identity \<Rightarrow> u64 \<Rightarrow> u64 \<Rightarrow> nonce \<Rightarrow> effect_attempt_record res" where
  "admit X session before_total after_total nonce =
     (if unat before_total > maximum_effect_lifecycle_count \<or>
         unat after_total > maximum_effect_lifecycle_count
      then effect_record_error
      else
        effect_restore X (seal_record X
               \<lparr>ea_identity = [], ea_attempt = effect_attempt_identity X session nonce,
                 ea_session = session, ea_nonce = nonce, ea_sequence = 0, ea_previous = None,
                 ea_before_total = before_total, ea_after_total = after_total,
                 ea_stage = Admitted, ea_active_index = None, ea_before = [],
                 ea_application = None, ea_after = [], ea_transaction_evidence = None,
                 ea_publication_request = None, ea_publication = None,
                 ea_terminal_outcome = None, ea_reconciled_state = None\<rparr>))"

definition successor ::
  "ext \<Rightarrow> effect_attempt_record \<Rightarrow> effect_attempt_stage \<Rightarrow> u64 option \<Rightarrow> effect_lifecycle_fact list \<Rightarrow>
   effect_application_fact option \<Rightarrow> effect_lifecycle_fact list \<Rightarrow> string option \<Rightarrow> string option \<Rightarrow>
   effect_publication_fact option \<Rightarrow> effectful_operation_outcome option \<Rightarrow> string option \<Rightarrow>
   effect_attempt_record res" where
  "successor X r stage active_index before application after transaction_evidence publication_request
     publication terminal_outcome reconciled_state =
     (if ea_stage r = Terminal then effect_transition_error
      else if ea_sequence r = max_u64 then effect_transition_error
      else bindE (effect_restore X (seal_record X
          \<lparr>ea_identity = [], ea_attempt = ea_attempt r, ea_session = ea_session r,
           ea_nonce = ea_nonce r, ea_sequence = ea_sequence r + 1,
           ea_previous = Some (ea_identity r), ea_before_total = ea_before_total r,
           ea_after_total = ea_after_total r, ea_stage = stage, ea_active_index = active_index,
           ea_before = before, ea_application = application, ea_after = after,
           ea_transaction_evidence = transaction_evidence,
           ea_publication_request = publication_request, ea_publication = publication,
           ea_terminal_outcome = terminal_outcome, ea_reconciled_state = reconciled_state\<rparr>))
        (\<lambda>result. bindE (validate_effect_successor r result) (\<lambda>_. Inr result)))"

definition begin_before :: "ext \<Rightarrow> effect_attempt_record \<Rightarrow> u64 \<Rightarrow> effect_attempt_record res" where
  "begin_before X r index =
     (let allowed = ea_stage r = Admitted \<or>
            (ea_stage r = Before_terminal \<and> last_succeeded (ea_before r))
      in if \<not> allowed \<or> index \<noteq> word_of_nat (length (ea_before r)) \<or> index \<ge> ea_before_total r \<or>
            ea_application r \<noteq> None \<or> ea_after r \<noteq> []
         then effect_transition_error
         else successor X r Before_intent (Some index) (ea_before r) (ea_application r) (ea_after r)
                (ea_transaction_evidence r) (ea_publication_request r) (ea_publication r) None None)"

definition complete_before ::
  "ext \<Rightarrow> effect_attempt_record \<Rightarrow> lifecycle_execution_result \<Rightarrow> effect_attempt_record res" where
  "complete_before X r result =
     (if ea_stage r \<noteq> Before_intent \<or> ea_active_index r \<noteq> Some (word_of_nat (length (ea_before r)))
      then effect_transition_error
      else bindE (session_identity_from_hex (lifecycle_result_id result)) (\<lambda>i.
        successor X r Before_terminal None
          (ea_before r @ [\<lparr>fact_result = i, fact_succeeded = lifecycle_result_succeeded result\<rparr>])
          (ea_application r) (ea_after r) (ea_transaction_evidence r) (ea_publication_request r)
          (ea_publication r) None None))"

definition begin_application :: "ext \<Rightarrow> effect_attempt_record \<Rightarrow> effect_attempt_record res" where
  "begin_application X r =
     (let allowed = (ea_before_total r = 0 \<and> ea_stage r = Admitted) \<or>
            (ea_stage r = Before_terminal \<and> length (ea_before r) = unat (ea_before_total r) \<and>
             facts_succeeded (ea_before r))
      in if \<not> allowed \<or> ea_application r \<noteq> None \<or> ea_after r \<noteq> [] then effect_transition_error
         else successor X r Application_intent None (ea_before r) None (ea_after r) None None None
                None None)"

definition complete_application ::
  "ext \<Rightarrow> effect_attempt_record \<Rightarrow> application_receipt \<Rightarrow> effect_attempt_record res" where
  "complete_application X r receipt =
     (if ea_stage r \<noteq> Application_intent \<or> ea_application r \<noteq> None then effect_transition_error
      else successor X r Application_terminal None (ea_before r)
             (Some \<lparr>app_receipt = application_receipt_id receipt,
                    app_outcome = application_outcome receipt,
                    app_journal = application_journal receipt,
                    app_completed_evidence = application_completed_evidence receipt\<rparr>)
             (ea_after r) None None None None None)"

definition begin_after :: "ext \<Rightarrow> effect_attempt_record \<Rightarrow> u64 \<Rightarrow> effect_attempt_record res" where
  "begin_after X r index =
     (let allowed = (ea_stage r = Application_terminal \<and> ea_after r = []) \<or>
            (ea_stage r = After_terminal \<and> last_succeeded (ea_after r))
      in if \<not> application_complete r \<or> \<not> allowed \<or> index \<noteq> word_of_nat (length (ea_after r)) \<or>
            index \<ge> ea_after_total r
         then effect_transition_error
         else successor X r After_intent (Some index) (ea_before r) (ea_application r) (ea_after r)
                (ea_transaction_evidence r) (ea_publication_request r) (ea_publication r) None None)"

definition complete_after ::
  "ext \<Rightarrow> effect_attempt_record \<Rightarrow> lifecycle_execution_result \<Rightarrow> effect_attempt_record res" where
  "complete_after X r result =
     (if ea_stage r \<noteq> After_intent \<or> ea_active_index r \<noteq> Some (word_of_nat (length (ea_after r)))
      then effect_transition_error
      else bindE (session_identity_from_hex (lifecycle_result_id result)) (\<lambda>i.
        successor X r After_terminal None (ea_before r) (ea_application r)
          (ea_after r @ [\<lparr>fact_result = i, fact_succeeded = lifecycle_result_succeeded result\<rparr>])
          (ea_transaction_evidence r) (ea_publication_request r) (ea_publication r) None None))"

definition begin_publication ::
  "ext \<Rightarrow> effect_attempt_record \<Rightarrow> string \<Rightarrow> state_publication_request \<Rightarrow> effect_attempt_record res" where
  "begin_publication X r transaction request =
     (let allowed = (ea_after_total r = 0 \<and> ea_stage r = Application_terminal) \<or>
            (ea_stage r = After_terminal \<and> length (ea_after r) = unat (ea_after_total r) \<and>
             facts_succeeded (ea_after r))
      in if \<not> application_complete r \<or> \<not> allowed \<or> ea_transaction_evidence r \<noteq> None \<or>
            ea_publication_request r \<noteq> None \<or> ea_publication r \<noteq> None
         then effect_transition_error
         else successor X r Publication_intent None (ea_before r) (ea_application r) (ea_after r)
                (Some transaction) (Some (publication_request_id request)) None None None)"

definition complete_publication ::
  "ext \<Rightarrow> effect_attempt_record \<Rightarrow> state_publication_receipt \<Rightarrow> effect_attempt_record res" where
  "complete_publication X r receipt =
     (if ea_stage r \<noteq> Publication_intent \<or> ea_publication r \<noteq> None \<or>
         ea_publication_request r \<noteq> Some (receipt_request receipt)
      then effect_transition_error
      else successor X r Publication_terminal None (ea_before r) (ea_application r) (ea_after r)
             (ea_transaction_evidence r) (ea_publication_request r)
             (Some \<lparr>pub_receipt = receipt_id receipt, pub_outcome = receipt_outcome receipt,
                    pub_resulting_snapshot = receipt_resulting_snapshot receipt\<rparr>)
             None None)"

definition seal_completed_rejected :: "effect_attempt_record \<Rightarrow> string option \<Rightarrow> bool" where
  "seal_completed_rejected r reconciled \<longleftrightarrow>
     \<not> publication_outcome_in r [Published] \<and>
     \<not> (reconciled \<noteq> None \<and>
         (ea_stage r = Publication_intent \<or>
          (ea_stage r = Publication_terminal \<and>
           publication_outcome_in r [Published_durability_unconfirmed, Publication_indeterminate])))"

definition seal_terminal ::
  "ext \<Rightarrow> effect_attempt_record \<Rightarrow> effectful_operation_outcome \<Rightarrow> string option \<Rightarrow>
   effect_attempt_record res" where
  "seal_terminal X r outcome reconciled_state =
     bindE (reject (Effect_journal_error invalid_transition)
       [outcome = Outer_lease_lost \<and> unresolved_intent (ea_stage r),
        outcome = Application_resolution_required,
        outcome = Lifecycle_failed_before_application \<and> ea_stage r \<noteq> Before_terminal,
        outcome = Application_not_completed \<and> ea_stage r \<noteq> Application_terminal,
        outcome = Lifecycle_failed_after_application \<and> ea_stage r \<noteq> After_terminal,
        (outcome = State_publication_not_completed \<or> outcome = State_publication_indeterminate) \<and>
          ea_stage r \<noteq> Publication_terminal,
        outcome = Effect_completed \<and> ea_stage r \<noteq> Publication_terminal \<and>
          ea_stage r \<noteq> Publication_intent,
        outcome = Effect_completed \<and> seal_completed_rejected r reconciled_state,
        outcome = Lifecycle_failed_before_application \<and>
          (ea_before r = [] \<or> fact_succeeded (last (ea_before r))),
        outcome = Application_not_completed \<and> \<not> definitive_application_failure r,
        outcome = Lifecycle_failed_after_application \<and>
          (ea_after r = [] \<or> fact_succeeded (last (ea_after r)))])
     (\<lambda>_. successor X r Terminal None (ea_before r) (ea_application r) (ea_after r)
            (ea_transaction_evidence r) (ea_publication_request r) (ea_publication r)
            (Some outcome) reconciled_state)"

end
