(* ===== verification/Dispatch.thy ===== *)
theory Dispatch
  imports Progression Effect_Journal
begin

text \<open>
  \<^verbatim>\<open>src/dispatch.cpp\<close>: the run ledger. A run holds the progress, a policy and one record per
  dispatch; \<open>reserve_next\<close> reserves the first ready unit that fits, the start operations bind a
  session to a reservation, the completion operations feed evidence to the progression, and every
  operation ends by validating the whole ledger again (\<open>make_run\<close>, the code's
  \<^verbatim>\<open>detail_dispatch_access::run\<close>). \<open>construction_build_inputs\<close> is
  \<^verbatim>\<open>build().inputs().for_scope(build)\<close>.
\<close>

section \<open>Data\<close>

datatype transaction_failure_containment = Stop_after_terminal_failure

record transaction_dispatch_policy =
  policy_construction_capacity :: u64
  policy_check_capacity :: u64
  policy_failure_containment :: transaction_failure_containment
  policy_id :: session_identity

record transaction_dispatch_dependency =
  dependency_node :: node_identity
  dependency_evidence :: session_identity
  dependency_id :: session_identity

record transaction_dispatch =
  dispatch_unit :: ready_transaction_unit
  dispatch_nonce_of :: nonce
  dispatch_reserved_from :: session_identity
  dispatch_reserved_state :: snapshot_identity
  dispatch_dependencies :: "transaction_dispatch_dependency list"
  dispatch_id :: session_identity

datatype transaction_dispatch_state = Reserved | Started | Completed | Released_unstarted

record transaction_dispatch_record =
  record_dispatch :: transaction_dispatch
  record_state :: transaction_dispatch_state
  record_attempt_session :: "session_identity option"
  record_effect_attempt :: "session_identity option"
  record_observations :: "session_identity list"
  record_terminal :: "session_identity option"
  record_id :: session_identity

record transaction_run =
  run_progress :: transaction_progress
  run_policy :: transaction_dispatch_policy
  run_records :: "transaction_dispatch_record list"
  run_id :: session_identity

abbreviation run_error :: "'a res" where
  "run_error \<equiv> Inl (Error invalid_transaction_run)"

abbreviation dispatch_error :: "'a res" where
  "dispatch_error \<equiv> Inl (Error invalid_dispatch)"

section \<open>Classification\<close>

fun operation_outcome_is_terminal :: "effectful_operation_outcome \<Rightarrow> bool" where
  "operation_outcome_is_terminal Lifecycle_failed_before_application = True"
| "operation_outcome_is_terminal Application_not_completed = True"
| "operation_outcome_is_terminal Lifecycle_failed_after_application = True"
| "operation_outcome_is_terminal State_publication_not_completed = True"
| "operation_outcome_is_terminal Effect_completed = True"
| "operation_outcome_is_terminal Outer_lease_lost = False"
| "operation_outcome_is_terminal State_publication_indeterminate = False"
| "operation_outcome_is_terminal Application_resolution_required = False"

fun failure_containment_name :: "transaction_failure_containment \<Rightarrow> string" where
  "failure_containment_name Stop_after_terminal_failure = ''stop-after-terminal-failure''"

fun dispatch_state_name :: "transaction_dispatch_state \<Rightarrow> string" where
  "dispatch_state_name Reserved = ''reserved''"
| "dispatch_state_name Started = ''started''"
| "dispatch_state_name Completed = ''completed''"
| "dispatch_state_name Released_unstarted = ''released-unstarted''"

definition active_state :: "transaction_dispatch_state \<Rightarrow> bool" where
  "active_state s \<longleftrightarrow> s = Reserved \<or> s = Started"

abbreviation record_active :: "transaction_dispatch_record \<Rightarrow> bool" where
  "record_active r \<equiv> active_state (record_state r)"

abbreviation record_kind :: "transaction_dispatch_record \<Rightarrow> transaction_unit_kind" where
  "record_kind r \<equiv> unit_kind (dispatch_unit (record_dispatch r))"

fun policy_capacity :: "transaction_dispatch_policy \<Rightarrow> transaction_unit_kind \<Rightarrow> nat" where
  "policy_capacity p Construction_unit = unat (policy_construction_capacity p)"
| "policy_capacity p Check_unit = unat (policy_check_capacity p)"
| "policy_capacity p Operation_unit = 1"

section \<open>Predecessors of a unit\<close>

definition find_ready_unit ::
  "transaction_progress \<Rightarrow> ready_transaction_unit \<Rightarrow> ready_transaction_unit option" where
  "find_ready_unit p u =
     (case find (\<lambda>c. unit_id c = unit_id u) (progress_ready_units p) of
        None \<Rightarrow> None
      | Some found \<Rightarrow>
          if unit_kind found \<noteq> unit_kind u \<or> unit_primary found \<noteq> unit_primary u \<or>
             unit_members found \<noteq> unit_members u
          then None else Some found)"

definition terminal_evidence_for_node ::
  "transaction_progress \<Rightarrow> node_identity \<Rightarrow> session_identity option" where
  "terminal_evidence_for_node p n =
     (case progress_construction p n of
        Some c \<Rightarrow> Some (construction_id c)
      | None \<Rightarrow>
          (case progress_check p n of
             Some c \<Rightarrow> Some (check_id c)
           | None \<Rightarrow>
               (case progress_effect p n of
                  Some e \<Rightarrow> Some (effect_id e)
                | None \<Rightarrow>
                    map_option effect_id
                      (find (\<lambda>e. n \<in> set (order_before (effect_lifecycle (effect_request e))) \<or>
                                 n \<in> set (order_after (effect_lifecycle (effect_request e))))
                         (progress_effects p)))))"

definition external_predecessors ::
  "transaction_progress \<Rightarrow> ready_transaction_unit \<Rightarrow> node_identity list" where
  "external_predecessors p u =
     sort_unique (map edge_before
       (filter (\<lambda>e. edge_after e \<in> set (unit_members u) \<and> edge_before e \<notin> set (unit_members u))
         (program_edges (transaction_program_of (progress_transaction p)))))"

definition make_dependency :: "ext \<Rightarrow> node_identity \<Rightarrow> session_identity \<Rightarrow> transaction_dispatch_dependency" where
  "make_dependency X node evidence =
     \<lparr>dependency_node = node, dependency_evidence = evidence,
      dependency_id = make_identity X ''pkgctl/transaction-dispatch-dependency/1'' [node, evidence]\<rparr>"

definition capture_dependency ::
  "ext \<Rightarrow> transaction_progress \<Rightarrow> node_identity \<Rightarrow> transaction_dispatch_dependency list res" where
  "capture_dependency X p predecessor =
     bindE (progress_status p predecessor) (\<lambda>s.
       if s \<noteq> Satisfied then run_error
       else case program_find (transaction_program_of (progress_transaction p)) predecessor of
         None \<Rightarrow> run_error
       | Some node \<Rightarrow>
           if node_action node = Act_retain then Inr []
           else case terminal_evidence_for_node p predecessor of
             None \<Rightarrow> run_error
           | Some evidence \<Rightarrow> Inr [make_dependency X predecessor evidence])"

definition capture_dependencies ::
  "ext \<Rightarrow> transaction_progress \<Rightarrow> ready_transaction_unit \<Rightarrow> transaction_dispatch_dependency list res" where
  "capture_dependencies X p u =
     bindE (mapE (capture_dependency X p) (external_predecessors p u)) (\<lambda>ds.
       Inr (sort_key dependency_node (concat ds)))"

section \<open>Validation of the ledger\<close>

definition validate_record_shape :: "transaction_dispatch_record \<Rightarrow> unit res" where
  "validate_record_shape r =
     (let kind = record_kind r in
      case record_state r of
        Reserved \<Rightarrow>
          reject (Error invalid_transaction_run)
            [record_attempt_session r \<noteq> None \<or> record_effect_attempt r \<noteq> None \<or>
             record_observations r \<noteq> [] \<or> record_terminal r \<noteq> None]
      | Started \<Rightarrow>
          reject (Error invalid_transaction_run)
            [record_attempt_session r = None \<or> record_terminal r \<noteq> None,
             (kind = Operation_unit) \<noteq> (record_effect_attempt r \<noteq> None),
             record_observations r \<noteq> [] \<and> kind \<noteq> Operation_unit]
      | Completed \<Rightarrow>
          reject (Error invalid_transaction_run)
            [record_attempt_session r = None \<or> record_terminal r = None,
             (kind = Operation_unit) \<noteq> (record_effect_attempt r \<noteq> None),
             record_observations r \<noteq> [] \<and> kind \<noteq> Operation_unit]
      | Released_unstarted \<Rightarrow>
          reject (Error invalid_transaction_run)
            [record_attempt_session r \<noteq> None \<or> record_effect_attempt r \<noteq> None \<or>
             record_observations r \<noteq> [] \<or> record_terminal r \<noteq> None])"

definition records_overlap :: "transaction_dispatch_record \<Rightarrow> transaction_dispatch_record \<Rightarrow> bool" where
  "records_overlap l r \<longleftrightarrow>
     list_ex (\<lambda>m. m \<in> set (unit_members (dispatch_unit (record_dispatch r))))
       (unit_members (dispatch_unit (record_dispatch l)))"

text \<open>The checks of one active record.\<close>

definition validate_active ::
  "ext \<Rightarrow> transaction_progress \<Rightarrow> transaction_dispatch \<Rightarrow> unit res" where
  "validate_active X p d =
     bindE (contains_unit X p (dispatch_unit d)) (\<lambda>known.
       if \<not> known then run_error
       else bindE (capture_dependencies X p (dispatch_unit d)) (\<lambda>current.
         reject (Error invalid_transaction_run)
           [current \<noteq> dispatch_dependencies d,
            unit_kind (dispatch_unit d) = Operation_unit \<and>
              dispatch_reserved_state d \<noteq> snapshot_id (progress_state p)]))"

text \<open>The first loop, with the two sets of names it has seen.\<close>

fun validate_each ::
  "ext \<Rightarrow> transaction_progress \<Rightarrow> string list \<Rightarrow> session_identity list \<Rightarrow>
   transaction_dispatch_record list \<Rightarrow> unit res" where
  "validate_each X p nonces dispatches [] = Inr ()"
| "validate_each X p nonces dispatches (r # rs) =
     bindE (validate_record_shape r) (\<lambda>_.
     let d = record_dispatch r; n = dispatch_nonce_hex (dispatch_nonce_of d) in
     bindE (reject (Error invalid_transaction_run)
       [n \<in> set nonces, dispatch_id d \<in> set dispatches, \<not> distinct (record_observations r)]) (\<lambda>_.
     bindE (if record_active r then validate_active X p d else Inr ()) (\<lambda>_.
       validate_each X p (n # nonces) (dispatch_id d # dispatches) rs)))"

fun pairwise_overlap :: "transaction_dispatch_record list \<Rightarrow> bool" where
  "pairwise_overlap [] = False"
| "pairwise_overlap (r # rs) = (list_ex (records_overlap r) rs \<or> pairwise_overlap rs)"

definition kind_count :: "transaction_dispatch_record list \<Rightarrow> transaction_unit_kind \<Rightarrow> nat" where
  "kind_count rs kind = length (filter (\<lambda>r. record_kind r = kind) rs)"

definition validate_run_records ::
  "ext \<Rightarrow> transaction_progress \<Rightarrow> transaction_dispatch_policy \<Rightarrow> transaction_dispatch_record list \<Rightarrow>
   unit res" where
  "validate_run_records X p policy records =
     bindE (validate_each X p [] [] records) (\<lambda>_.
     let active = filter record_active records in
     reject (Error invalid_transaction_run)
       [pairwise_overlap active,
        list_ex (\<lambda>kind. kind_count active kind > policy_capacity policy kind)
          [Construction_unit, Check_unit, Operation_unit],
        list_ex (\<lambda>r. find_ready_unit p (dispatch_unit (record_dispatch r)) = None) active])"

text \<open>The attempt a completed record names must be the one its evidence came from.\<close>

definition validate_completed ::
  "transaction_progress \<Rightarrow> transaction_dispatch_record \<Rightarrow> unit res" where
  "validate_completed p r =
     (let d = record_dispatch r; primary = unit_primary (dispatch_unit d) in
      bindE (reject (Error invalid_transaction_run)
        [terminal_evidence_for_node p primary = None \<or> record_terminal r = None \<or>
         terminal_evidence_for_node p primary \<noteq> record_terminal r]) (\<lambda>_.
      case unit_kind (dispatch_unit d) of
        Construction_unit \<Rightarrow>
          (case progress_construction p primary of
             None \<Rightarrow> run_error
           | Some result \<Rightarrow>
               require (record_attempt_session r = Some (construction_session_id (construction_session_of result)))
                 (Error invalid_transaction_run))
      | Check_unit \<Rightarrow>
          (case progress_check p primary of
             None \<Rightarrow> run_error
           | Some result \<Rightarrow>
               require (record_attempt_session r = Some (check_session_id (check_session_of result)))
                 (Error invalid_transaction_run))
      | Operation_unit \<Rightarrow>
          (case progress_effect p primary of
             None \<Rightarrow> run_error
           | Some result \<Rightarrow>
               bindE (require (record_attempt_session r = Some (effect_session_id (effect_session_of result)))
                 (Error invalid_transaction_run)) (\<lambda>_.
               require (dispatch_reserved_state d = snapshot_id (effect_expected_state (effect_request result)))
                 (Error invalid_transaction_run)))))"

definition validate_rehydrated_record ::
  "ext \<Rightarrow> transaction_progress \<Rightarrow> transaction_dispatch_record \<Rightarrow> unit res" where
  "validate_rehydrated_record X p r =
     (let d = record_dispatch r in
      bindE (contains_unit X p (dispatch_unit d)) (\<lambda>known.
        if \<not> known then run_error
        else bindE (capture_dependencies X p (dispatch_unit d)) (\<lambda>current.
          if current \<noteq> dispatch_dependencies d then run_error
          else if record_state r \<noteq> Completed then Inr ()
          else validate_completed p r)))"

definition validate_rehydrated_run_history ::
  "ext \<Rightarrow> transaction_progress \<Rightarrow> transaction_dispatch_record list \<Rightarrow> unit res" where
  "validate_rehydrated_run_history X p records = forE (validate_rehydrated_record X p) records"

section \<open>Sealed values\<close>

definition make_dispatch ::
  "ext \<Rightarrow> ready_transaction_unit \<Rightarrow> nonce \<Rightarrow> session_identity \<Rightarrow> snapshot_identity \<Rightarrow>
   transaction_dispatch_dependency list \<Rightarrow> transaction_dispatch" where
  "make_dispatch X u nonce progress st dependencies =
     \<lparr>dispatch_unit = u, dispatch_nonce_of = nonce, dispatch_reserved_from = progress,
      dispatch_reserved_state = st, dispatch_dependencies = dependencies,
      dispatch_id = make_identity X ''pkgctl/transaction-dispatch/1''
        ([unit_id u, dispatch_nonce_hex nonce, progress, st, to_string (length dependencies)]
         @ map dependency_id dependencies)\<rparr>"

definition record_identity_fields ::
  "transaction_dispatch \<Rightarrow> transaction_dispatch_state \<Rightarrow> session_identity option \<Rightarrow>
   session_identity option \<Rightarrow> session_identity list \<Rightarrow> session_identity option \<Rightarrow> string list" where
  "record_identity_fields d st attempt effect_attempt observations terminal =
     [dispatch_id d, dispatch_state_name st, text_of attempt, text_of effect_attempt,
      to_string (length observations)] @ observations @ [text_of terminal]"

definition make_record ::
  "ext \<Rightarrow> transaction_dispatch \<Rightarrow> transaction_dispatch_state \<Rightarrow> session_identity option \<Rightarrow>
   session_identity option \<Rightarrow> session_identity list \<Rightarrow> session_identity option \<Rightarrow>
   transaction_dispatch_record" where
  "make_record X d st attempt effect_attempt observations terminal =
     \<lparr>record_dispatch = d, record_state = st, record_attempt_session = attempt,
      record_effect_attempt = effect_attempt, record_observations = observations,
      record_terminal = terminal,
      record_id = make_identity X ''pkgctl/transaction-dispatch-record/1''
        (record_identity_fields d st attempt effect_attempt observations terminal)\<rparr>"

definition run_identity ::
  "ext \<Rightarrow> transaction_progress \<Rightarrow> transaction_dispatch_policy \<Rightarrow> transaction_dispatch_record list \<Rightarrow>
   session_identity" where
  "run_identity X p policy records =
     make_identity X ''pkgctl/transaction-run/1''
       ([progress_id p, policy_id policy, to_string (length records)] @ map record_id records)"

definition make_run ::
  "ext \<Rightarrow> transaction_progress \<Rightarrow> transaction_dispatch_policy \<Rightarrow> transaction_dispatch_record list \<Rightarrow>
   transaction_run res" where
  "make_run X p policy records =
     bindE (validate_run_records X p policy records) (\<lambda>_.
       Inr \<lparr>run_progress = p, run_policy = policy, run_records = records,
            run_id = run_identity X p policy records\<rparr>)"

definition make_policy ::
  "ext \<Rightarrow> u64 \<Rightarrow> u64 \<Rightarrow> transaction_failure_containment \<Rightarrow> transaction_dispatch_policy res" where
  "make_policy X construction check containment =
     (if construction = 0 \<or> check = 0 then Inl (Error invalid_dispatch_policy)
      else if containment \<noteq> Stop_after_terminal_failure then Inl (Error invalid_dispatch_policy)
      else Inr \<lparr>policy_construction_capacity = construction, policy_check_capacity = check,
                policy_failure_containment = containment,
                policy_id = make_identity X ''pkgctl/transaction-dispatch-policy/1''
                  [to_string (unat construction), to_string (unat check),
                   failure_containment_name containment]\<rparr>)"

definition restore_policy ::
  "ext \<Rightarrow> u64 \<Rightarrow> u64 \<Rightarrow> transaction_failure_containment \<Rightarrow> session_identity \<Rightarrow>
   transaction_dispatch_policy res" where
  "restore_policy X construction check containment expected =
     bindE (make_policy X construction check containment) (\<lambda>policy.
       if policy_id policy \<noteq> expected then run_error else Inr policy)"

definition restore_dependency ::
  "ext \<Rightarrow> node_identity \<Rightarrow> session_identity \<Rightarrow> session_identity \<Rightarrow> transaction_dispatch_dependency res" where
  "restore_dependency X node evidence expected =
     (let dependency = make_dependency X node evidence in
      if dependency_id dependency \<noteq> expected then run_error else Inr dependency)"

definition restore_dispatch ::
  "ext \<Rightarrow> ready_transaction_unit \<Rightarrow> nonce \<Rightarrow> session_identity \<Rightarrow> snapshot_identity \<Rightarrow>
   transaction_dispatch_dependency list \<Rightarrow> session_identity \<Rightarrow> transaction_dispatch res" where
  "restore_dispatch X u nonce progress st dependencies expected =
     (let d = make_dispatch X u nonce progress st dependencies in
      if dispatch_id d \<noteq> expected then run_error else Inr d)"

definition restore_record ::
  "ext \<Rightarrow> transaction_dispatch \<Rightarrow> transaction_dispatch_state \<Rightarrow> session_identity option \<Rightarrow>
   session_identity option \<Rightarrow> session_identity list \<Rightarrow> session_identity option \<Rightarrow> session_identity \<Rightarrow>
   transaction_dispatch_record res" where
  "restore_record X d st attempt effect_attempt observations terminal expected =
     (let r = make_record X d st attempt effect_attempt observations terminal in
      bindE (validate_record_shape r) (\<lambda>_.
        if record_id r \<noteq> expected then run_error else Inr r))"

definition restore_run ::
  "ext \<Rightarrow> transaction_progress \<Rightarrow> transaction_dispatch_policy \<Rightarrow> transaction_dispatch_record list \<Rightarrow>
   session_identity \<Rightarrow> transaction_run res" where
  "restore_run X p policy records expected =
     bindE (validate_rehydrated_run_history X p records) (\<lambda>_.
     bindE (make_run X p policy records) (\<lambda>run.
       if run_id run \<noteq> expected then run_error else Inr run))"

definition run_begin :: "ext \<Rightarrow> transaction_progress \<Rightarrow> transaction_dispatch_policy \<Rightarrow> transaction_run res" where
  "run_begin X p policy = make_run X p policy []"

definition run_record :: "transaction_run \<Rightarrow> session_identity \<Rightarrow> transaction_dispatch_record option" where
  "run_record run d = find (\<lambda>r. dispatch_id (record_dispatch r) = d) (run_records run)"

definition active_count :: "transaction_run \<Rightarrow> transaction_unit_kind \<Rightarrow> nat" where
  "active_count run kind = length (filter (\<lambda>r. record_active r \<and> record_kind r = kind) (run_records run))"

definition run_stopped :: "transaction_run \<Rightarrow> bool" where
  "run_stopped run \<longleftrightarrow>
     policy_failure_containment (run_policy run) = Stop_after_terminal_failure \<and>
     progress_failed (run_progress run)"

section \<open>Reservation\<close>

definition nonce_used :: "transaction_run \<Rightarrow> nonce \<Rightarrow> bool" where
  "nonce_used run nonce = list_ex (\<lambda>r. dispatch_nonce_of (record_dispatch r) = nonce) (run_records run)"

definition overlaps_active :: "transaction_run \<Rightarrow> ready_transaction_unit \<Rightarrow> bool" where
  "overlaps_active run u =
     list_ex (\<lambda>r. record_active r \<and>
         list_ex (\<lambda>m. m \<in> set (unit_members (dispatch_unit (record_dispatch r)))) (unit_members u))
       (run_records run)"

definition capacity_available :: "transaction_run \<Rightarrow> transaction_unit_kind \<Rightarrow> bool" where
  "capacity_available run kind \<longleftrightarrow> active_count run kind < policy_capacity (run_policy run) kind"

definition reserve_next ::
  "ext \<Rightarrow> transaction_run \<Rightarrow> nonce \<Rightarrow> (transaction_run \<times> transaction_dispatch option) res" where
  "reserve_next X run nonce =
     (if nonce_used run nonce then dispatch_error
      else if run_stopped run then Inr (run, None)
      else case find (\<lambda>u. capacity_available run (unit_kind u) \<and> \<not> overlaps_active run u)
                  (progress_ready_units (run_progress run)) of
        None \<Rightarrow> Inr (run, None)
      | Some selected \<Rightarrow>
          bindE (capture_dependencies X (run_progress run) selected) (\<lambda>dependencies.
          let d = make_dispatch X selected nonce (progress_id (run_progress run))
                    (snapshot_id (progress_state (run_progress run))) dependencies in
          bindE (make_run X (run_progress run) (run_policy run)
                   (run_records run @ [make_record X d Reserved None None [] None])) (\<lambda>next.
            Inr (next, Some d))))"

section \<open>Checks shared by the operations on one dispatch\<close>

definition validate_dispatch_may_start :: "transaction_run \<Rightarrow> unit res" where
  "validate_dispatch_may_start run = require (\<not> run_stopped run) (Error invalid_dispatch)"

definition validate_dispatch_is_current ::
  "ext \<Rightarrow> transaction_run \<Rightarrow> transaction_dispatch \<Rightarrow> unit res" where
  "validate_dispatch_is_current X run d =
     (if find_ready_unit (run_progress run) (dispatch_unit d) = None then dispatch_error
      else bindE (capture_dependencies X (run_progress run) (dispatch_unit d)) (\<lambda>current.
        reject (Error invalid_dispatch)
          [current \<noteq> dispatch_dependencies d,
           unit_kind (dispatch_unit d) = Operation_unit \<and>
             dispatch_reserved_state d \<noteq> snapshot_id (progress_state (run_progress run))]))"

fun index_of_dispatch :: "transaction_dispatch_record list \<Rightarrow> session_identity \<Rightarrow> nat res" where
  "index_of_dispatch [] i = dispatch_error"
| "index_of_dispatch (r # rs) i =
     (if dispatch_id (record_dispatch r) = i then Inr 0
      else bindE (index_of_dispatch rs i) (\<lambda>n. Inr (Suc n)))"

definition record_index :: "transaction_run \<Rightarrow> transaction_dispatch \<Rightarrow> nat res" where
  "record_index run d = index_of_dispatch (run_records run) (dispatch_id d)"

definition validate_record_dispatch :: "transaction_dispatch_record \<Rightarrow> transaction_dispatch \<Rightarrow> unit res" where
  "validate_record_dispatch r d =
     require (\<not> (dispatch_id (record_dispatch r) \<noteq> dispatch_id d \<or>
        dispatch_nonce_of (record_dispatch r) \<noteq> dispatch_nonce_of d \<or>
        unit_id (dispatch_unit (record_dispatch r)) \<noteq> unit_id (dispatch_unit d)))
       (Error invalid_dispatch)"

definition require_record_state ::
  "transaction_run \<Rightarrow> transaction_dispatch \<Rightarrow> transaction_dispatch_state \<Rightarrow>
   transaction_dispatch_record res" where
  "require_record_state run d expected =
     bindE (record_index run d) (\<lambda>index.
     let r = run_records run ! index in
     bindE (validate_record_dispatch r d) (\<lambda>_.
       if record_state r \<noteq> expected then dispatch_error else Inr r))"

definition replace_record ::
  "ext \<Rightarrow> transaction_run \<Rightarrow> nat \<Rightarrow> transaction_dispatch_record \<Rightarrow> transaction_progress option \<Rightarrow>
   transaction_run res" where
  "replace_record X run index replacement progress =
     make_run X (case progress of None \<Rightarrow> run_progress run | Some p \<Rightarrow> p) (run_policy run)
       ((run_records run)[index := replacement])"

definition dispatch_dependency ::
  "transaction_dispatch \<Rightarrow> node_identity \<Rightarrow> transaction_dispatch_dependency option" where
  "dispatch_dependency d node = find (\<lambda>v. dependency_node v = node) (dispatch_dependencies d)"

section \<open>Successive records of a dispatch\<close>

definition started_record ::
  "ext \<Rightarrow> transaction_dispatch_record \<Rightarrow> session_identity \<Rightarrow> session_identity option \<Rightarrow>
   transaction_dispatch_record" where
  "started_record X current session effect_attempt =
     make_record X (record_dispatch current) Started (Some session) effect_attempt [] None"

definition completed_record ::
  "ext \<Rightarrow> transaction_dispatch_record \<Rightarrow> session_identity \<Rightarrow> transaction_dispatch_record" where
  "completed_record X current evidence =
     make_record X (record_dispatch current) Completed (record_attempt_session current)
       (record_effect_attempt current) (record_observations current) (Some evidence)"

definition observed_record ::
  "ext \<Rightarrow> transaction_dispatch_record \<Rightarrow> session_identity \<Rightarrow> transaction_dispatch_record res" where
  "observed_record X current observation =
     (if observation \<in> set (record_observations current) then dispatch_error
      else Inr (make_record X (record_dispatch current) Started (record_attempt_session current)
             (record_effect_attempt current) (record_observations current @ [observation]) None))"

definition released_record :: "ext \<Rightarrow> transaction_dispatch_record \<Rightarrow> transaction_dispatch_record" where
  "released_record X current =
     make_record X (record_dispatch current) Released_unstarted None None [] None"

section \<open>Binding a session to a dispatch\<close>

fun package_input_scope :: "input_scope \<Rightarrow> requirement_scope" where
  "package_input_scope Input_build = Scope_build"
| "package_input_scope Input_check = Scope_check"

definition input_edge_matches :: "transaction_dispatch \<Rightarrow> build_input \<Rightarrow> transaction_edge \<Rightarrow> bool" where
  "input_edge_matches d input e \<longleftrightarrow>
     edge_kind e = Edge_requirement \<and> edge_after e = unit_primary (dispatch_unit d) \<and>
     edge_scope e = Some (package_input_scope (input_scope_of input)) \<and>
     edge_witness e = Some (input_requirement input)"

definition require_input_edge ::
  "transaction_progress \<Rightarrow> transaction_dispatch \<Rightarrow> build_input \<Rightarrow> transaction_edge res" where
  "require_input_edge p d input =
     (case filter (input_edge_matches d input)
             (program_edges (transaction_program_of (progress_transaction p))) of
        [] \<Rightarrow> dispatch_error
      | [e] \<Rightarrow> Inr e
      | _ # _ # _ \<Rightarrow> dispatch_error)"

definition validate_selected_input_authority :: "transaction_node \<Rightarrow> build_input \<Rightarrow> package_selection res" where
  "validate_selected_input_authority predecessor input =
     (case node_selection predecessor of
        None \<Rightarrow> dispatch_error
      | Some selection \<Rightarrow>
          if selection_identity selection \<noteq> selection_identity (input_selection input) \<or>
             selection_package selection \<noteq> input_package input
          then dispatch_error else Inr selection)"

definition validate_built_input ::
  "transaction_progress \<Rightarrow> transaction_dispatch \<Rightarrow> transaction_node \<Rightarrow> build_input \<Rightarrow> unit res" where
  "validate_built_input p d predecessor input =
     bindE (validate_selected_input_authority predecessor input) (\<lambda>_.
       case progress_construction p (node_id predecessor) of
         None \<Rightarrow> dispatch_error
       | Some c \<Rightarrow>
           if \<not> construction_succeeded c then dispatch_error
           else if construction_build_subject c \<noteq> selection_identity (input_selection input)
           then dispatch_error
           else case dispatch_dependency d (node_id predecessor) of
             None \<Rightarrow> dispatch_error
           | Some dependency \<Rightarrow>
               require (dependency_evidence dependency = construction_id c) (Error invalid_dispatch))"

definition validate_retained_input ::
  "transaction_progress \<Rightarrow> transaction_node \<Rightarrow> build_input \<Rightarrow> unit res" where
  "validate_retained_input p predecessor input =
     bindE (validate_selected_input_authority predecessor input) (\<lambda>selection.
       case selection_installed selection of
         None \<Rightarrow> dispatch_error
       | Some installed \<Rightarrow>
           (case snapshot_find_package (progress_state p) (installed_release_name installed) of
              None \<Rightarrow> dispatch_error
            | Some current \<Rightarrow>
                if installed_identity current \<noteq> installed_identity installed then dispatch_error
                else case selection_installed (input_selection input) of
                  None \<Rightarrow> dispatch_error
                | Some selected \<Rightarrow>
                    require (installed_identity selected = installed_identity installed)
                      (Error invalid_dispatch)))"

text \<open>The loop over the inputs; it returns the set of edges they matched.\<close>

fun match_inputs ::
  "transaction_progress \<Rightarrow> transaction_dispatch \<Rightarrow> string list \<Rightarrow> build_input list \<Rightarrow> string list res" where
  "match_inputs p d matched [] = Inr matched"
| "match_inputs p d matched (input # inputs) =
     bindE (require_input_edge p d input) (\<lambda>e.
       if edge_id e \<in> set matched then dispatch_error
       else case program_find (transaction_program_of (progress_transaction p)) (edge_before e) of
         None \<Rightarrow> dispatch_error
       | Some predecessor \<Rightarrow>
           bindE (if node_action predecessor = Act_build then validate_built_input p d predecessor input
                  else if node_action predecessor = Act_retain
                  then validate_retained_input p predecessor input
                  else dispatch_error)
             (\<lambda>_. match_inputs p d (edge_id e # matched) inputs))"

definition validate_construction_inputs ::
  "transaction_run \<Rightarrow> transaction_dispatch \<Rightarrow> construction_session \<Rightarrow> unit res" where
  "validate_construction_inputs run d session =
     bindE (match_inputs (run_progress run) d [] (construction_build_inputs (construction_request_of session)))
       (\<lambda>matched.
         forE (\<lambda>e.
             if edge_kind e \<noteq> Edge_requirement \<or> edge_after e \<noteq> unit_primary (dispatch_unit d) \<or>
                edge_scope e = None then Inr ()
             else if edge_scope e \<noteq> Some Scope_build then Inr ()
             else require (edge_id e \<in> set matched) (Error invalid_dispatch))
           (program_edges (transaction_program_of (progress_transaction (run_progress run)))))"

definition validate_exact_check_construction ::
  "transaction_run \<Rightarrow> transaction_dispatch \<Rightarrow> transaction_check_session \<Rightarrow> unit res" where
  "validate_exact_check_construction run d session =
     (let supplied = check_construction (check_request_of session);
          build_node = construction_node supplied in
      case progress_construction (run_progress run) build_node of
        None \<Rightarrow> dispatch_error
      | Some retained \<Rightarrow>
          if construction_id retained \<noteq> construction_id supplied then dispatch_error
          else case dispatch_dependency d build_node of
            None \<Rightarrow> dispatch_error
          | Some dependency \<Rightarrow>
              require (dependency_evidence dependency = construction_id retained) (Error invalid_dispatch))"

definition validate_construction_binding ::
  "transaction_run \<Rightarrow> transaction_dispatch \<Rightarrow> construction_session \<Rightarrow> unit res" where
  "validate_construction_binding run d session =
     (if unit_kind (dispatch_unit d) \<noteq> Construction_unit then dispatch_error
      else if transaction_id (construction_transaction (construction_request_of session))
                \<noteq> transaction_id (progress_transaction (run_progress run)) \<or>
              construction_build_node (construction_request_of session) \<noteq> unit_primary (dispatch_unit d)
      then dispatch_error
      else validate_construction_inputs run d session)"

definition validate_check_binding ::
  "transaction_run \<Rightarrow> transaction_dispatch \<Rightarrow> transaction_check_session \<Rightarrow> unit res" where
  "validate_check_binding run d session =
     (if unit_kind (dispatch_unit d) \<noteq> Check_unit then dispatch_error
      else if transaction_id (check_transaction (check_request_of session))
                \<noteq> transaction_id (progress_transaction (run_progress run)) \<or>
              check_node_of (check_request_of session) \<noteq> unit_primary (dispatch_unit d)
      then dispatch_error
      else validate_exact_check_construction run d session)"

definition validate_operation_binding ::
  "transaction_run \<Rightarrow> transaction_dispatch \<Rightarrow> effectful_operation_session \<Rightarrow> unit res" where
  "validate_operation_binding run d session =
     (if unit_kind (dispatch_unit d) \<noteq> Operation_unit then dispatch_error
      else
        let request = effect_request_of session in
        require (\<not> (transaction_id (effect_transaction request)
                      \<noteq> transaction_id (progress_transaction (run_progress run)) \<or>
                    effect_action_node request \<noteq> unit_primary (dispatch_unit d) \<or>
                    snapshot_id (effect_expected_state request) \<noteq> dispatch_reserved_state d))
          (Error invalid_dispatch))"

section \<open>Operations on one dispatch\<close>

text \<open>The guards every start operation shares, and the index of the record it replaces.\<close>

definition open_reserved ::
  "ext \<Rightarrow> transaction_run \<Rightarrow> transaction_dispatch \<Rightarrow> (nat \<times> transaction_dispatch_record) res" where
  "open_reserved X run d =
     bindE (validate_dispatch_may_start run) (\<lambda>_.
     bindE (record_index run d) (\<lambda>index.
     bindE (require_record_state run d Reserved) (\<lambda>r.
     bindE (validate_dispatch_is_current X run d) (\<lambda>_. Inr (index, r)))))"

definition start_construction_dispatch ::
  "ext \<Rightarrow> transaction_run \<Rightarrow> transaction_dispatch \<Rightarrow> construction_session \<Rightarrow> transaction_run res" where
  "start_construction_dispatch X run d session =
     bindE (open_reserved X run d) (\<lambda>(index, r).
     bindE (validate_construction_binding run d session) (\<lambda>_.
       replace_record X run index (started_record X r (construction_session_id session) None) None))"

definition start_check_dispatch ::
  "ext \<Rightarrow> transaction_run \<Rightarrow> transaction_dispatch \<Rightarrow> transaction_check_session \<Rightarrow> transaction_run res" where
  "start_check_dispatch X run d session =
     bindE (open_reserved X run d) (\<lambda>(index, r).
     bindE (validate_check_binding run d session) (\<lambda>_.
       replace_record X run index (started_record X r (check_session_id session) None) None))"

definition start_operation_dispatch ::
  "ext \<Rightarrow> transaction_run \<Rightarrow> transaction_dispatch \<Rightarrow> effectful_operation_session \<Rightarrow> nonce \<Rightarrow>
   (transaction_run \<times> effect_attempt_record) res" where
  "start_operation_dispatch X run d session nonce =
     bindE (open_reserved X run d) (\<lambda>(index, r).
     bindE (validate_operation_binding run d session) (\<lambda>_.
     bindE (admit X (effect_session_id session) (word_of_nat (effect_session_before_count session))
              (word_of_nat (effect_session_after_count session)) nonce) (\<lambda>attempt.
     bindE (replace_record X run index
              (started_record X r (effect_session_id session) (Some (ea_attempt attempt))) None)
       (\<lambda>started. Inr (started, attempt)))))"

definition release_unstarted_dispatch ::
  "ext \<Rightarrow> transaction_run \<Rightarrow> transaction_dispatch \<Rightarrow> transaction_run res" where
  "release_unstarted_dispatch X run d =
     bindE (record_index run d) (\<lambda>index.
     bindE (require_record_state run d Reserved) (\<lambda>r.
       replace_record X run index (released_record X r) None))"

text \<open>The \<^verbatim>\<open>try\<close> block around the progression: its error becomes a dispatch error.\<close>

definition as_dispatch_error :: "'a res \<Rightarrow> 'a res" where
  "as_dispatch_error r =
     (case r of
        Inl e \<Rightarrow> if e = Error invalid_progression then dispatch_error else Inl e
      | Inr x \<Rightarrow> Inr x)"

definition open_started ::
  "ext \<Rightarrow> transaction_run \<Rightarrow> transaction_dispatch \<Rightarrow> (nat \<times> transaction_dispatch_record) res" where
  "open_started X run d =
     bindE (record_index run d) (\<lambda>index.
     bindE (require_record_state run d Started) (\<lambda>r.
     bindE (validate_dispatch_is_current X run d) (\<lambda>_. Inr (index, r))))"

definition complete_construction_dispatch ::
  "ext \<Rightarrow> transaction_run \<Rightarrow> transaction_dispatch \<Rightarrow> construction_result \<Rightarrow> transaction_run res" where
  "complete_construction_dispatch X run d construction =
     bindE (open_started X run d) (\<lambda>(index, r).
     bindE (validate_construction_binding run d (construction_session_of construction)) (\<lambda>_.
       if record_attempt_session r \<noteq> Some (construction_session_id (construction_session_of construction))
       then dispatch_error
       else bindE (as_dispatch_error (advance_construction X (run_progress run) construction)) (\<lambda>p.
         replace_record X run index (completed_record X r (construction_id construction)) (Some p))))"

definition complete_check_dispatch ::
  "ext \<Rightarrow> transaction_run \<Rightarrow> transaction_dispatch \<Rightarrow> transaction_check_result \<Rightarrow> transaction_run res" where
  "complete_check_dispatch X run d check =
     bindE (open_started X run d) (\<lambda>(index, r).
     bindE (validate_check_binding run d (check_session_of check)) (\<lambda>_.
       if record_attempt_session r \<noteq> Some (check_session_id (check_session_of check)) then dispatch_error
       else bindE (as_dispatch_error (advance_check X (run_progress run) check)) (\<lambda>p.
         replace_record X run index (completed_record X r (check_id check)) (Some p))))"

definition submit_operation_dispatch_result ::
  "ext \<Rightarrow> transaction_run \<Rightarrow> transaction_dispatch \<Rightarrow> effectful_operation_result \<Rightarrow> snapshot option \<Rightarrow>
   transaction_run res" where
  "submit_operation_dispatch_result X run d effect resulting_state =
     bindE (open_started X run d) (\<lambda>(index, r).
     bindE (validate_operation_binding run d (effect_session_of effect)) (\<lambda>_.
       if record_attempt_session r \<noteq> Some (effect_session_id (effect_session_of effect)) then dispatch_error
       else if \<not> operation_outcome_is_terminal (effect_outcome effect)
       then if resulting_state \<noteq> None then dispatch_error
            else bindE (observed_record X r (effect_id effect)) (\<lambda>replacement.
              replace_record X run index replacement None)
       else bindE (as_dispatch_error (advance_effect X (run_progress run) effect resulting_state)) (\<lambda>p.
         replace_record X run index (completed_record X r (effect_id effect)) (Some p))))"

end
