(* ===== verification/Ledger.thy ===== *)
theory Ledger
  imports Dispatch Progress
begin

text \<open>
  What the run ledger relies on: the evidence a progress retains belongs to units of its kind, so a
  node has exactly the terminal evidence of its unit; the dependencies captured for a unit therefore
  never change once its predecessors are satisfied; and the validation of the whole ledger as one
  predicate.
\<close>

section \<open>Evidence belongs to units\<close>

definition evidence_typed :: "transaction_progress \<Rightarrow> unit_spec list \<Rightarrow> bool" where
  "evidence_typed p us \<longleftrightarrow>
     (\<forall>c \<in> set (progress_constructions p). \<exists>u \<in> set us.
        spec_kind u = Construction_unit \<and> spec_primary u = construction_node c) \<and>
     (\<forall>c \<in> set (progress_checks p). \<exists>u \<in> set us.
        spec_kind u = Check_unit \<and> spec_primary u = check_node c) \<and>
     (\<forall>e \<in> set (progress_effects p). \<exists>u \<in> set us.
        spec_kind u = Operation_unit \<and> spec_primary u = effect_node e)"

text \<open>A progress as the run ledger holds it.\<close>

definition ledger_progress :: "ext \<Rightarrow> transaction_progress \<Rightarrow> unit_spec list \<Rightarrow> bool" where
  "ledger_progress X p us \<longleftrightarrow>
     progress_ok X p \<and> units (progress_transaction p) = Inr us \<and> evidence_typed p us"

lemma ledger_progressD:
  assumes "ledger_progress X p us"
  shows "progress_ok X p" and "units (progress_transaction p) = Inr us" and "evidence_typed p us"
    and "sound_session (progress_transaction p) (progress_effects p) us"
    and "session_ok (progress_transaction p)"
  using assms by (auto simp: ledger_progress_def sound_session_def progress_ok_def)

lemma ledger_rebuilt:
  assumes "ledger_progress X p us"
  shows "p = rebuilt X (progress_transaction p) (progress_state p) (progress_constructions p)
    (progress_checks p) (progress_effects p) us"
  using progress_okE [OF ledger_progressD(1) [OF assms]] ledger_progressD(2) [OF assms]
  by (metis sound_sessionD(2) sum.inject(2))

lemma find_construction_Some: "find_construction cs n = Some c \<Longrightarrow> c \<in> set cs \<and> construction_node c = n"
  by (auto simp: find_construction_def find_Some_iff)

lemma find_check_Some: "find_check cs n = Some c \<Longrightarrow> c \<in> set cs \<and> check_node c = n"
  by (auto simp: find_check_def find_Some_iff)

definition unit_terminal :: "transaction_progress \<Rightarrow> unit_spec \<Rightarrow> session_identity option" where
  "unit_terminal p u =
     (case spec_kind u of
        Construction_unit \<Rightarrow> map_option construction_id (progress_construction p (spec_primary u))
      | Check_unit \<Rightarrow> map_option check_id (progress_check p (spec_primary u))
      | Operation_unit \<Rightarrow> map_option effect_id (progress_effect p (spec_primary u)))"

abbreviation progress_evidence :: "transaction_progress \<Rightarrow> unit_spec \<Rightarrow> bool" where
  "progress_evidence p \<equiv> unit_evidence (progress_constructions p) (progress_checks p) (progress_effects p)"

lemma unit_terminal_evidence: "unit_terminal p u \<noteq> None \<longleftrightarrow> progress_evidence p u"
  by (auto simp: unit_terminal_def unit_evidence_def progress_construction_def progress_check_def
      progress_effect_def split: transaction_unit_kind.splits)

lemma typed_owner:
  assumes L: "ledger_progress X p us" and u: "u \<in> set us" "n \<in> set (spec_members u)"
  shows "progress_construction p n \<noteq> None \<Longrightarrow> spec_kind u = Construction_unit \<and> n = spec_primary u"
    and "progress_check p n \<noteq> None \<Longrightarrow> spec_kind u = Check_unit \<and> n = spec_primary u"
    and "progress_effect p n \<noteq> None \<Longrightarrow> spec_kind u = Operation_unit \<and> n = spec_primary u"
proof -
  note D = ledger_progressD [OF L]
  have own: "v = u" if "v \<in> set us" "spec_primary v = n" for v
    using units_disjoint [OF D(5,2) that(1) u(1)] units_primary(1) [OF D(2) that(1)] that(2) u(2) by simp
  show "progress_construction p n \<noteq> None \<Longrightarrow> spec_kind u = Construction_unit \<and> n = spec_primary u"
    using D(3) own find_construction_Some unfolding evidence_typed_def progress_construction_def by fastforce
  show "progress_check p n \<noteq> None \<Longrightarrow> spec_kind u = Check_unit \<and> n = spec_primary u"
    using D(3) own find_check_Some unfolding evidence_typed_def progress_check_def by fastforce
  show "progress_effect p n \<noteq> None \<Longrightarrow> spec_kind u = Operation_unit \<and> n = spec_primary u"
    using D(3) own find_effect_Some unfolding evidence_typed_def progress_effect_def by fastforce
qed

abbreviation in_lifecycle :: "node_identity \<Rightarrow> effectful_operation_result \<Rightarrow> bool" where
  "in_lifecycle n e \<equiv> n \<in> set (order_before (effect_lifecycle (effect_request e))) \<or>
     n \<in> set (order_after (effect_lifecycle (effect_request e)))"

text \<open>The nodes in the lifecycle order of an accepted effect are the other members of its unit.\<close>

lemma effect_members:
  assumes L: "ledger_progress X p us" and e: "e \<in> set (progress_effects p)"
  shows "\<exists>v \<in> set us. spec_kind v = Operation_unit \<and> spec_primary v = effect_node e \<and>
    (\<forall>n. in_lifecycle n e \<longleftrightarrow> n \<in> set (spec_members v) \<and> n \<noteq> effect_node e)"
proof -
  note D = ledger_progressD [OF L]
  let ?P = "transaction_program_of (progress_transaction p)"
  obtain v where v: "v \<in> set us" "spec_kind v = Operation_unit" "spec_primary v = effect_node e"
    using D(3) e unfolding evidence_typed_def by blast
  have m: "spec_members v = lifecycle_members ?P (effect_node e)"
    using units_shape [OF D(2) v(1)] v(2,3) by (simp add: unit_shape_def)
  have "effects_local ?P (progress_effects p)" using D(4) by (simp add: sound_session_def)
  then have "effect_local ?P e" and "\<forall>d \<in> set (program_edges ?P). edge_before d \<noteq> edge_after d"
    using e by (auto simp: effects_local_def list_all_iff)
  then have "in_lifecycle n e \<longleftrightarrow> n \<in> set (spec_members v) \<and> n \<noteq> effect_node e" for n
    using effect_local_members [of ?P e] unfolding m by blast
  with v show ?thesis by blast
qed

lemma terminal_evidence_unit:
  assumes L: "ledger_progress X p us" and u: "u \<in> set us" "n \<in> set (spec_members u)"
  shows "terminal_evidence_for_node p n = unit_terminal p u"
proof -
  note D = ledger_progressD [OF L] and O = typed_owner [OF L u]
  have life: "spec_kind u = Operation_unit \<and> effect_node e = spec_primary u \<and> n \<noteq> spec_primary u"
    if e: "e \<in> set (progress_effects p)" and l: "in_lifecycle n e" for e
  proof -
    obtain v where v: "v \<in> set us" "spec_kind v = Operation_unit" "spec_primary v = effect_node e"
      and m: "n \<in> set (spec_members v)" "n \<noteq> effect_node e"
      using effect_members [OF L e] l by blast
    have "v = u" using units_disjoint [OF D(5,2) v(1) u(1) m(1) u(2)] .
    with v m show ?thesis by simp
  qed
  let ?f = "find (in_lifecycle n) (progress_effects p)"
  have f: "?f = Some e \<Longrightarrow> e \<in> set (progress_effects p) \<and> in_lifecycle n e" for e
    by (auto simp: find_Some_iff)
  show ?thesis
  proof (cases "spec_kind u = Operation_unit \<and> n \<noteq> spec_primary u")
    case False
    have n: "n = spec_primary u"
    proof (cases "spec_kind u = Operation_unit")
      case True
      with False show ?thesis by simp
    next
      case kind: False
      from u(1) obtain k where "unit_of (transaction_program_of (progress_transaction p)) k = Some u"
        by (auto simp: units_set [OF D(2)])
      then show ?thesis using kind u(2)
        by (auto simp: unit_of_def single_spec_def operation_spec_def split: if_splits)
    qed
    have nf: "?f = None"
    proof (rule ccontr)
      assume "?f \<noteq> None"
      then obtain e where "e \<in> set (progress_effects p)" "in_lifecycle n e" using f by blast
      with life n show False by blast
    qed
    have c: "progress_construction p n \<noteq> None \<Longrightarrow> spec_kind u = Construction_unit"
      and k: "progress_check p n \<noteq> None \<Longrightarrow> spec_kind u = Check_unit"
      and e: "progress_effect p n \<noteq> None \<Longrightarrow> spec_kind u = Operation_unit" using O by blast+
    show ?thesis
    proof (cases "progress_construction p n")
      case (Some v)
      then show ?thesis using c n by (simp add: terminal_evidence_for_node_def unit_terminal_def)
    next
      case nc: None
      show ?thesis
      proof (cases "progress_check p n")
        case (Some v)
        then show ?thesis using k n nc by (simp add: terminal_evidence_for_node_def unit_terminal_def)
      next
        case None
        then show ?thesis using e n nc nf
          by (cases "progress_effect p n"; cases "spec_kind u")
            (simp_all add: terminal_evidence_for_node_def unit_terminal_def)
      qed
    qed
  next
    case True
    then have none: "progress_construction p n = None" "progress_check p n = None" "progress_effect p n = None"
      using O(1) O(2) O(3) by fastforce+
    have "map_option effect_id ?f = map_option effect_id (progress_effect p (spec_primary u))"
    proof (cases "progress_effect p (spec_primary u)")
      case None
      then have "\<forall>e \<in> set (progress_effects p). effect_node e \<noteq> spec_primary u"
        by (auto simp: progress_effect_def find_effect_def find_None_iff)
      then have "?f = None" using f life by (cases ?f) auto
      with None show ?thesis by simp
    next
      case (Some e)
      then have e: "e \<in> set (progress_effects p)" "effect_node e = spec_primary u"
        using find_effect_Some by (auto simp: progress_effect_def)
      have "in_lifecycle n e"
      proof -
        obtain v where v: "v \<in> set us" "spec_primary v = effect_node e"
          and m: "\<forall>n. in_lifecycle n e \<longleftrightarrow> n \<in> set (spec_members v) \<and> n \<noteq> effect_node e"
          using effect_members [OF L e(1)] by blast
        have "v = u" using units_primary_inj [OF D(5,2) v(1) u(1)] v(2) e(2) by simp
        with m u(2) True e(2) show ?thesis by simp
      qed
      with e(1) have "?f \<noteq> None" by (auto simp: find_None_iff)
      then obtain e' where e': "?f = Some e'" by blast
      with f life have "e' \<in> set (progress_effects p)" "effect_node e' = effect_node e" using e(2) by auto
      then have "e' = e"
        using e(1) keyed_distinct [of effect_node] D(1) by (auto simp: progress_ok_def distinct_map inj_on_def)
      with e' Some show ?thesis by simp
    qed
    with none True show ?thesis by (simp add: terminal_evidence_for_node_def unit_terminal_def)
  qed
qed

section \<open>Captured dependencies\<close>

lemma ledger_status:
  assumes L: "ledger_progress X p us" and s: "progress_status p n = Inr s"
  shows "n \<in> node_id ` set (session_nodes (progress_transaction p))"
    and "final_statuses (progress_transaction p) (progress_constructions p) (progress_checks p)
      (progress_effects p) us n = Some s"
proof -
  note D = ledger_progressD [OF L]
  note st = rebuilt_status [OF D(4) refl, of X "progress_state p" "progress_constructions p" "progress_checks p",
      folded ledger_rebuilt [OF L]]
  show n: "n \<in> node_id ` set (session_nodes (progress_transaction p))"
    using st [of n] s by (simp split: if_splits)
  show "final_statuses (progress_transaction p) (progress_constructions p) (progress_checks p)
      (progress_effects p) us n = Some s"
    using rebuilt_status_iff [OF D(4) n, of X "progress_state p" "progress_constructions p" "progress_checks p",
      folded ledger_rebuilt [OF L]] s by blast
qed

lemma satisfied_evidence:
  assumes L: "ledger_progress X p us" and u: "u \<in> set us" "n \<in> set (spec_members u)"
    and s: "progress_status p n = Inr Satisfied"
  shows "progress_evidence p u"
proof (rule ccontr)
  assume "\<not> progress_evidence p u"
  from final_open(1) [OF ledger_progressD(4) [OF L] u this] ledger_status(2) [OF L s]
  have "settled_status (session_edges (progress_transaction p)) us
      (evidence_statuses (progress_transaction p) (progress_constructions p) (progress_checks p)
        (progress_effects p) us) u = Satisfied" by simp
  then show False using settled_statusD [OF ledger_progressD(4) [OF L]] by fastforce
qed

lemma node_in_unit:
  assumes L: "ledger_progress X p us"
    and n: "program_find (transaction_program_of (progress_transaction p)) n = Some node"
    and "node_action node \<noteq> Act_retain"
  shows "\<exists>u \<in> set us. n \<in> set (spec_members u)"
  using units_cover [OF ledger_progressD(2) [OF L], of node] n assms(3) ledger_progressD(5) [OF L]
  by (auto simp: session_ok_def program_find_Some)

text \<open>A satisfied predecessor always yields its dependency.\<close>

lemma capture_satisfied:
  assumes L: "ledger_progress X p us" and s: "progress_status p n = Inr Satisfied"
  shows "\<exists>ds. capture_dependency X p n = Inr ds"
proof -
  let ?P = "transaction_program_of (progress_transaction p)"
  have ok: "program_ok ?P" using ledger_progressD(5) [OF L] by (simp add: session_ok_def)
  obtain node where node: "program_find ?P n = Some node"
    using ledger_status(1) [OF L s] program_find_None [OF ok] by fastforce
  show ?thesis
  proof (cases "node_action node = Act_retain")
    case False
    with node_in_unit [OF L node] obtain u where u: "u \<in> set us" "n \<in> set (spec_members u)" by blast
    have "terminal_evidence_for_node p n \<noteq> None"
      using satisfied_evidence [OF L u s] terminal_evidence_unit [OF L u] unit_terminal_evidence by simp
    with node s False show ?thesis by (auto simp: capture_dependency_def)
  qed (use node s in \<open>simp add: capture_dependency_def\<close>)
qed

lemma unit_terminal_le:
  assumes "advanced p i p'" and "progress_evidence p u"
  shows "unit_terminal p' u = unit_terminal p u"
  using assms map_le_Some [of "find_construction (progress_constructions p)" "find_construction (progress_constructions p')" "spec_primary u"]
    map_le_Some [of "find_check (progress_checks p)" "find_check (progress_checks p')" "spec_primary u"]
    map_le_Some [of "find_effect (progress_effects p)" "find_effect (progress_effects p')" "spec_primary u"]
  by (cases "spec_kind u") (simp_all add: advanced_def evidence_le_def unit_evidence_def unit_terminal_def
      progress_construction_def progress_check_def progress_effect_def)

text \<open>More evidence does not change what was captured.\<close>

lemma capture_stable:
  assumes L: "ledger_progress X p us" and L': "ledger_progress X p' us" and adv: "advanced p i p'"
    and c: "capture_dependency X p n = Inr ds"
  shows "capture_dependency X p' n = Inr ds"
proof -
  let ?P = "transaction_program_of (progress_transaction p)"
  have t: "progress_transaction p' = progress_transaction p" using adv by (simp add: advanced_def)
  have s: "progress_status p n = Inr Satisfied"
    using c by (auto simp: capture_dependency_def bindE_Inr_iff split: if_splits)
  have s': "progress_status p' n = Inr Satisfied"
    using advanced_statuses [OF ledger_progressD(1) [OF L] ledger_progressD(1) [OF L'] adv s] by simp
  obtain node where node: "program_find ?P n = Some node"
    using c s by (auto simp: capture_dependency_def split: option.splits)
  show ?thesis
  proof (cases "node_action node = Act_retain")
    case False
    with node_in_unit [OF L node] obtain u where u: "u \<in> set us" "n \<in> set (spec_members u)" by blast
    have "terminal_evidence_for_node p' n = terminal_evidence_for_node p n"
      using unit_terminal_le [OF adv satisfied_evidence [OF L u s]]
      unfolding terminal_evidence_unit [OF L u] terminal_evidence_unit [OF L' u] .
    with c s s' node t False show ?thesis by (simp add: capture_dependency_def)
  qed (use c s s' node t in \<open>simp add: capture_dependency_def\<close>)
qed

lemma mapE_Inr_mono:
  assumes "mapE f xs = Inr ys" and "\<And>x y. x \<in> set xs \<Longrightarrow> f x = Inr y \<Longrightarrow> g x = Inr y"
  shows "mapE g xs = Inr ys"
  using assms by (induction xs arbitrary: ys) (auto simp: bindE_Inr_iff)

lemma mapE_total:
  assumes "\<And>x. x \<in> set xs \<Longrightarrow> \<exists>y. f x = Inr y"
  shows "\<exists>ys. mapE f xs = Inr ys"
  using assms by (induction xs) (auto simp: bindE_Inr_iff)

lemma dependencies_stable:
  assumes L: "ledger_progress X p us" and L': "ledger_progress X p' us" and adv: "advanced p i p'"
    and c: "capture_dependencies X p u = Inr ds"
  shows "capture_dependencies X p' u = Inr ds"
proof -
  have e: "external_predecessors p' u = external_predecessors p u"
    using adv by (simp add: external_predecessors_def advanced_def)
  obtain dss where "mapE (capture_dependency X p) (external_predecessors p u) = Inr dss"
    and ds: "ds = sort_key dependency_node (concat dss)"
    using c by (auto simp: capture_dependencies_def bindE_Inr_iff)
  then have "mapE (capture_dependency X p') (external_predecessors p u) = Inr dss"
    using capture_stable [OF L L' adv] by (blast intro: mapE_Inr_mono)
  then show ?thesis using ds e by (simp add: capture_dependencies_def)
qed

section \<open>Ready units and known units\<close>

lemma seal_fields [simp]:
  "unit_kind (seal_unit X t u) = spec_kind u" "unit_primary (seal_unit X t u) = spec_primary u"
  "unit_members (seal_unit X t u) = spec_members u" "unit_id (seal_unit X t u) = ready_unit_identity X t u"
  by (simp_all add: seal_unit_def)

lemma unit_spec_eqI:
  "spec_kind (u :: unit_spec) = spec_kind v \<Longrightarrow> spec_primary u = spec_primary v \<Longrightarrow>
   spec_members u = spec_members v \<Longrightarrow> u = v"
  by (cases u; cases v) simp

lemma ready_unit_eqI:
  "unit_kind (r :: ready_transaction_unit) = unit_kind q \<Longrightarrow> unit_primary r = unit_primary q \<Longrightarrow>
   unit_members r = unit_members q \<Longrightarrow> unit_id r = unit_id q \<Longrightarrow> r = q"
  by (cases r; cases q) simp

abbreviation sealed_unit :: "ext \<Rightarrow> transaction_progress \<Rightarrow> unit_spec \<Rightarrow> ready_transaction_unit" where
  "sealed_unit X p \<equiv> seal_unit X (transaction_id (progress_transaction p))"

lemma contains_unit_iff:
  assumes "units (progress_transaction p) = Inr us"
  shows "contains_unit X p r = Inr True \<longleftrightarrow> (\<exists>u \<in> set us. r = sealed_unit X p u)"
    and "\<exists>b. contains_unit X p r = Inr b"
proof -
  show "\<exists>b. contains_unit X p r = Inr b" using assms by (simp add: contains_unit_def)
  let ?m = "\<lambda>c. spec_kind c = unit_kind r \<and> spec_primary c = unit_primary r \<and> spec_members c = unit_members r"
  show "contains_unit X p r = Inr True \<longleftrightarrow> (\<exists>u \<in> set us. r = sealed_unit X p u)"
  proof
    assume "contains_unit X p r = Inr True"
    then obtain c where "find ?m us = Some c"
      and i: "ready_unit_identity X (transaction_id (progress_transaction p)) c = unit_id r"
      using assms by (auto simp: contains_unit_def split: option.splits)
    then have "c \<in> set us" "?m c" by (auto simp: find_Some_iff)
    with i show "\<exists>u \<in> set us. r = sealed_unit X p u"
      by (intro bexI [of _ c] ready_unit_eqI) simp_all
  next
    assume "\<exists>u \<in> set us. r = sealed_unit X p u"
    then obtain u where u: "u \<in> set us" "r = sealed_unit X p u" by blast
    then have "find ?m us \<noteq> None" by (auto simp: find_None_iff)
    then obtain c where c: "find ?m us = Some c" by blast
    then have "c = u" using u(2) by (auto simp: find_Some_iff intro: unit_spec_eqI)
    with c u show "contains_unit X p r = Inr True" using assms by (simp add: contains_unit_def)
  qed
qed

text \<open>No two units of the session share an identity (no digest collision among them).\<close>

definition unit_ids_distinct :: "ext \<Rightarrow> transaction_session \<Rightarrow> unit_spec list \<Rightarrow> bool" where
  "unit_ids_distinct X ts us \<longleftrightarrow> distinct (map (ready_unit_identity X (transaction_id ts)) us)"

lemma ledger_ready:
  assumes L: "ledger_progress X p us"
  shows "r \<in> set (progress_ready_units p) \<longleftrightarrow>
    (\<exists>u \<in> set us. r = sealed_unit X p u \<and> \<not> progress_evidence p u \<and>
       all_satisfied (session_edges (progress_transaction p))
         (final_statuses (progress_transaction p) (progress_constructions p) (progress_checks p)
           (progress_effects p) us) u)"
  using rebuilt_ready [OF ledger_progressD(4) [OF L], of r X "progress_state p" "progress_constructions p"
      "progress_checks p"]
  unfolding ledger_rebuilt [OF L, symmetric] by blast

lemma find_ready_sound: "find_ready_unit p r = Some f \<Longrightarrow> f = r \<and> r \<in> set (progress_ready_units p)"
  by (auto simp: find_ready_unit_def find_Some_iff split: option.splits if_splits
      intro!: ready_unit_eqI) (metis nth_mem ready_unit_eqI)

lemma find_ready_complete:
  assumes L: "ledger_progress X p us" and d: "unit_ids_distinct X (progress_transaction p) us"
    and r: "r \<in> set (progress_ready_units p)"
  shows "find_ready_unit p r = Some r"
proof -
  have "find (\<lambda>c. unit_id c = unit_id r) (progress_ready_units p) \<noteq> None"
    using r by (auto simp: find_None_iff)
  then obtain f where f: "find (\<lambda>c. unit_id c = unit_id r) (progress_ready_units p) = Some f" by blast
  then have "f \<in> set (progress_ready_units p)" "unit_id f = unit_id r" by (auto simp: find_Some_iff)
  with r ledger_ready [OF L] obtain u v where "u \<in> set us" "v \<in> set us" "r = sealed_unit X p u"
    "f = sealed_unit X p v" "unit_id f = unit_id r" by metis
  then have "f = r" using d by (auto simp: unit_ids_distinct_def distinct_map inj_on_def)
  with f show ?thesis by (simp add: find_ready_unit_def)
qed

text \<open>A ready unit always yields its dependencies: every predecessor is satisfied.\<close>

lemma external_predecessors_entering:
  "set (external_predecessors p r) =
     entering (session_edges (progress_transaction p)) (unit_members r)"
  by (auto simp: external_predecessors_def entering_def)

lemma final_status:
  assumes L: "ledger_progress X p us"
    and s: "final_statuses (progress_transaction p) (progress_constructions p) (progress_checks p)
      (progress_effects p) us n = Some s"
    and n: "n \<in> node_id ` set (session_nodes (progress_transaction p))"
  shows "progress_status p n = Inr s"
  using rebuilt_status_iff [OF ledger_progressD(4) [OF L] n, of X "progress_state p"
      "progress_constructions p" "progress_checks p", folded ledger_rebuilt [OF L]] s by blast

lemma ready_dependencies:
  assumes L: "ledger_progress X p us" and r: "r \<in> set (progress_ready_units p)"
  shows "\<exists>ds. capture_dependencies X p r = Inr ds"
proof -
  obtain u where u: "u \<in> set us" "r = sealed_unit X p u"
    and sat: "all_satisfied (session_edges (progress_transaction p))
         (final_statuses (progress_transaction p) (progress_constructions p) (progress_checks p)
           (progress_effects p) us) u"
    using r ledger_ready [OF L] by blast
  have "\<exists>ds. capture_dependency X p n = Inr ds" if n: "n \<in> set (external_predecessors p r)" for n
  proof (rule capture_satisfied [OF L final_status [OF L]])
    have e: "n \<in> entering (session_edges (progress_transaction p)) (spec_members u)"
      using n u(2) by (simp add: external_predecessors_entering)
    with sat show "final_statuses (progress_transaction p) (progress_constructions p) (progress_checks p)
      (progress_effects p) us n = Some Satisfied" by (simp add: all_satisfied_def)
    show "n \<in> node_id ` set (session_nodes (progress_transaction p))"
      using e ledger_progressD(5) [OF L] by (auto simp: entering_def session_ok_def program_ok_def)
  qed
  then obtain dss where "mapE (capture_dependency X p) (external_predecessors p r) = Inr dss"
    using mapE_total [of "external_predecessors p r" "capture_dependency X p"] by blast
  then show ?thesis by (simp add: capture_dependencies_def)
qed

section \<open>The validated ledger\<close>

definition record_valid :: "ext \<Rightarrow> transaction_progress \<Rightarrow> transaction_dispatch_record \<Rightarrow> bool" where
  "record_valid X p r \<longleftrightarrow>
     validate_record_shape r = Inr () \<and> distinct (record_observations r) \<and>
     (record_active r \<longrightarrow> validate_active X p (record_dispatch r) = Inr ())"

abbreviation nonce_text :: "transaction_dispatch_record \<Rightarrow> string" where
  "nonce_text r \<equiv> dispatch_nonce_hex (dispatch_nonce_of (record_dispatch r))"

abbreviation dispatch_name :: "transaction_dispatch_record \<Rightarrow> session_identity" where
  "dispatch_name r \<equiv> dispatch_id (record_dispatch r)"

definition ledger_ok ::
  "ext \<Rightarrow> transaction_progress \<Rightarrow> transaction_dispatch_policy \<Rightarrow> transaction_dispatch_record list \<Rightarrow> bool" where
  "ledger_ok X p policy rs \<longleftrightarrow>
     (\<forall>r \<in> set rs. record_valid X p r) \<and> distinct (map nonce_text rs) \<and> distinct (map dispatch_name rs) \<and>
     \<not> pairwise_overlap (filter record_active rs) \<and>
     (\<forall>kind. kind_count (filter record_active rs) kind \<le> policy_capacity policy kind) \<and>
     (\<forall>r \<in> set rs. record_active r \<longrightarrow> find_ready_unit p (dispatch_unit (record_dispatch r)) \<noteq> None)"

lemma validate_each_iff:
  "validate_each X p ns ds rs = Inr () \<longleftrightarrow>
     (\<forall>r \<in> set rs. record_valid X p r) \<and> distinct (map nonce_text rs) \<and> distinct (map dispatch_name rs) \<and>
     (\<forall>r \<in> set rs. nonce_text r \<notin> set ns \<and> dispatch_name r \<notin> set ds)"
proof (induction rs arbitrary: ns ds)
  case (Cons r rs)
  show ?case
    by (auto simp: Cons.IH bindE_Inr_iff reject_iff record_valid_def Let_def image_iff)
qed simp

lemma all_kinds: "(\<forall>k. P k) \<longleftrightarrow> P Construction_unit \<and> P Check_unit \<and> P Operation_unit"
  by (metis transaction_unit_kind.exhaust)

lemma validate_run_records_iff: "validate_run_records X p policy rs = Inr () \<longleftrightarrow> ledger_ok X p policy rs"
  by (auto simp: validate_run_records_def ledger_ok_def validate_each_iff bindE_Inr_iff reject_iff
      Let_def list_ex_iff all_kinds not_less)

definition run_of :: "ext \<Rightarrow> transaction_progress \<Rightarrow> transaction_dispatch_policy \<Rightarrow>
    transaction_dispatch_record list \<Rightarrow> transaction_run" where
  "run_of X p policy rs =
     \<lparr>run_progress = p, run_policy = policy, run_records = rs, run_id = run_identity X p policy rs\<rparr>"

lemma run_of_fields [simp]:
  "run_progress (run_of X p policy rs) = p" "run_policy (run_of X p policy rs) = policy"
  "run_records (run_of X p policy rs) = rs" "run_id (run_of X p policy rs) = run_identity X p policy rs"
  by (simp_all add: run_of_def)

lemma make_run_Inr:
  "make_run X p policy rs = Inr run \<longleftrightarrow> ledger_ok X p policy rs \<and> run = run_of X p policy rs"
  by (auto simp: make_run_def bindE_Inr_iff validate_run_records_iff run_of_def)

end
