(* ===== verification/Ledger_Steps.thy ===== *)
theory Ledger_Steps
  imports Ledger
begin

text \<open>
  The ledger under its operations. Every run the operations reach can be restored from its durable
  fields, and an operation whose guards hold never fails in the validation that ends it.
\<close>

section \<open>What the ledger says about the active units\<close>

abbreviation record_unit :: "transaction_dispatch_record \<Rightarrow> ready_transaction_unit" where
  "record_unit r \<equiv> dispatch_unit (record_dispatch r)"

definition active_units :: "transaction_dispatch_record list \<Rightarrow> ready_transaction_unit list" where
  "active_units rs = map record_unit (filter record_active rs)"

definition units_overlap :: "ready_transaction_unit \<Rightarrow> ready_transaction_unit \<Rightarrow> bool" where
  "units_overlap u v \<longleftrightarrow> set (unit_members u) \<inter> set (unit_members v) \<noteq> {}"

lemma records_overlap_units: "records_overlap l r \<longleftrightarrow> units_overlap (record_unit l) (record_unit r)"
  by (auto simp: records_overlap_def units_overlap_def list_ex_iff)

lemma pairwise_overlap_units:
  "pairwise_overlap rs \<longleftrightarrow> \<not> sorted_wrt (\<lambda>u v. \<not> units_overlap u v) (map record_unit rs)"
  by (induction rs) (auto simp: list_ex_iff records_overlap_units)

lemma kind_count_units: "kind_count rs kind = length (filter (\<lambda>u. unit_kind u = kind) (map record_unit rs))"
  by (induction rs) (auto simp: kind_count_def)

lemma units_overlap_sym: "units_overlap u v \<longleftrightarrow> units_overlap v u"
  by (auto simp: units_overlap_def)

text \<open>The part of \<open>ledger_ok\<close> that speaks of the active units.\<close>

definition active_ok ::
  "transaction_progress \<Rightarrow> transaction_dispatch_policy \<Rightarrow> ready_transaction_unit list \<Rightarrow> bool" where
  "active_ok p policy us \<longleftrightarrow>
     sorted_wrt (\<lambda>u v. \<not> units_overlap u v) us \<and>
     (\<forall>kind. length (filter (\<lambda>u. unit_kind u = kind) us) \<le> policy_capacity policy kind) \<and>
     (\<forall>u \<in> set us. find_ready_unit p u \<noteq> None)"

lemma ledger_ok_active:
  "ledger_ok X p policy rs \<longleftrightarrow>
     (\<forall>r \<in> set rs. record_valid X p r) \<and> distinct (map nonce_text rs) \<and>
     distinct (map dispatch_name rs) \<and> active_ok p policy (active_units rs)"
  by (auto simp: ledger_ok_def active_ok_def active_units_def pairwise_overlap_units kind_count_units)

lemma active_units_append [simp]: "active_units (as @ bs) = active_units as @ active_units bs"
  by (simp add: active_units_def)

lemma active_units_Cons [simp]:
  "active_units (r # rs) = (if record_active r then record_unit r # active_units rs else active_units rs)"
  by (simp add: active_units_def)

lemma active_units_Nil [simp]: "active_units [] = []"
  by (simp add: active_units_def)

text \<open>Retiring a unit keeps the rest sound, for any progress in which the rest is still ready.\<close>

lemma active_ok_remove:
  assumes "active_ok p policy (as @ u # bs)" and "\<And>v. v \<in> set as \<union> set bs \<Longrightarrow> find_ready_unit p' v \<noteq> None"
  shows "active_ok p' policy (as @ bs)"
proof -
  have "length (filter (\<lambda>u. unit_kind u = kind) (as @ bs)) \<le> policy_capacity policy kind" for kind
  proof -
    have "length (filter (\<lambda>u. unit_kind u = kind) (as @ bs))
        \<le> length (filter (\<lambda>u. unit_kind u = kind) (as @ u # bs))" by simp
    also have "\<dots> \<le> policy_capacity policy kind" using assms(1) by (simp add: active_ok_def del: filter_append)
    finally show ?thesis .
  qed
  then show ?thesis using assms by (simp add: active_ok_def sorted_wrt_append)
qed

lemma active_ok_disjoint:
  assumes "active_ok p policy (as @ u # bs)" and "v \<in> set as \<union> set bs"
  shows "\<not> units_overlap u v"
  using assms by (auto simp: active_ok_def sorted_wrt_append units_overlap_sym)

lemma active_ok_single_operation:
  assumes "active_ok p policy (as @ u # bs)" and "v \<in> set as \<union> set bs" and "unit_kind u = Operation_unit"
  shows "unit_kind v \<noteq> Operation_unit"
proof
  assume "unit_kind v = Operation_unit"
  with assms(2) have "filter (\<lambda>u. unit_kind u = Operation_unit) as \<noteq> [] \<or>
      filter (\<lambda>u. unit_kind u = Operation_unit) bs \<noteq> []"
    by (auto simp: filter_empty_conv)
  then have "length (filter (\<lambda>u. unit_kind u = Operation_unit) (as @ u # bs)) \<ge> 2"
    using assms(3) by (cases "filter (\<lambda>u. unit_kind u = Operation_unit) as";
        cases "filter (\<lambda>u. unit_kind u = Operation_unit) bs") simp_all
  moreover have "length (filter (\<lambda>u. unit_kind u = Operation_unit) (as @ u # bs)) \<le> 1"
    using assms(1) unfolding active_ok_def by (metis policy_capacity.simps(3))
  ultimately show False by linarith
qed

section \<open>The invariant of a run\<close>

definition history_ok :: "ext \<Rightarrow> transaction_progress \<Rightarrow> transaction_dispatch_record list \<Rightarrow> bool" where
  "history_ok X p rs \<longleftrightarrow> (\<forall>r \<in> set rs. validate_rehydrated_record X p r = Inr ())"

definition run_inv :: "ext \<Rightarrow> unit_spec list \<Rightarrow> transaction_run \<Rightarrow> bool" where
  "run_inv X us run \<longleftrightarrow>
     ledger_progress X (run_progress run) us \<and>
     unit_ids_distinct X (progress_transaction (run_progress run)) us \<and>
     ledger_ok X (run_progress run) (run_policy run) (run_records run) \<and>
     history_ok X (run_progress run) (run_records run) \<and>
     run = run_of X (run_progress run) (run_policy run) (run_records run)"

lemma run_invD:
  assumes "run_inv X us run"
  shows "ledger_progress X (run_progress run) us"
    and "unit_ids_distinct X (progress_transaction (run_progress run)) us"
    and "ledger_ok X (run_progress run) (run_policy run) (run_records run)"
    and "history_ok X (run_progress run) (run_records run)"
    and "run = run_of X (run_progress run) (run_policy run) (run_records run)"
  using assms unfolding run_inv_def by blast+

lemma run_inv_restore:
  assumes "run_inv X us run"
  shows "restore_run X (run_progress run) (run_policy run) (run_records run) (run_id run) = Inr run"
proof -
  note I = run_invD [OF assms]
  have "validate_rehydrated_run_history X (run_progress run) (run_records run) = Inr ()"
    using I(4) by (simp add: validate_rehydrated_run_history_def forE_Inr_iff history_ok_def)
  moreover have "make_run X (run_progress run) (run_policy run) (run_records run) = Inr run"
    unfolding make_run_Inr using I(3,5) by blast
  ultimately show ?thesis by (simp add: restore_run_def)
qed

lemma restore_run_inv:
  assumes "restore_run X p policy rs expected = Inr run" and "ledger_progress X p us"
    and "unit_ids_distinct X (progress_transaction p) us"
  shows "run_inv X us run" and "run_id run = expected"
  using assms
  by (auto simp: restore_run_def bindE_Inr_iff make_run_Inr run_inv_def history_ok_def
      validate_rehydrated_run_history_def forE_Inr_iff split: if_splits)

lemma run_begin_inv:
  assumes "ledger_progress X p us" and "unit_ids_distinct X (progress_transaction p) us"
  shows "\<exists>run. run_begin X p policy = Inr run \<and> run_inv X us run"
proof -
  have "ledger_ok X p policy []" by (simp add: ledger_ok_active active_ok_def)
  then show ?thesis using assms
    by (simp add: run_begin_def make_run_Inr run_inv_def history_ok_def)
qed

section \<open>Looking up the record of a dispatch\<close>

lemma index_of_dispatch_Inr:
  "index_of_dispatch rs i = Inr n \<Longrightarrow> n < length rs \<and> dispatch_name (rs ! n) = i"
  by (induction rs arbitrary: n) (auto simp: bindE_Inr_iff split: if_splits)

lemma require_record_state_Inr:
  assumes "record_index run d = Inr n" and "require_record_state run d st = Inr r"
  obtains as bs where "run_records run = as @ r # bs" and "n = length as" and "record_state r = st"
    and "dispatch_name r = dispatch_id d" and "unit_id (record_unit r) = unit_id (dispatch_unit d)"
proof -
  have n: "n < length (run_records run)" "dispatch_name (run_records run ! n) = dispatch_id d"
    using index_of_dispatch_Inr assms(1) by (auto simp: record_index_def)
  have r: "r = run_records run ! n" "record_state r = st" "unit_id (record_unit r) = unit_id (dispatch_unit d)"
    using assms by (auto simp: require_record_state_def bindE_Inr_iff Let_def validate_record_dispatch_def
        split: if_splits)
  show thesis
    by (rule that [of "take n (run_records run)" "drop (Suc n) (run_records run)"])
      (use n r id_take_nth_drop [OF n(1)] in auto)
qed

lemma open_started_Inr:
  assumes "open_started X run d = Inr (n, r)"
  shows "record_index run d = Inr n" and "require_record_state run d Started = Inr r"
    and "validate_dispatch_is_current X run d = Inr ()"
  using assms by (auto simp: open_started_def bindE_Inr_iff)

lemma open_reserved_Inr:
  assumes "open_reserved X run d = Inr (n, r)"
  shows "record_index run d = Inr n" and "require_record_state run d Reserved = Inr r"
    and "validate_dispatch_is_current X run d = Inr ()" and "\<not> run_stopped run"
  using assms by (auto simp: open_reserved_def bindE_Inr_iff validate_dispatch_may_start_def)

text \<open>A current dispatch that names an active record is about the record's unit.\<close>

lemma current_unit:
  assumes I: "run_inv X us run" and cur: "validate_dispatch_is_current X run d = Inr ()"
    and r: "r \<in> set (run_records run)" "record_active r" "unit_id (record_unit r) = unit_id (dispatch_unit d)"
  shows "dispatch_unit d = record_unit r"
proof -
  note J = run_invD [OF I]
  have "record_unit r \<in> set (progress_ready_units (run_progress run))"
    using J(3) r(1,2) find_ready_sound unfolding ledger_ok_def by blast
  then have f: "find_ready_unit (run_progress run) (record_unit r) = Some (record_unit r)"
    by (rule find_ready_complete [OF J(1,2)])
  have "find_ready_unit (run_progress run) (dispatch_unit d) \<noteq> None"
    using cur by (auto simp: validate_dispatch_is_current_def split: if_splits)
  then obtain g where g: "find_ready_unit (run_progress run) (dispatch_unit d) = Some g" by blast
  have "find (\<lambda>c. unit_id c = unit_id (dispatch_unit d)) (progress_ready_units (run_progress run)) =
      Some (record_unit r)"
    using f r(3) by (auto simp: find_ready_unit_def split: option.splits if_splits)
  then have "g = record_unit r" using g by (auto simp: find_ready_unit_def split: if_splits)
  then show ?thesis using find_ready_sound [OF g] by simp
qed

section \<open>Reservation\<close>

lemma nonce_text_inj: "dispatch_nonce_hex a = dispatch_nonce_hex b \<longleftrightarrow> a = b"
  by (simp add: dispatch_nonce_hex_def hex_of_bytes_inj)

lemma ready_known:
  assumes L: "ledger_progress X p us" and r: "r \<in> set (progress_ready_units p)"
  shows "contains_unit X p r = Inr True"
  using contains_unit_iff(1) [OF ledger_progressD(2) [OF L]] ledger_ready [OF L] r by blast

lemma reserved_record_valid:
  fixes nonce
  assumes L: "ledger_progress X p us" and u: "u \<in> set (progress_ready_units p)"
    and c: "capture_dependencies X p u = Inr ds"
  defines "r \<equiv> make_record X (make_dispatch X u nonce (progress_id p) (snapshot_id (progress_state p)) ds)
    Reserved None None [] None"
  shows "record_valid X p r" and "validate_rehydrated_record X p r = Inr ()"
  using ready_known [OF L u] c
  by (simp_all add: r_def record_valid_def make_record_def make_dispatch_def validate_record_shape_def
      validate_active_def reject_iff Let_def active_state_def validate_rehydrated_record_def)

lemma overlaps_active_units:
  "overlaps_active run u \<longleftrightarrow> (\<exists>v \<in> set (active_units (run_records run)). units_overlap v u)"
  by (auto simp: overlaps_active_def active_units_def units_overlap_def list_ex_iff)

lemma active_count_units:
  "active_count run kind = length (filter (\<lambda>u. unit_kind u = kind) (active_units (run_records run)))"
proof -
  have "length (filter (\<lambda>r. record_active r \<and> record_kind r = kind) rs) =
      length (filter (\<lambda>u. unit_kind u = kind) (active_units rs))" for rs
    by (induction rs) auto
  then show ?thesis by (simp add: active_count_def)
qed

lemma active_ok_snoc:
  assumes "active_ok p policy us" and "\<forall>v \<in> set us. \<not> units_overlap v u" and "find_ready_unit p u \<noteq> None"
    and "length (filter (\<lambda>v. unit_kind v = unit_kind u) us) < policy_capacity policy (unit_kind u)"
  shows "active_ok p policy (us @ [u])"
  using assms by (auto simp: active_ok_def sorted_wrt_append)

text \<open>What a reservation that selects \<open>u\<close> returns.\<close>

definition reservation :: "ext \<Rightarrow> transaction_run \<Rightarrow> nonce \<Rightarrow> ready_transaction_unit \<Rightarrow>
    transaction_dispatch_dependency list \<Rightarrow> transaction_dispatch" where
  "reservation X run nonce u ds =
     make_dispatch X u nonce (progress_id (run_progress run))
       (snapshot_id (progress_state (run_progress run))) ds"

definition reserved_run :: "ext \<Rightarrow> transaction_run \<Rightarrow> transaction_dispatch \<Rightarrow> transaction_run" where
  "reserved_run X run d =
     run_of X (run_progress run) (run_policy run)
       (run_records run @ [make_record X d Reserved None None [] None])"

lemma reserve_next_selected:
  assumes I: "run_inv X us run" and n: "\<not> nonce_used run nonce" and st: "\<not> run_stopped run"
    and sel: "find (\<lambda>u. capacity_available run (unit_kind u) \<and> \<not> overlaps_active run u)
      (progress_ready_units (run_progress run)) = Some u"
    and c: "capture_dependencies X (run_progress run) u = Inr ds"
    and fresh: "\<forall>r \<in> set (run_records run). dispatch_name r \<noteq> dispatch_id (reservation X run nonce u ds)"
  shows "reserve_next X run nonce = Inr (reserved_run X run (reservation X run nonce u ds), Some (reservation X run nonce u ds))"
    and "run_inv X us (reserved_run X run (reservation X run nonce u ds))"
proof -
  note J = run_invD [OF I]
  let ?d = "reservation X run nonce u ds" and ?p = "run_progress run"
  let ?r = "make_record X ?d Reserved None None [] None"
  have u: "u \<in> set (progress_ready_units ?p)" "capacity_available run (unit_kind u)" "\<not> overlaps_active run u"
    using sel by (auto simp: find_Some_iff)
  note V = reserved_record_valid [OF J(1) u(1) c, of nonce, folded reservation_def]
  have [simp]: "record_active ?r" "record_unit ?r = u" "dispatch_name ?r = dispatch_id ?d" "nonce_text ?r = dispatch_nonce_hex nonce"
    by (simp_all add: make_record_def reservation_def make_dispatch_def active_state_def)
  have "active_ok ?p (run_policy run) (active_units (run_records run) @ [u])"
    using J(3) u find_ready_complete [OF J(1,2) u(1)]
    by (intro active_ok_snoc) (auto simp: ledger_ok_active overlaps_active_units capacity_available_def active_count_units)
  moreover have "dispatch_nonce_hex nonce \<notin> nonce_text ` set (run_records run)"
    using n by (auto simp: nonce_used_def list_ex_iff nonce_text_inj)
  moreover have "dispatch_id ?d \<notin> dispatch_name ` set (run_records run)" using fresh by auto
  ultimately have ok: "ledger_ok X ?p (run_policy run) (run_records run @ [?r])"
    using J(3) V(1) by (auto simp: ledger_ok_active)
  then have "make_run X ?p (run_policy run) (run_records run @ [?r]) = Inr (reserved_run X run ?d)"
    by (simp add: make_run_Inr reserved_run_def)
  then show "reserve_next X run nonce = Inr (reserved_run X run ?d, Some ?d)"
    using n st sel c by (simp add: reserve_next_def Let_def reservation_def)
  have "history_ok X ?p (run_records run @ [?r])" using J(4) V(2) by (auto simp: history_ok_def)
  with ok show "run_inv X us (reserved_run X run ?d)"
    using J(1,2) by (simp add: run_inv_def reserved_run_def)
qed

section \<open>Replacing the record of a dispatch\<close>

lemma history_same_dispatch:
  assumes "validate_rehydrated_record X p r = Inr ()" and "record_dispatch r' = record_dispatch r"
    and "record_state r' \<noteq> Completed"
  shows "validate_rehydrated_record X p r' = Inr ()"
  using assms by (auto simp: validate_rehydrated_record_def Let_def bindE_Inr_iff split: if_splits)

text \<open>Start, observe and release: the progress stays, the record stays open or is released.\<close>

lemma replace_open:
  assumes I: "run_inv X us run" and rs: "run_records run = as @ r # bs" and act: "record_active r"
    and r': "record_dispatch r' = record_dispatch r" "record_valid X (run_progress run) r'"
      "record_state r' \<noteq> Completed"
  shows "\<exists>run'. replace_record X run (length as) r' None = Inr run' \<and> run_inv X us run' \<and>
    run_progress run' = run_progress run \<and> run_policy run' = run_policy run \<and> run_records run' = as @ r' # bs"
proof -
  note J = run_invD [OF I]
  let ?p = "run_progress run"
  have A: "active_ok ?p (run_policy run) (active_units as @ record_unit r # active_units bs)"
    using J(3) rs act by (simp add: ledger_ok_active)
  have "active_ok ?p (run_policy run) (active_units (as @ r' # bs))"
  proof (cases "record_active r'")
    case True
    with A r'(1) show ?thesis by simp
  next
    case False
    have "active_ok ?p (run_policy run) (active_units as @ active_units bs)"
      using A by (rule active_ok_remove) (use A in \<open>auto simp: active_ok_def\<close>)
    with False show ?thesis by simp
  qed
  then have ok: "ledger_ok X ?p (run_policy run) (as @ r' # bs)"
    using J(3) r' rs by (auto simp: ledger_ok_active)
  have h: "history_ok X ?p (as @ r' # bs)"
    using J(4) rs r' history_same_dispatch by (auto simp: history_ok_def)
  have "(run_records run)[length as := r'] = as @ r' # bs" using rs by simp
  then have "replace_record X run (length as) r' None = Inr (run_of X ?p (run_policy run) (as @ r' # bs))"
    using ok by (simp add: replace_record_def make_run_Inr)
  then show ?thesis using ok h J(1,2) by (auto simp: run_inv_def)
qed

text \<open>Completion: the progress advances by the evidence of the record's unit.\<close>

lemma validate_active_Inr:
  "validate_active X p d = Inr () \<longleftrightarrow>
     contains_unit X p (dispatch_unit d) = Inr True \<and>
     capture_dependencies X p (dispatch_unit d) = Inr (dispatch_dependencies d) \<and>
     (unit_kind (dispatch_unit d) = Operation_unit \<longrightarrow> dispatch_reserved_state d = snapshot_id (progress_state p))"
  by (auto simp: validate_active_def bindE_Inr_iff reject_iff split: if_splits)

lemma contains_unit_transaction:
  "progress_transaction p' = progress_transaction p \<Longrightarrow> contains_unit X p' u = contains_unit X p u"
  by (simp only: contains_unit_def)

lemma validate_rehydrated_Inr:
  "validate_rehydrated_record X p r = Inr () \<longleftrightarrow>
     contains_unit X p (record_unit r) = Inr True \<and>
     capture_dependencies X p (record_unit r) = Inr (dispatch_dependencies (record_dispatch r)) \<and>
     (record_state r = Completed \<longrightarrow> validate_completed p r = Inr ())"
  by (auto simp: validate_rehydrated_record_def Let_def bindE_Inr_iff split: if_splits)

text \<open>What a progress retains for a primary node once it is there, more evidence keeps.\<close>

lemma retained_le:
  assumes "advanced p i p'"
  shows "progress_construction p n = Some c \<Longrightarrow> progress_construction p' n = Some c"
    and "progress_check p n = Some k \<Longrightarrow> progress_check p' n = Some k"
    and "progress_effect p n = Some e \<Longrightarrow> progress_effect p' n = Some e"
  using assms map_le_Some [of "find_construction (progress_constructions p)" "find_construction (progress_constructions p')" n]
    map_le_Some [of "find_check (progress_checks p)" "find_check (progress_checks p')" n]
    map_le_Some [of "find_effect (progress_effects p)" "find_effect (progress_effects p')" n]
  by (simp_all add: advanced_def evidence_le_def progress_construction_def progress_check_def progress_effect_def)

lemma known_unit:
  assumes L: "ledger_progress X p us" and "contains_unit X p r = Inr True"
  obtains u where "u \<in> set us" and "r = sealed_unit X p u" and "unit_primary r \<in> set (spec_members u)"
  using contains_unit_iff(1) [OF ledger_progressD(2) [OF L]] assms(2)
    units_primary(1) [OF ledger_progressD(2) [OF L]] by fastforce

lemma terminal_evidence_le:
  assumes L: "ledger_progress X p us" and L': "ledger_progress X p' us" and adv: "advanced p i p'"
    and u: "u \<in> set us" "n \<in> set (spec_members u)" and ev: "terminal_evidence_for_node p n \<noteq> None"
  shows "terminal_evidence_for_node p' n = terminal_evidence_for_node p n"
  using unit_terminal_le [OF adv, of u] ev
  unfolding terminal_evidence_unit [OF L u] terminal_evidence_unit [OF L' u] unit_terminal_evidence by blast

lemma completed_stable:
  assumes L: "ledger_progress X p us" and L': "ledger_progress X p' us" and adv: "advanced p i p'"
    and k: "contains_unit X p (record_unit r) = Inr True" and v: "validate_completed p r = Inr ()"
  shows "validate_completed p' r = Inr ()"
proof -
  let ?n = "unit_primary (record_unit r)"
  obtain u where u: "u \<in> set us" "?n \<in> set (spec_members u)" using known_unit [OF L k] by blast
  have ev: "terminal_evidence_for_node p ?n \<noteq> None"
    using v by (auto simp: validate_completed_def Let_def bindE_Inr_iff reject_iff)
  note T = terminal_evidence_le [OF L L' adv u ev] and R = retained_le [OF adv, of ?n]
  show ?thesis
  proof (cases "record_kind r")
    case Construction_unit
    with v T R(1) show ?thesis
      by (auto simp: validate_completed_def Let_def bindE_Inr_iff reject_iff split: option.splits)
  next
    case Check_unit
    with v T R(2) show ?thesis
      by (auto simp: validate_completed_def Let_def bindE_Inr_iff reject_iff split: option.splits)
  next
    case Operation_unit
    with v T R(3) show ?thesis
      by (auto simp: validate_completed_def Let_def bindE_Inr_iff reject_iff split: option.splits)
  qed
qed

lemma rehydrated_stable:
  assumes L: "ledger_progress X p us" and L': "ledger_progress X p' us" and adv: "advanced p i p'"
    and v: "validate_rehydrated_record X p r = Inr ()"
  shows "validate_rehydrated_record X p' r = Inr ()"
proof -
  have t: "progress_transaction p' = progress_transaction p" using adv by (simp add: advanced_def)
  show ?thesis
    using v dependencies_stable [OF L L' adv] completed_stable [OF L L' adv]
    by (simp add: validate_rehydrated_Inr contains_unit_transaction [OF t])
qed

lemma replace_completed:
  assumes I: "run_inv X us run" and rs: "run_records run = as @ r # bs" and act: "record_active r"
    and L': "ledger_progress X p' us" and adv: "advanced (run_progress run) (unit_primary (record_unit r)) p'"
    and state: "record_kind r \<noteq> Operation_unit \<Longrightarrow> progress_state p' = progress_state (run_progress run)"
    and r': "record_dispatch r' = record_dispatch r" "record_state r' = Completed"
      "validate_record_shape r' = Inr ()" "distinct (record_observations r')"
      "validate_completed p' r' = Inr ()"
  shows "\<exists>run'. replace_record X run (length as) r' (Some p') = Inr run' \<and> run_inv X us run' \<and>
    run_progress run' = p' \<and> run_policy run' = run_policy run \<and> run_records run' = as @ r' # bs"
proof -
  note J = run_invD [OF I]
  let ?p = "run_progress run" and ?u = "record_unit r"
  have t: "progress_transaction p' = progress_transaction ?p" using adv by (simp add: advanced_def)
  have ids: "unit_ids_distinct X (progress_transaction p') us" using J(2) t by simp
  have A: "active_ok ?p (run_policy run) (active_units as @ ?u # active_units bs)"
    using J(3) rs act by (simp add: ledger_ok_active)
  have ready: "v \<in> set (progress_ready_units p')" if v: "v \<in> set (active_units as) \<union> set (active_units bs)" for v
  proof (rule advanced_ready [OF ledger_progressD(1) [OF J(1)] ledger_progressD(1) [OF L'] adv])
    show rv: "v \<in> set (progress_ready_units ?p)"
      using A v find_ready_sound unfolding active_ok_def by (auto dest!: bspec)
    have ru: "?u \<in> set (progress_ready_units ?p)"
      using A find_ready_sound unfolding active_ok_def by (auto dest!: bspec)
    have "unit_primary w \<in> set (unit_members w)" if "w \<in> set (progress_ready_units ?p)" for w
      using that ledger_ready [OF J(1)] units_primary(1) [OF ledger_progressD(2) [OF J(1)]] by fastforce
    with rv ru active_ok_disjoint [OF A v] show "unit_primary v \<noteq> unit_primary ?u"
      by (auto simp: units_overlap_def disjoint_iff) metis
  qed
  have act': "active_ok p' (run_policy run) (active_units (as @ r' # bs))"
    using active_ok_remove [OF A, of p'] ready find_ready_complete [OF L' ids] r'(2)
    by (simp add: active_state_def)
  have valid: "record_valid X p' q" if q: "q \<in> set as \<union> set bs" for q
  proof -
    have old: "record_valid X ?p q" and h: "validate_rehydrated_record X ?p q = Inr ()"
      using J(3,4) rs q by (auto simp: ledger_ok_def history_ok_def)
    have "dispatch_reserved_state (record_dispatch q) = snapshot_id (progress_state p')"
      if a: "record_active q" "record_kind q = Operation_unit"
    proof -
      have "record_unit q \<in> set (active_units as) \<union> set (active_units bs)"
        using q a(1) by (auto simp: active_units_def)
      then have "record_kind r \<noteq> Operation_unit" using active_ok_single_operation [OF A] a(2) by blast
      then show ?thesis using old a state by (auto simp: record_valid_def validate_active_Inr)
    qed
    then show ?thesis
      using old dependencies_stable [OF J(1) L' adv] contains_unit_transaction [OF t]
      by (auto simp: record_valid_def validate_active_Inr)
  qed
  have "record_valid X p' r'" using r' by (simp add: record_valid_def active_state_def)
  with valid act' J(3) rs r'(1) have ok: "ledger_ok X p' (run_policy run) (as @ r' # bs)"
    by (auto simp: ledger_ok_active)
  have "validate_rehydrated_record X p' r = Inr ()"
    using rehydrated_stable [OF J(1) L' adv] J(4) rs by (simp add: history_ok_def)
  then have "validate_rehydrated_record X p' r' = Inr ()" using r' by (simp add: validate_rehydrated_Inr)
  then have h: "history_ok X p' (as @ r' # bs)"
    using J(4) rs rehydrated_stable [OF J(1) L' adv] by (auto simp: history_ok_def)
  have "(run_records run)[length as := r'] = as @ r' # bs" using rs by simp
  then have "replace_record X run (length as) r' (Some p') = Inr (run_of X p' (run_policy run) (as @ r' # bs))"
    using ok by (simp add: replace_record_def make_run_Inr)
  then show ?thesis using ok h L' ids by (auto simp: run_inv_def)
qed

section \<open>The operations\<close>

lemma make_record_fields [simp]:
  "record_dispatch (make_record X d st a e obs t) = d" "record_state (make_record X d st a e obs t) = st"
  "record_attempt_session (make_record X d st a e obs t) = a"
  "record_effect_attempt (make_record X d st a e obs t) = e"
  "record_observations (make_record X d st a e obs t) = obs" "record_terminal (make_record X d st a e obs t) = t"
  by (simp_all add: make_record_def)

lemma active_state_simps [simp]:
  "active_state Reserved" "active_state Started" "\<not> active_state Completed"
  "\<not> active_state Released_unstarted"
  by (simp_all add: active_state_def)

lemma active_record_valid:
  assumes "ledger_ok X p policy (as @ r # bs)" and "record_active r"
  shows "validate_active X p (record_dispatch r) = Inr ()" and "validate_record_shape r = Inr ()"
    and "distinct (record_observations r)"
  using assms by (auto simp: ledger_ok_def record_valid_def)

text \<open>Opening a reserved record and starting it.\<close>

definition starts_as ::
  "transaction_run \<Rightarrow> transaction_run \<Rightarrow> transaction_dispatch_record \<Rightarrow> transaction_dispatch_record \<Rightarrow> bool" where
  "starts_as run run' r r' \<longleftrightarrow>
     run_progress run' = run_progress run \<and> run_policy run' = run_policy run \<and>
     (\<exists>as bs. run_records run = as @ r # bs \<and> run_records run' = as @ r' # bs)"

lemma start_total:
  assumes I: "run_inv X us run" and o: "open_reserved X run d = Inr (n, r)"
    and e: "(record_kind r = Operation_unit) = (e \<noteq> None)"
  shows "\<exists>run'. replace_record X run n (started_record X r session e) None = Inr run' \<and> run_inv X us run' \<and>
    starts_as run run' r (started_record X r session e)"
proof -
  note O = open_reserved_Inr [OF o]
  from O(1,2) show ?thesis
  proof (rule require_record_state_Inr)
    fix as bs
    assume rs: "run_records run = as @ r # bs" and n: "n = length as" and st: "record_state r = Reserved"
    have v: "record_valid X (run_progress run) (started_record X r session e)"
      using active_record_valid [OF run_invD(3) [OF I, unfolded rs]] st e
      by (simp add: record_valid_def started_record_def validate_record_shape_def reject_iff)
    show ?thesis
      using replace_open [OF I rs _ _ v] st n rs by (auto simp: started_record_def starts_as_def)
  qed
qed

lemma reserved_kind:
  assumes I: "run_inv X us run" and o: "open_reserved X run d = Inr (n, r)"
  shows "dispatch_unit d = record_unit r"
proof -
  note O = open_reserved_Inr [OF o]
  from O(1,2) show ?thesis
    by (rule require_record_state_Inr) (use current_unit [OF I O(3)] in auto)
qed

lemma started_unit:
  assumes I: "run_inv X us run" and o: "open_started X run d = Inr (n, r)"
  shows "dispatch_unit d = record_unit r"
proof -
  note O = open_started_Inr [OF o]
  from O(1,2) show ?thesis
    by (rule require_record_state_Inr) (use current_unit [OF I O(3)] in auto)
qed

lemma start_construction_total:
  assumes I: "run_inv X us run" and o: "open_reserved X run d = Inr (n, r)"
    and b: "validate_construction_binding run d session = Inr ()"
  shows "\<exists>run'. start_construction_dispatch X run d session = Inr run' \<and> run_inv X us run' \<and>
    starts_as run run' r (started_record X r (construction_session_id session) None)"
proof -
  have "record_kind r = Construction_unit"
    using b reserved_kind [OF I o] by (auto simp: validate_construction_binding_def split: if_splits)
  then show ?thesis using start_total [OF I o] o b by (simp add: start_construction_dispatch_def)
qed

lemma start_check_total:
  assumes I: "run_inv X us run" and o: "open_reserved X run d = Inr (n, r)"
    and b: "validate_check_binding run d session = Inr ()"
  shows "\<exists>run'. start_check_dispatch X run d session = Inr run' \<and> run_inv X us run' \<and>
    starts_as run run' r (started_record X r (check_session_id session) None)"
proof -
  have "record_kind r = Check_unit"
    using b reserved_kind [OF I o] by (auto simp: validate_check_binding_def split: if_splits)
  then show ?thesis using start_total [OF I o] o b by (simp add: start_check_dispatch_def)
qed

lemma start_operation_total:
  assumes I: "run_inv X us run" and o: "open_reserved X run d = Inr (n, r)"
    and b: "validate_operation_binding run d session = Inr ()"
    and a: "admit X (effect_session_id session) (word_of_nat (effect_session_before_count session))
      (word_of_nat (effect_session_after_count session)) nonce = Inr attempt"
  shows "\<exists>run'. start_operation_dispatch X run d session nonce = Inr (run', attempt) \<and> run_inv X us run' \<and>
    starts_as run run' r (started_record X r (effect_session_id session) (Some (ea_attempt attempt)))"
proof -
  have "record_kind r = Operation_unit"
    using b reserved_kind [OF I o] by (auto simp: validate_operation_binding_def split: if_splits)
  then show ?thesis
    using start_total [OF I o, of "Some (ea_attempt attempt)" "effect_session_id session"] o b a
    by (auto simp: start_operation_dispatch_def)
qed

lemma release_total:
  assumes I: "run_inv X us run" and i: "record_index run d = Inr n"
    and s: "require_record_state run d Reserved = Inr r"
  shows "\<exists>run'. release_unstarted_dispatch X run d = Inr run' \<and> run_inv X us run' \<and>
    starts_as run run' r (released_record X r)"
  using i s
proof (rule require_record_state_Inr)
  fix as bs
  assume rs: "run_records run = as @ r # bs" and n: "n = length as" and st: "record_state r = Reserved"
  have v: "record_valid X (run_progress run) (released_record X r)"
    by (simp add: record_valid_def released_record_def validate_record_shape_def reject_iff active_state_def)
  show ?thesis
    using replace_open [OF I rs _ _ v] st n i s rs
    by (auto simp: released_record_def release_unstarted_dispatch_def starts_as_def)
qed

text \<open>A started record and what completing it does.\<close>

definition completes_as ::
  "transaction_run \<Rightarrow> transaction_run \<Rightarrow> transaction_dispatch_record \<Rightarrow> transaction_dispatch_record \<Rightarrow>
   transaction_progress \<Rightarrow> bool" where
  "completes_as run run' r r' p \<longleftrightarrow>
     run_progress run' = p \<and> run_policy run' = run_policy run \<and>
     (\<exists>as bs. run_records run = as @ r # bs \<and> run_records run' = as @ r' # bs)"

lemma complete_total:
  assumes I: "run_inv X us run" and o: "open_started X run d = Inr (n, r)"
    and L': "ledger_progress X p' us" and adv: "advanced (run_progress run) (unit_primary (record_unit r)) p'"
    and state: "record_kind r \<noteq> Operation_unit \<Longrightarrow> progress_state p' = progress_state (run_progress run)"
    and c: "validate_completed p' (completed_record X r evidence) = Inr ()"
  shows "\<exists>run'. replace_record X run n (completed_record X r evidence) (Some p') = Inr run' \<and>
    run_inv X us run' \<and> completes_as run run' r (completed_record X r evidence) p'"
proof -
  note O = open_started_Inr [OF o]
  from O(1,2) show ?thesis
  proof (rule require_record_state_Inr)
    fix as bs
    assume rs: "run_records run = as @ r # bs" and n: "n = length as" and st: "record_state r = Started"
    have "record_active r" using st by simp
    note V = active_record_valid [OF run_invD(3) [OF I, unfolded rs] this]
    have "validate_record_shape (completed_record X r evidence) = Inr ()"
      using V(2) st by (auto simp: validate_record_shape_def completed_record_def reject_iff Let_def)
    then show ?thesis
      using replace_completed [OF I rs _ L' adv state, of "completed_record X r evidence"] V(3) st n c rs
      by (auto simp: completed_record_def completes_as_def)
  qed
qed

lemma started_known:
  assumes I: "run_inv X us run" and o: "open_started X run d = Inr (n, r)"
  obtains u where "u \<in> set us" and "record_unit r = sealed_unit X (run_progress run) u"
    and "unit_primary (record_unit r) \<in> set (spec_members u)"
proof -
  note O = open_started_Inr [OF o]
  from O(1,2) have k: "contains_unit X (run_progress run) (record_unit r) = Inr True"
  proof (rule require_record_state_Inr)
    fix as bs
    assume "run_records run = as @ r # bs" and "record_state r = Started"
    then show ?thesis
      using active_record_valid [of X "run_progress run" "run_policy run" as r bs] run_invD(3) [OF I]
      by (simp add: validate_active_Inr)
  qed
  from known_unit [OF run_invD(1) [OF I] k] that show thesis by metis
qed

end
