(* ===== verification/Ledger_Complete.thy ===== *)
theory Ledger_Complete
  imports Ledger_Steps
begin

text \<open>
  Completion of a dispatch: the evidence that retires it keeps the run invariant, an indeterminate
  operation outcome is only observed, and no completion fails in the validation that ends it.
\<close>

section \<open>The progress stays well typed\<close>

lemma typed_construction:
  assumes L: "ledger_progress X p us" and a: "advance_construction X p c = Inr p'"
    and u: "u \<in> set us" "spec_kind u = Construction_unit" "spec_primary u = construction_node c"
  shows "ledger_progress X p' us" and "advanced p (construction_node c) p'"
    and "progress_state p' = progress_state p" and "progress_construction p' (construction_node c) = Some c"
proof -
  note D = ledger_progressD [OF L] and A = advance_construction_sound [OF ledger_progressD(1) [OF L] a]
  note B = advance_constructionD [OF a] and O = progress_okD [OF D(1)]
  have t: "progress_transaction p' = progress_transaction p" using A by (simp add: advanced_def)
  have f: "progress_constructions p' = sort_key construction_node (progress_constructions p @ [c])"
    "progress_checks p' = progress_checks p" "progress_effects p' = progress_effects p"
    using B(3) by (auto simp: rebuild_def bindE_Inr_iff)
  have "evidence_typed p' us" using D(3) u by (auto simp: evidence_typed_def f)
  then show "ledger_progress X p' us" using A D(2) t by (simp add: ledger_progress_def)
  show "advanced p (construction_node c) p'" and "progress_state p' = progress_state p" using A by blast+
  show "progress_construction p' (construction_node c) = Some c"
    using find_construction_insert [OF O(3) B(2)] by (simp add: progress_construction_def f)
qed

lemma typed_check:
  assumes L: "ledger_progress X p us" and a: "advance_check X p c = Inr p'"
    and u: "u \<in> set us" "spec_kind u = Check_unit" "spec_primary u = check_node c"
  shows "ledger_progress X p' us" and "advanced p (check_node c) p'"
    and "progress_state p' = progress_state p" and "progress_check p' (check_node c) = Some c"
proof -
  note D = ledger_progressD [OF L] and A = advance_check_sound [OF ledger_progressD(1) [OF L] a]
  note B = advance_checkD [OF a] and O = progress_okD [OF D(1)]
  have t: "progress_transaction p' = progress_transaction p" using A by (simp add: advanced_def)
  have f: "progress_constructions p' = progress_constructions p"
    "progress_checks p' = sort_key check_node (progress_checks p @ [c])" "progress_effects p' = progress_effects p"
    using B(3) by (auto simp: rebuild_def bindE_Inr_iff)
  have "evidence_typed p' us" using D(3) u by (auto simp: evidence_typed_def f)
  then show "ledger_progress X p' us" using A D(2) t by (simp add: ledger_progress_def)
  show "advanced p (check_node c) p'" and "progress_state p' = progress_state p" using A by blast+
  show "progress_check p' (check_node c) = Some c"
    using find_check_insert [OF O(4) B(2)] by (simp add: progress_check_def f)
qed

lemma typed_effect:
  assumes L: "ledger_progress X p us" and a: "advance_effect X p e s = Inr p'"
    and l: "effect_local (transaction_program_of (progress_transaction p)) e"
    and u: "u \<in> set us" "spec_kind u = Operation_unit" "spec_primary u = effect_node e"
  shows "ledger_progress X p' us" and "advanced p (effect_node e) p'"
    and "progress_effect p' (effect_node e) = Some e"
    and "progress_state p' = (if effect_succeeded e then the s else progress_state p)"
proof -
  note D = ledger_progressD [OF L] and A = advance_effect_sound [OF ledger_progressD(1) [OF L] a l]
  note O = progress_okD [OF D(1)]
  have t: "progress_transaction p' = progress_transaction p" using A by (simp add: advanced_def)
  have f: "find_effect (progress_effects p) (effect_node e) = None \<and>
      progress_constructions p' = progress_constructions p \<and> progress_checks p' = progress_checks p \<and>
      progress_effects p' = sort_key effect_node (progress_effects p @ [e])"
    using a by (rule advance_effectD) (auto simp: rebuild_def bindE_Inr_iff)
  have "evidence_typed p' us" using D(3) u f by (auto simp: evidence_typed_def)
  then show "ledger_progress X p' us" using A D(2) t by (simp add: ledger_progress_def)
  show "advanced p (effect_node e) p'"
    and "progress_state p' = (if effect_succeeded e then the s else progress_state p)" using A by blast+
  show "progress_effect p' (effect_node e) = Some e"
    using find_effect_insert [OF O(5)] f by (simp add: progress_effect_def)
qed

section \<open>Completion\<close>

lemma as_dispatch_error_Inr: "as_dispatch_error r = Inr x \<longleftrightarrow> r = Inr x"
  by (cases r) (auto simp: as_dispatch_error_def)

lemma binding_construction:
  "validate_construction_binding run d session = Inr () \<Longrightarrow>
     unit_kind (dispatch_unit d) = Construction_unit \<and>
     construction_build_node (construction_request_of session) = unit_primary (dispatch_unit d)"
  by (auto simp: validate_construction_binding_def split: if_splits)

lemma binding_check:
  "validate_check_binding run d session = Inr () \<Longrightarrow>
     unit_kind (dispatch_unit d) = Check_unit \<and>
     check_node_of (check_request_of session) = unit_primary (dispatch_unit d)"
  by (auto simp: validate_check_binding_def split: if_splits)

lemma binding_operation:
  "validate_operation_binding run d session = Inr () \<Longrightarrow>
     unit_kind (dispatch_unit d) = Operation_unit \<and>
     effect_action_node (effect_request_of session) = unit_primary (dispatch_unit d) \<and>
     snapshot_id (effect_expected_state (effect_request_of session)) = dispatch_reserved_state d"
  by (auto simp: validate_operation_binding_def Let_def split: if_splits)

lemma completed_fields [simp]:
  "record_dispatch (completed_record X r e) = record_dispatch r"
  "record_attempt_session (completed_record X r e) = record_attempt_session r"
  "record_terminal (completed_record X r e) = Some e" "record_state (completed_record X r e) = Completed"
  by (simp_all add: completed_record_def)

lemma complete_construction_total:
  assumes I: "run_inv X us run" and o: "open_started X run d = Inr (n, r)"
    and b: "validate_construction_binding run d (construction_session_of c) = Inr ()"
    and a: "record_attempt_session r = Some (construction_session_id (construction_session_of c))"
    and p: "advance_construction X (run_progress run) c = Inr p'"
  shows "\<exists>run'. complete_construction_dispatch X run d c = Inr run' \<and> run_inv X us run' \<and>
    completes_as run run' r (completed_record X r (construction_id c)) p'"
proof -
  have du: "dispatch_unit d = record_unit r" by (rule started_unit [OF I o])
  note B = binding_construction [OF b, unfolded du]
  obtain u where u: "u \<in> set us" "record_unit r = sealed_unit X (run_progress run) u"
    and m: "unit_primary (record_unit r) \<in> set (spec_members u)" by (rule started_known [OF I o])
  have k: "spec_kind u = Construction_unit" "spec_primary u = construction_node c" using B u(2) by auto
  note T = typed_construction [OF run_invD(1) [OF I] p u(1) k]
  have "terminal_evidence_for_node p' (unit_primary (record_unit r)) = Some (construction_id c)"
    unfolding terminal_evidence_unit [OF T(1) u(1) m] using T(4) k by (simp add: unit_terminal_def)
  then have v: "validate_completed p' (completed_record X r (construction_id c)) = Inr ()"
    using T(4) B a by (simp add: validate_completed_def Let_def reject_iff bindE_Inr_iff)
  have "advanced (run_progress run) (unit_primary (record_unit r)) p'" using T(2) B by simp
  from complete_total [OF I o T(1) this T(3) v] show ?thesis
    using o b a p by (auto simp: complete_construction_dispatch_def as_dispatch_error_def)
qed

lemma complete_check_total:
  assumes I: "run_inv X us run" and o: "open_started X run d = Inr (n, r)"
    and b: "validate_check_binding run d (check_session_of c) = Inr ()"
    and a: "record_attempt_session r = Some (check_session_id (check_session_of c))"
    and p: "advance_check X (run_progress run) c = Inr p'"
  shows "\<exists>run'. complete_check_dispatch X run d c = Inr run' \<and> run_inv X us run' \<and>
    completes_as run run' r (completed_record X r (check_id c)) p'"
proof -
  have du: "dispatch_unit d = record_unit r" by (rule started_unit [OF I o])
  note B = binding_check [OF b, unfolded du]
  obtain u where u: "u \<in> set us" "record_unit r = sealed_unit X (run_progress run) u"
    and m: "unit_primary (record_unit r) \<in> set (spec_members u)" by (rule started_known [OF I o])
  have k: "spec_kind u = Check_unit" "spec_primary u = check_node c" using B u(2) by auto
  note T = typed_check [OF run_invD(1) [OF I] p u(1) k]
  have "terminal_evidence_for_node p' (unit_primary (record_unit r)) = Some (check_id c)"
    unfolding terminal_evidence_unit [OF T(1) u(1) m] using T(4) k by (simp add: unit_terminal_def)
  then have v: "validate_completed p' (completed_record X r (check_id c)) = Inr ()"
    using T(4) B a by (simp add: validate_completed_def Let_def reject_iff bindE_Inr_iff)
  have "advanced (run_progress run) (unit_primary (record_unit r)) p'" using T(2) B by simp
  from complete_total [OF I o T(1) this T(3) v] show ?thesis
    using o b a p by (auto simp: complete_check_dispatch_def as_dispatch_error_def)
qed

lemma open_reserved_state:
  assumes I: "run_inv X us run" and o: "open_started X run d = Inr (n, r)"
    and k: "record_kind r = Operation_unit"
  shows "dispatch_reserved_state d = dispatch_reserved_state (record_dispatch r)"
proof -
  note O = open_started_Inr [OF o]
  have "dispatch_reserved_state d = snapshot_id (progress_state (run_progress run))"
    using O(3) started_unit [OF I o] k
    by (auto simp: validate_dispatch_is_current_def bindE_Inr_iff reject_iff split: if_splits)
  moreover from O(1,2) have "dispatch_reserved_state (record_dispatch r) =
      snapshot_id (progress_state (run_progress run))"
  proof (rule require_record_state_Inr)
    fix as bs
    assume "run_records run = as @ r # bs" and "record_state r = Started"
    then show ?thesis
      using active_record_valid(1) [of X "run_progress run" "run_policy run" as r bs] run_invD(3) [OF I] k
      by (simp add: validate_active_Inr)
  qed
  ultimately show ?thesis by simp
qed

lemma complete_operation_total:
  assumes I: "run_inv X us run" and o: "open_started X run d = Inr (n, r)"
    and b: "validate_operation_binding run d (effect_session_of e) = Inr ()"
    and a: "record_attempt_session r = Some (effect_session_id (effect_session_of e))"
    and t: "operation_outcome_is_terminal (effect_outcome e)"
    and l: "effect_local (transaction_program_of (progress_transaction (run_progress run))) e"
    and p: "advance_effect X (run_progress run) e s = Inr p'"
  shows "\<exists>run'. submit_operation_dispatch_result X run d e s = Inr run' \<and> run_inv X us run' \<and>
    completes_as run run' r (completed_record X r (effect_id e)) p'"
proof -
  have du: "dispatch_unit d = record_unit r" by (rule started_unit [OF I o])
  note B = binding_operation [OF b, unfolded du]
  obtain u where u: "u \<in> set us" "record_unit r = sealed_unit X (run_progress run) u"
    and m: "unit_primary (record_unit r) \<in> set (spec_members u)" by (rule started_known [OF I o])
  have k: "spec_kind u = Operation_unit" "spec_primary u = effect_node e" using B u(2) by auto
  note T = typed_effect [OF run_invD(1) [OF I] p l u(1) k]
  have "terminal_evidence_for_node p' (unit_primary (record_unit r)) = Some (effect_id e)"
    unfolding terminal_evidence_unit [OF T(1) u(1) m] using T(3) k by (simp add: unit_terminal_def)
  moreover have "dispatch_reserved_state (record_dispatch r) = snapshot_id (effect_expected_state (effect_request e))"
    using B open_reserved_state [OF I o] by simp
  ultimately have v: "validate_completed p' (completed_record X r (effect_id e)) = Inr ()"
    using T(3) B a by (simp add: validate_completed_def Let_def reject_iff bindE_Inr_iff)
  have "advanced (run_progress run) (unit_primary (record_unit r)) p'" using T(2) B by simp
  from complete_total [OF I o T(1) this _ v] show ?thesis
    using o b a p t B by (auto simp: submit_operation_dispatch_result_def as_dispatch_error_def)
qed

lemma observe_operation_total:
  assumes I: "run_inv X us run" and o: "open_started X run d = Inr (n, r)"
    and b: "validate_operation_binding run d (effect_session_of e) = Inr ()"
    and a: "record_attempt_session r = Some (effect_session_id (effect_session_of e))"
    and t: "\<not> operation_outcome_is_terminal (effect_outcome e)"
    and new: "effect_id e \<notin> set (record_observations r)"
  shows "\<exists>run' r'. submit_operation_dispatch_result X run d e None = Inr run' \<and> run_inv X us run' \<and>
    observed_record X r (effect_id e) = Inr r' \<and> starts_as run run' r r'"
proof -
  have du: "dispatch_unit d = record_unit r" by (rule started_unit [OF I o])
  note B = binding_operation [OF b, unfolded du] and O = open_started_Inr [OF o]
  let ?r = "make_record X (record_dispatch r) Started (record_attempt_session r) (record_effect_attempt r)
    (record_observations r @ [effect_id e]) None"
  have obs: "observed_record X r (effect_id e) = Inr ?r" using new by (simp add: observed_record_def)
  from O(1,2) show ?thesis
  proof (rule require_record_state_Inr)
    fix as bs
    assume rs: "run_records run = as @ r # bs" and n: "n = length as" and st: "record_state r = Started"
    have "record_active r" using st by simp
    note V = active_record_valid [OF run_invD(3) [OF I, unfolded rs] this]
    have v: "record_valid X (run_progress run) ?r"
      using V st B a new by (auto simp: record_valid_def validate_record_shape_def reject_iff Let_def)
    show ?thesis
      using replace_open [OF I rs \<open>record_active r\<close> _ v] st n o b a t obs rs
      by (auto simp: submit_operation_dispatch_result_def starts_as_def)
  qed
qed

end
