(* ===== verification/Ledger_Runs.thy ===== *)
theory Ledger_Runs
  imports Ledger_Complete
begin

text \<open>
  Runs as a transition system: the operations of \<^verbatim>\<open>dispatch.h\<close> as steps, the run invariant along every
  sequence of them, and the direction in which a ledger moves.
\<close>

section \<open>Steps\<close>

inductive run_step :: "ext \<Rightarrow> transaction_run \<Rightarrow> transaction_run \<Rightarrow> bool" for X where
  step_reserve: "reserve_next X run nonce = Inr (run', d) \<Longrightarrow> run_step X run run'"
| step_start_construction: "start_construction_dispatch X run d cs = Inr run' \<Longrightarrow> run_step X run run'"
| step_start_check: "start_check_dispatch X run d ks = Inr run' \<Longrightarrow> run_step X run run'"
| step_start_operation: "start_operation_dispatch X run d es nonce = Inr (run', attempt) \<Longrightarrow> run_step X run run'"
| step_release: "release_unstarted_dispatch X run d = Inr run' \<Longrightarrow> run_step X run run'"
| step_complete_construction: "complete_construction_dispatch X run d c = Inr run' \<Longrightarrow> run_step X run run'"
| step_complete_check: "complete_check_dispatch X run d k = Inr run' \<Longrightarrow> run_step X run run'"
| step_submit_operation: "submit_operation_dispatch_result X run d e s = Inr run' \<Longrightarrow>
    effect_local (transaction_program_of (progress_transaction (run_progress run))) e \<Longrightarrow> run_step X run run'"

inductive_cases run_stepE: "run_step X run run'"

lemma reserve_preserves:
  assumes I: "run_inv X us run" and r: "reserve_next X run nonce = Inr (run', od)"
  shows "run_inv X us run' \<and> (run' = run \<or> (\<exists>d. run_records run' = run_records run @ [make_record X d Reserved None None [] None]
     \<and> run_progress run' = run_progress run \<and> run_policy run' = run_policy run
     \<and> dispatch_reserved_from d = progress_id (run_progress run)
     \<and> dispatch_reserved_state d = snapshot_id (progress_state (run_progress run))))"
proof (cases "run' = run")
  case False
  note J = run_invD [OF I]
  from r False obtain u ds where n: "\<not> nonce_used run nonce" and st: "\<not> run_stopped run"
    and sel: "find (\<lambda>u. capacity_available run (unit_kind u) \<and> \<not> overlaps_active run u)
      (progress_ready_units (run_progress run)) = Some u"
    and c: "capture_dependencies X (run_progress run) u = Inr ds"
    and m: "make_run X (run_progress run) (run_policy run)
      (run_records run @ [make_record X (reservation X run nonce u ds) Reserved None None [] None]) = Inr run'"
    by (auto simp: reserve_next_def Let_def bindE_Inr_iff reservation_def split: if_splits option.splits)
  have "dispatch_id (reservation X run nonce u ds) \<notin> dispatch_name ` set (run_records run)"
    using m by (simp add: make_run_Inr ledger_ok_def)
  then have "\<forall>q \<in> set (run_records run). dispatch_name q \<noteq> dispatch_id (reservation X run nonce u ds)"
    by (metis imageI)
  from reserve_next_selected [OF I n st sel c this] m r show ?thesis
    by (auto simp: make_run_Inr reserved_run_def reservation_def make_dispatch_def)
qed (use I in simp)

definition record_forward :: "transaction_dispatch_record \<Rightarrow> transaction_dispatch_record \<Rightarrow> bool" where
  "record_forward r r' \<longleftrightarrow> r' = r \<or>
     (record_dispatch r' = record_dispatch r \<and>
      (record_state r = Reserved \<or>
       (record_state r = Started \<and> (record_state r' = Started \<or> record_state r' = Completed) \<and>
        record_attempt_session r' = record_attempt_session r \<and>
        record_effect_attempt r' = record_effect_attempt r \<and>
        (\<exists>obs. record_observations r' = record_observations r @ obs))))"

lemma record_forward_refl: "record_forward r r"
  by (simp add: record_forward_def)

lemma record_forward_trans: "record_forward a b \<Longrightarrow> record_forward b c \<Longrightarrow> record_forward a c"
  unfolding record_forward_def by (elim disjE conjE exE) auto

definition run_forward :: "transaction_run \<Rightarrow> transaction_run \<Rightarrow> bool" where
  "run_forward run run' \<longleftrightarrow>
     run_policy run' = run_policy run \<and>
     progress_transaction (run_progress run') = progress_transaction (run_progress run) \<and>
     length (run_records run) \<le> length (run_records run') \<and>
     (\<forall>i < length (run_records run). record_forward (run_records run ! i) (run_records run' ! i))"

lemma run_forward_refl: "run_forward run run"
  by (simp add: run_forward_def record_forward_refl)

lemma run_forward_trans: "run_forward a b \<Longrightarrow> run_forward b c \<Longrightarrow> run_forward a c"
  unfolding run_forward_def by (auto intro: record_forward_trans order_less_le_trans)

lemma run_forward_replace:
  assumes "run_records run = as @ r # bs" and "run_records run' = as @ r' # bs" and "record_forward r r'"
    and "run_policy run' = run_policy run"
    and "progress_transaction (run_progress run') = progress_transaction (run_progress run)"
  shows "run_forward run run'"
proof -
  have "record_forward ((as @ r # bs) ! i) ((as @ r' # bs) ! i)" for i
    using assms(3) record_forward_refl by (cases "i - length as") (auto simp: nth_append)
  then show ?thesis using assms by (simp add: run_forward_def)
qed

lemma starts_as_forward:
  assumes "starts_as run run' r r'" and "record_forward r r'"
  shows "run_forward run run'"
  using assms by (auto simp: starts_as_def intro: run_forward_replace)

lemma completes_as_forward:
  assumes "completes_as run run' r r' p'" and "record_forward r r'"
    and "progress_transaction p' = progress_transaction (run_progress run)"
  shows "run_forward run run'"
  using assms by (auto simp: completes_as_def intro: run_forward_replace)

lemma state_of_opened:
  "open_reserved X run d = Inr (n, r) \<Longrightarrow> record_state r = Reserved"
  "open_started X run d = Inr (n, r) \<Longrightarrow> record_state r = Started"
  by (auto simp: open_reserved_def open_started_def require_record_state_def bindE_Inr_iff Let_def
      split: if_splits)

lemma forward_started [simp]:
  "record_state r = Reserved \<Longrightarrow> record_forward r (started_record X r session e)"
  "record_state r = Reserved \<Longrightarrow> record_forward r (released_record X r)"
  "record_state r = Started \<Longrightarrow> record_forward r (completed_record X r ev)"
  "record_state r = Started \<Longrightarrow> observed_record X r ob = Inr r' \<Longrightarrow> record_forward r r'"
  by (auto simp: record_forward_def started_record_def released_record_def completed_record_def
      observed_record_def split: if_splits)

section \<open>What one step does to the ledger\<close>

text \<open>Accepted evidence is new evidence.\<close>

lemma advance_new:
  "advance_construction X p c = Inr p' \<Longrightarrow> p' \<noteq> p"
  "advance_check X p k = Inr p' \<Longrightarrow> p' \<noteq> p"
  "advance_effect X p e s = Inr p' \<Longrightarrow> p' \<noteq> p"
proof -
  show "advance_construction X p c = Inr p' \<Longrightarrow> p' \<noteq> p"
    by (drule advance_constructionD(3)) (auto simp: rebuild_def bindE_Inr_iff
        dest: arg_cong [where f = "\<lambda>p. length (progress_constructions p)"])
  show "advance_check X p k = Inr p' \<Longrightarrow> p' \<noteq> p"
    by (drule advance_checkD(3)) (auto simp: rebuild_def bindE_Inr_iff
        dest: arg_cong [where f = "\<lambda>p. length (progress_checks p)"])
  show "advance_effect X p e s = Inr p' \<Longrightarrow> p' \<noteq> p"
    by (erule advance_effectD) (auto simp: rebuild_def bindE_Inr_iff
        dest: arg_cong [where f = "\<lambda>p. length (progress_effects p)"])
qed

inductive run_change :: "ext \<Rightarrow> transaction_run \<Rightarrow> transaction_run \<Rightarrow> bool" for X run where
  change_none: "run_change X run run"
| change_reserve: "run_records run' = run_records run @ [make_record X d Reserved None None [] None] \<Longrightarrow>
    run_progress run' = run_progress run \<Longrightarrow> run_policy run' = run_policy run \<Longrightarrow>
    dispatch_reserved_from d = progress_id (run_progress run) \<Longrightarrow>
    dispatch_reserved_state d = snapshot_id (progress_state (run_progress run)) \<Longrightarrow> run_change X run run'"
| change_start: "starts_as run run' r (started_record X r session e) \<Longrightarrow> record_state r = Reserved \<Longrightarrow>
    run_change X run run'"
| change_release: "starts_as run run' r (released_record X r) \<Longrightarrow> record_state r = Reserved \<Longrightarrow>
    run_change X run run'"
| change_observe: "starts_as run run' r r' \<Longrightarrow> record_state r = Started \<Longrightarrow>
    observed_record X r ob = Inr r' \<Longrightarrow> run_change X run run'"
| change_complete: "completes_as run run' r (completed_record X r evidence) p' \<Longrightarrow> record_state r = Started \<Longrightarrow>
    advanced (run_progress run) i p' \<Longrightarrow> p' \<noteq> run_progress run \<Longrightarrow>
    (record_kind r \<noteq> Operation_unit \<Longrightarrow> progress_state p' = progress_state (run_progress run)) \<Longrightarrow>
    run_change X run run'"

lemma run_change_forward: "run_change X run run' \<Longrightarrow> run_forward run run'"
proof (induction rule: run_change.induct)
  case (change_reserve run' d)
  then show ?case by (simp add: run_forward_def nth_append record_forward_refl)
next
  case (change_complete run' r evidence p' i)
  then have "progress_transaction p' = progress_transaction (run_progress run)" by (simp add: advanced_def)
  with change_complete show ?case by (auto intro: completes_as_forward)
qed (auto intro: run_forward_refl starts_as_forward forward_started)

lemma submit_operation_cases:
  assumes "submit_operation_dispatch_result X run d e s = Inr run'"
  obtains (observe) n r where "open_started X run d = Inr (n, r)"
      "validate_operation_binding run d (effect_session_of e) = Inr ()"
      "record_attempt_session r = Some (effect_session_id (effect_session_of e))"
      "\<not> operation_outcome_is_terminal (effect_outcome e)" "s = None"
      "effect_id e \<notin> set (record_observations r)"
    | (complete) n r p' where "open_started X run d = Inr (n, r)"
      "validate_operation_binding run d (effect_session_of e) = Inr ()"
      "record_attempt_session r = Some (effect_session_id (effect_session_of e))"
      "operation_outcome_is_terminal (effect_outcome e)"
      "advance_effect X (run_progress run) e s = Inr p'"
  using assms
  by (auto simp: submit_operation_dispatch_result_def bindE_Inr_iff as_dispatch_error_Inr observed_record_def
      split: if_splits)

lemma run_step_change:
  assumes I: "run_inv X us run" and s: "run_step X run run'"
  shows "run_inv X us run' \<and> run_change X run run'"
  using s
proof cases
  case (step_reserve nonce d)
  from reserve_preserves [OF I step_reserve] show ?thesis
    by (auto intro: change_none change_reserve)
next
  case (step_start_construction d cs)
  then obtain n r where o: "open_reserved X run d = Inr (n, r)"
    and b: "validate_construction_binding run d cs = Inr ()"
    by (auto simp: start_construction_dispatch_def bindE_Inr_iff)
  from start_construction_total [OF I o b] step_start_construction show ?thesis
    using change_start state_of_opened(1) [OF o] by auto
next
  case (step_start_check d ks)
  then obtain n r where o: "open_reserved X run d = Inr (n, r)"
    and b: "validate_check_binding run d ks = Inr ()"
    by (auto simp: start_check_dispatch_def bindE_Inr_iff)
  from start_check_total [OF I o b] step_start_check show ?thesis
    using change_start state_of_opened(1) [OF o] by auto
next
  case (step_start_operation d es nonce attempt)
  then obtain n r where o: "open_reserved X run d = Inr (n, r)"
    and b: "validate_operation_binding run d es = Inr ()"
    and a: "admit X (effect_session_id es) (word_of_nat (effect_session_before_count es))
      (word_of_nat (effect_session_after_count es)) nonce = Inr attempt"
    by (auto simp: start_operation_dispatch_def bindE_Inr_iff)
  from start_operation_total [OF I o b a] step_start_operation show ?thesis
    using change_start state_of_opened(1) [OF o] by auto
next
  case (step_release d)
  then obtain n r where i: "record_index run d = Inr n" and r: "require_record_state run d Reserved = Inr r"
    by (auto simp: release_unstarted_dispatch_def bindE_Inr_iff)
  have "record_state r = Reserved"
    using r by (auto simp: require_record_state_def bindE_Inr_iff Let_def split: if_splits)
  with release_total [OF I i r] step_release show ?thesis
    using change_release by auto
next
  case (step_complete_construction d c)
  then obtain n r p' where o: "open_started X run d = Inr (n, r)"
    and b: "validate_construction_binding run d (construction_session_of c) = Inr ()"
    and a: "record_attempt_session r = Some (construction_session_id (construction_session_of c))"
    and p: "advance_construction X (run_progress run) c = Inr p'"
    by (auto simp: complete_construction_dispatch_def bindE_Inr_iff as_dispatch_error_Inr split: if_splits)
  from complete_construction_total [OF I o b a p] step_complete_construction show ?thesis
    using change_complete [OF _ state_of_opened(2) [OF o]]
      advance_construction_sound [OF ledger_progressD(1) [OF run_invD(1) [OF I]] p] advance_new(1) [OF p] by fastforce
next
  case (step_complete_check d k)
  then obtain n r p' where o: "open_started X run d = Inr (n, r)"
    and b: "validate_check_binding run d (check_session_of k) = Inr ()"
    and a: "record_attempt_session r = Some (check_session_id (check_session_of k))"
    and p: "advance_check X (run_progress run) k = Inr p'"
    by (auto simp: complete_check_dispatch_def bindE_Inr_iff as_dispatch_error_Inr split: if_splits)
  from complete_check_total [OF I o b a p] step_complete_check show ?thesis
    using change_complete [OF _ state_of_opened(2) [OF o]]
      advance_check_sound [OF ledger_progressD(1) [OF run_invD(1) [OF I]] p] advance_new(2) [OF p] by fastforce
next
  case (step_submit_operation d e s)
  from step_submit_operation(1) show ?thesis
  proof (cases rule: submit_operation_cases)
    case (observe n r)
    from observe_operation_total [OF I observe(1-4) observe(6)] step_submit_operation(1) observe(5) show ?thesis
      using change_observe [OF _ state_of_opened(2) [OF observe(1)]] by fastforce
  next
    case (complete n r p')
    have k: "record_kind r = Operation_unit"
      using binding_operation [OF complete(2)] started_unit [OF I complete(1)] by simp
    from complete_operation_total [OF I complete(1-4) step_submit_operation(2) complete(5)]
      step_submit_operation(1) k show ?thesis
      using change_complete [OF _ state_of_opened(2) [OF complete(1)]]
        advance_effect_sound [OF ledger_progressD(1) [OF run_invD(1) [OF I]] complete(5) step_submit_operation(2)]
        advance_new(3) [OF complete(5)]
      by fastforce
  qed
qed

section \<open>Preservation\<close>

lemma run_step_preserves:
  "run_inv X us run \<Longrightarrow> run_step X run run' \<Longrightarrow> run_inv X us run' \<and> run_forward run run'"
  using run_step_change run_change_forward by blast

lemma run_steps_preserve:
  assumes "(run_step X)\<^sup>*\<^sup>* run run'" and "run_inv X us run"
  shows "run_inv X us run' \<and> run_forward run run'"
  using assms
  by (induction rule: rtranclp_induct) (auto simp: run_forward_refl dest: run_step_preserves intro: run_forward_trans)

end
