(* ===== verification/Journal_Chain.thy ===== *)
theory Journal_Chain
  imports Prelude
begin

text \<open>
  The contract both durable journals share: a validated successor carries the next 64-bit sequence
  number, which does not wrap, and names its predecessor's identity. Along a chain the sequence
  number then counts the transitions, so a chain never repeats a record, and a record that numbers
  determine occurs at most once.
\<close>

lemma unat_succ_u64: "(w :: u64) \<noteq> max_u64 \<Longrightarrow> unat (w + 1) = Suc (unat w)"
proof -
  assume "w \<noteq> max_u64"
  then have "w + 1 \<noteq> 0" by (metis add.commute add_eq_0_iff)
  then show ?thesis by (metis Suc_eq_plus1 add.commute unatSuc)
qed

locale journal_chain =
  fixes step :: "'r \<Rightarrow> 'r \<Rightarrow> bool"
    and sequence :: "'r \<Rightarrow> u64"
    and previous :: "'r \<Rightarrow> string option"
    and identity :: "'r \<Rightarrow> string"
  assumes next_sequence: "step r r' \<Longrightarrow> sequence r \<noteq> max_u64 \<and> sequence r' = sequence r + 1"
    and names_previous: "step r r' \<Longrightarrow> previous r' = Some (identity r)"
begin

lemma step_sequence: "step r r' \<Longrightarrow> unat (sequence r') = Suc (unat (sequence r))"
  using next_sequence unat_succ_u64 by metis

lemma chain_length: "(step ^^ n) r r' \<Longrightarrow> unat (sequence r') = unat (sequence r) + n"
  by (induction n arbitrary: r') (auto simp: step_sequence)

lemma chain_le: "step\<^sup>*\<^sup>* r r' \<Longrightarrow> unat (sequence r) \<le> unat (sequence r')"
  using chain_length rtranclp_imp_relpowp [of step r r'] by fastforce

lemma chain_less: "step\<^sup>+\<^sup>+ r r' \<Longrightarrow> unat (sequence r) < unat (sequence r')"
  by (induction rule: tranclp_induct) (auto dest: step_sequence)

lemma chain_irreflexive: "\<not> step\<^sup>+\<^sup>+ r r"
  using chain_less by fastforce

text \<open>What the sequence number determines happens at most once.\<close>

lemma chain_unique: "step\<^sup>+\<^sup>+ r r' \<Longrightarrow> sequence r \<noteq> sequence r'"
  using chain_less by fastforce

lemma chain_bounded:
  assumes "(step ^^ n) r r'" and "unat (sequence r') \<le> b"
  shows "n \<le> b"
  using chain_length [OF assms(1)] assms(2) by simp

text \<open>A relation that steps preserve holds along the whole chain.\<close>

lemma chain_preserves:
  assumes "step\<^sup>*\<^sup>* r r'" and "\<And>a. R a a" and "\<And>a b c. R a b \<Longrightarrow> R b c \<Longrightarrow> R a c"
    and "\<And>a b. step a b \<Longrightarrow> R a b"
  shows "R r r'"
  using assms(1) by (induction rule: rtranclp_induct) (use assms(2-4) in blast)+

end

locale sealed_journal = journal_chain +
  fixes sealed :: "'a \<Rightarrow> bool"
  assumes sealed_final: "sealed r \<Longrightarrow> \<not> step r r'"
begin

lemma sealed_absorbing: "step\<^sup>*\<^sup>* r r' \<Longrightarrow> sealed r \<Longrightarrow> r' = r"
  using sealed_final by (auto elim: converse_rtranclpE)

lemma sealed_last:
  assumes "step\<^sup>*\<^sup>* a r" and "step\<^sup>*\<^sup>* r b" and "sealed r"
  shows "b = r \<and> unat (sequence a) \<le> unat (sequence b)"
  using sealed_absorbing [OF assms(2,3)] chain_le [OF assms(1)] by simp

end

end
