(* ===== verification/Effect_Attempt.thy ===== *)
theory Effect_Attempt
  imports Effect_Journal Journal_Chain
begin

text \<open>
  The attempt journal as a state machine. Every operation whose guard holds yields a record that
  passes both validations, and every record that passes both validations is the result of an
  operation; each intent is recorded at most once; publication follows a completed application and
  all lifecycle actions; a sealed attempt never changes.
\<close>

section \<open>Valid records and steps\<close>

definition effect_valid :: "ext \<Rightarrow> effect_attempt_record \<Rightarrow> bool" where
  "effect_valid X r \<longleftrightarrow> effect_record_shape X r = Inr ()"

definition effect_next :: "ext \<Rightarrow> effect_attempt_record \<Rightarrow> effect_attempt_record \<Rightarrow> bool" where
  "effect_next X r r' \<longleftrightarrow> effect_valid X r' \<and> validate_effect_successor r r' = Inr ()"

inductive effect_step :: "ext \<Rightarrow> effect_attempt_record \<Rightarrow> effect_attempt_record \<Rightarrow> bool" for X where
  step_begin_before: "begin_before X r i = Inr r' \<Longrightarrow> effect_step X r r'"
| step_complete_before: "complete_before X r result = Inr r' \<Longrightarrow> effect_step X r r'"
| step_begin_application: "begin_application X r = Inr r' \<Longrightarrow> effect_step X r r'"
| step_complete_application: "complete_application X r receipt = Inr r' \<Longrightarrow> effect_step X r r'"
| step_begin_after: "begin_after X r i = Inr r' \<Longrightarrow> effect_step X r r'"
| step_complete_after: "complete_after X r result = Inr r' \<Longrightarrow> effect_step X r r'"
| step_begin_publication: "begin_publication X r transaction request = Inr r' \<Longrightarrow> effect_step X r r'"
| step_complete_publication: "complete_publication X r publication = Inr r' \<Longrightarrow> effect_step X r r'"
| step_seal_terminal: "seal_terminal X r outcome reconciled = Inr r' \<Longrightarrow> effect_step X r r'"

inductive_cases effect_stepE: "effect_step X r r'"

lemma effect_valid_iff:
  "effect_valid X r \<longleftrightarrow>
     list_all Not (header_conditions r) \<and> list_all Not (typed_conditions X r) \<and>
     list_all Not (causal_conditions r) \<and> \<not> stage_rejected r \<and>
     retained_transition_count r = Inr (ea_sequence r) \<and> ea_identity r = effect_record_identity X r"
  by (auto simp: effect_valid_def effect_record_shape_def res_simps)

lemma effect_validD:
  assumes "effect_valid X r"
  shows "list_all Not (header_conditions r)" and "list_all Not (typed_conditions X r)"
    and "list_all Not (causal_conditions r)" and "\<not> stage_rejected r"
    and "retained_transition_count r = Inr (ea_sequence r)" and "ea_identity r = effect_record_identity X r"
  using assms by (simp_all add: effect_valid_iff)

lemma seal_record_fields [simp]:
  "ea_attempt (seal_record X r) = ea_attempt r" "ea_session (seal_record X r) = ea_session r"
  "ea_nonce (seal_record X r) = ea_nonce r" "ea_sequence (seal_record X r) = ea_sequence r"
  "ea_previous (seal_record X r) = ea_previous r" "ea_before_total (seal_record X r) = ea_before_total r"
  "ea_after_total (seal_record X r) = ea_after_total r" "ea_stage (seal_record X r) = ea_stage r"
  "ea_active_index (seal_record X r) = ea_active_index r" "ea_before (seal_record X r) = ea_before r"
  "ea_application (seal_record X r) = ea_application r" "ea_after (seal_record X r) = ea_after r"
  "ea_transaction_evidence (seal_record X r) = ea_transaction_evidence r"
  "ea_publication_request (seal_record X r) = ea_publication_request r"
  "ea_publication (seal_record X r) = ea_publication r"
  "ea_terminal_outcome (seal_record X r) = ea_terminal_outcome r"
  "ea_reconciled_state (seal_record X r) = ea_reconciled_state r"
  by (simp_all add: seal_record_def)

lemma seal_record_identity [simp]: "ea_identity (seal_record X r) = effect_record_identity X r"
  by (simp add: seal_record_def)

lemma identity_ignores_identity [simp]:
  "effect_record_identity X (seal_record X r) = effect_record_identity X r"
  by (simp add: effect_record_identity_def identity_fields_def)

lemma seal_record_valid [simp]: "ea_identity r = effect_record_identity X r \<Longrightarrow> seal_record X r = r"
  by (simp add: seal_record_def)

text \<open>The record an operation builds from the fields it changes.\<close>

definition next_record ::
  "effect_attempt_record \<Rightarrow> effect_attempt_stage \<Rightarrow> u64 option \<Rightarrow> effect_lifecycle_fact list \<Rightarrow>
   effect_application_fact option \<Rightarrow> effect_lifecycle_fact list \<Rightarrow> string option \<Rightarrow> string option \<Rightarrow>
   effect_publication_fact option \<Rightarrow> effectful_operation_outcome option \<Rightarrow> string option \<Rightarrow>
   effect_attempt_record" where
  "next_record r stage i before application after transaction request publication outcome reconciled =
     \<lparr>ea_identity = [], ea_attempt = ea_attempt r, ea_session = ea_session r,
      ea_nonce = ea_nonce r, ea_sequence = ea_sequence r + 1,
      ea_previous = Some (ea_identity r), ea_before_total = ea_before_total r,
      ea_after_total = ea_after_total r, ea_stage = stage, ea_active_index = i,
      ea_before = before, ea_application = application, ea_after = after,
      ea_transaction_evidence = transaction, ea_publication_request = request,
      ea_publication = publication, ea_terminal_outcome = outcome, ea_reconciled_state = reconciled\<rparr>"

lemma successor_Inr:
  "successor X r stage i b a af te pr p t rc = Inr r' \<longleftrightarrow>
     r' = seal_record X (next_record r stage i b a af te pr p t rc) \<and>
     ea_stage r \<noteq> Terminal \<and> ea_sequence r \<noteq> max_u64 \<and> effect_next X r r'"
  by (auto simp: successor_def next_record_def effect_restore_def effect_next_def effect_valid_def
      bindE_Inr_iff)

lemma effect_nextD:
  assumes "effect_next X r r'"
  shows "effect_valid X r'" and "ea_stage r \<noteq> Terminal" and "ea_sequence r \<noteq> max_u64"
    and "ea_sequence r' = ea_sequence r + 1" and "ea_previous r' = Some (ea_identity r)"
    and "ea_attempt r' = ea_attempt r" and "ea_session r' = ea_session r" and "ea_nonce r' = ea_nonce r"
    and "ea_before_total r' = ea_before_total r" and "ea_after_total r' = ea_after_total r"
    and "\<not> stage_successor_rejected r r'"
  using assms by (auto simp: effect_next_def validate_effect_successor_def reject_iff)

lemma effect_step_next: "effect_step X r r' \<Longrightarrow> effect_next X r r'"
  by (erule effect_stepE)
    (auto simp: begin_before_def complete_before_def begin_application_def complete_application_def
      begin_after_def complete_after_def begin_publication_def complete_publication_def
      seal_terminal_def Let_def successor_Inr bindE_Inr_iff split: if_splits)

section \<open>The chain of an attempt\<close>

interpretation effect_chain: sealed_journal "effect_next X" ea_sequence ea_previous ea_identity
  "\<lambda>r. ea_stage r = Terminal" for X
  by unfold_locales (auto dest: effect_nextD)

lemma effect_next_record:
  assumes "effect_next X r r'"
  shows "r' = seal_record X (next_record r (ea_stage r') (ea_active_index r') (ea_before r')
    (ea_application r') (ea_after r') (ea_transaction_evidence r') (ea_publication_request r')
    (ea_publication r') (ea_terminal_outcome r') (ea_reconciled_state r'))"
proof -
  note D = effect_nextD [OF assms]
  have "ea_identity r' = effect_record_identity X r'" using D(1) by (simp add: effect_valid_iff)
  then have "r' = seal_record X r'" by simp
  moreover have "seal_record X r' = seal_record X (next_record r (ea_stage r') (ea_active_index r') (ea_before r')
    (ea_application r') (ea_after r') (ea_transaction_evidence r') (ea_publication_request r')
    (ea_publication r') (ea_terminal_outcome r') (ea_reconciled_state r'))"
    using D by (simp add: seal_record_def next_record_def effect_record_identity_def identity_fields_def)
  ultimately show ?thesis by simp
qed

lemma effect_next_successor:
  assumes "effect_next X r r'" and "ea_stage r' = stage" and "ea_active_index r' = i"
    and "ea_before r' = b" and "ea_application r' = a" and "ea_after r' = af"
    and "ea_transaction_evidence r' = te" and "ea_publication_request r' = pr"
    and "ea_publication r' = p" and "ea_terminal_outcome r' = t" and "ea_reconciled_state r' = rc"
  shows "successor X r stage i b a af te pr p t rc = Inr r'"
  using effect_next_record [OF assms(1)] effect_nextD(2,3) [OF assms(1)] assms
  by (auto simp: successor_Inr)

section \<open>The validators accept exactly what the operations produce\<close>

text \<open>The type of a lifecycle fact: its result is an identity.\<close>

definition effect_facts_ok :: "effect_attempt_record \<Rightarrow> bool" where
  "effect_facts_ok r \<longleftrightarrow> list_all (\<lambda>f. identity_text_ok (fact_result f)) (ea_before r @ ea_after r)"

lemma of_nat_less_total: "n < unat (t :: u64) \<Longrightarrow> (word_of_nat n :: u64) < t"
  by (metis unat_of_nat unsigned_less mod_less order_less_trans word_less_nat_alt)

lemma fact_eta [simp]: "\<lparr>fact_result = fact_result f, fact_succeeded = fact_succeeded f\<rparr> = f"
  by (cases f) simp

lemma application_fact_eta [simp]:
  "\<lparr>app_receipt = app_receipt a, app_outcome = app_outcome a, app_journal = app_journal a,
    app_completed_evidence = app_completed_evidence a\<rparr> = a"
  by (cases a) simp

lemma publication_fact_eta [simp]:
  "\<lparr>pub_receipt = pub_receipt p, pub_outcome = pub_outcome p,
    pub_resulting_snapshot = pub_resulting_snapshot p\<rparr> = p"
  by (cases p) simp

lemma valid_header:
  assumes "effect_valid X r" and "ea_stage r \<noteq> Terminal"
  shows "ea_terminal_outcome r = None" and "ea_reconciled_state r = None"
  using effect_validD(1) [OF assms(1)] assms(2) by (auto simp: header_conditions_def Let_def)

lemma valid_index:
  assumes "effect_valid X r"
  shows "ea_active_index r =
    (if ea_stage r = Before_intent then Some (word_of_nat (length (ea_before r)))
     else if ea_stage r = After_intent then Some (word_of_nat (length (ea_after r))) else None)"
  using effect_validD(1) [OF assms] by (auto simp: header_conditions_def Let_def)

lemma appended_fact:
  "appended_lifecycle_fact xs ys \<longleftrightarrow> (\<exists>f. ys = xs @ [f])"
proof
  assume "appended_lifecycle_fact xs ys"
  then have len: "length ys = Suc (length xs)" and pre: "take (length xs) ys = xs"
    by (simp_all add: appended_lifecycle_fact_def)
  have "ys = take (length xs) ys @ [ys ! length xs]"
    using len by (metis lessI take_Suc_conv_app_nth take_all_iff order_refl)
  then show "\<exists>f. ys = xs @ [f]" using pre by metis
qed (auto simp: appended_lifecycle_fact_def)

lemma next_begin_before:
  assumes "effect_next X r r'" and "ea_stage r' = Before_intent"
  shows "begin_before X r (word_of_nat (length (ea_before r))) = Inr r'"
proof -
  note D = effect_nextD [OF assms(1)]
  have s: "successor X r Before_intent (Some (word_of_nat (length (ea_before r)))) (ea_before r)
      (ea_application r) (ea_after r) (ea_transaction_evidence r) (ea_publication_request r)
      (ea_publication r) None None = Inr r'"
    using D(11) valid_header [OF D(1)] assms
    by (intro effect_next_successor) (auto simp: stage_successor_rejected_def same_effect_evidence_def)
  have "length (ea_before r) < unat (ea_before_total r) \<and> ea_application r = None \<and> ea_after r = []"
    using effect_validD(4) [OF D(1)] D(9,11) assms(2)
    by (auto simp: stage_rejected_def stage_successor_rejected_def same_effect_evidence_def)
  moreover have "ea_stage r = Admitted \<or> (ea_stage r = Before_terminal \<and> last_succeeded (ea_before r))"
    using D(11) assms(2) by (auto simp: stage_successor_rejected_def)
  moreover have "\<not> ea_before_total r \<le> word_of_nat (length (ea_before r))"
    using calculation(1) of_nat_less_total by (simp add: not_le)
  ultimately show ?thesis using s by (auto simp: begin_before_def Let_def)
qed

lemma next_complete_before:
  assumes "effect_next X r r'" and "ea_stage r' = Before_terminal" and v: "effect_valid X r"
    and ok: "effect_facts_ok r'"
  shows "\<exists>result. complete_before X r result = Inr r'"
proof -
  note D = effect_nextD [OF assms(1)]
  obtain f where f: "ea_before r' = ea_before r @ [f]" and st: "ea_stage r = Before_intent"
    using D(11) assms(2) by (auto simp: stage_successor_rejected_def appended_fact)
  have "successor X r Before_terminal None (ea_before r @ [f]) (ea_application r) (ea_after r)
      (ea_transaction_evidence r) (ea_publication_request r) (ea_publication r) None None = Inr r'"
    using D(11) valid_header [OF D(1)] valid_index [OF D(1)] assms f
    by (intro effect_next_successor) (auto simp: stage_successor_rejected_def)
  moreover have "identity_text_ok (fact_result f)" using ok f by (simp add: effect_facts_ok_def)
  moreover have "ea_active_index r = Some (word_of_nat (length (ea_before r)))"
    using valid_index [OF v] st by simp
  ultimately have "complete_before X r
      (undefined\<lparr>lifecycle_result_id := fact_result f, lifecycle_result_succeeded := fact_succeeded f\<rparr>) = Inr r'"
    using st by (simp add: complete_before_def bindE_Inr_iff session_identity_from_hex_Inr)
  then show ?thesis ..
qed

lemma next_begin_application:
  assumes "effect_next X r r'" and "ea_stage r' = Application_intent" and v: "effect_valid X r"
  shows "begin_application X r = Inr r'"
proof -
  note D = effect_nextD [OF assms(1)]
  have "before_complete r' \<and> ea_application r' = None \<and> ea_after r' = [] \<and> \<not> has_publication_authority r'"
    using effect_validD(4) [OF D(1)] assms(2) by (auto simp: stage_rejected_def)
  then have c: "before_complete r \<and> ea_application r = None \<and> ea_after r = [] \<and> \<not> has_publication_authority r"
    using D(9,11) assms(2)
    by (auto simp: stage_successor_rejected_def same_effect_evidence_def before_complete_def
        has_publication_authority_def)
  have "successor X r Application_intent None (ea_before r) None (ea_after r) None None None None None = Inr r'"
    using D(11) valid_header [OF D(1)] valid_index [OF D(1)] assms c
    by (intro effect_next_successor)
      (auto simp: stage_successor_rejected_def same_effect_evidence_def has_publication_authority_def)
  moreover have "(ea_before_total r = 0 \<and> ea_stage r = Admitted) \<or> ea_stage r = Before_terminal"
    using D(11) assms(2) by (auto simp: stage_successor_rejected_def)
  ultimately show ?thesis using c by (auto simp: begin_application_def Let_def before_complete_def)
qed

lemma next_complete_application:
  assumes "effect_next X r r'" and "ea_stage r' = Application_terminal"
  shows "\<exists>receipt. complete_application X r receipt = Inr r'"
proof -
  note D = effect_nextD [OF assms(1)]
  obtain a where a: "ea_application r' = Some a" and st: "ea_stage r = Application_intent" "ea_application r = None"
    using D(11) assms(2) by (auto simp: stage_successor_rejected_def)
  have np: "\<not> has_publication_authority r'"
    using effect_validD(4) [OF D(1)] assms(2) by (auto simp: stage_rejected_def)
  have "successor X r Application_terminal None (ea_before r) (Some a) (ea_after r) None None None None None = Inr r'"
    using D(11) valid_header [OF D(1)] valid_index [OF D(1)] assms a np
    by (intro effect_next_successor)
      (auto simp: stage_successor_rejected_def has_publication_authority_def)
  then have "complete_application X r (undefined\<lparr>application_receipt_id := app_receipt a,
      application_outcome := app_outcome a, application_journal := app_journal a,
      application_completed_evidence := app_completed_evidence a\<rparr>) = Inr r'"
    using st by (simp add: complete_application_def)
  then show ?thesis ..
qed

lemma next_begin_after:
  assumes "effect_next X r r'" and "ea_stage r' = After_intent" and v: "effect_valid X r"
  shows "begin_after X r (word_of_nat (length (ea_after r))) = Inr r'"
proof -
  note D = effect_nextD [OF assms(1)]
  have s: "successor X r After_intent (Some (word_of_nat (length (ea_after r)))) (ea_before r)
      (ea_application r) (ea_after r) (ea_transaction_evidence r) (ea_publication_request r)
      (ea_publication r) None None = Inr r'"
    using D(11) valid_header [OF D(1)] assms
    by (intro effect_next_successor) (auto simp: stage_successor_rejected_def same_effect_evidence_def)
  have c: "length (ea_after r) < unat (ea_after_total r) \<and> application_complete r"
    using effect_validD(4) [OF D(1)] D(10,11) assms(2)
    by (auto simp: stage_rejected_def stage_successor_rejected_def same_effect_evidence_def
        application_complete_def)
  moreover have "\<not> ea_after_total r \<le> word_of_nat (length (ea_after r))"
    using c of_nat_less_total by (simp add: not_le)
  moreover have "ea_stage r = Application_terminal \<or> (ea_stage r = After_terminal \<and> last_succeeded (ea_after r))"
    using D(11) assms(2) by (auto simp: stage_successor_rejected_def)
  moreover have "ea_stage r = Application_terminal \<Longrightarrow> ea_after r = []"
    using effect_validD(4) [OF v] by (auto simp: stage_rejected_def)
  ultimately show ?thesis using s by (auto simp: begin_after_def Let_def)
qed

lemma next_complete_after:
  assumes "effect_next X r r'" and "ea_stage r' = After_terminal" and v: "effect_valid X r"
    and ok: "effect_facts_ok r'"
  shows "\<exists>result. complete_after X r result = Inr r'"
proof -
  note D = effect_nextD [OF assms(1)]
  obtain f where f: "ea_after r' = ea_after r @ [f]" and st: "ea_stage r = After_intent"
    using D(11) assms(2) by (auto simp: stage_successor_rejected_def appended_fact)
  have "successor X r After_terminal None (ea_before r) (ea_application r) (ea_after r @ [f])
      (ea_transaction_evidence r) (ea_publication_request r) (ea_publication r) None None = Inr r'"
    using D(11) valid_header [OF D(1)] valid_index [OF D(1)] assms f
    by (intro effect_next_successor) (auto simp: stage_successor_rejected_def)
  moreover have "identity_text_ok (fact_result f)" using ok f by (simp add: effect_facts_ok_def)
  moreover have "ea_active_index r = Some (word_of_nat (length (ea_after r)))"
    using valid_index [OF v] st by simp
  ultimately have "complete_after X r
      (undefined\<lparr>lifecycle_result_id := fact_result f, lifecycle_result_succeeded := fact_succeeded f\<rparr>) = Inr r'"
    using st by (simp add: complete_after_def bindE_Inr_iff session_identity_from_hex_Inr)
  then show ?thesis ..
qed

lemma next_begin_publication:
  assumes "effect_next X r r'" and "ea_stage r' = Publication_intent"
  shows "\<exists>transaction request. begin_publication X r transaction request = Inr r'"
proof -
  note D = effect_nextD [OF assms(1)]
  obtain t q where tq: "ea_transaction_evidence r' = Some t" "ea_publication_request r' = Some q"
    and c': "application_complete r'" "after_complete r'" "ea_publication r' = None"
    using effect_validD(4) [OF D(1)] assms(2) by (auto simp: stage_rejected_def)
  have e: "ea_before r = ea_before r'" "ea_application r = ea_application r'" "ea_after r = ea_after r'"
    and n: "ea_transaction_evidence r = None" "ea_publication_request r = None" "ea_publication r = None"
    and st: "(ea_after_total r = 0 \<and> ea_stage r = Application_terminal) \<or> ea_stage r = After_terminal"
    using D(11) assms(2) by (auto simp: stage_successor_rejected_def)
  have "successor X r Publication_intent None (ea_before r) (ea_application r) (ea_after r) (Some t)
      (Some q) None None None = Inr r'"
    using valid_header [OF D(1)] valid_index [OF D(1)] assms e tq c'
    by (intro effect_next_successor) auto
  moreover have "application_complete r" "length (ea_after r) = unat (ea_after_total r)"
    "facts_succeeded (ea_after r)"
    using c' e D(10) by (auto simp: application_complete_def after_complete_def)
  ultimately have "begin_publication X r t (undefined\<lparr>publication_request_id := q\<rparr>) = Inr r'"
    using n st by (auto simp: begin_publication_def Let_def)
  then show ?thesis by blast
qed

lemma next_complete_publication:
  assumes "effect_next X r r'" and "ea_stage r' = Publication_terminal"
  shows "\<exists>receipt. complete_publication X r receipt = Inr r'"
proof -
  note D = effect_nextD [OF assms(1)]
  obtain q p where q: "ea_publication_request r' = Some q" and p: "ea_publication r' = Some p"
    using effect_validD(4) [OF D(1)] assms(2) by (auto simp: stage_rejected_def)
  have e: "ea_before r = ea_before r'" "ea_application r = ea_application r'" "ea_after r = ea_after r'"
      "ea_transaction_evidence r = ea_transaction_evidence r'"
      "ea_publication_request r = ea_publication_request r'"
    and n: "ea_publication r = None" and st: "ea_stage r = Publication_intent"
    using D(11) assms(2) by (auto simp: stage_successor_rejected_def)
  have "successor X r Publication_terminal None (ea_before r) (ea_application r) (ea_after r)
      (ea_transaction_evidence r) (ea_publication_request r) (Some p) None None = Inr r'"
    using valid_header [OF D(1)] valid_index [OF D(1)] assms e p
    by (intro effect_next_successor) auto
  then have "complete_publication X r \<lparr>receipt_id = pub_receipt p, receipt_request = q,
      receipt_expected_prior = [], receipt_actual_prior = [], receipt_target_binding = [],
      receipt_resulting_snapshot = pub_resulting_snapshot p, receipt_outcome = pub_outcome p\<rparr> = Inr r'"
    using n st e q by (simp add: complete_publication_def)
  then show ?thesis ..
qed

lemma next_seal_terminal:
  assumes "effect_next X r r'" and "ea_stage r' = Terminal" and v: "effect_valid X r"
  shows "\<exists>outcome reconciled. seal_terminal X r outcome reconciled = Inr r'"
proof -
  note D = effect_nextD [OF assms(1)]
  have h: "list_all Not (header_conditions r')" using effect_validD(1) [OF D(1)] .
  then obtain t where t: "ea_terminal_outcome r' = Some t"
    using assms(2) by (auto simp: header_conditions_def Let_def)
  have same: "same_effect_evidence r r'" and tr: "\<not> terminal_successor_rejected r t"
    using D(11) assms(2) t by (auto simp: stage_successor_rejected_def)
  have sr: "\<not> terminal_rejected r' t"
    using effect_validD(4) [OF D(1)] assms(2) t by (simp add: stage_rejected_def)
  have s: "successor X r Terminal None (ea_before r) (ea_application r) (ea_after r)
      (ea_transaction_evidence r) (ea_publication_request r) (ea_publication r) (Some t)
      (ea_reconciled_state r') = Inr r'"
    using valid_index [OF D(1)] assms same t
    by (intro effect_next_successor) (auto simp: same_effect_evidence_def)
  have pub: "ea_publication r' = ea_publication r" using same by (simp add: same_effect_evidence_def)
  have pi: "ea_stage r = Publication_intent \<or> ea_stage r = Publication_terminal \<Longrightarrow>
      (ea_stage r = Publication_intent \<longleftrightarrow> ea_publication r = None)"
    using effect_validD(4) [OF v] by (auto simp: stage_rejected_def)
  have "t = Effect_completed \<Longrightarrow> \<not> seal_completed_rejected r (ea_reconciled_state r')"
    using sr tr pi pub
    by (auto simp: terminal_rejected_def terminal_successor_rejected_def seal_completed_rejected_def
        publication_outcome_in_def)
  moreover have "t = Application_not_completed \<Longrightarrow> definitive_application_failure r"
    using tr by (simp add: terminal_successor_rejected_def)
  ultimately have "seal_terminal X r t (ea_reconciled_state r') = Inr r'"
    using s sr tr same
    by (auto simp: seal_terminal_def bindE_Inr_iff reject_iff terminal_rejected_def
        terminal_successor_rejected_def same_effect_evidence_def split: effectful_operation_outcome.splits)
  then show ?thesis by blast
qed

lemma effect_next_step:
  assumes "effect_next X r r'" and "effect_valid X r" and "effect_facts_ok r'"
  shows "effect_step X r r'"
proof (cases "ea_stage r'")
  case Admitted
  then show ?thesis using effect_nextD(11) [OF assms(1)] by (simp add: stage_successor_rejected_def)
qed (blast dest: next_begin_before [OF assms(1)] next_complete_before [OF assms(1) _ assms(2,3)]
    next_begin_application [OF assms(1) _ assms(2)] next_complete_application [OF assms(1)]
    next_begin_after [OF assms(1) _ assms(2)] next_complete_after [OF assms(1) _ assms(2,3)]
    next_begin_publication [OF assms(1)] next_complete_publication [OF assms(1)]
    next_seal_terminal [OF assms(1) _ assms(2)] intro: effect_step.intros)+

section \<open>The sequence number counts the retained transitions\<close>

definition totals_ok :: "effect_attempt_record \<Rightarrow> bool" where
  "totals_ok r \<longleftrightarrow> unat (ea_before_total r) \<le> maximum_effect_lifecycle_count \<and>
     unat (ea_after_total r) \<le> maximum_effect_lifecycle_count"

text \<open>The same count over the naturals, where nothing wraps.\<close>

definition transition_number :: "effect_attempt_record \<Rightarrow> nat" where
  "transition_number r =
     (let before_count = length (ea_before r); after_count = length (ea_after r);
          application_base = unat (ea_before_total r) * 2; after_base = application_base + 2;
          publication_base = after_base + unat (ea_after_total r) * 2
      in case ea_stage r of
           Admitted \<Rightarrow> 0
         | Before_intent \<Rightarrow> before_count * 2 + 1
         | Before_terminal \<Rightarrow> before_count * 2
         | Application_intent \<Rightarrow> application_base + 1
         | Application_terminal \<Rightarrow> application_base + 2
         | After_intent \<Rightarrow> after_base + after_count * 2 + 1
         | After_terminal \<Rightarrow> after_base + after_count * 2
         | Publication_intent \<Rightarrow> publication_base + 1
         | Publication_terminal \<Rightarrow> publication_base + 2
         | Terminal \<Rightarrow>
             (case ea_terminal_outcome r of
                Some Lifecycle_failed_before_application \<Rightarrow> before_count * 2 + 1
              | Some Application_not_completed \<Rightarrow> application_base + 3
              | Some Lifecycle_failed_after_application \<Rightarrow> after_base + after_count * 2 + 1
              | Some Effect_completed \<Rightarrow> publication_base + (if ea_publication r \<noteq> None then 3 else 2)
              | Some Outer_lease_lost \<Rightarrow>
                  if ea_publication r \<noteq> None then publication_base + 3
                  else if ea_after r \<noteq> [] then after_base + after_count * 2 + 1
                  else if ea_application r \<noteq> None then application_base + 3
                  else before_count * 2 + 1
              | _ \<Rightarrow> publication_base + 3))"

definition attempt_bound :: "effect_attempt_record \<Rightarrow> nat" where
  "attempt_bound r = 2 * (unat (ea_before_total r) + unat (ea_after_total r)) + 5"

lemma valid_sequence_word:
  assumes "retained_transition_count r = Inr n"
  shows "n = word_of_nat (transition_number r)"
  using assms
  by (auto simp: retained_transition_count_def transition_number_def lease_lost_count_def Let_def
      split: effect_attempt_stage.splits option.splits effectful_operation_outcome.splits if_splits)

lemma valid_counts:
  assumes "effect_valid X r"
  shows "length (ea_before r) \<le> unat (ea_before_total r)" and "length (ea_after r) \<le> unat (ea_after_total r)"
  using effect_validD(1) [OF assms] by (auto simp: header_conditions_def Let_def not_less)

lemma transition_number_bound:
  assumes "length (ea_before r) \<le> unat (ea_before_total r)" and "length (ea_after r) \<le> unat (ea_after_total r)"
  shows "transition_number r \<le> attempt_bound r"
  using assms unfolding transition_number_def attempt_bound_def Let_def
  by (simp split: effect_attempt_stage.split option.split effectful_operation_outcome.split)

lemma attempt_bound_small: "totals_ok r \<Longrightarrow> attempt_bound r \<le> 262149"
  by (simp add: totals_ok_def attempt_bound_def maximum_effect_lifecycle_count_def)

lemma valid_sequence:
  assumes "effect_valid X r" and "totals_ok r"
  shows "unat (ea_sequence r) = transition_number r" and "unat (ea_sequence r) \<le> attempt_bound r"
    and "ea_sequence r \<noteq> max_u64"
proof -
  have b: "transition_number r \<le> attempt_bound r"
    using transition_number_bound valid_counts [OF assms(1)] by blast
  then have small: "transition_number r \<le> 262149" using attempt_bound_small [OF assms(2)] by linarith
  have "ea_sequence r = word_of_nat (transition_number r)"
    using valid_sequence_word effect_validD(5) [OF assms(1)] by blast
  then show e: "unat (ea_sequence r) = transition_number r"
    using small by (simp add: unat_of_nat)
  then show "unat (ea_sequence r) \<le> attempt_bound r" using b by simp
  show "ea_sequence r \<noteq> max_u64"
  proof
    assume "ea_sequence r = max_u64"
    then have "unat (ea_sequence r) = 18446744073709551615"
      by (simp add: unsigned_minus_1_eq_mask mask_eq_exp_minus_1)
    with e small show False by simp
  qed
qed

lemma totals_ok_next: "effect_next X r r' \<Longrightarrow> totals_ok r \<Longrightarrow> totals_ok r'"
  by (simp add: totals_ok_def effect_nextD)

lemma attempt_bound_next: "effect_next X r r' \<Longrightarrow> attempt_bound r' = attempt_bound r"
  by (simp add: attempt_bound_def effect_nextD)

section \<open>An operation whose guard holds succeeds\<close>

lemma retained_count_word:
  assumes "\<And>e. retained_transition_count r \<noteq> Inl e"
  shows "retained_transition_count r = Inr (word_of_nat (transition_number r))"
  using assms valid_sequence_word by (cases "retained_transition_count r") auto

lemma retained_count_open:
  "ea_stage r \<noteq> Terminal \<Longrightarrow> retained_transition_count r = Inr (word_of_nat (transition_number r))"
  by (rule retained_count_word) (auto simp: retained_transition_count_def Let_def
      split: effect_attempt_stage.splits)

lemma transition_number_seal [simp]: "transition_number (seal_record X r) = transition_number r"
  by (simp only: transition_number_def seal_record_fields)

lemma sealed_conditions [simp]:
  "header_conditions (seal_record X r) = header_conditions r"
  "typed_conditions X (seal_record X r) = typed_conditions X r"
  "causal_conditions (seal_record X r) = causal_conditions r"
  "stage_rejected (seal_record X r) = stage_rejected r"
  "retained_transition_count (seal_record X r) = retained_transition_count r"
  "stage_successor_rejected p (seal_record X r) = stage_successor_rejected p r"
  by (simp_all only: header_conditions_def typed_conditions_def causal_conditions_def stage_rejected_def
      retained_transition_count_def lease_lost_count_def before_complete_def application_complete_def
      after_complete_def has_publication_authority_def terminal_rejected_def publication_outcome_in_def
      stage_successor_rejected_def same_effect_evidence_def seal_record_fields)

lemma next_record_fields [simp]:
  "ea_attempt (next_record r st i b a af te pr p t rc) = ea_attempt r"
  "ea_session (next_record r st i b a af te pr p t rc) = ea_session r"
  "ea_nonce (next_record r st i b a af te pr p t rc) = ea_nonce r"
  "ea_sequence (next_record r st i b a af te pr p t rc) = ea_sequence r + 1"
  "ea_previous (next_record r st i b a af te pr p t rc) = Some (ea_identity r)"
  "ea_before_total (next_record r st i b a af te pr p t rc) = ea_before_total r"
  "ea_after_total (next_record r st i b a af te pr p t rc) = ea_after_total r"
  "ea_stage (next_record r st i b a af te pr p t rc) = st"
  "ea_active_index (next_record r st i b a af te pr p t rc) = i"
  "ea_before (next_record r st i b a af te pr p t rc) = b"
  "ea_application (next_record r st i b a af te pr p t rc) = a"
  "ea_after (next_record r st i b a af te pr p t rc) = af"
  "ea_transaction_evidence (next_record r st i b a af te pr p t rc) = te"
  "ea_publication_request (next_record r st i b a af te pr p t rc) = pr"
  "ea_publication (next_record r st i b a af te pr p t rc) = p"
  "ea_terminal_outcome (next_record r st i b a af te pr p t rc) = t"
  "ea_reconciled_state (next_record r st i b a af te pr p t rc) = rc"
  by (simp_all add: next_record_def)

lemma effect_nextI:
  assumes v: "effect_valid X r" "totals_ok r" and st: "ea_stage r \<noteq> Terminal"
    and n: "n = next_record r stage i b a af te pr p t rc"
    and cond: "list_all Not (header_conditions n)" "list_all Not (typed_conditions X n)"
      "list_all Not (causal_conditions n)" "\<not> stage_rejected n"
    and count: "retained_transition_count n = Inr (word_of_nat (transition_number n))"
      "transition_number n = Suc (transition_number r)"
    and succ: "\<not> stage_successor_rejected r n"
  shows "successor X r stage i b a af te pr p t rc = Inr (seal_record X n)"
proof -
  note S = valid_sequence [OF v]
  have "ea_sequence n = word_of_nat (transition_number n)"
    using valid_sequence_word [OF effect_validD(5) [OF v(1)]] count(2) n by (simp add: add.commute)
  then have "effect_valid X (seal_record X n)"
    using cond count(1) unfolding effect_valid_iff by simp
  moreover have "validate_effect_successor r (seal_record X n) = Inr ()"
    using st S(3) succ n by (simp add: validate_effect_successor_def reject_iff)
  ultimately show ?thesis
    using st S(3) n by (simp add: successor_Inr effect_next_def)
qed

lemmas record_conditions =
  header_conditions_def typed_conditions_def causal_conditions_def stage_rejected_def Let_def
  before_complete_def after_complete_def application_complete_def has_publication_authority_def
  stage_successor_rejected_def same_effect_evidence_def facts_succeeded_def prefix_succeeded_def
  last_succeeded_def

lemma sequence_not_max: "effect_valid X r \<Longrightarrow> totals_ok r \<Longrightarrow> ea_sequence r + 1 \<noteq> 0"
  using valid_sequence(3) by (metis add.commute add_eq_0_iff)

lemma all_succeeded_snoc: "list_all fact_succeeded (butlast xs) \<Longrightarrow> xs \<noteq> [] \<Longrightarrow> fact_succeeded (last xs) \<Longrightarrow>
  list_all fact_succeeded xs"
  by (cases xs rule: rev_cases) simp_all

lemma snoc_succeeded [simp]:
  "butlast (xs @ [f]) = xs" by simp

lemma before_total_zero:
  "ea_before_total r = 0 \<Longrightarrow> effect_valid X r \<Longrightarrow> ea_before r = []"
  using valid_counts(1) [of X r] by simp

lemma after_total_zero:
  "ea_after_total r = 0 \<Longrightarrow> effect_valid X r \<Longrightarrow> ea_after r = []"
  using valid_counts(2) [of X r] by simp

text \<open>A fact of the application and of a publication receipt that the record accepts.\<close>

definition application_fact_ok :: "ext \<Rightarrow> effect_application_fact \<Rightarrow> bool" where
  "application_fact_ok X a \<longleftrightarrow>
     parse_application_receipt X (app_receipt a) \<and>
     typed_identity (parse_application_journal X) (app_journal a) \<and>
     typed_identity (parse_completed_evidence X) (app_completed_evidence a) \<and>
     (app_outcome a = Application_completed \<longleftrightarrow> app_completed_evidence a \<noteq> None)"

definition publication_fact_ok :: "ext \<Rightarrow> effect_publication_fact \<Rightarrow> bool" where
  "publication_fact_ok X p \<longleftrightarrow>
     parse_publication_receipt X (pub_receipt p) \<and>
     typed_identity (parse_snapshot X) (pub_resulting_snapshot p)"

definition before_intent_of :: "effect_attempt_record \<Rightarrow> effect_attempt_record" where
  "before_intent_of r =
     next_record r Before_intent (Some (word_of_nat (length (ea_before r)))) (ea_before r)
       (ea_application r) (ea_after r) (ea_transaction_evidence r) (ea_publication_request r)
       (ea_publication r) None None"

lemma begin_before_guard:
  assumes v: "effect_valid X r" "totals_ok r"
    and g: "ea_stage r = Admitted \<or> (ea_stage r = Before_terminal \<and> last_succeeded (ea_before r))"
      "length (ea_before r) < unat (ea_before_total r)"
  shows "begin_before X r (word_of_nat (length (ea_before r))) = Inr (seal_record X (before_intent_of r))"
proof -
  note V = effect_validD [OF v(1)]
  have "successor X r Before_intent (Some (word_of_nat (length (ea_before r)))) (ea_before r)
      (ea_application r) (ea_after r) (ea_transaction_evidence r) (ea_publication_request r)
      (ea_publication r) None None = Inr (seal_record X (before_intent_of r))"
  proof (rule effect_nextI [OF v _ before_intent_of_def])
    show "list_all Not (header_conditions (before_intent_of r))"
      using sequence_not_max [OF v] V(1) g by (auto simp: record_conditions before_intent_of_def)
    show "list_all Not (typed_conditions X (before_intent_of r))"
      using V(2) by (simp add: typed_conditions_def typed_identity_def before_intent_of_def)
    show "transition_number (before_intent_of r) = Suc (transition_number r)"
      using V(4) g by (auto simp: transition_number_def record_conditions before_intent_of_def)
    show "retained_transition_count (before_intent_of r) =
        Inr (word_of_nat (transition_number (before_intent_of r)))"
      by (rule retained_count_open) (simp add: before_intent_of_def)
  qed (use V(3,4) g in \<open>auto simp: record_conditions before_intent_of_def all_succeeded_snoc\<close>)
  moreover have "\<not> ea_before_total r \<le> word_of_nat (length (ea_before r))"
    using g(2) of_nat_less_total by (simp add: not_le)
  moreover have "ea_application r = None \<and> ea_after r = []"
    using V(4) g(1) by (auto simp: record_conditions)
  ultimately show ?thesis using g by (auto simp: begin_before_def Let_def)
qed

definition before_terminal_of ::
  "effect_attempt_record \<Rightarrow> lifecycle_execution_result \<Rightarrow> effect_attempt_record" where
  "before_terminal_of r result =
     next_record r Before_terminal None
       (ea_before r @ [\<lparr>fact_result = lifecycle_result_id result,
                        fact_succeeded = lifecycle_result_succeeded result\<rparr>])
       (ea_application r) (ea_after r) (ea_transaction_evidence r) (ea_publication_request r)
       (ea_publication r) None None"

lemma complete_before_guard:
  assumes v: "effect_valid X r" "totals_ok r"
    and g: "ea_stage r = Before_intent" "identity_text_ok (lifecycle_result_id result)"
  shows "complete_before X r result = Inr (seal_record X (before_terminal_of r result))"
proof -
  note V = effect_validD [OF v(1)]
  have "successor X r Before_terminal None
       (ea_before r @ [\<lparr>fact_result = lifecycle_result_id result,
                        fact_succeeded = lifecycle_result_succeeded result\<rparr>])
       (ea_application r) (ea_after r) (ea_transaction_evidence r) (ea_publication_request r)
       (ea_publication r) None None = Inr (seal_record X (before_terminal_of r result))"
  proof (rule effect_nextI [OF v _ before_terminal_of_def])
    show "list_all Not (header_conditions (before_terminal_of r result))"
      using sequence_not_max [OF v] V(1,4) g by (auto simp: record_conditions before_terminal_of_def)
    show "list_all Not (typed_conditions X (before_terminal_of r result))"
      using V(2) by (simp add: typed_conditions_def typed_identity_def before_terminal_of_def)
    show "transition_number (before_terminal_of r result) = Suc (transition_number r)"
      using V(4) g by (auto simp: transition_number_def record_conditions before_terminal_of_def)
    show "retained_transition_count (before_terminal_of r result) =
        Inr (word_of_nat (transition_number (before_terminal_of r result)))"
      by (rule retained_count_open) (simp add: before_terminal_of_def)
  qed (use V(3,4) g in \<open>auto simp: record_conditions before_terminal_of_def appended_lifecycle_fact_def\<close>)
  moreover have "ea_active_index r = Some (word_of_nat (length (ea_before r)))"
    using valid_index [OF v(1)] g(1) by simp
  ultimately show ?thesis using g by (simp add: complete_before_def session_identity_from_hex_Inr bindE_Inr_iff)
qed

definition application_intent_of :: "effect_attempt_record \<Rightarrow> effect_attempt_record" where
  "application_intent_of r =
     next_record r Application_intent None (ea_before r) None (ea_after r) None None None None None"

lemma begin_application_guard:
  assumes v: "effect_valid X r" "totals_ok r"
    and g: "(ea_before_total r = 0 \<and> ea_stage r = Admitted) \<or>
      (ea_stage r = Before_terminal \<and> length (ea_before r) = unat (ea_before_total r) \<and>
       facts_succeeded (ea_before r))"
  shows "begin_application X r = Inr (seal_record X (application_intent_of r))"
proof -
  note V = effect_validD [OF v(1)]
  have c: "before_complete r \<and> ea_application r = None \<and> ea_after r = [] \<and> \<not> has_publication_authority r"
    using V(4) g before_total_zero [OF _ v(1)] by (auto simp: record_conditions)
  have "successor X r Application_intent None (ea_before r) None (ea_after r) None None None None None =
      Inr (seal_record X (application_intent_of r))"
  proof (rule effect_nextI [OF v _ application_intent_of_def])
    show "list_all Not (header_conditions (application_intent_of r))"
      using sequence_not_max [OF v] V(1) c by (auto simp: record_conditions application_intent_of_def)
    show "list_all Not (typed_conditions X (application_intent_of r))"
      by (simp add: typed_conditions_def typed_identity_def application_intent_of_def)
    show "transition_number (application_intent_of r) = Suc (transition_number r)"
      using c g by (auto simp: transition_number_def record_conditions application_intent_of_def)
    show "retained_transition_count (application_intent_of r) =
        Inr (word_of_nat (transition_number (application_intent_of r)))"
      by (rule retained_count_open) (simp add: application_intent_of_def)
  qed (use c g in \<open>auto simp: record_conditions application_intent_of_def\<close>)
  then show ?thesis using c g by (auto simp: begin_application_def Let_def)
qed

definition application_terminal_of ::
  "effect_attempt_record \<Rightarrow> effect_application_fact \<Rightarrow> effect_attempt_record" where
  "application_terminal_of r a =
     next_record r Application_terminal None (ea_before r) (Some a) (ea_after r) None None None None None"

definition application_fact_of :: "application_receipt \<Rightarrow> effect_application_fact" where
  "application_fact_of receipt =
     \<lparr>app_receipt = application_receipt_id receipt, app_outcome = application_outcome receipt,
      app_journal = application_journal receipt,
      app_completed_evidence = application_completed_evidence receipt\<rparr>"

lemma complete_application_guard:
  assumes v: "effect_valid X r" "totals_ok r"
    and g: "ea_stage r = Application_intent" "application_fact_ok X (application_fact_of receipt)"
  shows "complete_application X r receipt =
    Inr (seal_record X (application_terminal_of r (application_fact_of receipt)))"
proof -
  note V = effect_validD [OF v(1)]
  let ?n = "application_terminal_of r (application_fact_of receipt)"
  have c: "before_complete r \<and> ea_application r = None \<and> ea_after r = [] \<and> \<not> has_publication_authority r"
    using V(4) g by (auto simp: record_conditions)
  have "successor X r Application_terminal None (ea_before r) (Some (application_fact_of receipt))
      (ea_after r) None None None None None = Inr (seal_record X ?n)"
  proof (rule effect_nextI [OF v _ application_terminal_of_def])
    show "list_all Not (header_conditions ?n)"
      using sequence_not_max [OF v] V(1) c by (auto simp: record_conditions application_terminal_of_def)
    show "list_all Not (typed_conditions X ?n)"
      using g(2) by (auto simp: typed_conditions_def typed_identity_def application_terminal_of_def
          application_fact_ok_def)
    show "transition_number ?n = Suc (transition_number r)"
      using c g by (auto simp: transition_number_def record_conditions application_terminal_of_def)
    show "retained_transition_count ?n = Inr (word_of_nat (transition_number ?n))"
      by (rule retained_count_open) (simp add: application_terminal_of_def)
  qed (use c g in \<open>auto simp: record_conditions application_terminal_of_def\<close>)
  then show ?thesis using c g by (simp add: complete_application_def application_fact_of_def)
qed

definition after_intent_of :: "effect_attempt_record \<Rightarrow> effect_attempt_record" where
  "after_intent_of r =
     next_record r After_intent (Some (word_of_nat (length (ea_after r)))) (ea_before r)
       (ea_application r) (ea_after r) (ea_transaction_evidence r) (ea_publication_request r)
       (ea_publication r) None None"

lemma begin_after_guard:
  assumes v: "effect_valid X r" "totals_ok r"
    and g: "ea_stage r = Application_terminal \<or> (ea_stage r = After_terminal \<and> last_succeeded (ea_after r))"
      "application_complete r" "length (ea_after r) < unat (ea_after_total r)"
  shows "begin_after X r (word_of_nat (length (ea_after r))) = Inr (seal_record X (after_intent_of r))"
proof -
  note V = effect_validD [OF v(1)]
  have c: "before_complete r \<and> \<not> has_publication_authority r \<and> facts_succeeded (ea_after r)"
    using V(4) g by (auto simp: record_conditions all_succeeded_snoc)
  have "successor X r After_intent (Some (word_of_nat (length (ea_after r)))) (ea_before r)
      (ea_application r) (ea_after r) (ea_transaction_evidence r) (ea_publication_request r)
      (ea_publication r) None None = Inr (seal_record X (after_intent_of r))"
  proof (rule effect_nextI [OF v _ after_intent_of_def])
    show "list_all Not (header_conditions (after_intent_of r))"
      using sequence_not_max [OF v] V(1) g by (auto simp: record_conditions after_intent_of_def)
    show "list_all Not (typed_conditions X (after_intent_of r))"
      using V(2) by (simp add: typed_conditions_def typed_identity_def after_intent_of_def)
    show "transition_number (after_intent_of r) = Suc (transition_number r)"
      using V(4) g by (auto simp: transition_number_def record_conditions after_intent_of_def)
    show "retained_transition_count (after_intent_of r) =
        Inr (word_of_nat (transition_number (after_intent_of r)))"
      by (rule retained_count_open) (simp add: after_intent_of_def)
  qed (use V(3) c g in \<open>auto simp: record_conditions after_intent_of_def\<close>)
  moreover have "\<not> ea_after_total r \<le> word_of_nat (length (ea_after r))"
    using g(3) of_nat_less_total by (simp add: not_le)
  moreover have "ea_stage r = Application_terminal \<Longrightarrow> ea_after r = []"
    using V(4) by (auto simp: record_conditions)
  ultimately show ?thesis using g by (auto simp: begin_after_def Let_def)
qed

definition after_terminal_of ::
  "effect_attempt_record \<Rightarrow> lifecycle_execution_result \<Rightarrow> effect_attempt_record" where
  "after_terminal_of r result =
     next_record r After_terminal None (ea_before r) (ea_application r)
       (ea_after r @ [\<lparr>fact_result = lifecycle_result_id result,
                       fact_succeeded = lifecycle_result_succeeded result\<rparr>])
       (ea_transaction_evidence r) (ea_publication_request r) (ea_publication r) None None"

lemma complete_after_guard:
  assumes v: "effect_valid X r" "totals_ok r"
    and g: "ea_stage r = After_intent" "identity_text_ok (lifecycle_result_id result)"
  shows "complete_after X r result = Inr (seal_record X (after_terminal_of r result))"
proof -
  note V = effect_validD [OF v(1)]
  let ?n = "after_terminal_of r result"
  have "successor X r After_terminal None (ea_before r) (ea_application r)
       (ea_after r @ [\<lparr>fact_result = lifecycle_result_id result,
                       fact_succeeded = lifecycle_result_succeeded result\<rparr>])
       (ea_transaction_evidence r) (ea_publication_request r) (ea_publication r) None None =
     Inr (seal_record X ?n)"
  proof (rule effect_nextI [OF v _ after_terminal_of_def])
    show "list_all Not (header_conditions ?n)"
      using sequence_not_max [OF v] V(1,4) g by (auto simp: record_conditions after_terminal_of_def)
    show "list_all Not (typed_conditions X ?n)"
      using V(2) by (simp add: typed_conditions_def typed_identity_def after_terminal_of_def)
    show "transition_number ?n = Suc (transition_number r)"
      using V(4) g by (auto simp: transition_number_def record_conditions after_terminal_of_def)
    show "retained_transition_count ?n = Inr (word_of_nat (transition_number ?n))"
      by (rule retained_count_open) (simp add: after_terminal_of_def)
  qed (use V(3,4) g in \<open>auto simp: record_conditions after_terminal_of_def appended_lifecycle_fact_def\<close>)
  moreover have "ea_active_index r = Some (word_of_nat (length (ea_after r)))"
    using valid_index [OF v(1)] g(1) by simp
  ultimately show ?thesis using g by (simp add: complete_after_def session_identity_from_hex_Inr bindE_Inr_iff)
qed

definition publication_intent_of :: "effect_attempt_record \<Rightarrow> string \<Rightarrow> string \<Rightarrow> effect_attempt_record" where
  "publication_intent_of r transaction request =
     next_record r Publication_intent None (ea_before r) (ea_application r) (ea_after r)
       (Some transaction) (Some request) None None None"

lemma begin_publication_guard:
  assumes v: "effect_valid X r" "totals_ok r"
    and g: "(ea_after_total r = 0 \<and> ea_stage r = Application_terminal) \<or>
      (ea_stage r = After_terminal \<and> length (ea_after r) = unat (ea_after_total r) \<and>
       facts_succeeded (ea_after r))"
      "application_complete r" "parse_transaction_evidence X transaction"
      "parse_publication_request X (publication_request_id request)"
  shows "begin_publication X r transaction request =
    Inr (seal_record X (publication_intent_of r transaction (publication_request_id request)))"
proof -
  note V = effect_validD [OF v(1)]
  let ?n = "publication_intent_of r transaction (publication_request_id request)"
  have c: "before_complete r \<and> after_complete r \<and> \<not> has_publication_authority r"
    using V(4) g after_total_zero [OF _ v(1)] by (auto simp: record_conditions)
  have "successor X r Publication_intent None (ea_before r) (ea_application r) (ea_after r)
       (Some transaction) (Some (publication_request_id request)) None None None = Inr (seal_record X ?n)"
  proof (rule effect_nextI [OF v _ publication_intent_of_def])
    show "list_all Not (header_conditions ?n)"
      using sequence_not_max [OF v] V(1) c by (auto simp: record_conditions publication_intent_of_def)
    show "list_all Not (typed_conditions X ?n)"
      using V(2) g(3,4) by (auto simp: typed_conditions_def typed_identity_def publication_intent_of_def)
    show "transition_number ?n = Suc (transition_number r)"
      using c g by (auto simp: transition_number_def record_conditions publication_intent_of_def)
    show "retained_transition_count ?n = Inr (word_of_nat (transition_number ?n))"
      by (rule retained_count_open) (simp add: publication_intent_of_def)
  qed (use V(3) c g in \<open>auto simp: record_conditions publication_intent_of_def\<close>)
  then show ?thesis using c g by (auto simp: begin_publication_def Let_def record_conditions)
qed

definition publication_terminal_of ::
  "effect_attempt_record \<Rightarrow> effect_publication_fact \<Rightarrow> effect_attempt_record" where
  "publication_terminal_of r p =
     next_record r Publication_terminal None (ea_before r) (ea_application r) (ea_after r)
       (ea_transaction_evidence r) (ea_publication_request r) (Some p) None None"

definition publication_fact_of :: "state_publication_receipt \<Rightarrow> effect_publication_fact" where
  "publication_fact_of receipt =
     \<lparr>pub_receipt = receipt_id receipt, pub_outcome = receipt_outcome receipt,
      pub_resulting_snapshot = receipt_resulting_snapshot receipt\<rparr>"

lemma complete_publication_guard:
  assumes v: "effect_valid X r" "totals_ok r"
    and g: "ea_stage r = Publication_intent" "ea_publication_request r = Some (receipt_request receipt)"
      "publication_fact_ok X (publication_fact_of receipt)"
  shows "complete_publication X r receipt =
    Inr (seal_record X (publication_terminal_of r (publication_fact_of receipt)))"
proof -
  note V = effect_validD [OF v(1)]
  let ?n = "publication_terminal_of r (publication_fact_of receipt)"
  have "successor X r Publication_terminal None (ea_before r) (ea_application r) (ea_after r)
       (ea_transaction_evidence r) (ea_publication_request r) (Some (publication_fact_of receipt))
       None None = Inr (seal_record X ?n)"
  proof (rule effect_nextI [OF v _ publication_terminal_of_def])
    show "list_all Not (header_conditions ?n)"
      using sequence_not_max [OF v] V(1,4) g by (auto simp: record_conditions publication_terminal_of_def)
    show "list_all Not (typed_conditions X ?n)"
      using V(2) g(3) by (auto simp: typed_conditions_def typed_identity_def publication_terminal_of_def
          publication_fact_ok_def)
    show "transition_number ?n = Suc (transition_number r)"
      using V(4) g by (auto simp: transition_number_def record_conditions publication_terminal_of_def)
    show "retained_transition_count ?n = Inr (word_of_nat (transition_number ?n))"
      by (rule retained_count_open) (simp add: publication_terminal_of_def)
  qed (use V(3,4) g in \<open>auto simp: record_conditions publication_terminal_of_def\<close>)
  then show ?thesis
    using V(4) g by (auto simp: complete_publication_def publication_fact_of_def record_conditions)
qed

text \<open>When an attempt may be sealed with an outcome.\<close>

definition terminal_guard :: "effect_attempt_record \<Rightarrow> effectful_operation_outcome \<Rightarrow> string option \<Rightarrow> bool" where
  "terminal_guard r outcome reconciled =
     (case outcome of
        Lifecycle_failed_before_application \<Rightarrow>
          ea_stage r = Before_terminal \<and> \<not> fact_succeeded (last (ea_before r)) \<and> reconciled = None
      | Application_not_completed \<Rightarrow>
          ea_stage r = Application_terminal \<and> definitive_application_failure r \<and> reconciled = None
      | Lifecycle_failed_after_application \<Rightarrow>
          ea_stage r = After_terminal \<and> \<not> fact_succeeded (last (ea_after r)) \<and> reconciled = None
      | Outer_lease_lost \<Rightarrow>
          ea_stage r \<noteq> Terminal \<and> \<not> unresolved_intent (ea_stage r) \<and> reconciled = None
      | State_publication_not_completed \<Rightarrow>
          ea_stage r = Publication_terminal \<and> reconciled = None \<and>
          publication_outcome_in r [Stale_expected_state, Request_rejected, Failed_before_publication]
      | State_publication_indeterminate \<Rightarrow>
          ea_stage r = Publication_terminal \<and> reconciled = None \<and>
          publication_outcome_in r [Published_durability_unconfirmed, Publication_indeterminate]
      | Application_resolution_required \<Rightarrow> False
      | Effect_completed \<Rightarrow>
          (ea_stage r = Publication_intent \<and> reconciled \<noteq> None) \<or>
          (ea_stage r = Publication_terminal \<and>
           (publication_outcome_in r [Published] \<or>
            (reconciled \<noteq> None \<and>
             publication_outcome_in r [Published_durability_unconfirmed, Publication_indeterminate]))))"

definition terminal_of ::
  "effect_attempt_record \<Rightarrow> effectful_operation_outcome \<Rightarrow> string option \<Rightarrow> effect_attempt_record" where
  "terminal_of r outcome reconciled =
     next_record r Terminal None (ea_before r) (ea_application r) (ea_after r)
       (ea_transaction_evidence r) (ea_publication_request r) (ea_publication r)
       (Some outcome) reconciled"

lemma terminal_guard_stage: "terminal_guard r outcome rc \<Longrightarrow> ea_stage r \<noteq> Terminal"
  by (auto simp: terminal_guard_def split: effectful_operation_outcome.splits)

lemma terminal_guard_reconciled:
  "terminal_guard r outcome rc \<Longrightarrow> rc = None \<or> outcome = Effect_completed"
  by (auto simp: terminal_guard_def split: effectful_operation_outcome.splits)

lemma definitive_not_complete: "definitive_application_failure r \<Longrightarrow> \<not> application_complete r"
  by (auto simp: definitive_application_failure_def application_complete_def split: option.splits)

lemma terminal_not_rejected:
  assumes V: "\<not> stage_rejected r" and g: "terminal_guard r outcome rc"
  shows "\<not> terminal_rejected (terminal_of r outcome rc) outcome"
    and "\<not> terminal_successor_rejected r outcome"
proof -
  show "\<not> terminal_successor_rejected r outcome"
    using g by (cases outcome) (auto simp: terminal_guard_def terminal_successor_rejected_def)
  show "\<not> terminal_rejected (terminal_of r outcome rc) outcome"
    using V g definitive_not_complete [of r]
    by (cases outcome)
      (auto simp: terminal_guard_def terminal_rejected_def stage_rejected_def terminal_of_def
        has_publication_authority_def application_complete_def publication_outcome_in_def
        definitive_application_failure_def unresolved_intent_def
        split: option.splits effect_attempt_stage.splits)
qed

lemma terminal_count:
  assumes V: "\<not> stage_rejected r" and g: "terminal_guard r outcome rc"
  shows "retained_transition_count (terminal_of r outcome rc) =
      Inr (word_of_nat (transition_number (terminal_of r outcome rc)))"
    and "transition_number (terminal_of r outcome rc) = Suc (transition_number r)"
proof -
  show "transition_number (terminal_of r outcome rc) = Suc (transition_number r)"
    using V g
    by (cases outcome; cases "ea_stage r")
      (auto simp: terminal_guard_def transition_number_def terminal_of_def Let_def stage_rejected_def
        has_publication_authority_def before_complete_def after_complete_def unresolved_intent_def)
  show "retained_transition_count (terminal_of r outcome rc) =
      Inr (word_of_nat (transition_number (terminal_of r outcome rc)))"
  proof (rule retained_count_word)
    show "retained_transition_count (terminal_of r outcome rc) \<noteq> Inl e" for e
      using V g
      by (cases outcome; cases "ea_stage r")
        (auto simp: terminal_guard_def retained_transition_count_def terminal_of_def Let_def
          stage_rejected_def has_publication_authority_def lease_lost_count_def unresolved_intent_def)
  qed
qed

lemma seal_terminal_guard:
  assumes v: "effect_valid X r" "totals_ok r" and g: "terminal_guard r outcome rc"
    and parse: "typed_identity (parse_snapshot X) rc"
  shows "seal_terminal X r outcome rc = Inr (seal_record X (terminal_of r outcome rc))"
proof -
  note V = effect_validD [OF v(1)]
  let ?n = "terminal_of r outcome rc"
  have "successor X r Terminal None (ea_before r) (ea_application r) (ea_after r)
       (ea_transaction_evidence r) (ea_publication_request r) (ea_publication r)
       (Some outcome) rc = Inr (seal_record X ?n)"
  proof (rule effect_nextI [OF v terminal_guard_stage [OF g] terminal_of_def])
    show "list_all Not (header_conditions ?n)"
      using sequence_not_max [OF v] V(1) terminal_guard_reconciled [OF g]
      by (auto simp: header_conditions_def Let_def terminal_of_def)
    show "list_all Not (typed_conditions X ?n)"
      using V(2) parse by (auto simp: typed_conditions_def terminal_of_def split: option.splits)
    show "list_all Not (causal_conditions ?n)"
      using V(3) by (simp add: causal_conditions_def terminal_of_def before_complete_def
          application_complete_def after_complete_def has_publication_authority_def)
    show "\<not> stage_rejected ?n"
      using terminal_not_rejected(1) [OF V(4) g] by (simp add: stage_rejected_def terminal_of_def)
    show "\<not> stage_successor_rejected r ?n"
      using terminal_not_rejected(2) [OF V(4) g]
      by (simp add: stage_successor_rejected_def terminal_of_def same_effect_evidence_def)
  qed (rule terminal_count [OF V(4) g])+
  moreover have "list_all Not
       [outcome = Outer_lease_lost \<and> unresolved_intent (ea_stage r),
        outcome = Application_resolution_required,
        outcome = Lifecycle_failed_before_application \<and> ea_stage r \<noteq> Before_terminal,
        outcome = Application_not_completed \<and> ea_stage r \<noteq> Application_terminal,
        outcome = Lifecycle_failed_after_application \<and> ea_stage r \<noteq> After_terminal,
        (outcome = State_publication_not_completed \<or> outcome = State_publication_indeterminate) \<and>
          ea_stage r \<noteq> Publication_terminal,
        outcome = Effect_completed \<and> ea_stage r \<noteq> Publication_terminal \<and>
          ea_stage r \<noteq> Publication_intent,
        outcome = Effect_completed \<and> seal_completed_rejected r rc,
        outcome = Lifecycle_failed_before_application \<and>
          (ea_before r = [] \<or> fact_succeeded (last (ea_before r))),
        outcome = Application_not_completed \<and> \<not> definitive_application_failure r,
        outcome = Lifecycle_failed_after_application \<and>
          (ea_after r = [] \<or> fact_succeeded (last (ea_after r)))]"
    using g V(4)
    by (cases outcome) (auto simp: terminal_guard_def seal_completed_rejected_def stage_rejected_def)
  ultimately show ?thesis by (simp add: seal_terminal_def bindE_Inr_iff reject_iff)
qed

end
