(* ===== verification/Effect_Trace.thy ===== *)
theory Effect_Trace
  imports Effect_Attempt
begin

text \<open>
  Whole histories of an attempt, from \<open>admit\<close> on: the records of a chain stay valid, evidence only
  grows, an intent is recorded at most once, and what a completed terminal record says happened.
\<close>

section \<open>Traces of an attempt\<close>

definition admitted_record :: "ext \<Rightarrow> session_identity \<Rightarrow> u64 \<Rightarrow> u64 \<Rightarrow> nonce \<Rightarrow> effect_attempt_record" where
  "admitted_record X session before_total after_total nonce =
     seal_record X
       \<lparr>ea_identity = [], ea_attempt = effect_attempt_identity X session nonce,
        ea_session = session, ea_nonce = nonce, ea_sequence = 0, ea_previous = None,
        ea_before_total = before_total, ea_after_total = after_total,
        ea_stage = Admitted, ea_active_index = None, ea_before = [],
        ea_application = None, ea_after = [], ea_transaction_evidence = None,
        ea_publication_request = None, ea_publication = None,
        ea_terminal_outcome = None, ea_reconciled_state = None\<rparr>"

lemma admitted_fields [simp]:
  "ea_attempt (admitted_record X session bt at n) = effect_attempt_identity X session n"
  "ea_session (admitted_record X session bt at n) = session"
  "ea_sequence (admitted_record X session bt at n) = 0"
  "ea_stage (admitted_record X session bt at n) = Admitted"
  "ea_before_total (admitted_record X session bt at n) = bt"
  "ea_after_total (admitted_record X session bt at n) = at"
  by (simp_all add: admitted_record_def)

lemma admitted_valid: "effect_valid X (admitted_record X session bt at n)"
  by (simp add: effect_valid_iff admitted_record_def)
    (simp add: header_conditions_def typed_conditions_def causal_conditions_def stage_rejected_def
      retained_transition_count_def has_publication_authority_def typed_identity_def Let_def)

lemma admit_cases:
  "admit X session bt at n =
     (if unat bt \<le> maximum_effect_lifecycle_count \<and> unat at \<le> maximum_effect_lifecycle_count
      then Inr (admitted_record X session bt at n) else effect_record_error)"
  using admitted_valid [of X session bt at n]
  by (auto simp: admit_def effect_restore_def effect_valid_def admitted_record_def)

lemma admit_Inr:
  assumes "admit X session bt at n = Inr r"
  shows "effect_valid X r" and "totals_ok r" and "r = admitted_record X session bt at n"
  using assms admitted_valid by (auto simp: admit_cases totals_ok_def split: if_splits)

definition option_kept :: "'a option \<Rightarrow> 'a option \<Rightarrow> bool" where
  "option_kept a b \<longleftrightarrow> a = None \<or> b = a"

lemma option_kept_trans: "option_kept a b \<Longrightarrow> option_kept b c \<Longrightarrow> option_kept a c"
  by (auto simp: option_kept_def)

text \<open>Evidence is only ever added, and the authority of the attempt never changes.\<close>

definition evidence_grown :: "effect_attempt_record \<Rightarrow> effect_attempt_record \<Rightarrow> bool" where
  "evidence_grown r r' \<longleftrightarrow>
     ea_attempt r' = ea_attempt r \<and> ea_session r' = ea_session r \<and> ea_nonce r' = ea_nonce r \<and>
     ea_before_total r' = ea_before_total r \<and> ea_after_total r' = ea_after_total r \<and>
     (\<exists>xs. ea_before r' = ea_before r @ xs) \<and> (\<exists>xs. ea_after r' = ea_after r @ xs) \<and>
     option_kept (ea_application r) (ea_application r') \<and>
     option_kept (ea_transaction_evidence r) (ea_transaction_evidence r') \<and>
     option_kept (ea_publication_request r) (ea_publication_request r') \<and>
     option_kept (ea_publication r) (ea_publication r')"

lemma evidence_grown_refl: "evidence_grown r r"
  by (simp add: evidence_grown_def option_kept_def)

lemma evidence_grown_trans: "evidence_grown a b \<Longrightarrow> evidence_grown b c \<Longrightarrow> evidence_grown a c"
  unfolding evidence_grown_def by (metis append_assoc option_kept_trans)

lemma evidence_grown_next:
  assumes "effect_next X r r'"
  shows "evidence_grown r r'"
  using effect_nextD(6-11) [OF assms]
  by (cases "ea_stage r'")
    (auto simp: evidence_grown_def stage_successor_rejected_def same_effect_evidence_def
      appended_fact option_kept_def)

lemma chain_evidence: "(effect_next X)\<^sup>*\<^sup>* r r' \<Longrightarrow> evidence_grown r r'"
  by (erule effect_chain.chain_preserves)
    (auto intro: evidence_grown_refl evidence_grown_trans evidence_grown_next)

lemma chain_valid:
  assumes "(effect_next X)\<^sup>*\<^sup>* r r'" and "effect_valid X r" and "totals_ok r"
  shows "effect_valid X r'" and "totals_ok r'" and "attempt_bound r' = attempt_bound r"
proof -
  show "effect_valid X r'"
    using assms(1,2) by (cases rule: rtranclp.cases) (auto dest: effect_nextD)
  have "evidence_grown r r'" using chain_evidence [OF assms(1)] .
  then show "totals_ok r'" and "attempt_bound r' = attempt_bound r"
    using assms(3) by (auto simp: evidence_grown_def totals_ok_def attempt_bound_def)
qed

text \<open>The stage and index of an intent determine its sequence number.\<close>

lemma intent_number:
  assumes "effect_valid X r" and "effect_valid X r'" and "unresolved_intent (ea_stage r)"
    and "ea_stage r' = ea_stage r" and "ea_active_index r' = ea_active_index r"
    and "ea_before_total r' = ea_before_total r" and "ea_after_total r' = ea_after_total r"
    and "totals_ok r" and "totals_ok r'"
  shows "transition_number r' = transition_number r"
proof -
  have small: "length (ea_before s) < 2 ^ 64 \<and> length (ea_after s) < 2 ^ 64"
    if "effect_valid X s" "totals_ok s" for s
    using valid_counts [OF that(1)] that(2) by (simp add: totals_ok_def maximum_effect_lifecycle_count_def)
  have val: "unat (word_of_nat m :: u64) = m" if "m < 2 ^ 64" for m
    using that by (simp add: unat_of_nat)
  have inj: "m = n" if "(word_of_nat m :: u64) = word_of_nat n" "m < 2 ^ 64" "n < 2 ^ 64" for m n
    using val [OF that(2)] val [OF that(3)] unfolding that(1) by (rule trans [OF sym])
  have b: "length (ea_before r') = length (ea_before r)" if "ea_stage r = Before_intent"
    using valid_index [OF assms(1)] valid_index [OF assms(2)] assms(4,5) that
      small [OF assms(1,8)] small [OF assms(2,9)] by (intro inj) simp_all
  have a: "length (ea_after r') = length (ea_after r)" if "ea_stage r = After_intent"
    using valid_index [OF assms(1)] valid_index [OF assms(2)] assms(4,5) that
      small [OF assms(1,8)] small [OF assms(2,9)] by (intro inj) simp_all
  show ?thesis
    using a b assms(3-7) by (auto simp: unresolved_intent_def transition_number_def)
qed

lemma chain_intent_once:
  assumes v: "effect_valid X r" "totals_ok r" and c: "(effect_next X)\<^sup>+\<^sup>+ r r'"
    and i: "unresolved_intent (ea_stage r)"
  shows "\<not> (ea_stage r' = ea_stage r \<and> ea_active_index r' = ea_active_index r)"
proof
  assume same: "ea_stage r' = ea_stage r \<and> ea_active_index r' = ea_active_index r"
  have c': "(effect_next X)\<^sup>*\<^sup>* r r'" using c by simp
  note V = chain_valid [OF c' v]
  have "transition_number r' = transition_number r"
    using intent_number [OF v(1) V(1) i] same V(2) v(2) chain_evidence [OF c']
    by (simp add: evidence_grown_def)
  then have "unat (ea_sequence r') = unat (ea_sequence r)"
    using valid_sequence(1) [OF v] valid_sequence(1) [OF V(1,2)] by simp
  then show False using effect_chain.chain_less [OF c] by simp
qed

text \<open>A completed record that has a predecessor carries the whole operation.\<close>

definition operation_done :: "effect_attempt_record \<Rightarrow> bool" where
  "operation_done r \<longleftrightarrow> before_complete r \<and> application_complete r \<and> after_complete r \<and>
     ea_transaction_evidence r \<noteq> None \<and> ea_publication_request r \<noteq> None \<and>
     (publication_outcome_in r [Published] \<or> ea_reconciled_state r \<noteq> None)"

lemma completed_step:
  assumes v: "effect_valid X r" and n: "effect_next X r r'"
    and t: "ea_terminal_outcome r' = Some Effect_completed"
  shows "operation_done r'"
proof -
  note D = effect_nextD [OF n]
  have st: "ea_stage r' = Terminal" using valid_header(1) [OF D(1)] t by fastforce
  have same: "same_effect_evidence r r'"
    and p: "ea_stage r = Publication_intent \<or> ea_stage r = Publication_terminal"
    using D(11) st t by (auto simp: stage_successor_rejected_def terminal_successor_rejected_def)
  have "before_complete r \<and> application_complete r \<and> after_complete r \<and>
      ea_transaction_evidence r \<noteq> None \<and> ea_publication_request r \<noteq> None"
    using effect_validD(4) [OF v] p by (auto simp: stage_rejected_def)
  moreover have "\<not> terminal_rejected r' Effect_completed"
    using effect_validD(4) [OF D(1)] st t by (simp add: stage_rejected_def)
  ultimately show ?thesis
    using same D(9,10)
    by (auto simp: operation_done_def terminal_rejected_def same_effect_evidence_def before_complete_def
        after_complete_def application_complete_def)
qed

lemma chain_last:
  assumes "(effect_next X)\<^sup>*\<^sup>* a r" and "effect_valid X a" and "totals_ok a" and "ea_stage a \<noteq> ea_stage r"
  obtains b where "(effect_next X)\<^sup>*\<^sup>* a b" and "effect_valid X b" and "effect_next X b r"
  using assms(1)
proof (cases rule: rtranclp.cases)
  case (rtrancl_into_rtrancl b)
  then show thesis using that chain_valid(1) [OF _ assms(2,3)] by blast
qed (use assms(4) in simp)

text \<open>Every record without an open intent can still be closed by a lease-loss record.\<close>

lemma lease_loss_closes:
  assumes "effect_valid X r" and "totals_ok r" and "ea_stage r \<noteq> Terminal" and "\<not> unresolved_intent (ea_stage r)"
  shows "seal_terminal X r Outer_lease_lost None = Inr (seal_record X (terminal_of r Outer_lease_lost None))"
  using assms by (intro seal_terminal_guard) (simp_all add: terminal_guard_def typed_identity_def)

lemma intent_not_sealed_by_lease_loss:
  "unresolved_intent (ea_stage r) \<Longrightarrow> seal_terminal X r Outer_lease_lost rc = effect_transition_error"
  by (simp add: seal_terminal_def reject_def)

end
