(* ===== verification/Run_Journal.thy ===== *)
theory Run_Journal
  imports Dispatch
begin

text \<open>
  \<^verbatim>\<open>src/run_journal.cpp\<close>: the durable history of one run. Every snapshot holds the whole ledger;
  \<open>admit_run\<close> makes the first, \<open>run_successor\<close> the next one from a live run, \<open>run_journal_restore\<close>
  validates a decoded snapshot as a value, \<open>validate_durable_successor\<close> against its predecessor, and
  \<open>reopen\<close> turns a snapshot and a rehydrated progress into a live run again.
\<close>

section \<open>Data\<close>

record run_journal_record =
  rj_identity :: session_identity
  rj_journal :: session_identity
  rj_transaction :: session_identity
  rj_nonce :: nonce
  rj_sequence :: u64
  rj_previous :: "session_identity option"
  rj_run :: session_identity
  rj_progress :: session_identity
  rj_state :: snapshot_identity
  rj_policy :: transaction_dispatch_policy
  rj_dispatches :: "transaction_dispatch_record list"
  rj_complete :: bool
  rj_failed :: bool
  rj_stopped :: bool

definition maximum_transaction_run_dispatch_count :: nat where
  "maximum_transaction_run_dispatch_count = 65536"

definition maximum_transaction_run_member_count :: nat where
  "maximum_transaction_run_member_count = 65536"

definition maximum_transaction_run_dependency_count :: nat where
  "maximum_transaction_run_dependency_count = 65536"

definition maximum_transaction_run_observation_count :: nat where
  "maximum_transaction_run_observation_count = 65536"

abbreviation run_record_error :: "'a res" where
  "run_record_error \<equiv> Inl (Run_journal_error invalid_record)"

abbreviation run_transition_error :: "'a res" where
  "run_transition_error \<equiv> Inl (Run_journal_error invalid_transition)"

section \<open>Identities\<close>

definition journal_identity ::
  "ext \<Rightarrow> session_identity \<Rightarrow> transaction_dispatch_policy \<Rightarrow> nonce \<Rightarrow> session_identity" where
  "journal_identity X transaction policy nonce =
     make_identity X ''pkgctl/transaction-run-journal-attempt/1''
       [transaction, policy_id policy, run_nonce_hex nonce]"

definition run_record_identity_fields :: "run_journal_record \<Rightarrow> string list" where
  "run_record_identity_fields r =
     [rj_journal r, rj_transaction r, run_nonce_hex (rj_nonce r), to_string (unat (rj_sequence r)),
      text_of (rj_previous r), rj_run r, rj_progress r, rj_state r, policy_id (rj_policy r),
      bool_text (rj_complete r), bool_text (rj_failed r), bool_text (rj_stopped r),
      to_string (length (rj_dispatches r))] @ map record_id (rj_dispatches r)"

definition run_record_identity :: "ext \<Rightarrow> run_journal_record \<Rightarrow> session_identity" where
  "run_record_identity X r =
     make_identity X ''pkgctl/transaction-run-journal-record/1'' (run_record_identity_fields r)"

section \<open>Validation of a snapshot as a value\<close>

definition dependencies_canonical :: "transaction_dispatch_dependency list \<Rightarrow> bool" where
  "dependencies_canonical ds \<longleftrightarrow>
     sorted (map dependency_node ds) \<and>
     \<not> adjacent_duplicate (\<lambda>l r. dependency_node l = dependency_node r) ds"

definition record_bounds_conditions ::
  "string list \<Rightarrow> session_identity list \<Rightarrow> transaction_dispatch_record \<Rightarrow> bool list" where
  "record_bounds_conditions nonces identities r =
     (let d = record_dispatch r in
      [unit_members (dispatch_unit d) = [] \<or>
         length (unit_members (dispatch_unit d)) > maximum_transaction_run_member_count,
       length (dispatch_dependencies d) > maximum_transaction_run_dependency_count,
       length (record_observations r) > maximum_transaction_run_observation_count,
       dispatch_nonce_hex (dispatch_nonce_of d) \<in> set nonces,
       dispatch_id d \<in> set identities,
       \<not> dependencies_canonical (dispatch_dependencies d),
       \<not> distinct (record_observations r)])"

fun validate_bounds_each ::
  "string list \<Rightarrow> session_identity list \<Rightarrow> transaction_dispatch_record list \<Rightarrow> unit res" where
  "validate_bounds_each nonces identities [] = Inr ()"
| "validate_bounds_each nonces identities (r # rs) =
     bindE (reject (Run_journal_error invalid_record) (record_bounds_conditions nonces identities r)) (\<lambda>_.
       validate_bounds_each (dispatch_nonce_hex (dispatch_nonce_of (record_dispatch r)) # nonces)
         (dispatch_id (record_dispatch r) # identities) rs)"

definition validate_record_bounds ::
  "transaction_dispatch_policy \<Rightarrow> transaction_dispatch_record list \<Rightarrow> unit res" where
  "validate_record_bounds policy dispatches =
     (if length dispatches > maximum_transaction_run_dispatch_count then run_record_error
      else bindE (validate_bounds_each [] [] dispatches) (\<lambda>_.
        let active = filter record_active dispatches in
        reject (Run_journal_error invalid_record)
          [pairwise_overlap active,
           list_ex (\<lambda>kind. kind_count active kind > policy_capacity policy kind)
             [Construction_unit, Check_unit, Operation_unit]]))"

definition record_transitions :: "transaction_dispatch_record \<Rightarrow> u64" where
  "record_transitions r =
     1 + (case record_state r of
            Reserved \<Rightarrow> 0
          | Started \<Rightarrow> 1 + word_of_nat (length (record_observations r))
          | Completed \<Rightarrow> 2 + word_of_nat (length (record_observations r))
          | Released_unstarted \<Rightarrow> 1)"

fun run_transition_count :: "transaction_dispatch_record list \<Rightarrow> u64 \<Rightarrow> u64" where
  "run_transition_count [] count = count"
| "run_transition_count (r # rs) count = run_transition_count rs (count + record_transitions r)"

definition validate_top_level_shape :: "ext \<Rightarrow> run_journal_record \<Rightarrow> unit res" where
  "validate_top_level_shape X r =
     bindE (reject (Run_journal_error invalid_record)
       [(rj_sequence r = 0) \<noteq> (rj_previous r = None),
        rj_sequence r = 0 \<and> rj_dispatches r \<noteq> [],
        rj_sequence r \<noteq> 0 \<and> rj_dispatches r = [],
        length (rj_dispatches r) > unat (rj_sequence r),
        rj_sequence r \<noteq> run_transition_count (rj_dispatches r) 0,
        rj_complete r \<and> rj_failed r,
        rj_stopped r \<noteq> (rj_failed r \<and>
          policy_failure_containment (rj_policy r) = Stop_after_terminal_failure)]) (\<lambda>_.
     bindE (validate_record_bounds (rj_policy r) (rj_dispatches r)) (\<lambda>_.
       reject (Run_journal_error invalid_record)
         [rj_journal r \<noteq> journal_identity X (rj_transaction r) (rj_policy r) (rj_nonce r),
          rj_identity r \<noteq> run_record_identity X r]))"

definition run_journal_restore :: "ext \<Rightarrow> run_journal_record \<Rightarrow> run_journal_record res" where
  "run_journal_restore X r = bindE (validate_top_level_shape X r) (\<lambda>_. Inr r)"

section \<open>Validation against the predecessor\<close>

definition same_prefix :: "session_identity list \<Rightarrow> session_identity list \<Rightarrow> bool" where
  "same_prefix previous next \<longleftrightarrow>
     length next = length previous + 1 \<and> take (length previous) next = previous"

definition transition_rejected ::
  "transaction_dispatch_record \<Rightarrow> transaction_dispatch_record \<Rightarrow> bool \<Rightarrow> bool" where
  "transition_rejected previous next progress_changed =
     (case (record_state previous, record_state next) of
        (Reserved, Started) \<Rightarrow>
          progress_changed \<or> record_attempt_session next = None \<or> record_observations next \<noteq> [] \<or>
          record_terminal next \<noteq> None
      | (Reserved, Released_unstarted) \<Rightarrow>
          progress_changed \<or> record_attempt_session next \<noteq> None \<or> record_observations next \<noteq> [] \<or>
          record_terminal next \<noteq> None
      | (Started, Started) \<Rightarrow>
          progress_changed \<or> record_attempt_session next \<noteq> record_attempt_session previous \<or>
          record_effect_attempt next \<noteq> record_effect_attempt previous \<or> record_terminal next \<noteq> None \<or>
          \<not> same_prefix (record_observations previous) (record_observations next)
      | (Started, Completed) \<Rightarrow>
          \<not> progress_changed \<or> record_attempt_session next \<noteq> record_attempt_session previous \<or>
          record_effect_attempt next \<noteq> record_effect_attempt previous \<or>
          record_observations next \<noteq> record_observations previous \<or> record_terminal next = None
      | _ \<Rightarrow> True)"

definition validate_record_transition ::
  "transaction_dispatch_record \<Rightarrow> transaction_dispatch_record \<Rightarrow> bool \<Rightarrow> unit res" where
  "validate_record_transition previous next progress_changed =
     reject (Run_journal_error invalid_transition)
       [dispatch_id (record_dispatch previous) \<noteq> dispatch_id (record_dispatch next),
        transition_rejected previous next progress_changed]"

text \<open>The indices at which the record identities of two ledgers of one length differ.\<close>

definition changed_indices ::
  "transaction_dispatch_record list \<Rightarrow> transaction_dispatch_record list \<Rightarrow> nat list" where
  "changed_indices before after =
     filter (\<lambda>i. record_id (before ! i) \<noteq> record_id (after ! i)) [0 ..< length before]"

definition validate_transition_snapshots ::
  "transaction_dispatch_record list \<Rightarrow> session_identity \<Rightarrow> snapshot_identity \<Rightarrow>
   transaction_dispatch_record list \<Rightarrow> session_identity \<Rightarrow> unit res" where
  "validate_transition_snapshots before previous_progress previous_state after next_progress =
     (let progress_changed = (next_progress \<noteq> previous_progress) in
      if length after = length before + 1 then
        reject (Run_journal_error invalid_transition)
          [progress_changed,
           map record_id (take (length before) after) \<noteq> map record_id before,
           record_state (last after) \<noteq> Reserved,
           dispatch_reserved_from (record_dispatch (last after)) \<noteq> previous_progress \<or>
             dispatch_reserved_state (record_dispatch (last after)) \<noteq> previous_state]
      else if length after \<noteq> length before then run_transition_error
      else case changed_indices before after of
        [] \<Rightarrow> run_transition_error
      | [i] \<Rightarrow> validate_record_transition (before ! i) (after ! i) progress_changed
      | _ # _ # _ \<Rightarrow> run_transition_error)"

definition validate_live_successor :: "run_journal_record \<Rightarrow> transaction_run \<Rightarrow> unit res" where
  "validate_live_successor previous next =
     bindE (reject (Run_journal_error invalid_transition)
       [transaction_id (progress_transaction (run_progress next)) \<noteq> rj_transaction previous,
        policy_id (run_policy next) \<noteq> policy_id (rj_policy previous),
        run_id next = rj_run previous]) (\<lambda>_.
       validate_transition_snapshots (rj_dispatches previous) (rj_progress previous) (rj_state previous)
         (run_records next) (progress_id (run_progress next)))"

definition changed_dispatch_index ::
  "transaction_dispatch_record list \<Rightarrow> transaction_dispatch_record list \<Rightarrow> nat option" where
  "changed_dispatch_index before after =
     (if length before \<noteq> length after then None
      else case changed_indices before after of
        [i] \<Rightarrow> Some i
      | _ \<Rightarrow> None)"

definition epoch_change_rejected ::
  "transaction_dispatch_record list \<Rightarrow> transaction_dispatch_record list \<Rightarrow> bool" where
  "epoch_change_rejected before after =
     (case changed_dispatch_index before after of
        None \<Rightarrow> True
      | Some i \<Rightarrow> record_state (after ! i) \<noteq> Completed \<or> record_kind (after ! i) \<noteq> Operation_unit)"

definition validate_durable_successor :: "run_journal_record \<Rightarrow> run_journal_record \<Rightarrow> unit res" where
  "validate_durable_successor previous next =
     bindE (reject (Run_journal_error invalid_transition)
       [rj_sequence next \<noteq> rj_sequence previous + 1 \<or> rj_previous next = None \<or>
          rj_previous next \<noteq> Some (rj_identity previous),
        rj_journal next \<noteq> rj_journal previous \<or> rj_transaction next \<noteq> rj_transaction previous \<or>
          rj_nonce next \<noteq> rj_nonce previous \<or> policy_id (rj_policy next) \<noteq> policy_id (rj_policy previous),
        rj_run next = rj_run previous]) (\<lambda>_.
     bindE (validate_transition_snapshots (rj_dispatches previous) (rj_progress previous)
              (rj_state previous) (rj_dispatches next) (rj_progress next)) (\<lambda>_.
       if rj_progress next = rj_progress previous
       then reject (Run_journal_error invalid_transition)
              [rj_state next \<noteq> rj_state previous \<or> rj_complete next \<noteq> rj_complete previous \<or>
               rj_failed next \<noteq> rj_failed previous \<or> rj_stopped next \<noteq> rj_stopped previous]
       else reject (Run_journal_error invalid_transition)
              [rj_state next \<noteq> rj_state previous \<and>
                 epoch_change_rejected (rj_dispatches previous) (rj_dispatches next)]))"

section \<open>Snapshots of a live run\<close>

definition seal_run_record :: "ext \<Rightarrow> run_journal_record \<Rightarrow> run_journal_record" where
  "seal_run_record X r = r\<lparr>rj_identity := run_record_identity X r\<rparr>"

text \<open>The snapshot both \<^verbatim>\<open>admit\<close> and \<^verbatim>\<open>successor\<close> make of a run.\<close>

definition snapshot_of ::
  "ext \<Rightarrow> session_identity \<Rightarrow> session_identity \<Rightarrow> nonce \<Rightarrow> u64 \<Rightarrow> session_identity option \<Rightarrow>
   transaction_run \<Rightarrow> run_journal_record" where
  "snapshot_of X journal transaction nonce sequence previous run =
     seal_run_record X
       \<lparr>rj_identity = [], rj_journal = journal, rj_transaction = transaction, rj_nonce = nonce,
        rj_sequence = sequence, rj_previous = previous, rj_run = run_id run,
        rj_progress = progress_id (run_progress run),
        rj_state = snapshot_id (progress_state (run_progress run)),
        rj_policy = run_policy run, rj_dispatches = run_records run,
        rj_complete = progress_complete (run_progress run),
        rj_failed = progress_failed (run_progress run), rj_stopped = run_stopped run\<rparr>"

definition admit_run :: "ext \<Rightarrow> transaction_run \<Rightarrow> nonce \<Rightarrow> run_journal_record res" where
  "admit_run X run nonce =
     (if run_records run \<noteq> [] then run_record_error
      else
        let transaction = transaction_id (progress_transaction (run_progress run)) in
        Inr (snapshot_of X (journal_identity X transaction (run_policy run) nonce) transaction nonce 0
               None run))"

definition run_successor :: "ext \<Rightarrow> run_journal_record \<Rightarrow> transaction_run \<Rightarrow> run_journal_record res" where
  "run_successor X r run =
     (if rj_sequence r = max_u64 then run_transition_error
      else bindE (validate_live_successor r run) (\<lambda>_.
        Inr (snapshot_of X (rj_journal r) (rj_transaction r) (rj_nonce r) (rj_sequence r + 1)
               (Some (rj_identity r)) run)))"

text \<open>The \<^verbatim>\<open>try\<close> block of \<^verbatim>\<open>reopen\<close> turns every \<^verbatim>\<open>pkgctl::error\<close> into a journal error.\<close>

definition as_run_record_error :: "'a res \<Rightarrow> 'a res" where
  "as_run_record_error r =
     (case r of
        Inl (Error c) \<Rightarrow> run_record_error
      | Inl e \<Rightarrow> Inl e
      | Inr x \<Rightarrow> Inr x)"

definition reopen :: "ext \<Rightarrow> run_journal_record \<Rightarrow> transaction_progress \<Rightarrow> transaction_run res" where
  "reopen X r p =
     (if transaction_id (progress_transaction p) \<noteq> rj_transaction r \<or> progress_id p \<noteq> rj_progress r \<or>
         snapshot_id (progress_state p) \<noteq> rj_state r \<or> progress_complete p \<noteq> rj_complete r \<or>
         progress_failed p \<noteq> rj_failed r
      then run_record_error
      else as_run_record_error
        (bindE (restore_run X p (rj_policy r) (rj_dispatches r) (rj_run r)) (\<lambda>run.
          if run_stopped run \<noteq> rj_stopped r then run_record_error else Inr run)))"

end
