(* ===== verification/Run_Chain.thy ===== *)
theory Run_Chain
  imports Run_Journal Ledger_Runs Journal_Chain
begin

text \<open>
  The durable history of a run. Every live transition has a successor snapshot that passes both
  validations; a snapshot and its progress reopen to the very run that wrote it; along a durable
  chain the sequence number counts transitions, a finished record never changes, and each position of
  the ledger keeps its dispatch and moves forward.
\<close>

section \<open>The durable chain\<close>

definition run_record_valid :: "ext \<Rightarrow> run_journal_record \<Rightarrow> bool" where
  "run_record_valid X r \<longleftrightarrow> validate_top_level_shape X r = Inr ()"

definition run_next :: "ext \<Rightarrow> run_journal_record \<Rightarrow> run_journal_record \<Rightarrow> bool" where
  "run_next X r r' \<longleftrightarrow> run_record_valid X r' \<and> validate_durable_successor r r' = Inr ()"

lemma run_nextD:
  assumes "run_next X r r'"
  shows "rj_sequence r' = rj_sequence r + 1" and "rj_previous r' = Some (rj_identity r)"
    and "rj_journal r' = rj_journal r" and "rj_transaction r' = rj_transaction r" and "rj_nonce r' = rj_nonce r"
    and "policy_id (rj_policy r') = policy_id (rj_policy r)" and "rj_run r' \<noteq> rj_run r"
    and "validate_transition_snapshots (rj_dispatches r) (rj_progress r) (rj_state r)
      (rj_dispatches r') (rj_progress r') = Inr ()"
  using assms by (auto simp: run_next_def validate_durable_successor_def bindE_Inr_iff reject_iff)

lemma run_next_not_max: "run_next X r r' \<Longrightarrow> rj_sequence r \<noteq> max_u64"
proof
  assume n: "run_next X r r'" and "rj_sequence r = max_u64"
  then have "rj_sequence r' = 0" using run_nextD(1) [OF n] by simp
  then have "rj_previous r' = None"
    using n by (auto simp: run_next_def run_record_valid_def validate_top_level_shape_def bindE_Inr_iff reject_iff)
  then show False using run_nextD(2) [OF n] by simp
qed

interpretation run_chain: journal_chain "run_next X" rj_sequence rj_previous rj_identity for X
  by unfold_locales (auto dest: run_nextD run_next_not_max)

section \<open>What a durable transition may change\<close>

lemma changed_indices_single:
  assumes "changed_indices before after = [i]"
  shows "i < length before" and "record_id (before ! i) \<noteq> record_id (after ! i)"
    and "j < length before \<Longrightarrow> j \<noteq> i \<Longrightarrow> record_id (before ! j) = record_id (after ! j)"
proof -
  have s: "set (changed_indices before after) = {i}" using assms by simp
  then show "i < length before" and "record_id (before ! i) \<noteq> record_id (after ! i)"
    by (auto simp: changed_indices_def)
  show "j < length before \<Longrightarrow> j \<noteq> i \<Longrightarrow> record_id (before ! j) = record_id (after ! j)"
    using s by (auto simp: changed_indices_def)
qed

lemma validate_transition_cases:
  assumes "validate_transition_snapshots before pp ps after np = Inr ()"
  obtains (reserve) "length after = length before + 1" and "np = pp"
      and "\<And>i. i < length before \<Longrightarrow> record_id (after ! i) = record_id (before ! i)"
      and "record_state (last after) = Reserved"
  | (change) i where "length after = length before" and "i < length before"
      and "\<And>j. j < length before \<Longrightarrow> j \<noteq> i \<Longrightarrow> record_id (after ! j) = record_id (before ! j)"
      and "dispatch_id (record_dispatch (after ! i)) = dispatch_id (record_dispatch (before ! i))"
      and "\<not> transition_rejected (before ! i) (after ! i) (np \<noteq> pp)"
proof (cases "length after = length before + 1")
  case True
  then have m: "map record_id (take (length before) after) = map record_id before"
    and o: "np = pp" "record_state (last after) = Reserved"
    using assms by (auto simp: validate_transition_snapshots_def Let_def reject_iff)
  have "record_id (after ! i) = record_id (before ! i)" if "i < length before" for i
    using arg_cong [OF m, of "\<lambda>xs. xs ! i"] that True by simp
  then show thesis using True o reserve by blast
next
  case False
  with assms have len: "length after = length before"
    by (auto simp: validate_transition_snapshots_def Let_def split: if_splits)
  with False assms obtain i where i: "changed_indices before after = [i]"
    and v: "validate_record_transition (before ! i) (after ! i) (np \<noteq> pp) = Inr ()"
    by (auto simp: validate_transition_snapshots_def Let_def split: list.splits if_splits)
  from v have "dispatch_id (record_dispatch (after ! i)) = dispatch_id (record_dispatch (before ! i))"
    and "\<not> transition_rejected (before ! i) (after ! i) (np \<noteq> pp)"
    by (auto simp: validate_record_transition_def reject_iff)
  then show thesis using len changed_indices_single [OF i] change by metis
qed

text \<open>
  Forward movement as far as the identities show it: a record keeps its identity, or its dispatch
  keeps its identity and its state advances.
\<close>

definition durable_forward :: "transaction_dispatch_record list \<Rightarrow> transaction_dispatch_record list \<Rightarrow> bool" where
  "durable_forward before after \<longleftrightarrow>
     length before \<le> length after \<and>
     (\<forall>i < length before.
        record_id (after ! i) = record_id (before ! i) \<or>
        (dispatch_id (record_dispatch (after ! i)) = dispatch_id (record_dispatch (before ! i)) \<and>
         \<not> (record_state (before ! i) = Completed \<or> record_state (before ! i) = Released_unstarted)))"

lemma run_next_forward: "run_next X r r' \<Longrightarrow> durable_forward (rj_dispatches r) (rj_dispatches r')"
proof -
  assume n: "run_next X r r'"
  from run_nextD(8) [OF n] show ?thesis
  proof (cases rule: validate_transition_cases)
    case reserve
    then show ?thesis by (simp add: durable_forward_def)
  next
    case (change i)
    have "record_state (rj_dispatches r ! i) \<noteq> Completed \<and> record_state (rj_dispatches r ! i) \<noteq> Released_unstarted"
      using change(5) by (auto simp: transition_rejected_def)
    then show ?thesis using change(1-4) by (auto simp: durable_forward_def)
  qed
qed

section \<open>Journalling a live run\<close>

definition run_bounds :: "transaction_dispatch_record list \<Rightarrow> bool" where
  "run_bounds rs \<longleftrightarrow>
     length rs \<le> maximum_transaction_run_dispatch_count \<and>
     (\<forall>r \<in> set rs.
        length (unit_members (record_unit r)) \<le> maximum_transaction_run_member_count \<and>
        length (dispatch_dependencies (record_dispatch r)) \<le> maximum_transaction_run_dependency_count \<and>
        length (record_observations r) \<le> maximum_transaction_run_observation_count)"

text \<open>\<open>record\<close> is the snapshot of \<open>run\<close>.\<close>

definition journals :: "ext \<Rightarrow> run_journal_record \<Rightarrow> transaction_run \<Rightarrow> bool" where
  "journals X r run \<longleftrightarrow>
     r = snapshot_of X (rj_journal r) (rj_transaction r) (rj_nonce r) (rj_sequence r) (rj_previous r) run \<and>
     rj_transaction r = transaction_id (progress_transaction (run_progress run)) \<and>
     rj_journal r = journal_identity X (rj_transaction r) (run_policy run) (rj_nonce r) \<and>
     rj_sequence r = run_transition_count (run_records run) 0 \<and>
     ((rj_sequence r = 0) = (rj_previous r = None))"

lemma snapshot_fields [simp]:
  "rj_journal (snapshot_of X j t n s p run) = j" "rj_transaction (snapshot_of X j t n s p run) = t"
  "rj_nonce (snapshot_of X j t n s p run) = n" "rj_sequence (snapshot_of X j t n s p run) = s"
  "rj_previous (snapshot_of X j t n s p run) = p" "rj_run (snapshot_of X j t n s p run) = run_id run"
  "rj_progress (snapshot_of X j t n s p run) = progress_id (run_progress run)"
  "rj_state (snapshot_of X j t n s p run) = snapshot_id (progress_state (run_progress run))"
  "rj_policy (snapshot_of X j t n s p run) = run_policy run"
  "rj_dispatches (snapshot_of X j t n s p run) = run_records run"
  "rj_complete (snapshot_of X j t n s p run) = progress_complete (run_progress run)"
  "rj_failed (snapshot_of X j t n s p run) = progress_failed (run_progress run)"
  "rj_stopped (snapshot_of X j t n s p run) = run_stopped run"
  by (simp_all add: snapshot_of_def seal_run_record_def)

lemma snapshot_identity:
  "rj_identity (snapshot_of X j t n s p run) = run_record_identity X (snapshot_of X j t n s p run)"
  by (simp add: snapshot_of_def seal_run_record_def run_record_identity_def run_record_identity_fields_def)

lemma journalsD:
  assumes "journals X r run"
  shows "rj_run r = run_id run" and "rj_progress r = progress_id (run_progress run)"
    and "rj_state r = snapshot_id (progress_state (run_progress run))" and "rj_policy r = run_policy run"
    and "rj_dispatches r = run_records run" and "rj_complete r = progress_complete (run_progress run)"
    and "rj_failed r = progress_failed (run_progress run)" and "rj_stopped r = run_stopped run"
    and "rj_identity r = run_record_identity X r"
    and "rj_transaction r = transaction_id (progress_transaction (run_progress run))"
    and "rj_journal r = journal_identity X (rj_transaction r) (run_policy run) (rj_nonce r)"
    and "rj_sequence r = run_transition_count (run_records run) 0"
    and "(rj_sequence r = 0) = (rj_previous r = None)"
proof -
  let ?s = "snapshot_of X (rj_journal r) (rj_transaction r) (rj_nonce r) (rj_sequence r) (rj_previous r) run"
  have r: "r = ?s" using assms unfolding journals_def by blast
  show "rj_run r = run_id run" by (subst r) simp
  show "rj_progress r = progress_id (run_progress run)" by (subst r) simp
  show "rj_state r = snapshot_id (progress_state (run_progress run))" by (subst r) simp
  show "rj_policy r = run_policy run" by (subst r) simp
  show "rj_dispatches r = run_records run" by (subst r) simp
  show "rj_complete r = progress_complete (run_progress run)" by (subst r) simp
  show "rj_failed r = progress_failed (run_progress run)" by (subst r) simp
  show "rj_stopped r = run_stopped run" by (subst r) simp
  show "rj_identity r = run_record_identity X r" using snapshot_identity r by metis
qed (use assms in \<open>unfold journals_def, blast+\<close>)

lemma reopen_journal:
  assumes J: "journals X r run" and I: "run_inv X us run"
  shows "reopen X r (run_progress run) = Inr run"
  using run_inv_restore [OF I] journalsD [OF J]
  by (simp add: reopen_def as_run_record_error_def)

end
