(* ===== verification/Sample.thy ===== *)
theory Sample
  imports Progress_Steps Ledger_Runs Effect_Trace Run_Chain
begin

text \<open>
  Concrete values the witnesses evaluate the properties at: a transaction that builds, checks and
  installs one package with one lifecycle node before the installation; a digest that keeps the last
  bytes of what it hashes; parsers that accept every text.
\<close>

definition sample_ext :: ext where
  "sample_ext = \<lparr>sha256 = (\<lambda>bs. take 32 (rev bs @ replicate 32 0)),
     application_outcome_code = (\<lambda>c. case c of
        Precondition_refused \<Rightarrow> 0 | Failed_before_target_mutation \<Rightarrow> 1 | Failed_fully_recovered \<Rightarrow> 2
      | Failed_with_partial_effects \<Rightarrow> 3 | Effects_visible_durability_unconfirmed \<Rightarrow> 4
      | Application_completed \<Rightarrow> 5 | Application_indeterminate \<Rightarrow> 6),
     publication_outcome_code = (\<lambda>c. case c of
        Published \<Rightarrow> 0 | Published_durability_unconfirmed \<Rightarrow> 1 | Stale_expected_state \<Rightarrow> 2
      | Request_rejected \<Rightarrow> 3 | Failed_before_publication \<Rightarrow> 4 | Publication_indeterminate \<Rightarrow> 5),
     parse_application_receipt = (\<lambda>_. True), parse_application_journal = (\<lambda>_. True),
     parse_completed_evidence = (\<lambda>_. True), parse_transaction_evidence = (\<lambda>_. True),
     parse_publication_request = (\<lambda>_. True), parse_publication_receipt = (\<lambda>_. True),
     parse_snapshot = (\<lambda>_. True),
     evidence_of_sha256 = (\<lambda>_. ''te''),
     project_completed = (\<lambda>state projection application evidence reason transaction.
       Inr \<lparr>publication_request_id = ''pr'', publication_transaction_evidence = Some transaction,
         publication_expected_snapshot = snapshot_id state,
         publication_target_binding = snapshot_target_binding state\<rparr>),
     project_publication_request = (\<lambda>request state. Inr (state\<lparr>snapshot_id := ''s1''\<rparr>)),
     assess_application_restart = (\<lambda>_. Application_restart_continue)\<rparr>"

definition sample_node :: "node_identity \<Rightarrow> transaction_action_kind \<Rightarrow> transaction_node" where
  "sample_node i a = \<lparr>node_id = i, node_action = a, node_environment = Environment_target, node_package = ''pkg'',
     node_selection = Some \<lparr>selection_identity = ''sel'', selection_package = ''pkg'', selection_installed = None,
       selection_source = ''src'', selection_release = ''rel'', selection_version = ''1'', selection_release_number = 1,
       selection_candidate = Some \<lparr>candidate_source = ''src'', candidate_release = ''rel'', candidate_package = ''pkg''\<rparr>\<rparr>,
     node_installed = None, node_lifecycle = (if a = Act_lifecycle then Some ''post'' else None)\<rparr>"

definition sample_edge :: "node_identity \<Rightarrow> node_identity \<Rightarrow> phase_order_kind \<Rightarrow> transaction_edge" where
  "sample_edge b a k = \<lparr>edge_id = b @ a, edge_kind = Edge_phase, edge_before = b, edge_after = a,
     edge_phase_order = Some k, edge_scope = None, edge_witness = None\<rparr>"

definition sample_nodes :: "transaction_node list" where
  "sample_nodes = [sample_node ''b'' Act_build, sample_node ''c'' Act_check, sample_node ''i'' Act_install,
     sample_node ''l'' Act_lifecycle]"

definition sample_program :: transaction_program where
  "sample_program = \<lparr>program_identity = ''p'', program_nodes = sample_nodes,
     program_edges = [sample_edge ''b'' ''c'' Build_before_check, sample_edge ''b'' ''i'' Build_before_target,
       sample_edge ''c'' ''i'' Build_before_target, sample_edge ''l'' ''i'' Pre_lifecycle_before_action],
     program_find = (\<lambda>i. find (\<lambda>n. node_id n = i) sample_nodes)\<rparr>"

definition sample_state :: snapshot where
  "sample_state = \<lparr>snapshot_id = ''s0'', snapshot_target_binding = ''t'', snapshot_managed_target = ''mt'',
     snapshot_root_view = ''rv'', snapshot_ownership = ''ow'', snapshot_find_package = (\<lambda>_. None)\<rparr>"

definition sample_session :: transaction_session where
  "sample_session = \<lparr>transaction_id = ''x'', transaction_program_of = sample_program,
     transaction_installed = sample_state\<rparr>"

definition sample_units :: "unit_spec list" where
  "sample_units = [single_spec Construction_unit ''b'', single_spec Check_unit ''c'',
     \<lparr>spec_kind = Operation_unit, spec_primary = ''i'', spec_members = [''i'', ''l'']\<rparr>]"

definition sample_build_policy :: build_policy where
  "sample_build_policy = \<lparr>build_policy_id = ''bp'', build_environment = \<lparr>environment_id = ''ep'',
     environment_parallelism = 1, environment_mask = 18, environment_epoch = None\<rparr>, build_output_layout = 1\<rparr>"

definition sample_build :: build_request where
  "sample_build = \<lparr>build_request_id = ''bq'', build_request_source = ''src'', build_request_subject = ''su'',
     build_request_inputs = [], build_request_policy = sample_build_policy\<rparr>"

definition sample_identity :: execution_identity where
  "sample_identity = \<lparr>identity_interpreter = ''in'', identity_user = 1000, identity_group = 100,
     identity_groups = []\<rparr>"

definition sample_paths :: construction_paths where
  "sample_paths = \<lparr>local_source_root = ''/l'', content_store_root = ''/k'', build_root_view = ''rv'',
     root_view_path = ''/r'', session_root = ''/s'', package_output_root = ''/o'', artifact_path = ''/a/p''\<rparr>"

definition sample_acquisition :: acquisition_policy where
  "sample_acquisition = \<lparr>max_object_bytes = 1000, max_redirects = 3, allow_http = False, allow_https = True\<rparr>"

definition sample_construction_session :: construction_session where
  "sample_construction_session = \<lparr>construction_request_of =
       \<lparr>construction_transaction = sample_session, construction_build_node = ''b'',
        construction_build_of = sample_build, construction_acquisition = sample_acquisition,
        construction_request_id = ''cq''\<rparr>,
     construction_paths_of = sample_paths, construction_inputs_of = [],
     construction_identity_of = sample_identity, construction_compression_of = Compression_none,
     construction_session_id = ''cs''\<rparr>"

definition sample_construction :: construction_result where
  "sample_construction = \<lparr>construction_session_of = sample_construction_session,
     construction_materialization = \<lparr>materialization_id = ''ma'', materialization_source = ''src''\<rparr>,
     construction_build = \<lparr>build_result_id = ''cb'', build_result_request = ''bq'', build_result_succeeded = True,
       build_sealing_failed = False, build_image_authority = True, build_execution_id = ''be'',
       build_execution_request = ''bx'', build_backend = ''ba''\<rparr>,
     construction_outcome_of = Construction_completed, construction_id = ''cr''\<rparr>"

lemmas sample_defs = sample_ext_def sample_node_def sample_edge_def sample_nodes_def sample_program_def
  sample_state_def sample_session_def sample_units_def sample_construction_def sample_construction_session_def
  sample_build_def single_spec_def

lemma sample_units: "units sample_session = Inr sample_units"
  by code_simp

lemma sample_session_ok: "session_ok sample_session"
proof -
  have "\<forall>e \<in> set (program_edges sample_program). edge_before e \<in> node_id ` set (program_nodes sample_program) \<and>
      edge_after e \<in> node_id ` set (program_nodes sample_program) \<and> edge_before e \<noteq> edge_after e"
    by code_simp
  moreover have "distinct (map node_id (program_nodes sample_program))" by code_simp
  ultimately show ?thesis by (simp add: session_ok_def program_ok_def sample_session_def sample_program_def)
qed

lemma sample_sound: "sound_session sample_session [] sample_units"
  using sample_session_ok
  by (simp add: sound_session_def sample_units effects_local_def session_ok_def program_ok_def)

definition sample_begin :: transaction_progress where
  "sample_begin = projr (progress_begin sample_ext sample_session)"

lemma not_isl: "\<not> isl r \<Longrightarrow> r = Inr (projr r)"
  by (cases r) simp_all

lemma sample_begin: "progress_begin sample_ext sample_session = Inr sample_begin"
  unfolding sample_begin_def by (rule not_isl) code_simp

definition sample_built :: transaction_progress where
  "sample_built = projr (advance_construction sample_ext sample_begin sample_construction)"

lemma sample_built: "advance_construction sample_ext sample_begin sample_construction = Inr sample_built"
  unfolding sample_built_def by (rule not_isl) code_simp

definition sample_check_session :: transaction_check_session where
  "sample_check_session = \<lparr>check_request_of =
       \<lparr>check_transaction = sample_session, check_prepared_from = progress_id sample_built,
        check_node_of = ''c'', check_construction = sample_construction,
        check_authority_of = \<lparr>authority_id = ''ca'', authority_transaction = ''p'', authority_check_node = ''c'',
          authority_build_node = ''b'', authority_build = ''cb'', authority_inputs = []\<rparr>,
        check_constructed_inputs = [], check_request_id = ''kq''\<rparr>,
     check_execution_session = \<lparr>checked_source = ''src'', checked_source_tree = ''st'',
        checked_source_path = ''/s'', checked_artifact = ''ar'', checked_package_tree = ''pt'',
        checked_package_path = ''/p'', check_input_resources = [], check_root_view = ''rv'',
        check_root_view_path = ''/r'', check_temporary_root = ''/t'', check_identity_of = sample_identity,
        check_limits = \<lparr>limits_id = ''li'', limit_cpu_time = None, limit_address_space = None,
          limit_file_size = None, limit_open_files = None, limit_processes = None\<rparr>\<rparr>,
     check_execution_request = ''er'', check_session_id = ''ks''\<rparr>"

definition sample_check :: transaction_check_result where
  "sample_check = \<lparr>check_session_of = sample_check_session,
     check_execution = \<lparr>executed_check_id = ''kc'', executed_check_authority = ''ca'',
       executed_check_passed = True, executed_outcome_code = 0, executed_id = ''ke'', executed_request = ''er'',
       executed_is_check = True, executed_backend = ''ba''\<rparr>, check_id = ''kr''\<rparr>"

definition sample_checked :: transaction_progress where
  "sample_checked = projr (advance_check sample_ext sample_built sample_check)"

lemma sample_checked: "advance_check sample_ext sample_built sample_check = Inr sample_checked"
  unfolding sample_checked_def by (rule not_isl) code_simp

definition sample_application :: package_application_request where
  "sample_application = \<lparr>application_id = ''aq'', application_plan = ''ap'', application_kind = Kind_install,
     application_body = Some (Installation \<lparr>plan_installed_snapshot = ''s0'', plan_ownership_inventory = ''ow'',
       plan_release_name = ''pkg''\<rparr>),
     application_target_of = \<lparr>target_identity = ''at'', target_managed = ''mt'', target_root_view = ''rv'',
       target_lifecycle_executor = Some ''le''\<rparr>,
     application_control = ''ac'',
     application_incoming = Some \<lparr>incoming_source = ''src'', incoming_release = ''rel''\<rparr>\<rparr>"

definition sample_reason :: installation_reason where
  "sample_reason = \<lparr>reason_kind_code = 0, reason_issuer_package = None, reason_issuer_profile = None,
     reason_issuer_profile_identity = None, reason_policy = None\<rparr>"

definition sample_credentials :: execution_credentials where
  "sample_credentials = \<lparr>credential_interpreter = ''sh'', credential_user = 0, credential_group = 0,
     credential_groups = []\<rparr>"

definition sample_lifecycle :: admitted_lifecycle_session where
  "sample_lifecycle = \<lparr>lifecycle_request = ''aq'', lifecycle_node_of =
       \<lparr>lifecycle_node_id = ''ln'', lifecycle_application = ''aq'', lifecycle_plan = ''ap'',
        lifecycle_operation = Kind_install, lifecycle_target = ''at'', lifecycle_executor = ''le'',
        lifecycle_action = ''post'', lifecycle_program = ''lp'', lifecycle_release_name = ''pkg'',
        lifecycle_version = ''1'', lifecycle_release = ''1'', lifecycle_subject_of = Subject_incoming,
        lifecycle_source = Some ''src'', lifecycle_installed_control = None\<rparr>,
     lifecycle_execution_root = ''er'', lifecycle_target_root = ''tr'', lifecycle_credentials = sample_credentials\<rparr>"

definition sample_lifecycle_result :: "string \<Rightarrow> lifecycle_execution_result" where
  "sample_lifecycle_result i = \<lparr>lifecycle_result_id = i, lifecycle_result_succeeded = True,
     lifecycle_result_node = ''ln'', lifecycle_result_program = ''lp'', lifecycle_result_is_lifecycle = True,
     lifecycle_result_action = Some ''post'', lifecycle_result_root_view = ''er'',
     lifecycle_result_credentials = sample_credentials, lifecycle_result_no_new_privileges = True,
     lifecycle_result_network_denied = True\<rparr>"

definition sample_effect_session :: effectful_operation_session where
  "sample_effect_session = \<lparr>effect_request_of =
       \<lparr>effect_transaction = sample_session, effect_expected_state = sample_state, effect_action_node = ''i'',
        effect_application_request = sample_application,
        effect_lifecycle = \<lparr>order_before = [''l''], order_after = []\<rparr>,
        effect_installation_reason = Some sample_reason, effect_request_id = ''eq''\<rparr>,
     effect_session_before = [sample_lifecycle], effect_session_after = [], effect_session_id = ''es''\<rparr>"

definition sample_effect :: effectful_operation_result where
  "sample_effect = \<lparr>effect_session_of = sample_effect_session, effect_outcome = Effect_completed,
     effect_before = [sample_lifecycle_result ''lr''], effect_application = None, effect_after = [],
     effect_transaction_evidence = Some ''te'',
     effect_publication_request = Some \<lparr>publication_request_id = ''pr'',
       publication_transaction_evidence = Some ''te'', publication_expected_snapshot = ''s0'',
       publication_target_binding = ''t''\<rparr>,
     effect_publication_receipt = Some \<lparr>receipt_id = ''rr'', receipt_request = ''pr'',
       receipt_expected_prior = ''s0'', receipt_actual_prior = ''s0'', receipt_target_binding = ''t'',
       receipt_resulting_snapshot = Some ''s1'', receipt_outcome = Published\<rparr>,
     effect_reconciled_state = None, effect_id = ''ee''\<rparr>"

definition sample_state1 :: snapshot where
  "sample_state1 = \<lparr>snapshot_id = ''s1'', snapshot_target_binding = ''t'', snapshot_managed_target = ''mt'',
     snapshot_root_view = ''rv'', snapshot_ownership = ''ow'', snapshot_find_package = (\<lambda>_. None)\<rparr>"

definition sample_done :: transaction_progress where
  "sample_done = projr (advance_effect sample_ext sample_checked sample_effect (Some sample_state1))"

lemma sample_done: "advance_effect sample_ext sample_checked sample_effect (Some sample_state1) = Inr sample_done"
  unfolding sample_done_def by (rule not_isl) code_simp

lemma sample_effect_local: "effect_local (transaction_program_of sample_session) sample_effect"
  by code_simp

lemma sample_progress_ok:
  shows sample_begin_ok: "progress_ok sample_ext sample_begin"
    and sample_built_ok: "progress_ok sample_ext sample_built"
    and sample_checked_ok: "progress_ok sample_ext sample_checked"
    and sample_done_ok: "progress_ok sample_ext sample_done"
    and sample_built_fields [simp]: "progress_transaction sample_built = sample_session"
      "progress_constructions sample_built = [sample_construction]"
      "progress_transaction sample_checked = sample_session"
proof -
  show b: "progress_ok sample_ext sample_begin" by (rule progress_begin_ok [OF sample_session_ok sample_begin])
  have t: "progress_transaction sample_begin = sample_session" "progress_constructions sample_begin = []"
    using rebuild_fields [OF sample_begin [unfolded progress_begin_def]] by simp_all
  note B = advance_construction_sound [OF b sample_built]
  show "progress_constructions sample_built = [sample_construction]"
    using rebuild_fields(3) [OF advance_constructionD(3) [OF sample_built]] t by simp
  show tb: "progress_transaction sample_built = sample_session" using B t by (simp add: advanced_def)
  from B show b': "progress_ok sample_ext sample_built" by blast
  note C = advance_check_sound [OF b' sample_checked]
  from C show c: "progress_ok sample_ext sample_checked" by blast
  show tc: "progress_transaction sample_checked = sample_session" using C tb by (simp add: advanced_def)
  show "progress_ok sample_ext sample_done"
    using advance_effect_sound [OF c sample_done] tc sample_effect_local by simp
qed

lemma sample_progress_steps:
  "progress_step sample_ext sample_begin ''b'' sample_built"
  "progress_step sample_ext sample_built ''c'' sample_checked"
  "progress_step sample_ext sample_checked ''i'' sample_done"
  using accept_construction [OF sample_built] accept_check [OF sample_checked]
    accept_effect [OF sample_done] sample_effect_local
  by (simp_all add: sample_construction_def sample_construction_session_def sample_build_def sample_check_def sample_check_session_def sample_effect_def sample_effect_session_def)

section \<open>A run\<close>

definition sample_policy :: transaction_dispatch_policy where
  "sample_policy = projr (make_policy sample_ext 1 1 Stop_after_terminal_failure)"

lemma sample_begin_rebuilt:
  "sample_begin = rebuilt sample_ext sample_session sample_state [] [] [] sample_units"
  using sample_begin rebuild_closed [OF sample_sound, of sample_ext sample_state "[]" "[]"]
  by (simp add: progress_begin_def) (simp add: sample_session_def)

lemma sample_begin_fields [simp]:
  "progress_transaction sample_begin = sample_session" "progress_state sample_begin = sample_state"
  "progress_constructions sample_begin = []" "progress_checks sample_begin = []"
  "progress_effects sample_begin = []"
  by (simp_all add: sample_begin_rebuilt)

lemma sample_ledger: "ledger_progress sample_ext sample_begin sample_units"
  using sample_sound sample_units rebuild_closed [OF sample_sound]
  by (simp add: ledger_progress_def progress_ok_def evidence_typed_def sample_session_ok
      sample_begin_rebuilt [symmetric] keyed_def effects_local_def sound_session_def)

lemma sample_ids_distinct: "unit_ids_distinct sample_ext sample_session sample_units"
  by code_simp

definition sample_run :: transaction_run where
  "sample_run = run_of sample_ext sample_begin sample_policy []"

lemma sample_run: "run_begin sample_ext sample_begin sample_policy = Inr sample_run"
  and sample_run_inv: "run_inv sample_ext sample_units sample_run"
  using run_begin_inv [OF sample_ledger, of sample_policy] sample_ids_distinct
  by (auto simp: run_begin_def make_run_Inr sample_run_def)

definition sample_nonce :: nonce where
  "sample_nonce = replicate 32 7"

definition sample_unit :: ready_transaction_unit where
  "sample_unit = seal_unit sample_ext ''x'' (single_spec Construction_unit ''b'')"

lemma sample_ready: "progress_ready_units sample_begin = [sample_unit]"
  by code_simp

definition sample_dispatch :: transaction_dispatch where
  "sample_dispatch = reservation sample_ext sample_run sample_nonce sample_unit []"

definition sample_reserved :: transaction_run where
  "sample_reserved = reserved_run sample_ext sample_run sample_dispatch"

lemma sample_unit_fields [simp]:
  "unit_kind sample_unit = Construction_unit" "unit_primary sample_unit = ''b''" "unit_members sample_unit = [''b'']"
  by (simp_all add: sample_unit_def single_spec_def)

lemma sample_run_fields [simp]:
  "run_progress sample_run = sample_begin" "run_policy sample_run = sample_policy" "run_records sample_run = []"
  by (simp_all add: sample_run_def)

lemma sample_not_stopped: "\<not> progress_failed sample_begin"
  by code_simp

lemma sample_capacity: "unat (policy_construction_capacity sample_policy) = 1"
  by code_simp

lemma sample_dependencies: "capture_dependencies sample_ext sample_begin sample_unit = Inr []"
  by code_simp

lemma sample_reserve: "reserve_next sample_ext sample_run sample_nonce = Inr (sample_reserved, Some sample_dispatch)"
  and sample_reserved_inv: "run_inv sample_ext sample_units sample_reserved"
  using reserve_next_selected [OF sample_run_inv, of sample_nonce sample_unit "[]"]
  by (simp_all add: nonce_used_def run_stopped_def sample_not_stopped sample_ready capacity_available_def
      active_count_def overlaps_active_def sample_capacity sample_dependencies sample_reserved_def sample_dispatch_def)

definition sample_record :: transaction_dispatch_record where
  "sample_record = make_record sample_ext sample_dispatch Reserved None None [] None"

lemma sample_dispatch_unit [simp]: "dispatch_unit sample_dispatch = sample_unit"
  "dispatch_dependencies sample_dispatch = []"
  by (simp_all add: sample_dispatch_def reservation_def make_dispatch_def)

lemma sample_reserved_fields [simp]:
  "run_progress sample_reserved = sample_begin" "run_policy sample_reserved = sample_policy"
  "run_records sample_reserved = [sample_record]"
  by (simp_all add: sample_reserved_def reserved_run_def sample_record_def)

lemma sample_current: "find_ready_unit sample_begin sample_unit = Some sample_unit"
  by (rule find_ready_complete [OF sample_ledger]) (simp_all add: sample_ids_distinct sample_ready)

lemma sample_open: "open_reserved sample_ext sample_reserved sample_dispatch = Inr (0, sample_record)"
  by (simp add: open_reserved_def validate_dispatch_may_start_def run_stopped_def sample_not_stopped
      record_index_def sample_record_def require_record_state_def validate_record_dispatch_def
      validate_dispatch_is_current_def sample_current sample_dependencies reject_def)

lemma sample_binding:
  "validate_construction_binding sample_reserved sample_dispatch (construction_session_of sample_construction) = Inr ()"
  by (simp add: validate_construction_binding_def sample_construction_def sample_construction_session_def sample_build_def validate_construction_inputs_def
      sample_session_def sample_program_def sample_edge_def)

definition sample_started :: transaction_run where
  "sample_started = projr (start_construction_dispatch sample_ext sample_reserved sample_dispatch
     (construction_session_of sample_construction))"

definition sample_started_record :: transaction_dispatch_record where
  "sample_started_record = started_record sample_ext sample_record ''cs'' None"

lemma sample_start_facts:
  shows sample_start: "start_construction_dispatch sample_ext sample_reserved sample_dispatch
      (construction_session_of sample_construction) = Inr sample_started"
    and sample_started_inv: "run_inv sample_ext sample_units sample_started"
    and sample_starts: "starts_as sample_reserved sample_started sample_record sample_started_record"
  using start_construction_total [OF sample_reserved_inv sample_open sample_binding]
  by (auto simp: sample_started_def sample_started_record_def sample_construction_def sample_construction_session_def sample_build_def)

lemma sample_started_fields [simp]:
  "run_progress sample_started = sample_begin" "run_policy sample_started = sample_policy"
  "run_records sample_started = [sample_started_record]"
  using sample_starts by (auto simp: starts_as_def Cons_eq_append_conv)

lemma sample_open_started: "open_started sample_ext sample_started sample_dispatch = Inr (0, sample_started_record)"
  by (simp add: open_started_def started_record_def sample_started_record_def
      record_index_def sample_record_def require_record_state_def validate_record_dispatch_def
      validate_dispatch_is_current_def sample_current sample_dependencies reject_def)

lemma sample_binding_started:
  "validate_construction_binding sample_started sample_dispatch (construction_session_of sample_construction) = Inr ()"
  by (simp add: validate_construction_binding_def sample_construction_def sample_construction_session_def sample_build_def validate_construction_inputs_def
      sample_session_def sample_program_def sample_edge_def)

definition sample_completed :: transaction_run where
  "sample_completed = projr (complete_construction_dispatch sample_ext sample_started sample_dispatch sample_construction)"

lemma sample_complete_facts:
  shows sample_complete: "complete_construction_dispatch sample_ext sample_started sample_dispatch
      sample_construction = Inr sample_completed"
    and sample_completed_inv: "run_inv sample_ext sample_units sample_completed"
    and sample_completes: "completes_as sample_started sample_completed sample_started_record
      (completed_record sample_ext sample_started_record (construction_id sample_construction)) sample_built"
  using complete_construction_total [OF sample_started_inv sample_open_started sample_binding_started, of sample_built]
    sample_built
  by (auto simp: sample_completed_def sample_started_record_def started_record_def sample_construction_def sample_construction_session_def sample_build_def)

lemma sample_steps: "(run_step sample_ext)\<^sup>*\<^sup>* sample_run sample_completed"
proof (rule converse_rtranclp_into_rtranclp)
  show "run_step sample_ext sample_run sample_reserved" by (rule step_reserve) (rule sample_reserve)
  have "run_step sample_ext sample_started sample_completed"
    by (rule step_complete_construction) (rule sample_complete)
  moreover have "run_step sample_ext sample_reserved sample_started"
    by (rule step_start_construction) (rule sample_start)
  ultimately show "(run_step sample_ext)\<^sup>*\<^sup>* sample_reserved sample_completed" by simp
qed

end
