(* ===== verification/Progress_Properties.thy ===== *)
theory Progress_Properties
  imports Progress_Steps Sample
begin

text \<open>
  The properties of \<^verbatim>\<open>src/progression.cpp\<close>, each with a witness at the sample transaction. They rest on
  the lemmas of \<open>Units\<close>, \<open>Settle\<close>, \<open>Statuses\<close>, \<open>Progress\<close> and \<open>Progress_Steps\<close>.
\<close>

section \<open>Statuses\<close>



text \<open>Terminal evidence decides its unit: the primary node of a unit with evidence is satisfied
  exactly when the evidence succeeded and failed otherwise, and success satisfies every member.\<close>

theorem evidence_decides_unit:
  assumes "progress_ok X p" and "units (progress_transaction p) = Inr us" and "u \<in> set us"
    and "unit_evidence (progress_constructions p) (progress_checks p) (progress_effects p) u"
  shows "progress_status p (spec_primary u) = Inr (if unit_satisfied (progress_constructions p)
      (progress_checks p) (progress_effects p) u then Satisfied else Failed)
    \<and> (unit_satisfied (progress_constructions p) (progress_checks p) (progress_effects p) u \<longrightarrow>
        (\<forall>m \<in> set (spec_members u). progress_status p m = Inr Satisfied))"
proof -
  obtain us' where S': "sound_session (progress_transaction p) (progress_effects p) us'"
    and p': "p = rebuilt X (progress_transaction p) (progress_state p) (progress_constructions p)
       (progress_checks p) (progress_effects p) us'"
    using progress_okE [OF assms(1)] by metis
  then have us: "us' = us" using assms(2) by (simp add: sound_session_def)
  note S = S' [unfolded us] and p = p' [unfolded us] and D = sound_sessionD [OF S' [unfolded us]]
  let ?st = "final_statuses (progress_transaction p) (progress_constructions p) (progress_checks p) (progress_effects p) us"
  have status: "progress_status p n = Inr v" if "n \<in> set (spec_members u)" "?st n = Some v" for n v
    using rebuilt_status_iff [OF S, of n X "progress_state p" "progress_constructions p" "progress_checks p",
        folded p] units_members_in [OF D(1) assms(2,3) that(1)] that(2) by blast
  have "?st m = Some Satisfied" if "unit_satisfied (progress_constructions p) (progress_checks p)
      (progress_effects p) u" "m \<in> set (spec_members u)" for m
  proof -
    have "?st m = evidence_statuses (progress_transaction p) (progress_constructions p) (progress_checks p)
        (progress_effects p) us m"
      by (rule derive_statuses_closed(3) [OF D assms(3) that(2) assms(4)])
    also have "\<dots> = Some Satisfied"
      unfolding evidence_member [OF D(1) assms(2) D(3) assms(3) that(2)]
      by (rule apply_evidence_satisfied [OF that(1) _ that(2)])
        (use assms(2,3) in \<open>auto simp: units_set unit_of_def single_spec_def operation_spec_def split: if_splits\<close>)
    finally show ?thesis .
  qed
  with status final_evidence [OF S assms(3,4)] units_primary(1) [OF assms(2,3)] show ?thesis by auto
qed

lemma evidence_decides_unit_witness: "progress_status sample_built ''b'' = Inr Satisfied"
  using evidence_decides_unit [OF sample_built_ok, of sample_units "single_spec Construction_unit ''b''"] sample_units
  by (simp add: sample_units_def unit_evidence_def unit_satisfied_def single_spec_def find_construction_def
      sample_construction_def sample_construction_session_def sample_build_def construction_succeeded_def)

text \<open>C25. The ready units of a rebuilt progress are exactly the units without terminal evidence whose
  predecessors from outside the unit are all satisfied, sealed under their own identity.\<close>

theorem ready_units_exact:
  assumes "progress_ok X p" and "units (progress_transaction p) = Inr us"
  shows "set (progress_ready_units p) = seal_unit X (transaction_id (progress_transaction p)) `
    {u \<in> set us. \<not> unit_evidence (progress_constructions p) (progress_checks p) (progress_effects p) u \<and>
       (\<forall>n \<in> entering (session_edges (progress_transaction p)) (spec_members u).
          progress_status p n = Inr Satisfied)}"
proof -
  obtain us' where S': "sound_session (progress_transaction p) (progress_effects p) us'"
    and p': "p = rebuilt X (progress_transaction p) (progress_state p) (progress_constructions p)
       (progress_checks p) (progress_effects p) us'"
    using progress_okE [OF assms(1)] by metis
  have us: "us' = us" using S' assms(2) by (simp add: sound_session_def)
  note S = S' [unfolded us] and p = p' [unfolded us]
  note status = rebuilt_status_iff [OF S, of _ X "progress_state p" "progress_constructions p" "progress_checks p",
      folded p]
  have "n \<in> node_id ` set (session_nodes (progress_transaction p))"
    if "n \<in> entering (session_edges (progress_transaction p)) ms" for n ms
    using that progress_okD(1) [OF assms(1)] by (auto simp: entering_def session_ok_def program_ok_def)
  then have "all_satisfied (session_edges (progress_transaction p)) (final_statuses (progress_transaction p)
      (progress_constructions p) (progress_checks p) (progress_effects p) us) u \<longleftrightarrow>
      (\<forall>n \<in> entering (session_edges (progress_transaction p)) (spec_members u). progress_status p n = Inr Satisfied)" for u
    using status by (simp add: all_satisfied_def cong: ball_cong)
  with rebuilt_ready [OF S, of _ X "progress_state p" "progress_constructions p" "progress_checks p", folded p]
  show ?thesis by blast
qed

lemma ready_units_exact_witness:
  "seal_unit sample_ext ''x'' (single_spec Check_unit ''c'') \<in> set (progress_ready_units sample_built)"
proof -
  have "bindE (Inr sample_built) (\<lambda>p. progress_status p ''b'') = Inr Satisfied" by code_simp
  moreover have "progress_checks sample_built = []" by code_simp
  moreover have "entering (session_edges sample_session) [''c''] = {''b''}"
    by (simp add: entering_Cons sample_session_def sample_program_def sample_edge_def) (simp add: entering_def)
  moreover have "transaction_id sample_session = ''x''" by (simp add: sample_session_def)
  ultimately show ?thesis
    using ready_units_exact [OF sample_built_ok, of sample_units] sample_units
    by (auto simp: sample_units_def single_spec_def unit_evidence_def find_check_def intro!: image_eqI)
qed

text \<open>C26. The units of a transaction partition its nodes: every node that is not merely retained belongs
  to exactly one unit, and every member of a unit is such a node.\<close>

theorem units_partition_nodes:
  assumes "session_ok ts" and "units ts = Inr us"
  shows "(\<forall>n \<in> set (session_nodes ts). node_action n \<noteq> Act_retain \<longrightarrow> (\<exists>!u. u \<in> set us \<and> node_id n \<in> set (spec_members u)))
    \<and> (\<forall>u \<in> set us. spec_primary u \<in> set (spec_members u) \<and> sorted_wrt (<) (spec_members u) \<and>
         (\<forall>m \<in> set (spec_members u). \<exists>n \<in> set (session_nodes ts). node_id n = m \<and> node_action n \<noteq> Act_retain))
    \<and> sorted_wrt (<) (map spec_primary us)"
  using units_cover [OF assms(2)] units_disjoint [OF assms] units_primary [OF assms(2)]
    units_members_in [OF assms] units_distinct(1,3) [OF assms] by (auto simp: strict_sorted_iff) metis

lemma units_partition_nodes_witness: "\<exists>!u. u \<in> set sample_units \<and> ''l'' \<in> set (spec_members u)"
proof -
  have "sample_node ''l'' Act_lifecycle \<in> set (session_nodes sample_session)"
    by (simp add: sample_session_def sample_program_def sample_nodes_def)
  moreover have "node_action (sample_node ''l'' Act_lifecycle) \<noteq> Act_retain"
    "node_id (sample_node ''l'' Act_lifecycle) = ''l''" by (simp_all add: sample_node_def)
  ultimately show ?thesis using units_partition_nodes [OF sample_session_ok sample_units] by metis
qed

text \<open>C18. The fixpoint loop of \<^verbatim>\<open>derive_statuses\<close> ends: for a sealed program it needs at most one pass per
  unit and two more, whatever evidence is retained, and any larger allowance gives the same statuses.\<close>

theorem status_loop_terminates:
  assumes "session_ok ts" and "units ts = Inr us" and "effects_local (transaction_program_of ts) es"
    and "length us + 2 \<le> passes"
  shows "\<exists>st. settle passes (session_edges ts) us (evidence_statuses ts cs ks es us) = Inr st \<and>
    derive_statuses ts cs ks es us = Inr st"
proof -
  have "derive_statuses ts cs ks es us = Inr (final_statuses ts cs ks es us)"
    by (rule derive_statuses_closed(1) [OF assms(1-3)])
  moreover from this have "settle (settle_fuel us + (passes - settle_fuel us)) (session_edges ts) us
      (evidence_statuses ts cs ks es us) = Inr (final_statuses ts cs ks es us)"
    unfolding derive_statuses_def by (rule settle_more_fuel)
  moreover have "settle_fuel us + (passes - settle_fuel us) = passes"
    using assms(4) by (simp only: settle_fuel_def)
  ultimately show ?thesis by metis
qed

lemma status_loop_terminates_witness:
  "\<exists>st. derive_statuses sample_session [] [] [] sample_units = Inr st"
  using status_loop_terminates [OF sample_session_ok sample_units, of "[]" 100] sample_sound
  by (auto simp: sound_session_def sample_units_def)

section \<open>Accepting evidence\<close>

text \<open>Every progress reached from the beginning of a sealed transaction by accepting evidence is the
  rebuild of its own evidence, with that evidence sorted and at most one piece per node.\<close>

theorem progress_invariant:
  assumes "session_ok ts" and "progress_begin X ts = Inr p" and "progresses X p p'"
  shows "progress_ok X p' \<and> progress_transaction p' = ts"
proof -
  have ok: "progress_ok X p" by (rule progress_begin_ok [OF assms(1,2)])
  have "progress_transaction p = ts" using rebuild_fields(1) assms(2) by (simp add: progress_begin_def)
  with progresses_transaction [OF assms(3) ok]
    progresses_induct [OF assms(3) ok, of "\<lambda>_ _. True"] show ?thesis by simp
qed

lemma sample_progresses_built: "progresses sample_ext sample_built sample_done"
proof (rule converse_rtranclp_into_rtranclp)
  show "\<exists>i. progress_step sample_ext sample_built i sample_checked" using sample_progress_steps(2) by blast
  show "progresses sample_ext sample_checked sample_done" using sample_progress_steps(3) by blast
qed

lemma sample_progresses: "progresses sample_ext sample_begin sample_done"
  by (rule converse_rtranclp_into_rtranclp [OF _ sample_progresses_built]) (use sample_progress_steps(1) in blast)

lemma progress_invariant_witness: "progress_ok sample_ext sample_done"
  using progress_invariant [OF sample_session_ok sample_begin sample_progresses] by blast

text \<open>C31. Accepting evidence never takes back a satisfied, failed or blocked node.\<close>

theorem terminal_statuses_absorbing:
  assumes "progress_ok X p" and "progresses X p p'" and "progress_status p n = Inr s"
    and "s = Satisfied \<or> s = Failed \<or> s = Blocked"
  shows "progress_status p' n = Inr s"
  using progresses_induct [OF assms(2,1), of "\<lambda>a b. progress_status a n = Inr s \<longrightarrow> progress_status b n = Inr s"]
    advanced_statuses [OF _ _ progress_step_sound(2) _ assms(4)] assms(3) by blast

lemma terminal_statuses_absorbing_witness: "progress_status sample_done ''b'' = Inr Satisfied"
proof (rule terminal_statuses_absorbing [OF sample_built_ok sample_progresses_built])
  show "progress_status sample_built ''b'' = Inr Satisfied" by code_simp
qed simp

text \<open>Evidence for one node never withdraws another ready unit.\<close>

theorem ready_units_persist:
  assumes "progress_ok X p" and "progress_step X p i p'" and "r \<in> set (progress_ready_units p)"
    and "unit_primary r \<noteq> i"
  shows "r \<in> set (progress_ready_units p')"
  by (rule advanced_ready [OF assms(1) progress_step_sound [OF assms(1,2)] assms(3,4)])

definition sample_pair :: transaction_session where
  "sample_pair = \<lparr>transaction_id = ''x'', transaction_program_of =
     \<lparr>program_identity = ''p'', program_nodes = [sample_node ''b'' Act_build, sample_node ''d'' Act_build],
      program_edges = [], program_find = (\<lambda>i. find (\<lambda>n. node_id n = i)
        [sample_node ''b'' Act_build, sample_node ''d'' Act_build])\<rparr>,
     transaction_installed = sample_state\<rparr>"

lemma ready_units_persist_witness:
  "\<exists>p p' r. progress_begin sample_ext sample_pair = Inr p \<and> progress_step sample_ext p ''b'' p' \<and>
     unit_primary r = ''d'' \<and> r \<in> set (progress_ready_units p')"
proof -
  let ?p = "projr (progress_begin sample_ext sample_pair)"
  let ?p' = "projr (advance_construction sample_ext ?p sample_construction)"
  let ?r = "seal_unit sample_ext ''x'' (single_spec Construction_unit ''d'')"
  have b: "progress_begin sample_ext sample_pair = Inr ?p" by (rule not_isl) code_simp
  have "session_ok sample_pair"
    by (simp add: session_ok_def program_ok_def sample_pair_def sample_node_def)
  from progress_begin_ok [OF this b] have ok: "progress_ok sample_ext ?p" .
  have "advance_construction sample_ext ?p sample_construction = Inr ?p'" by (rule not_isl) code_simp
  from accept_construction [OF this] have st: "progress_step sample_ext ?p ''b'' ?p'"
    by (simp add: sample_construction_def sample_construction_session_def sample_build_def)
  have r: "?r \<in> set (progress_ready_units ?p)" by code_simp
  have d: "unit_primary ?r = ''d''" by (simp add: single_spec_def)
  then have "unit_primary ?r \<noteq> ''b''" by simp
  from ready_units_persist [OF ok st r this] b st d show ?thesis by blast
qed

text \<open>C30. The state epoch of a transaction changes only when a completed effect is accepted, and then the
  effect's publication was based on the epoch it leaves and names the epoch it enters.\<close>

theorem epoch_changes_by_completed_effect:
  assumes "progress_ok X p" and "progress_step X p i p'" and "progress_state p' \<noteq> progress_state p"
  shows "\<exists>e request. progress_effect p' i = Some e \<and> effect_outcome e = Effect_completed \<and>
    effect_publication_request e = Some request \<and>
    publication_expected_snapshot request = snapshot_id (progress_state p) \<and>
    snapshot_target_binding (progress_state p') = snapshot_target_binding (progress_state p) \<and>
    (case effect_publication_receipt e of
       Some receipt \<Rightarrow> receipt_actual_prior receipt = snapshot_id (progress_state p) \<and>
         receipt_resulting_snapshot receipt = Some (snapshot_id (progress_state p'))
     | None \<Rightarrow> effect_reconciled_state e = Some (snapshot_id (progress_state p')))"
  using assms(2)
proof (rule progress_stepE)
  fix e s
  assume a: "i = effect_node e" "advance_effect X p e s = Inr p'"
    and l: "effect_local (transaction_program_of (progress_transaction p)) e"
  from a(2) show ?thesis
  proof (rule advance_effectD)
    fix s'
    assume n: "find_effect (progress_effects p) (effect_node e) = None"
      and r: "rebuild X (progress_transaction p) s' (progress_constructions p) (progress_checks p)
           (sort_key effect_node (progress_effects p @ [e])) = Inr p'"
      and s: "effect_succeeded e \<Longrightarrow> s = Some s' \<and> validate_effect_success p e s' = Inr ()"
        "\<not> effect_succeeded e \<Longrightarrow> s = None \<and> s' = progress_state p \<and> definitive_failure (effect_outcome e)"
    note F = rebuild_fields [OF r]
    from s assms(3) have c: "effect_succeeded e" "validate_effect_success p e s' = Inr ()" by (auto simp: F)
    moreover have "progress_effect p' i = Some e"
      unfolding progress_effect_def F a(1) using find_effect_insert [OF progress_okD(5) [OF assms(1)] n] by simp
    moreover from c(2) obtain request where q: "effect_publication_request e = Some request"
      by (cases "effect_publication_request e") (simp_all add: validate_effect_success_def)
    moreover have "publication_expected_snapshot request = snapshot_id (progress_state p)"
        "snapshot_target_binding s' = snapshot_target_binding (progress_state p)"
      using c(2) q by (simp_all add: validate_effect_success_def split: if_splits)
    moreover have "case effect_publication_receipt e of
         Some receipt \<Rightarrow> receipt_actual_prior receipt = snapshot_id (progress_state p) \<and>
           receipt_resulting_snapshot receipt = Some (snapshot_id s')
       | None \<Rightarrow> effect_reconciled_state e = Some (snapshot_id s')"
      using c(2) q by (cases "effect_publication_receipt e") (simp_all add: validate_effect_success_def bindE_Inr_iff split: if_splits)
    ultimately show ?thesis by (simp add: F effect_succeeded_def split: option.splits)
  qed
next
  fix c
  assume "advance_construction X p c = Inr p'"
  then show ?thesis using advance_construction_sound [OF assms(1)] assms(3) by blast
next
  fix k
  assume "advance_check X p k = Inr p'"
  then show ?thesis using advance_check_sound [OF assms(1)] assms(3) by blast
qed

lemma epoch_changes_by_completed_effect_witness:
  "\<exists>e. progress_effect sample_done ''i'' = Some e \<and> effect_outcome e = Effect_completed"
proof -
  have "progress_state sample_checked = sample_state"
    using advance_check_sound [OF sample_built_ok sample_checked] advance_construction_sound [OF sample_begin_ok sample_built]
      rebuild_fields(2) [OF sample_begin [unfolded progress_begin_def]] by (simp add: sample_session_def)
  moreover from sample_done have "progress_state sample_done = sample_state1"
    by (rule advance_effectD) (auto simp: rebuild_fields(2) sample_effect_def effect_succeeded_def)
  ultimately have "progress_state sample_done \<noteq> progress_state sample_checked" by (simp add: sample_state1_def sample_state_def)
  from epoch_changes_by_completed_effect [OF sample_checked_ok sample_progress_steps(3) this] show ?thesis by blast
qed

text \<open>Construction evidence is accepted exactly when it names the transaction and a ready node that
  has no construction evidence yet: once these guards pass, recomputing the progress cannot fail.\<close>

theorem construction_acceptance:
  assumes "progress_ok X p"
  shows "(\<exists>p'. advance_construction X p c = Inr p') \<longleftrightarrow>
    transaction_id (construction_transaction (construction_request_of (construction_session_of c)))
      = transaction_id (progress_transaction p) \<and>
    progress_status p (construction_node c) = Inr Ready \<and> progress_construction p (construction_node c) = None"
  by (rule accept_construction_iff [OF assms])

lemma construction_acceptance_witness:
  "\<not> (\<exists>p'. advance_construction sample_ext sample_built sample_construction = Inr p')"
proof -
  have "progress_status sample_built (construction_node sample_construction) = Inr Satisfied" by code_simp
  then show ?thesis using construction_acceptance [OF sample_built_ok] by simp
qed

text \<open>C24. Effect evidence is accepted exactly when it was attempted against the current epoch for a ready
  operation without effect evidence, and is either a proved completion or a definitive failure without
  a new state; a lost lease, an indeterminate publication or an unresolved application never is.\<close>

theorem effect_acceptance:
  assumes "progress_ok X p" and "effect_local (transaction_program_of (progress_transaction p)) e"
  shows "(\<exists>p'. advance_effect X p e s = Inr p') \<longleftrightarrow>
    transaction_id (effect_transaction (effect_request e)) = transaction_id (progress_transaction p) \<and>
    snapshot_id (effect_expected_state (effect_request e)) = snapshot_id (progress_state p) \<and>
    snapshot_target_binding (effect_expected_state (effect_request e)) =
      snapshot_target_binding (progress_state p) \<and>
    progress_status p (effect_node e) = Inr Ready \<and> progress_effect p (effect_node e) = None \<and>
    (if effect_outcome e = Effect_completed
     then \<exists>next. s = Some next \<and> validate_effect_success p e next = Inr ()
     else s = None \<and> effect_outcome e \<notin>
       {Outer_lease_lost, State_publication_indeterminate, Application_resolution_required})"
  unfolding accept_effect_iff [OF assms]
  by (cases "effect_outcome e") (simp_all add: effect_succeeded_def definitive_failure_def)

lemma effect_acceptance_witness:
  "\<not> (\<exists>p'. advance_effect sample_ext sample_checked (sample_effect\<lparr>effect_outcome := Outer_lease_lost\<rparr>) None = Inr p')"
proof -
  have "effect_local (transaction_program_of (progress_transaction sample_checked))
      (sample_effect\<lparr>effect_outcome := Outer_lease_lost\<rparr>)"
    using sample_effect_local by (simp add: effect_local_def)
  from effect_acceptance [OF sample_checked_ok this] show ?thesis by simp
qed

text \<open>C34. Every ready unit survives being written down: restoring it from its kind, node, members and
  identity gives back the same unit.\<close>

theorem ready_unit_roundtrip:
  assumes "progress_ok X p" and "r \<in> set (progress_ready_units p)"
  shows "restore_unit X (transaction_id (progress_transaction p)) (unit_kind r) (unit_primary r)
    (unit_members r) (unit_id r) = Inr r"
proof -
  obtain us where S: "sound_session (progress_transaction p) (progress_effects p) us"
    and p: "p = rebuilt X (progress_transaction p) (progress_state p) (progress_constructions p)
       (progress_checks p) (progress_effects p) us"
    using progress_okE [OF assms(1)] by metis
  note us = sound_sessionD(2) [OF S]
  obtain u where u: "u \<in> set us" "r = seal_unit X (transaction_id (progress_transaction p)) u"
    using rebuilt_ready [OF S, of r X "progress_state p" "progress_constructions p" "progress_checks p",
        folded p] assms(2) by blast
  have "spec_kind u \<noteq> Operation_unit \<Longrightarrow> spec_members u = [spec_primary u]"
    using u(1) by (auto simp: units_set [OF us] unit_of_def single_spec_def operation_spec_def split: if_splits)
  from restore_sealed_unit [OF units_primary [OF us u(1)] this] show ?thesis
    by (simp add: u(2) seal_unit_def)
qed

lemma ready_unit_roundtrip_witness:
  "restore_unit sample_ext ''x'' Construction_unit ''b'' [''b''] (unit_id sample_unit) = Inr sample_unit"
  using ready_unit_roundtrip [OF sample_begin_ok, of sample_unit] sample_ready
  by (simp add: sample_session_def)

end
