(* ===== verification/Containment.thy ===== *)
theory Containment
  imports Ledger_Runs Progress_Steps
begin

text \<open>
  Failure containment: once a node failed under \<^verbatim>\<open>stop_after_terminal_failure\<close>, a run stays stopped, and
  a stopped run reserves and starts nothing; what is already started may still complete. Also what the
  run invariant says of the active records, and that every dispatch starts at most once.
\<close>

section \<open>A failed transaction stays failed\<close>

lemma progress_nodes_distinct:
  assumes "progress_ok X p"
  shows "distinct (map fst (progress_nodes p))"
proof -
  obtain us where p: "p = rebuilt X (progress_transaction p) (progress_state p) (progress_constructions p)
       (progress_checks p) (progress_effects p) us"
    using progress_okE [OF assms] by metis
  have "map fst (progress_nodes (rebuilt X ts s cs ks es us)) = map node_id (session_nodes ts)" for ts s cs ks es
    by (simp add: rebuilt_def Let_def comp_def)
  from this [of "progress_transaction p"] have "map fst (progress_nodes p) = map node_id (session_nodes (progress_transaction p))"
    using p by metis
  then show ?thesis using progress_okD(1) [OF assms] by (simp add: session_ok_def program_ok_def)
qed

lemma find_node: "find (\<lambda>v. fst v = n) vs = Some v \<Longrightarrow> fst v = n"
  by (auto simp: find_Some_iff)

lemma progress_status_node:
  assumes "progress_ok X p"
  shows "progress_status p n = Inr s \<longleftrightarrow> (n, s) \<in> set (progress_nodes p)"
proof -
  have "find (\<lambda>v. fst v = n) (progress_nodes p) = Some v \<longleftrightarrow> v \<in> set (progress_nodes p) \<and> fst v = n" for v
    by (rule find_distinct [OF progress_nodes_distinct [OF assms]])
  from this [of "(n, s)"] show ?thesis
    by (cases "find (\<lambda>v. fst v = n) (progress_nodes p)")
      (auto simp: progress_status_def prod_eq_iff dest: find_node)
qed

lemma progress_failed_iff:
  assumes "progress_ok X p"
  shows "progress_failed p \<longleftrightarrow> (\<exists>n. progress_status p n = Inr Failed)"
  unfolding progress_status_node [OF assms] by (force simp: progress_failed_def list_ex_iff)

lemma run_change_progress:
  assumes "run_change X run run'"
  shows "run_progress run' = run_progress run \<or> (\<exists>i. advanced (run_progress run) i (run_progress run'))"
  using assms by cases (auto simp: starts_as_def completes_as_def)

lemma stopped_step:
  assumes I: "run_inv X us run" and s: "run_step X run run'" and st: "run_stopped run"
  shows "run_stopped run'"
proof -
  note C = run_step_change [OF I s]
  then have I': "run_inv X us run'" and c: "run_change X run run'" by blast+
  have ok: "progress_ok X (run_progress run)" "progress_ok X (run_progress run')"
    using ledger_progressD(1) run_invD(1) I I' by blast+
  obtain n where n: "progress_status (run_progress run) n = Inr Failed"
    using st progress_failed_iff [OF ok(1)] by (auto simp: run_stopped_def)
  have "progress_status (run_progress run') n = Inr Failed"
    using run_change_progress [OF c] advanced_statuses [OF ok _ n] n by auto
  moreover have "run_policy run' = run_policy run" using run_change_forward [OF c] by (simp add: run_forward_def)
  ultimately show ?thesis using st progress_failed_iff [OF ok(2)] by (auto simp: run_stopped_def)
qed

section \<open>A stopped run\<close>

lemma stopped_open: "run_stopped run \<Longrightarrow> open_reserved X run d = dispatch_error"
  by (simp add: open_reserved_def validate_dispatch_may_start_def require_def)

lemma stopped_start:
  assumes "run_stopped run"
  shows "start_construction_dispatch X run d cs = dispatch_error" "start_check_dispatch X run d ks = dispatch_error"
    "start_operation_dispatch X run d es nonce = dispatch_error"
  by (simp_all add: start_construction_dispatch_def start_check_dispatch_def start_operation_dispatch_def
      stopped_open [OF assms])

lemma stopped_reserve:
  "run_stopped run \<Longrightarrow> reserve_next X run nonce = (if nonce_used run nonce then dispatch_error else Inr (run, None))"
  by (simp add: reserve_next_def)

definition contained :: "transaction_run \<Rightarrow> transaction_run \<Rightarrow> bool" where
  "contained run run' \<longleftrightarrow>
     length (run_records run') = length (run_records run) \<and>
     (\<forall>i < length (run_records run). record_state (run_records run ! i) = Reserved \<longrightarrow>
        record_state (run_records run' ! i) = Reserved \<or> record_state (run_records run' ! i) = Released_unstarted)"

lemma contained_update:
  assumes "run_records run' = (run_records run)[n := r']"
    and "record_state (run_records run ! n) = Reserved \<Longrightarrow> record_state r' = Reserved \<or> record_state r' = Released_unstarted"
  shows "contained run run'"
  unfolding contained_def
proof (intro conjI allI impI)
  fix i
  assume "i < length (run_records run)" and "record_state (run_records run ! i) = Reserved"
  then show "record_state (run_records run' ! i) = Reserved \<or> record_state (run_records run' ! i) = Released_unstarted"
    using assms by (cases "n = i") simp_all
qed (simp add: assms(1))

lemma replaced_records: "replace_record X run n r' p = Inr run' \<Longrightarrow> run_records run' = (run_records run)[n := r']"
  by (auto simp: replace_record_def make_run_Inr split: option.splits)

lemma opened_record:
  "record_index run d = Inr n \<Longrightarrow> require_record_state run d st = Inr r \<Longrightarrow>
     run_records run ! n = r \<and> record_state r = st"
  by (auto simp: require_record_state_def bindE_Inr_iff Let_def split: if_splits)

lemma started_contained:
  assumes "open_started X run d = Inr (n, r)" and "replace_record X run n r' p = Inr run'"
  shows "contained run run'"
  using contained_update [OF replaced_records [OF assms(2)]]
    opened_record [OF open_started_Inr(1,2) [OF assms(1)]] by simp

lemma stopped_contained:
  assumes s: "run_step X run run'" and st: "run_stopped run"
  shows "contained run run'"
  using s
proof cases
  case (step_reserve nonce d)
  then show ?thesis using st by (auto simp: stopped_reserve contained_def split: if_splits)
next
  case (step_release d)
  then show ?thesis
    by (auto simp: release_unstarted_dispatch_def bindE_Inr_iff released_record_def
        intro: contained_update [OF replaced_records])
next
  case (step_complete_construction d c)
  then show ?thesis
    by (auto simp: complete_construction_dispatch_def bindE_Inr_iff intro: started_contained split: if_splits)
next
  case (step_complete_check d k)
  then show ?thesis
    by (auto simp: complete_check_dispatch_def bindE_Inr_iff intro: started_contained split: if_splits)
next
  case (step_submit_operation d e s)
  then show ?thesis
    by (auto simp: submit_operation_dispatch_result_def bindE_Inr_iff intro: started_contained split: if_splits)
qed (simp_all add: stopped_start [OF st])

lemma contained_forward:
  assumes "contained a b" and "contained b c" and "run_forward b c"
  shows "contained a c"
  using assms unfolding contained_def run_forward_def record_forward_def by (metis transaction_dispatch_state.distinct(1,3,5,7,9,11))

lemma stopped_steps:
  assumes "(run_step X)\<^sup>*\<^sup>* run run'" and "run_inv X us run" and "run_stopped run"
  shows "run_inv X us run' \<and> run_stopped run' \<and> contained run run'"
  using assms
proof (induction rule: rtranclp_induct)
  case base
  then show ?case by (simp add: contained_def)
next
  case (step q q')
  then have I: "run_inv X us q" and st: "run_stopped q" and c: "contained run q" by blast+
  note P = run_step_preserves [OF I step.hyps(2)]
  from stopped_step [OF I step.hyps(2) st] P contained_forward [OF c stopped_contained [OF step.hyps(2) st]]
  show ?case by blast
qed

section \<open>A dispatch starts at most once\<close>

lemma index_of_dispatch_iff:
  "index_of_dispatch rs i = Inr n \<longleftrightarrow>
     n < length rs \<and> dispatch_name (rs ! n) = i \<and> (\<forall>j < n. dispatch_name (rs ! j) \<noteq> i)"
proof (induction rs arbitrary: n)
  case (Cons r rs)
  show ?case
  proof (cases n)
    case 0
    then show ?thesis by (auto simp: bindE_Inr_iff)
  next
    case (Suc k)
    then show ?thesis using Cons.IH [of k]
      by (auto simp: bindE_Inr_iff All_less_Suc2)
  qed
qed simp

lemma index_stays:
  assumes "run_forward run run'" and "record_index run d = Inr n"
  shows "record_index run' d = Inr n"
proof -
  have "dispatch_name (run_records run' ! j) = dispatch_name (run_records run ! j)" if "j < length (run_records run)" for j
    using assms(1) that by (auto simp: run_forward_def record_forward_def)
  moreover have "length (run_records run) \<le> length (run_records run')" using assms(1) by (simp add: run_forward_def)
  ultimately show ?thesis using assms(2) by (simp add: record_index_def index_of_dispatch_iff)
qed

text \<open>A record that left \<open>Reserved\<close> never comes back to it.\<close>

lemma not_reopened:
  assumes i: "record_index run d = Inr n" and st: "record_state (run_records run ! n) \<noteq> Reserved"
    and f: "run_forward run run'"
  shows "open_reserved X run' d = dispatch_error"
proof -
  have n: "n < length (run_records run)" using i by (simp add: record_index_def index_of_dispatch_iff)
  with f st have "record_state (run_records run' ! n) \<noteq> Reserved"
    by (auto simp: run_forward_def record_forward_def)
  then show ?thesis using index_stays [OF f i]
    by (auto simp: open_reserved_def require_record_state_def validate_dispatch_may_start_def
        validate_record_dispatch_def require_def Let_def)
qed

lemma started_index:
  assumes "open_reserved X run d = Inr (n, r)" and "replace_record X run n (started_record X r session e) None = Inr run'"
  shows "record_index run' d = Inr n" and "record_state (run_records run' ! n) = Started"
proof -
  note O = open_reserved_Inr [OF assms(1)]
  note r = opened_record [OF O(1,2)] and rs = replaced_records [OF assms(2)]
  have n: "n < length (run_records run)" using O(1) by (simp add: record_index_def index_of_dispatch_iff)
  then show "record_state (run_records run' ! n) = Started" by (simp add: rs started_record_def)
  have "dispatch_name (run_records run' ! j) = dispatch_name (run_records run ! j)" for j
    using n r by (cases "j = n") (simp_all add: rs started_record_def)
  moreover have "length (run_records run') = length (run_records run)" by (simp add: rs)
  ultimately show "record_index run' d = Inr n"
    using O(1) by (simp only: record_index_def index_of_dispatch_iff) simp
qed

lemma restart_refused:
  assumes o: "open_reserved X run d = Inr (n, r)"
    and s: "replace_record X run n (started_record X r session e) None = Inr run1" and f: "run_forward run1 run'"
  shows "start_construction_dispatch X run' d cs = dispatch_error" "start_check_dispatch X run' d ks = dispatch_error"
    "start_operation_dispatch X run' d es nonce = dispatch_error"
proof -
  have "record_state (run_records run1 ! n) \<noteq> Reserved" using started_index(2) [OF o s] by simp
  from not_reopened [OF started_index(1) [OF o s] this f]
  show "start_construction_dispatch X run' d cs = dispatch_error" "start_check_dispatch X run' d ks = dispatch_error"
    "start_operation_dispatch X run' d es nonce = dispatch_error"
    by (simp_all add: start_construction_dispatch_def start_check_dispatch_def start_operation_dispatch_def)
qed

section \<open>Active records\<close>

lemma begin_ledger:
  assumes "session_ok ts" and "units ts = Inr us" and "progress_begin X ts = Inr p"
  shows "ledger_progress X p us"
proof -
  note F = rebuild_fields [OF assms(3) [unfolded progress_begin_def]]
  from progress_begin_ok [OF assms(1,3)] F assms(2) show ?thesis
    by (simp add: ledger_progress_def evidence_typed_def)
qed

lemma run_inv_active:
  assumes "run_inv X us run"
  shows "sorted_wrt (\<lambda>a b. set (unit_members (record_unit a)) \<inter> set (unit_members (record_unit b)) = {})
      (filter record_active (run_records run))"
    and "active_count run kind \<le> policy_capacity (run_policy run) kind"
    and "r \<in> set (run_records run) \<Longrightarrow> record_active r \<Longrightarrow> record_unit r \<in> set (progress_ready_units (run_progress run))"
    and "distinct (map nonce_text (run_records run))" and "distinct (map dispatch_name (run_records run))"
proof -
  note L = run_invD(3) [OF assms, unfolded ledger_ok_active]
  show "sorted_wrt (\<lambda>a b. set (unit_members (record_unit a)) \<inter> set (unit_members (record_unit b)) = {})
      (filter record_active (run_records run))"
    using L by (simp add: active_ok_def active_units_def sorted_wrt_map units_overlap_def)
  show "active_count run kind \<le> policy_capacity (run_policy run) kind"
    using L by (simp add: active_ok_def active_count_units)
  show "record_unit r \<in> set (progress_ready_units (run_progress run))"
    if r: "r \<in> set (run_records run)" "record_active r"
  proof -
    have "record_unit r \<in> set (active_units (run_records run))" using r by (simp add: active_units_def)
    with L obtain f where "find_ready_unit (run_progress run) (record_unit r) = Some f"
      by (auto simp: active_ok_def)
    then show ?thesis using find_ready_sound by blast
  qed
qed (use run_invD(3) [OF assms] in \<open>simp_all add: ledger_ok_active\<close>)

end
