(* ===== verification/Sample_Operation.thy ===== *)
theory Sample_Operation
  imports Sample
begin

text \<open>A second sample: a transaction that only installs one package, its operation dispatched and started.\<close>

definition install_session :: transaction_session where
  "install_session = \<lparr>transaction_id = ''x'', transaction_program_of =
     \<lparr>program_identity = ''p'', program_nodes = [sample_node ''i'' Act_install], program_edges = [],
      program_find = (\<lambda>i. find (\<lambda>n. node_id n = i) [sample_node ''i'' Act_install])\<rparr>,
     transaction_installed = sample_state\<rparr>"

definition install_spec :: unit_spec where
  "install_spec = \<lparr>spec_kind = Operation_unit, spec_primary = ''i'', spec_members = [''i'']\<rparr>"

lemma install_units: "units install_session = Inr [install_spec]"
  by code_simp

lemma install_session_ok: "session_ok install_session"
  by (simp add: session_ok_def program_ok_def install_session_def sample_node_def)

lemma install_sound: "sound_session install_session [] [install_spec]"
  using install_session_ok
  by (simp add: sound_session_def install_units effects_local_def session_ok_def program_ok_def)

definition install_begin :: transaction_progress where
  "install_begin = rebuilt sample_ext install_session sample_state [] [] [] [install_spec]"

lemma install_begin: "progress_begin sample_ext install_session = Inr install_begin"
  using rebuild_closed [OF install_sound, of sample_ext sample_state "[]" "[]"]
  by (simp add: progress_begin_def install_begin_def) (simp add: install_session_def)

lemma install_begin_fields [simp]:
  "progress_transaction install_begin = install_session" "progress_state install_begin = sample_state"
  "progress_effects install_begin = []"
  by (simp_all add: install_begin_def)

lemma install_ledger: "ledger_progress sample_ext install_begin [install_spec]"
  by (simp add: install_begin_def)
    (use install_sound install_units install_session_ok rebuild_closed [OF install_sound] in
      \<open>simp add: ledger_progress_def progress_ok_def evidence_typed_def keyed_def effects_local_def sound_session_def\<close>)

definition install_run :: transaction_run where
  "install_run = run_of sample_ext install_begin sample_policy []"

lemma install_run_inv: "run_inv sample_ext [install_spec] install_run"
  using run_begin_inv [OF install_ledger, of sample_policy]
  by (auto simp: run_begin_def make_run_Inr install_run_def unit_ids_distinct_def)

definition install_unit :: ready_transaction_unit where
  "install_unit = seal_unit sample_ext ''x'' install_spec"

lemma install_ready: "progress_ready_units install_begin = [install_unit]"
proof -
  have "bindE (progress_begin sample_ext install_session) (\<lambda>p. Inr (progress_ready_units p)) = Inr [install_unit]"
    by code_simp
  then show ?thesis by (simp add: install_begin)
qed

lemma install_not_failed: "\<not> progress_failed install_begin"
proof -
  have "bindE (progress_begin sample_ext install_session) (\<lambda>p. Inr (progress_failed p)) = Inr False"
    by code_simp
  then show ?thesis by (simp add: install_begin)
qed

lemma install_unit_fields [simp]:
  "unit_kind install_unit = Operation_unit" "unit_primary install_unit = ''i''" "unit_members install_unit = [''i'']"
  by (simp_all add: install_unit_def install_spec_def)

lemma install_run_fields [simp]:
  "run_progress install_run = install_begin" "run_policy install_run = sample_policy" "run_records install_run = []"
  by (simp_all add: install_run_def)

lemma install_dependencies: "capture_dependencies sample_ext install_begin install_unit = Inr []"
  by (simp add: capture_dependencies_def external_predecessors_def install_session_def sort_unique_def)

definition install_dispatch :: transaction_dispatch where
  "install_dispatch = reservation sample_ext install_run sample_nonce install_unit []"

definition install_reserved :: transaction_run where
  "install_reserved = reserved_run sample_ext install_run install_dispatch"

lemma install_reserve:
  shows "reserve_next sample_ext install_run sample_nonce = Inr (install_reserved, Some install_dispatch)"
    and install_reserved_inv: "run_inv sample_ext [install_spec] install_reserved"
  using reserve_next_selected [OF install_run_inv, of sample_nonce install_unit "[]"]
  by (simp_all add: nonce_used_def run_stopped_def install_not_failed install_ready capacity_available_def
      active_count_def overlaps_active_def install_dependencies install_reserved_def install_dispatch_def)

definition install_record :: transaction_dispatch_record where
  "install_record = make_record sample_ext install_dispatch Reserved None None [] None"

lemma install_dispatch_fields [simp]: "dispatch_unit install_dispatch = install_unit"
  "dispatch_dependencies install_dispatch = []" "dispatch_reserved_state install_dispatch = ''s0''"
  by (simp_all add: install_dispatch_def reservation_def make_dispatch_def sample_state_def)

lemma install_reserved_fields [simp]:
  "run_progress install_reserved = install_begin" "run_policy install_reserved = sample_policy"
  "run_records install_reserved = [install_record]"
  by (simp_all add: install_reserved_def reserved_run_def install_record_def)

lemma install_current: "find_ready_unit install_begin install_unit = Some install_unit"
  by (rule find_ready_complete [OF install_ledger]) (simp_all add: unit_ids_distinct_def install_ready)

lemma install_open: "open_reserved sample_ext install_reserved install_dispatch = Inr (0, install_record)"
  by (simp add: open_reserved_def validate_dispatch_may_start_def run_stopped_def install_not_failed
      record_index_def install_record_def require_record_state_def validate_record_dispatch_def
      validate_dispatch_is_current_def install_current install_dependencies reject_def sample_state_def)

definition install_effect_session :: effectful_operation_session where
  "install_effect_session = \<lparr>effect_request_of =
       \<lparr>effect_transaction = install_session, effect_expected_state = sample_state, effect_action_node = ''i'',
        effect_application_request = sample_application, effect_lifecycle = \<lparr>order_before = [], order_after = []\<rparr>,
        effect_installation_reason = Some sample_reason, effect_request_id = ''eq''\<rparr>,
     effect_session_before = [], effect_session_after = [], effect_session_id = ''es''\<rparr>"

definition install_effect :: effectful_operation_result where
  "install_effect = \<lparr>effect_session_of = install_effect_session, effect_outcome = Outer_lease_lost,
     effect_before = [], effect_application = None, effect_after = [], effect_transaction_evidence = None, effect_publication_request = None,
     effect_publication_receipt = None, effect_reconciled_state = None, effect_id = ''ee''\<rparr>"

lemma install_binding: "run_progress run = install_begin \<Longrightarrow>
    validate_operation_binding run install_dispatch install_effect_session = Inr ()"
  by (simp add: validate_operation_binding_def install_effect_session_def sample_state_def)

definition install_attempt :: effect_attempt_record where
  "install_attempt = admitted_record sample_ext ''es'' 0 0 sample_nonce"

lemma install_admit: "admit sample_ext ''es'' 0 0 sample_nonce = Inr install_attempt"
  by (simp add: admit_cases install_attempt_def)

definition install_started :: transaction_run where
  "install_started = fst (projr (start_operation_dispatch sample_ext install_reserved install_dispatch
     install_effect_session sample_nonce))"

definition install_started_record :: transaction_dispatch_record where
  "install_started_record = started_record sample_ext install_record ''es'' (Some (ea_attempt install_attempt))"

lemma install_start_facts:
  shows install_start: "start_operation_dispatch sample_ext install_reserved install_dispatch
      install_effect_session sample_nonce = Inr (install_started, install_attempt)"
    and install_started_inv: "run_inv sample_ext [install_spec] install_started"
    and install_starts: "starts_as install_reserved install_started install_record install_started_record"
proof -
  have "admit sample_ext (effect_session_id install_effect_session)
      (word_of_nat (effect_session_before_count install_effect_session))
      (word_of_nat (effect_session_after_count install_effect_session)) sample_nonce = Inr install_attempt"
    using install_admit by (simp add: install_effect_session_def)
  from start_operation_total [OF install_reserved_inv install_open install_binding this]
  obtain run' where s: "start_operation_dispatch sample_ext install_reserved install_dispatch
      install_effect_session sample_nonce = Inr (run', install_attempt)"
    and r: "run_inv sample_ext [install_spec] run'" "starts_as install_reserved run' install_record
      (started_record sample_ext install_record (effect_session_id install_effect_session) (Some (ea_attempt install_attempt)))"
    by auto
  have e: "run' = install_started" using s by (simp add: install_started_def)
  show "start_operation_dispatch sample_ext install_reserved install_dispatch
      install_effect_session sample_nonce = Inr (install_started, install_attempt)" using s e by simp
  show "run_inv sample_ext [install_spec] install_started" using r e by simp
  show "starts_as install_reserved install_started install_record install_started_record"
    using r e by (simp add: install_started_record_def install_effect_session_def)
qed

lemma install_started_fields [simp]:
  "run_progress install_started = install_begin" "run_policy install_started = sample_policy"
  "run_records install_started = [install_started_record]"
  using install_starts by (auto simp: starts_as_def Cons_eq_append_conv)

lemma install_open_started: "open_started sample_ext install_started install_dispatch = Inr (0, install_started_record)"
  by (simp add: open_started_def started_record_def install_started_record_def
      record_index_def install_record_def require_record_state_def validate_record_dispatch_def
      validate_dispatch_is_current_def install_current install_dependencies reject_def sample_state_def)

lemma install_observe:
  "\<exists>run'. submit_operation_dispatch_result sample_ext install_started install_dispatch install_effect None = Inr run'"
proof -
  have "validate_operation_binding install_started install_dispatch (effect_session_of install_effect) = Inr ()"
    by (simp add: install_binding install_effect_def)
  moreover have "record_attempt_session install_started_record = Some (effect_session_id (effect_session_of install_effect))"
    by (simp add: install_started_record_def started_record_def install_effect_def install_effect_session_def)
  moreover have "\<not> operation_outcome_is_terminal (effect_outcome install_effect)" by (simp add: install_effect_def)
  moreover have "effect_id install_effect \<notin> set (record_observations install_started_record)"
    by (simp add: install_started_record_def started_record_def)
  ultimately show ?thesis
    using observe_operation_total [OF install_started_inv install_open_started] by blast
qed

end
