(* ===== verification/Dispatch_Properties.thy ===== *)
theory Dispatch_Properties
  imports Containment Sample_Operation
begin

text \<open>
  The properties of \<^verbatim>\<open>src/dispatch.cpp\<close>, each with a witness at the sample run. They rest on \<open>Ledger\<close>,
  \<open>Ledger_Steps\<close>, \<open>Ledger_Complete\<close>, \<open>Ledger_Runs\<close> and \<open>Containment\<close>.
\<close>

text \<open>C11. Every run reached from the beginning of a transaction by dispatch operations keeps its
  invariant: active dispatches are pairwise disjoint, ready, and within the capacity of their kind
  (one for operations), and no nonce or dispatch identity occurs twice.\<close>

theorem run_invariant:
  assumes "session_ok ts" and "units ts = Inr us" and "unit_ids_distinct X ts us"
    and "progress_begin X ts = Inr p" and "run_begin X p policy = Inr run" and "(run_step X)\<^sup>*\<^sup>* run run'"
  shows "run_inv X us run' \<and>
    sorted_wrt (\<lambda>a b. set (unit_members (record_unit a)) \<inter> set (unit_members (record_unit b)) = {})
      (filter record_active (run_records run')) \<and>
    (\<forall>kind. active_count run' kind \<le> policy_capacity (run_policy run') kind) \<and>
    active_count run' Operation_unit \<le> 1 \<and>
    (\<forall>r \<in> set (run_records run'). record_active r \<longrightarrow>
       record_unit r \<in> set (progress_ready_units (run_progress run'))) \<and>
    distinct (map nonce_text (run_records run')) \<and> distinct (map dispatch_name (run_records run'))"
proof -
  have L: "ledger_progress X p us" by (rule begin_ledger [OF assms(1,2,4)])
  have t: "progress_transaction p = ts" using rebuild_fields(1) assms(4) by (simp add: progress_begin_def)
  from run_begin_inv [OF L, of policy] assms(3,5) t have "run_inv X us run" by simp
  with run_steps_preserve [OF assms(6)] have I: "run_inv X us run'" by blast
  from run_inv_active [OF I] run_inv_active(2) [OF I, of Operation_unit] I show ?thesis by simp
qed

lemma run_invariant_witness: "active_count sample_completed Operation_unit \<le> 1"
  using run_invariant [OF sample_session_ok sample_units sample_ids_distinct sample_begin sample_run sample_steps]
  by blast

text \<open>C17. History is never rewritten: along every sequence of operations a record keeps its dispatch; once
  started it keeps its attempt, its observations only grow, and once completed or released it is final.\<close>

theorem ledger_history_preserved:
  assumes "run_inv X us run" and "(run_step X)\<^sup>*\<^sup>* run run'" and "i < length (run_records run)"
  shows "i < length (run_records run') \<and>
    record_dispatch (run_records run' ! i) = record_dispatch (run_records run ! i) \<and>
    (record_state (run_records run ! i) = Started \<longrightarrow>
       record_state (run_records run' ! i) \<in> {Started, Completed} \<and>
       record_attempt_session (run_records run' ! i) = record_attempt_session (run_records run ! i) \<and>
       record_effect_attempt (run_records run' ! i) = record_effect_attempt (run_records run ! i) \<and>
       (\<exists>obs. record_observations (run_records run' ! i) = record_observations (run_records run ! i) @ obs)) \<and>
    (record_state (run_records run ! i) \<in> {Completed, Released_unstarted} \<longrightarrow>
       run_records run' ! i = run_records run ! i)"
  using run_steps_preserve [OF assms(2,1)] assms(3)
  by (fastforce simp: run_forward_def record_forward_def)

lemma ledger_history_preserved_witness:
  "record_dispatch (run_records sample_completed ! 0) = sample_dispatch"
proof -
  have "run_step sample_ext sample_started sample_completed"
    by (rule step_complete_construction) (rule sample_complete)
  then have "(run_step sample_ext)\<^sup>*\<^sup>* sample_started sample_completed" by blast
  from ledger_history_preserved [OF sample_started_inv this, of 0] show ?thesis
    by (simp add: sample_started_record_def started_record_def sample_record_def)
qed

text \<open>C15. Failure containment: once the transaction failed, no later run reserves a unit or starts a
  reserved dispatch; reserved dispatches can only be released.\<close>

theorem failure_containment:
  assumes "run_inv X us run" and "progress_failed (run_progress run)"
    and "policy_failure_containment (run_policy run) = Stop_after_terminal_failure"
    and "(run_step X)\<^sup>*\<^sup>* run run'"
  shows "run_stopped run' \<and> length (run_records run') = length (run_records run) \<and>
    (\<forall>i < length (run_records run). record_state (run_records run ! i) = Reserved \<longrightarrow>
       record_state (run_records run' ! i) \<in> {Reserved, Released_unstarted}) \<and>
    (\<forall>nonce. reserve_next X run' nonce \<in> {Inr (run', None), dispatch_error}) \<and>
    (\<forall>d cs ks es nonce. start_construction_dispatch X run' d cs = dispatch_error \<and>
       start_check_dispatch X run' d ks = dispatch_error \<and>
       start_operation_dispatch X run' d es nonce = dispatch_error)"
proof -
  have "run_stopped run" using assms(2,3) by (simp add: run_stopped_def)
  from stopped_steps [OF assms(4,1) this] have "run_stopped run'" "contained run run'" by blast+
  then show ?thesis by (simp add: stopped_start stopped_reserve contained_def)
qed

definition sample_failed_construction :: construction_result where
  "sample_failed_construction = sample_construction\<lparr>construction_outcome_of := Build_failed\<rparr>"

lemma failure_containment_witness:
  "\<exists>run. progress_failed (run_progress run) \<and> reserve_next sample_ext run sample_nonce \<in> {Inr (run, None), dispatch_error}"
proof -
  let ?p = "projr (advance_construction sample_ext sample_begin sample_failed_construction)"
  let ?u = "single_spec Construction_unit ''b''"
  have "advance_construction sample_ext sample_begin sample_failed_construction = Inr ?p" by (rule not_isl) code_simp
  note T = typed_construction [OF sample_ledger this, of ?u]
  have u: "?u \<in> set sample_units" "spec_kind ?u = Construction_unit"
    "spec_primary ?u = construction_node sample_failed_construction"
    by (simp_all add: sample_units_def single_spec_def sample_failed_construction_def sample_construction_def sample_construction_session_def sample_build_def)
  have "progress_transaction ?p = sample_session" using T(2) [OF u] by (simp add: advanced_def)
  then obtain run where run: "run_begin sample_ext ?p sample_policy = Inr run" and I: "run_inv sample_ext sample_units run"
    using run_begin_inv [OF T(1) [OF u], of sample_policy] sample_ids_distinct by auto
  have f: "progress_failed (run_progress run)"
  proof -
    have "progress_failed ?p" by code_simp
    then show ?thesis using run by (simp add: run_begin_def make_run_Inr)
  qed
  have "policy_failure_containment sample_policy = Stop_after_terminal_failure" by code_simp
  then have "policy_failure_containment (run_policy run) = Stop_after_terminal_failure"
    using run by (simp add: run_begin_def make_run_Inr)
  from failure_containment [OF I f this rtranclp.rtrancl_refl] f show ?thesis by blast
qed

text \<open>C27. A dispatch starts at most once: after any of the three start operations accepted it, every
  later run refuses to start it again.\<close>

theorem dispatch_starts_once:
  assumes "run_inv X us run"
    and "start_construction_dispatch X run d cs = Inr run1 \<or> start_check_dispatch X run d ks = Inr run1 \<or>
      (\<exists>attempt. start_operation_dispatch X run d es nonce = Inr (run1, attempt))"
    and "(run_step X)\<^sup>*\<^sup>* run1 run'"
  shows "start_construction_dispatch X run' d cs' = dispatch_error \<and> start_check_dispatch X run' d ks' = dispatch_error \<and>
    start_operation_dispatch X run' d es' nonce' = dispatch_error"
proof -
  obtain n r session e where o: "open_reserved X run d = Inr (n, r)"
    and s: "replace_record X run n (started_record X r session e) None = Inr run1"
    using assms(2) by (auto simp: start_construction_dispatch_def start_check_dispatch_def
        start_operation_dispatch_def bindE_Inr_iff)
  have "run_step X run run1" using assms(2)
    by (auto intro: step_start_construction step_start_check step_start_operation)
  with run_step_preserves [OF assms(1)] have "run_inv X us run1" by blast
  with run_steps_preserve [OF assms(3)] have "run_forward run1 run'" by blast
  from restart_refused [OF o s this] show ?thesis by blast
qed

lemma dispatch_starts_once_witness:
  "start_construction_dispatch sample_ext sample_started sample_dispatch
     (construction_session_of sample_construction) = dispatch_error"
  using dispatch_starts_once [OF sample_reserved_inv, of sample_dispatch _ sample_started] sample_start by blast

text \<open>C28. Reservation makes progress: if the run is not stopped, the nonce is unused and some ready unit has
  capacity and does not overlap an active dispatch, then a reservation of the first such unit is granted,
  bound to the present progress and state epoch, unless its identity collides with an earlier one.\<close>

theorem reservation_granted:
  assumes "run_inv X us run" and "\<not> run_stopped run" and "\<not> nonce_used run nonce"
    and "u \<in> set (progress_ready_units (run_progress run))"
    and "capacity_available run (unit_kind u)" and "\<not> overlaps_active run u"
    and "\<forall>v ds. \<forall>r \<in> set (run_records run). dispatch_name r \<noteq> dispatch_id (make_dispatch X v nonce
      (progress_id (run_progress run)) (snapshot_id (progress_state (run_progress run))) ds)"
  shows "\<exists>run' d. reserve_next X run nonce = Inr (run', Some d) \<and> run_inv X us run' \<and>
    find (\<lambda>v. capacity_available run (unit_kind v) \<and> \<not> overlaps_active run v)
      (progress_ready_units (run_progress run)) = Some (dispatch_unit d) \<and>
    dispatch_nonce_of d = nonce \<and> dispatch_reserved_from d = progress_id (run_progress run) \<and>
    dispatch_reserved_state d = snapshot_id (progress_state (run_progress run)) \<and>
    capture_dependencies X (run_progress run) (dispatch_unit d) = Inr (dispatch_dependencies d) \<and>
    run_records run' = run_records run @ [make_record X d Reserved None None [] None]"
proof -
  let ?P = "\<lambda>v. capacity_available run (unit_kind v) \<and> \<not> overlaps_active run v"
  have "find ?P (progress_ready_units (run_progress run)) \<noteq> None" using assms(4-6) by (auto simp: find_None_iff)
  then obtain v where v: "find ?P (progress_ready_units (run_progress run)) = Some v" by blast
  then have "v \<in> set (progress_ready_units (run_progress run))" by (auto simp: find_Some_iff)
  then obtain ds where ds: "capture_dependencies X (run_progress run) v = Inr ds"
    using ready_dependencies [OF run_invD(1) [OF assms(1)]] by blast
  from reserve_next_selected [OF assms(1,3,2) v ds] assms(7) v ds show ?thesis
    by (auto simp: reservation_def reserved_run_def make_dispatch_def)
qed

lemma reservation_granted_witness: "\<exists>run' d. reserve_next sample_ext sample_run sample_nonce = Inr (run', Some d)"
  using reservation_granted [OF sample_run_inv, of sample_nonce sample_unit]
  by (auto simp: nonce_used_def run_stopped_def sample_not_stopped sample_ready capacity_available_def
      active_count_def overlaps_active_def sample_capacity)

text \<open>Accepted construction evidence completes its dispatch: when the dispatch is started and current,
  the session is bound to it and the progression accepts the result, the completion cannot fail in the
  validation of the new ledger, and it changes that record and the progress together.\<close>

theorem construction_completes:
  assumes "run_inv X us run" and "open_started X run d = Inr (n, r)"
    and "validate_construction_binding run d (construction_session_of c) = Inr ()"
    and "record_attempt_session r = Some (construction_session_id (construction_session_of c))"
    and "advance_construction X (run_progress run) c = Inr p'"
  shows "\<exists>run'. complete_construction_dispatch X run d c = Inr run' \<and> run_inv X us run' \<and>
    run_progress run' = p' \<and>
    (\<exists>as bs. run_records run = as @ r # bs \<and>
       run_records run' = as @ completed_record X r (construction_id c) # bs)"
  using complete_construction_total [OF assms] unfolding completes_as_def by blast

lemma construction_completes_witness:
  "\<exists>run'. complete_construction_dispatch sample_ext sample_started sample_dispatch sample_construction = Inr run'"
proof -
  have "record_attempt_session sample_started_record = Some (construction_session_id (construction_session_of sample_construction))"
    by (simp add: sample_started_record_def started_record_def sample_construction_def sample_construction_session_def sample_build_def)
  moreover have "advance_construction sample_ext (run_progress sample_started) sample_construction = Inr sample_built"
    using sample_built by simp
  ultimately show ?thesis
    using construction_completes [OF sample_started_inv sample_open_started sample_binding_started] by blast
qed

text \<open>C29. A non-terminal effect result (a lost lease, an indeterminate publication or an unresolved
  application) is only observed: the progress and its state epoch stay, the dispatch stays started, and
  the observation is appended once.\<close>

theorem observation_keeps_progress:
  assumes "run_inv X us run" and "submit_operation_dispatch_result X run d e s = Inr run'"
    and "effect_outcome e \<in> {Outer_lease_lost, State_publication_indeterminate, Application_resolution_required}"
  shows "s = None \<and> run_progress run' = run_progress run \<and>
    (\<exists>as r r' bs. run_records run = as @ r # bs \<and> run_records run' = as @ r' # bs \<and>
       record_state r = Started \<and> record_state r' = Started \<and> record_dispatch r' = record_dispatch r \<and>
       effect_id e \<notin> set (record_observations r) \<and>
       record_observations r' = record_observations r @ [effect_id e])"
  using assms(2)
proof (cases rule: submit_operation_cases)
  case (observe n r)
  from observe_operation_total [OF assms(1) observe(1-4,6)] assms(2) observe(5)
  obtain r' where "observed_record X r (effect_id e) = Inr r'" and "starts_as run run' r r'" by auto
  with observe(5,6) state_of_opened(2) [OF observe(1)] show ?thesis
    by (fastforce simp: observed_record_def starts_as_def)
next
  case (complete n r p')
  then show ?thesis using assms(3) by auto
qed

lemma observation_keeps_progress_witness:
  "\<exists>run'. submit_operation_dispatch_result sample_ext install_started install_dispatch install_effect None = Inr run'
     \<and> run_progress run' = install_begin"
proof -
  obtain run' where "submit_operation_dispatch_result sample_ext install_started install_dispatch install_effect None = Inr run'"
    using install_observe by blast
  with observation_keeps_progress [OF install_started_inv this] show ?thesis by (simp add: install_effect_def)
qed

text \<open>C35. The validation loop over a ledger, with its two sets of seen names and its pairwise scan, decides
  the declarative condition: every record valid, names distinct, active units disjoint, ready and in capacity.\<close>

theorem validation_decides_ledger:
  "validate_run_records X p policy rs = Inr () \<longleftrightarrow>
     (\<forall>r \<in> set rs. record_valid X p r) \<and> distinct (map nonce_text rs) \<and> distinct (map dispatch_name rs) \<and>
     sorted_wrt (\<lambda>a b. set (unit_members (record_unit a)) \<inter> set (unit_members (record_unit b)) = {})
       (filter record_active rs) \<and>
     (\<forall>kind. length (filter (\<lambda>r. record_active r \<and> record_kind r = kind) rs) \<le> policy_capacity policy kind) \<and>
     (\<forall>r \<in> set rs. record_active r \<longrightarrow> find_ready_unit p (record_unit r) \<noteq> None)"
proof -
  have "length (filter (\<lambda>r. record_active r \<and> record_kind r = kind) rs) =
      length (filter (\<lambda>u. unit_kind u = kind) (active_units rs))" for kind
    by (induction rs) auto
  then show ?thesis
    unfolding validate_run_records_iff ledger_ok_active active_ok_def
    by (simp add: active_units_def sorted_wrt_map units_overlap_def) blast
qed

lemma validation_decides_ledger_witness:
  "validate_run_records sample_ext sample_begin sample_policy [sample_started_record, sample_started_record] \<noteq> Inr ()"
  by (simp only: validation_decides_ledger) simp

end
