(* ===== verification/Sample_Attempt.thy ===== *)
theory Sample_Attempt
  imports Sample_Operation
begin

text \<open>The effect attempt of the installation sample, from its admission to its completion.\<close>

definition attempt1 :: effect_attempt_record where
  "attempt1 = seal_record sample_ext (application_intent_of install_attempt)"

definition sample_receipt :: application_receipt where
  "sample_receipt = \<lparr>application_receipt_id = ''ar'', application_outcome = Application_completed,
     application_journal = None, application_completed_evidence = Some ''ev'',
     application_receipt_request = ''aq'', application_receipt_plan = ''ap'', application_receipt_kind = Kind_install,
     application_receipt_target = ''at'', application_receipt_control = ''ac'', application_receipt_projection = ''sp''\<rparr>"

definition attempt2 :: effect_attempt_record where
  "attempt2 = seal_record sample_ext (application_terminal_of attempt1 (application_fact_of sample_receipt))"

definition sample_request :: state_publication_request where
  "sample_request = \<lparr>publication_request_id = ''pr'', publication_transaction_evidence = Some ''te'', publication_expected_snapshot = ''s0'',
     publication_target_binding = ''t''\<rparr>"

definition attempt3 :: effect_attempt_record where
  "attempt3 = seal_record sample_ext (publication_intent_of attempt2 ''te'' ''pr'')"

definition sample_publication :: state_publication_receipt where
  "sample_publication = \<lparr>receipt_id = ''rr'', receipt_request = ''pr'', receipt_expected_prior = ''s0'',
     receipt_actual_prior = ''s0'', receipt_target_binding = ''t'', receipt_resulting_snapshot = Some ''s1'',
     receipt_outcome = Published\<rparr>"

definition attempt4 :: effect_attempt_record where
  "attempt4 = seal_record sample_ext (publication_terminal_of attempt3 (publication_fact_of sample_publication))"

definition attempt5 :: effect_attempt_record where
  "attempt5 = seal_record sample_ext (terminal_of attempt4 Effect_completed None)"

lemmas attempt_defs = attempt1_def attempt2_def attempt3_def attempt4_def attempt5_def install_attempt_def
  application_intent_of_def application_terminal_of_def publication_intent_of_def publication_terminal_of_def
  terminal_of_def next_record_def application_fact_of_def publication_fact_of_def sample_receipt_def
  sample_publication_def sample_request_def

lemma sample_parsers [simp]:
  "parse_application_receipt sample_ext x" "parse_application_journal sample_ext x"
  "parse_completed_evidence sample_ext x" "parse_transaction_evidence sample_ext x"
  "parse_publication_request sample_ext x" "parse_publication_receipt sample_ext x" "parse_snapshot sample_ext x"
  by (simp_all add: sample_ext_def)

lemma install_attempt_valid: "effect_valid sample_ext install_attempt" "totals_ok install_attempt"
  using admit_Inr [OF install_admit] by blast+

lemma attempt1: "begin_application sample_ext install_attempt = Inr attempt1"
  unfolding attempt1_def by (rule begin_application_guard [OF install_attempt_valid]) (simp add: install_attempt_def)

lemma attempt1_valid: "effect_next sample_ext install_attempt attempt1" "effect_valid sample_ext attempt1" "totals_ok attempt1"
  using effect_step_next [OF step_begin_application [OF attempt1]] effect_nextD(1) totals_ok_next
    install_attempt_valid by blast+

lemma attempt2: "complete_application sample_ext attempt1 sample_receipt = Inr attempt2"
  unfolding attempt2_def
  by (rule complete_application_guard [OF attempt1_valid(2,3)])
    (simp_all add: attempt_defs application_fact_ok_def typed_identity_def)

lemma attempt2_valid: "effect_next sample_ext attempt1 attempt2" "effect_valid sample_ext attempt2" "totals_ok attempt2"
  using effect_step_next [OF step_complete_application [OF attempt2]] effect_nextD(1) totals_ok_next
    attempt1_valid by blast+

lemma attempt3: "begin_publication sample_ext attempt2 ''te'' sample_request = Inr attempt3"
proof -
  have "begin_publication sample_ext attempt2 ''te'' sample_request =
      Inr (seal_record sample_ext (publication_intent_of attempt2 ''te'' (publication_request_id sample_request)))"
    by (rule begin_publication_guard [OF attempt2_valid(2,3)]) (simp_all add: attempt_defs application_complete_def)
  then show ?thesis by (simp add: attempt3_def sample_request_def)
qed

lemma attempt3_valid: "effect_next sample_ext attempt2 attempt3" "effect_valid sample_ext attempt3" "totals_ok attempt3"
  using effect_step_next [OF step_begin_publication [OF attempt3]] effect_nextD(1) totals_ok_next
    attempt2_valid by blast+

lemma attempt4: "complete_publication sample_ext attempt3 sample_publication = Inr attempt4"
  unfolding attempt4_def
  by (rule complete_publication_guard [OF attempt3_valid(2,3)])
    (simp_all add: attempt_defs publication_fact_ok_def typed_identity_def)

lemma attempt4_valid: "effect_next sample_ext attempt3 attempt4" "effect_valid sample_ext attempt4" "totals_ok attempt4"
  using effect_step_next [OF step_complete_publication [OF attempt4]] effect_nextD(1) totals_ok_next
    attempt3_valid by blast+

lemma attempt5: "seal_terminal sample_ext attempt4 Effect_completed None = Inr attempt5"
  unfolding attempt5_def
  by (rule seal_terminal_guard [OF attempt4_valid(2,3)])
    (simp_all add: attempt_defs terminal_guard_def publication_outcome_in_def typed_identity_def)

lemma attempt5_valid: "effect_next sample_ext attempt4 attempt5" "effect_valid sample_ext attempt5" "totals_ok attempt5"
  using effect_step_next [OF step_seal_terminal [OF attempt5]] effect_nextD(1) totals_ok_next
    attempt4_valid by blast+

lemma attempt_chain: "(effect_next sample_ext)\<^sup>*\<^sup>* install_attempt attempt5"
  using attempt1_valid(1) attempt2_valid(1) attempt3_valid(1) attempt4_valid(1) attempt5_valid(1)
  by (rule converse_rtranclp_into_rtranclp [OF _ converse_rtranclp_into_rtranclp [OF _
      converse_rtranclp_into_rtranclp [OF _ converse_rtranclp_into_rtranclp [OF _ r_into_rtranclp]]]])

end
