(* ===== verification/Effect_Properties.thy ===== *)
theory Effect_Properties
  imports Sample_Attempt
begin

text \<open>
  The properties of \<^verbatim>\<open>src/effect_journal.cpp\<close>, each with a witness at the sample attempt. They rest on
  \<open>Effect_Attempt\<close>, \<open>Effect_Trace\<close> and the journal locales of \<open>Journal_Chain\<close>.
\<close>

text \<open>C12. The journal's operations and its validators describe the same machine: a record is produced from
  a valid one by some operation exactly when the successor validator accepts it as the next record.\<close>

theorem operations_match_validators:
  assumes "effect_valid X r" and "effect_facts_ok r'"
  shows "effect_step X r r' \<longleftrightarrow> effect_valid X r' \<and> validate_effect_successor r r' = Inr ()"
  using effect_step_next effect_next_step [OF _ assms] by (auto simp: effect_next_def)

lemma operations_match_validators_witness: "effect_step sample_ext attempt4 attempt5"
proof -
  have "effect_facts_ok attempt5" by (simp add: attempt_defs effect_facts_ok_def admitted_record_def)
  from operations_match_validators [OF attempt4_valid(2) this] attempt5_valid(1) show ?thesis
    by (simp add: effect_next_def)
qed

text \<open>C16. An effect intent is entered at most once: no later record of the same attempt announces the same
  intent (the same lifecycle step, the application, or the publication) again.\<close>

theorem intent_at_most_once:
  assumes "effect_valid X r" and "totals_ok r" and "unresolved_intent (ea_stage r)"
    and "(effect_next X)\<^sup>+\<^sup>+ r r'"
  shows "\<not> (ea_stage r' = ea_stage r \<and> ea_active_index r' = ea_active_index r)"
  by (rule chain_intent_once [OF assms(1,2,4,3)])

lemma intent_at_most_once_witness: "ea_stage attempt2 \<noteq> Application_intent"
proof -
  have "unresolved_intent (ea_stage attempt1)" by (simp add: attempt_defs unresolved_intent_def)
  moreover have "(effect_next sample_ext)\<^sup>+\<^sup>+ attempt1 attempt2" using attempt2_valid(1) by blast
  ultimately have "\<not> (ea_stage attempt2 = ea_stage attempt1 \<and> ea_active_index attempt2 = ea_active_index attempt1)"
    by (rule intent_at_most_once [OF attempt1_valid(2,3)])
  then show ?thesis by (simp add: attempt_defs)
qed

text \<open>C14. An attempt that is sealed as completed has the whole operation on record: every lifecycle step
  before and after succeeded, the application completed, and the publication succeeded or was reconciled.\<close>

theorem completed_attempt_has_evidence:
  assumes "admit X session before_total after_total nonce = Inr r0"
    and "(effect_next X)\<^sup>*\<^sup>* r0 r" and "ea_terminal_outcome r = Some Effect_completed"
  shows "length (ea_before r) = unat (ea_before_total r) \<and> list_all fact_succeeded (ea_before r) \<and>
    (\<exists>a. ea_application r = Some a \<and> app_outcome a = Application_completed) \<and>
    length (ea_after r) = unat (ea_after_total r) \<and> list_all fact_succeeded (ea_after r) \<and>
    ea_transaction_evidence r \<noteq> None \<and> ea_publication_request r \<noteq> None \<and>
    ((\<exists>p. ea_publication r = Some p \<and> pub_outcome p = Published) \<or> ea_reconciled_state r \<noteq> None)"
proof -
  note A = admit_Inr [OF assms(1)]
  have t: "ea_stage r = Terminal"
    using chain_valid(1) [OF assms(2) A(1,2)] assms(3) valid_header(1) by fastforce
  have "ea_stage r0 \<noteq> ea_stage r" using t by (simp add: A(3))
  from chain_last [OF assms(2) A(1,2) this]
  obtain b where "effect_valid X b" "effect_next X b r" by blast
  from completed_step [OF this assms(3)] show ?thesis
    by (auto simp: operation_done_def before_complete_def after_complete_def application_complete_def
        facts_succeeded_def publication_outcome_in_def split: option.splits)
qed

lemma completed_attempt_has_evidence_witness:
  "\<exists>a. ea_application attempt5 = Some a \<and> app_outcome a = Application_completed"
proof -
  have "ea_terminal_outcome attempt5 = Some Effect_completed" by (simp add: attempt_defs)
  from completed_attempt_has_evidence [OF install_admit attempt_chain this] show ?thesis by blast
qed

text \<open>C19. An attempt is bounded: an admitted attempt records at most two transitions per lifecycle step and
  five more, its sequence numbers count them, and they never wrap.\<close>

theorem attempt_length_bounded:
  assumes "admit X session before_total after_total nonce = Inr r0" and "(effect_next X ^^ n) r0 r"
  shows "n \<le> 2 * (unat before_total + unat after_total) + 5 \<and> unat (ea_sequence r) = n \<and>
    ea_sequence r \<noteq> max_u64"
proof -
  note A = admit_Inr [OF assms(1)]
  have c: "(effect_next X)\<^sup>*\<^sup>* r0 r" using assms(2) by (simp add: relpowp_imp_rtranclp)
  note V = chain_valid [OF c A(1,2)]
  have n: "unat (ea_sequence r) = n" using effect_chain.chain_length [OF assms(2)] by (simp add: A(3))
  have "attempt_bound r = 2 * (unat before_total + unat after_total) + 5"
    using V(3) by (simp add: A(3) attempt_bound_def)
  with valid_sequence [OF V(1,2)] n show ?thesis by simp
qed

lemma attempt_length_bounded_witness: "unat (ea_sequence attempt1) = 1"
proof -
  have "(effect_next sample_ext ^^ 1) install_attempt attempt1" using attempt1_valid(1) by (simp only: relpowp_1)
  from attempt_length_bounded [OF install_admit this] show ?thesis by blast
qed

text \<open>C37. Retained evidence is never lost: along an attempt the lifecycle facts only grow by appending, the
  application, transaction and publication evidence stays once present, and a sealed record is final.\<close>

theorem attempt_evidence_retained:
  assumes "(effect_next X)\<^sup>*\<^sup>* r r'"
  shows "ea_attempt r' = ea_attempt r \<and> ea_session r' = ea_session r \<and> ea_nonce r' = ea_nonce r \<and>
    (\<exists>xs. ea_before r' = ea_before r @ xs) \<and> (\<exists>xs. ea_after r' = ea_after r @ xs) \<and>
    (ea_application r \<noteq> None \<longrightarrow> ea_application r' = ea_application r) \<and>
    (ea_publication_request r \<noteq> None \<longrightarrow> ea_publication_request r' = ea_publication_request r) \<and>
    (ea_publication r \<noteq> None \<longrightarrow> ea_publication r' = ea_publication r) \<and>
    (ea_stage r = Terminal \<longrightarrow> r' = r)"
  using chain_evidence [OF assms] effect_chain.sealed_absorbing [OF assms]
  by (auto simp: evidence_grown_def option_kept_def)

lemma attempt_evidence_retained_witness: "ea_session attempt5 = ''es''"
  using attempt_evidence_retained [OF attempt_chain] by (simp add: install_attempt_def)

text \<open>C20. A lost lease closes an attempt exactly when no effect intent is unresolved: between intents the
  terminal record is accepted, inside an intent it is refused, so an unknown effect is never closed.\<close>

theorem lease_loss_rule:
  assumes "effect_valid X r" and "totals_ok r"
  shows "(\<exists>r'. seal_terminal X r Outer_lease_lost None = Inr r') \<longleftrightarrow>
    ea_stage r \<notin> {Terminal, Before_intent, Application_intent, After_intent, Publication_intent}"
proof -
  have t: "ea_stage r = Terminal \<Longrightarrow> seal_terminal X r Outer_lease_lost None \<noteq> Inr r'" for r'
    using effect_nextD(2) [OF effect_step_next [OF step_seal_terminal]] by blast
  show ?thesis
    using lease_loss_closes [OF assms] intent_not_sealed_by_lease_loss [of r X None] t
    by (cases "ea_stage r") (auto simp: unresolved_intent_def)
qed

lemma lease_loss_rule_witness:
  "\<not> (\<exists>r'. seal_terminal sample_ext attempt3 Outer_lease_lost None = Inr r')"
  using lease_loss_rule [OF attempt3_valid(2,3)] by (simp add: attempt_defs)

text \<open>C21. An attempt is never stuck: every valid record that is not sealed has a next record, produced by one
  of the journal's operations, as long as the effect it is waiting for yields some well-formed evidence.\<close>

theorem attempt_never_stuck:
  fixes receipt :: application_receipt and publication :: state_publication_receipt
    and result :: lifecycle_execution_result
  assumes "effect_valid X r" and "totals_ok r" and "ea_stage r \<noteq> Terminal"
    and "application_fact_ok X (application_fact_of receipt)"
    and "publication_fact_ok X (publication_fact_of publication)"
    and "\<And>request. ea_publication_request r = Some request \<Longrightarrow> receipt_request publication = request"
    and "identity_text_ok (lifecycle_result_id result)"
  shows "\<exists>r'. effect_step X r r'"
proof (cases "unresolved_intent (ea_stage r)")
  case False
  from lease_loss_closes [OF assms(1-3) False] step_seal_terminal show ?thesis by blast
next
  case True
  then consider "ea_stage r = Before_intent" | "ea_stage r = Application_intent" | "ea_stage r = After_intent"
    | "ea_stage r = Publication_intent" by (auto simp: unresolved_intent_def)
  then show ?thesis
  proof cases
    case 1
    from complete_before_guard [OF assms(1,2) 1 assms(7)] step_complete_before show ?thesis by blast
  next
    case 2
    from complete_application_guard [OF assms(1,2) 2 assms(4)] step_complete_application show ?thesis by blast
  next
    case 3
    from complete_after_guard [OF assms(1,2) 3 assms(7)] step_complete_after show ?thesis by blast
  next
    case 4
    then have "ea_publication_request r \<noteq> None"
      using effect_validD(4) [OF assms(1)] by (simp add: stage_rejected_def)
    with assms(6) have "ea_publication_request r = Some (receipt_request publication)" by auto
    from complete_publication_guard [OF assms(1,2) 4 this assms(5)] step_complete_publication show ?thesis by blast
  qed
qed

lemma attempt_never_stuck_witness: "\<exists>r'. effect_step sample_ext attempt3 r'"
  by (rule attempt_never_stuck [OF attempt3_valid(2,3), where receipt = sample_receipt and
      publication = sample_publication and result = "sample_lifecycle_result (replicate 64 CHR ''0'')"])
    (simp_all add: attempt_defs application_fact_ok_def publication_fact_ok_def typed_identity_def
      identity_text_ok_def is_lower_hex_def list_all_iff sample_lifecycle_result_def)

text \<open>Every record an admitted attempt can reach is accepted when it is read back.\<close>

theorem attempt_restored:
  assumes "admit X session before_total after_total nonce = Inr r0" and "(effect_step X)\<^sup>*\<^sup>* r0 r"
  shows "effect_restore X r = Inr r"
proof -
  have "(effect_next X)\<^sup>*\<^sup>* r0 r" using assms(2) mono_rtranclp [of "effect_step X" "effect_next X"]
    effect_step_next by blast
  from chain_valid(1) [OF this] admit_Inr [OF assms(1)] show ?thesis
    by (simp add: effect_restore_def effect_valid_def)
qed

lemma attempt_restored_witness: "effect_restore sample_ext attempt1 = Inr attempt1"
  using attempt_restored [OF install_admit, of attempt1] step_begin_application [OF attempt1] by blast

text \<open>An attempt is admitted exactly when both lifecycle totals are within the journal's bound, and the
  admitted record is the first of its chain.\<close>

theorem admission_bound:
  "(\<exists>r. admit X session before_total after_total nonce = Inr r \<and> ea_sequence r = 0 \<and> ea_previous r = None \<and>
      ea_stage r = Admitted \<and> effect_valid X r) \<longleftrightarrow>
    unat before_total \<le> 65536 \<and> unat after_total \<le> 65536"
  by (auto simp: admit_cases maximum_effect_lifecycle_count_def admitted_valid)
    (simp add: admitted_record_def seal_record_def)

end
