(* ===== verification/Run_Durable.thy ===== *)
theory Run_Durable
  imports Run_Chain
begin

text \<open>
  Every live transition of a run has a durable snapshot: a run that satisfies its invariant and the
  journal's bounds yields a well-formed record, and one dispatch operation yields the next record of
  the same chain. The only facts taken from outside are that the identities of changed values differ,
  which fails only on a digest collision.
\<close>

section \<open>The sequence number counts transitions\<close>

definition transitions :: "transaction_dispatch_record \<Rightarrow> nat" where
  "transitions r =
     1 + (case record_state r of
            Reserved \<Rightarrow> 0
          | Started \<Rightarrow> 1 + length (record_observations r)
          | Completed \<Rightarrow> 2 + length (record_observations r)
          | Released_unstarted \<Rightarrow> 1)"

abbreviation all_transitions :: "transaction_dispatch_record list \<Rightarrow> nat" where
  "all_transitions rs \<equiv> sum_list (map transitions rs)"

lemma record_transitions_nat: "record_transitions r = word_of_nat (transitions r)"
  by (simp add: record_transitions_def transitions_def split: transaction_dispatch_state.split)

lemma run_transition_count_nat: "run_transition_count rs c = c + word_of_nat (all_transitions rs)"
  by (induction rs arbitrary: c) (simp_all add: record_transitions_nat algebra_simps)

lemma transitions_positive [simp]: "0 < transitions r"
  by (simp add: transitions_def)

lemma length_transitions: "length rs \<le> all_transitions rs"
proof (induction rs)
  case (Cons r rs)
  then show ?case using transitions_positive [of r] by (simp del: transitions_positive)
qed simp

lemma transitions_bound:
  assumes "run_bounds rs"
  shows "all_transitions rs \<le> 65536 * 65539"
proof -
  have b: "transitions r \<le> 65539" if "r \<in> set rs" for r
    using assms that by (auto simp: run_bounds_def maximum_transaction_run_observation_count_def transitions_def
        split: transaction_dispatch_state.split)
  have "all_transitions rs \<le> sum_list (map (\<lambda>_. 65539) rs)" by (rule sum_list_mono) (rule b)
  also have "\<dots> = length rs * 65539" by (simp add: sum_list_triv)
  also have "\<dots> \<le> 65536 * 65539"
    using assms by (intro mult_le_mono1) (simp add: run_bounds_def maximum_transaction_run_dispatch_count_def)
  finally show ?thesis .
qed

lemma count_value:
  assumes "all_transitions rs \<le> 65536 * 65539"
  shows "unat (run_transition_count rs 0) = all_transitions rs"
    and "run_transition_count rs 0 \<noteq> max_u64"
proof -
  have v: "unat (word_of_nat m :: u64) = m" if "m < 2 ^ 64" for m
    using that by (simp add: unat_of_nat)
  show u: "unat (run_transition_count rs 0) = all_transitions rs"
    using v assms by (simp add: run_transition_count_nat)
  have "unat max_u64 = 18446744073709551615" by (simp add: unsigned_minus_1_eq_mask mask_eq_exp_minus_1)
  then show "run_transition_count rs 0 \<noteq> max_u64" using u assms by fastforce
qed

section \<open>Bounds\<close>

definition bounded_record :: "transaction_dispatch_record \<Rightarrow> bool" where
  "bounded_record r \<longleftrightarrow>
     unit_members (record_unit r) \<noteq> [] \<and>
     length (unit_members (record_unit r)) \<le> maximum_transaction_run_member_count \<and>
     length (dispatch_dependencies (record_dispatch r)) \<le> maximum_transaction_run_dependency_count \<and>
     length (record_observations r) \<le> maximum_transaction_run_observation_count \<and>
     dependencies_canonical (dispatch_dependencies (record_dispatch r)) \<and> distinct (record_observations r)"

lemma bounds_conditions:
  "list_all Not (record_bounds_conditions ns ds r) \<longleftrightarrow>
     bounded_record r \<and> nonce_text r \<notin> set ns \<and> dispatch_name r \<notin> set ds"
  by (auto simp: record_bounds_conditions_def bounded_record_def Let_def not_less)

lemma validate_bounds_each_iff:
  "validate_bounds_each ns ds rs = Inr () \<longleftrightarrow>
     (\<forall>r \<in> set rs. bounded_record r) \<and> distinct (map nonce_text rs) \<and> distinct (map dispatch_name rs) \<and>
     (\<forall>r \<in> set rs. nonce_text r \<notin> set ns \<and> dispatch_name r \<notin> set ds)"
proof (induction rs arbitrary: ns ds)
  case (Cons r rs)
  show ?case
    by (auto simp: Cons.IH bindE_Inr_iff reject_iff bounds_conditions image_iff)
qed simp

lemma captured_canonical:
  assumes "capture_dependencies X p u = Inr ds"
  shows "dependencies_canonical ds"
proof -
  obtain dss where dss: "mapE (capture_dependency X p) (external_predecessors p u) = Inr dss"
    and ds: "ds = sort_key dependency_node (concat dss)"
    using assms by (auto simp: capture_dependencies_def bindE_Inr_iff)
  have one: "map dependency_node d = [] \<or> map dependency_node d = [n]" if "capture_dependency X p n = Inr d" for n d
    using that by (auto simp: capture_dependency_def bindE_Inr_iff make_dependency_def split: if_splits option.splits)
  have "distinct (map dependency_node (concat dss)) \<and> set (map dependency_node (concat dss)) \<subseteq> set ns"
    if "mapE (capture_dependency X p) ns = Inr dss" "distinct ns" for ns dss
    using that
  proof (induction ns arbitrary: dss)
    case (Cons n ns)
    then obtain d ds' where d: "capture_dependency X p n = Inr d" "mapE (capture_dependency X p) ns = Inr ds'"
      "dss = d # ds'" by (auto simp: bindE_Inr_iff)
    define names where "names = map dependency_node (concat ds')"
    have "map dependency_node (concat dss) = map dependency_node d @ names" by (simp add: d(3) names_def)
    moreover have "distinct names" "set names \<subseteq> set ns"
      using Cons.IH [OF d(2)] Cons.prems(2) unfolding names_def by simp_all
    ultimately show ?case using Cons.prems(2) one [OF d(1)] by auto
  qed simp
  from this [OF dss] have "distinct (map dependency_node (concat dss))" by (simp add: external_predecessors_def)
  then have "distinct (map dependency_node ds)" by (auto simp: ds distinct_map)
  moreover have "sorted (map dependency_node ds)" by (simp add: ds)
  ultimately have "sorted_wrt (<) (map dependency_node ds)" by (simp add: strict_sorted_iff)
  then show ?thesis unfolding dependencies_canonical_def canonical_map_iff_strict .
qed

lemma run_record_bounds:
  assumes I: "run_inv X us run" and b: "run_bounds (run_records run)"
  shows "validate_record_bounds (run_policy run) (run_records run) = Inr ()"
proof -
  note L = run_invD(3) [OF I, unfolded ledger_ok_def]
  have "unit_members (record_unit r) \<noteq> [] \<and> dependencies_canonical (dispatch_dependencies (record_dispatch r))"
    if "r \<in> set (run_records run)" for r
  proof -
    have h: "contains_unit X (run_progress run) (record_unit r) = Inr True"
      "capture_dependencies X (run_progress run) (record_unit r) = Inr (dispatch_dependencies (record_dispatch r))"
      using run_invD(4) [OF I] that by (auto simp: history_ok_def validate_rehydrated_Inr)
    obtain u where "record_unit r = sealed_unit X (run_progress run) u" "unit_primary (record_unit r) \<in> set (spec_members u)"
      using known_unit [OF run_invD(1) [OF I] h(1)] by metis
    then show ?thesis using captured_canonical [OF h(2)] by auto
  qed
  with L b have "validate_bounds_each [] [] (run_records run) = Inr ()"
    unfolding validate_bounds_each_iff by (auto simp: run_bounds_def record_valid_def bounded_record_def)
  then show ?thesis
    using L b by (simp add: validate_record_bounds_def Let_def reject_iff run_bounds_def not_less all_kinds)
qed

lemma progress_not_both: "progress_failed p \<Longrightarrow> \<not> progress_complete p"
  by (force simp: progress_failed_def progress_complete_def list_ex_iff list_all_iff)

text \<open>The snapshot of a run within the bounds is a well-formed record.\<close>

lemma journals_valid:
  assumes I: "run_inv X us run" and J: "journals X r run" and b: "run_bounds (run_records run)"
  shows "run_record_valid X r"
proof -
  note D = journalsD [OF J] and n = count_value [OF transitions_bound [OF b]]
  have zero: "rj_sequence r = 0 \<longleftrightarrow> run_records run = []"
    using n(1) by (cases "run_records run") (simp_all add: D(12) unat_eq_zero [symmetric] del: run_transition_count.simps)
  have "length (run_records run) \<le> unat (rj_sequence r)"
    using n(1) length_transitions by (simp add: D(12))
  with zero show ?thesis
    using D(13) run_record_bounds [OF I b] progress_not_both
    by (auto simp: run_record_valid_def validate_top_level_shape_def bindE_Inr_iff reject_iff D(4-8,9,11) run_stopped_def D(12)
        not_less)
qed

section \<open>One operation, one durable transition\<close>

text \<open>Changed values have changed identities: no digest collision between the two runs.\<close>

definition fresh_identities :: "transaction_run \<Rightarrow> transaction_run \<Rightarrow> bool" where
  "fresh_identities run run' \<longleftrightarrow>
     run_id run' \<noteq> run_id run \<and>
     (\<forall>i < length (run_records run). run_records run' ! i \<noteq> run_records run ! i \<longrightarrow>
        record_id (run_records run' ! i) \<noteq> record_id (run_records run ! i)) \<and>
     (run_progress run' \<noteq> run_progress run \<longrightarrow>
        progress_id (run_progress run') \<noteq> progress_id (run_progress run))"

text \<open>A change of one record, and what the validators need to know of it.\<close>

lemma changed_single:
  assumes "record_id r' \<noteq> record_id r"
  shows "changed_indices (as @ r # bs) (as @ r' # bs) = [length as]"
proof -
  have "filter (\<lambda>i. record_id ((as @ r # bs) ! i) \<noteq> record_id ((as @ r' # bs) ! i)) [0 ..< length as] = []"
    by (auto simp: filter_empty_conv nth_append)
  moreover have "filter (\<lambda>i. record_id ((as @ r # bs) ! i) \<noteq> record_id ((as @ r' # bs) ! i))
      [Suc (length as) ..< length as + Suc (length bs)] = []"
    by (auto simp: filter_empty_conv nth_append nth_Cons')
  moreover have "[0 ..< length as + Suc (length bs)] =
      [0 ..< length as] @ length as # [Suc (length as) ..< length as + Suc (length bs)]"
    using upt_add_eq_append [of 0 "length as" "Suc (length bs)"] by (simp add: upt_conv_Cons del: upt_Suc)
  ultimately show ?thesis using assms by (simp add: changed_indices_def del: upt_Suc)
qed

definition single_change ::
  "transaction_run \<Rightarrow> transaction_run \<Rightarrow> transaction_dispatch_record \<Rightarrow> transaction_dispatch_record \<Rightarrow> bool" where
  "single_change run run' r r' \<longleftrightarrow>
     (\<exists>as bs. run_records run = as @ r # bs \<and> run_records run' = as @ r' # bs) \<and>
     record_dispatch r' = record_dispatch r \<and> transitions r' = Suc (transitions r) \<and>
     \<not> transition_rejected r r' (run_progress run' \<noteq> run_progress run) \<and>
     (snapshot_id (progress_state (run_progress run')) \<noteq> snapshot_id (progress_state (run_progress run)) \<longrightarrow>
        record_state r' = Completed \<and> record_kind r' = Operation_unit)"

lemma change_cases:
  assumes c: "run_change X run run'" and id: "run_id run' \<noteq> run_id run"
  obtains (reserved) d where "run_records run' = run_records run @ [make_record X d Reserved None None [] None]"
      and "run_progress run' = run_progress run" and "dispatch_reserved_from d = progress_id (run_progress run)"
      and "dispatch_reserved_state d = snapshot_id (progress_state (run_progress run))"
    | (single) r r' where "single_change run run' r r'"
  using c
proof cases
  case change_none
  with id show thesis by simp
next
  case (change_reserve d)
  then show thesis using reserved by blast
next
  case (change_start r session e)
  have "single_change run run' r (started_record X r session e)"
    using change_start by (auto simp: single_change_def starts_as_def started_record_def transitions_def transition_rejected_def)
  then show thesis by (rule single)
next
  case (change_release r)
  have "single_change run run' r (released_record X r)"
    using change_release by (auto simp: single_change_def starts_as_def released_record_def transitions_def transition_rejected_def)
  then show thesis by (rule single)
next
  case (change_observe r r' ob)
  have "single_change run run' r r'"
    using change_observe by (auto simp: single_change_def starts_as_def observed_record_def transitions_def
        transition_rejected_def same_prefix_def split: if_splits)
  then show thesis by (rule single)
next
  case (change_complete r evidence p' i)
  have "record_kind r = Operation_unit \<or> progress_state p' = progress_state (run_progress run)"
    using change_complete(5) by blast
  then have "single_change run run' r (completed_record X r evidence)"
    using change_complete(1-4) by (auto simp: single_change_def completes_as_def completed_record_def transitions_def
        transition_rejected_def)
  then show thesis by (rule single)
qed

lemma single_validated:
  assumes s: "single_change run run' r r'" and f: "fresh_identities run run'"
  shows "validate_transition_snapshots (run_records run) (progress_id (run_progress run)) st
      (run_records run') (progress_id (run_progress run')) = Inr ()"
    and "all_transitions (run_records run') = Suc (all_transitions (run_records run))"
    and "snapshot_id (progress_state (run_progress run')) \<noteq> snapshot_id (progress_state (run_progress run)) \<Longrightarrow>
      \<not> epoch_change_rejected (run_records run) (run_records run')"
proof -
  from s obtain as bs where rs: "run_records run = as @ r # bs" "run_records run' = as @ r' # bs"
    and d: "record_dispatch r' = record_dispatch r" and t: "transitions r' = Suc (transitions r)"
    and v: "\<not> transition_rejected r r' (run_progress run' \<noteq> run_progress run)"
    and e: "snapshot_id (progress_state (run_progress run')) \<noteq> snapshot_id (progress_state (run_progress run)) \<longrightarrow>
        record_state r' = Completed \<and> record_kind r' = Operation_unit"
    unfolding single_change_def by blast
  have "r' \<noteq> r" using t by auto
  then have id: "record_id r' \<noteq> record_id r"
    using f unfolding fresh_identities_def rs by (auto dest: spec [of _ "length as"])
  have pc: "(progress_id (run_progress run') \<noteq> progress_id (run_progress run)) = (run_progress run' \<noteq> run_progress run)"
    using f by (auto simp: fresh_identities_def)
  show "validate_transition_snapshots (run_records run) (progress_id (run_progress run)) st
      (run_records run') (progress_id (run_progress run')) = Inr ()"
    using v by (simp add: validate_transition_snapshots_def Let_def rs changed_single [OF id] pc
        validate_record_transition_def d reject_iff)
  show "all_transitions (run_records run') = Suc (all_transitions (run_records run))" using t by (simp add: rs)
  show "\<not> epoch_change_rejected (run_records run) (run_records run')"
    if "snapshot_id (progress_state (run_progress run')) \<noteq> snapshot_id (progress_state (run_progress run))"
    using e that by (simp add: epoch_change_rejected_def changed_dispatch_index_def rs changed_single [OF id])
qed

lemma durable_step:
  assumes I: "run_inv X us run" and J: "journals X rec run" and s: "run_step X run run'"
    and b: "run_bounds (run_records run')" and f: "fresh_identities run run'"
  shows "\<exists>rec'. run_successor X rec run' = Inr rec' \<and> run_next X rec rec' \<and> journals X rec' run'"
proof -
  from run_step_change [OF I s] have I': "run_inv X us run'" and c: "run_change X run run'" by blast+
  note D = journalsD [OF J] and F = run_change_forward [OF c, unfolded run_forward_def]
  let ?vt = "validate_transition_snapshots (run_records run) (progress_id (run_progress run))
      (snapshot_id (progress_state (run_progress run))) (run_records run') (progress_id (run_progress run'))"
  have id: "run_id run' \<noteq> run_id run" using f by (simp add: fresh_identities_def)
  have V: "?vt = Inr () \<and> all_transitions (run_records run') = Suc (all_transitions (run_records run)) \<and>
      (snapshot_id (progress_state (run_progress run')) \<noteq> snapshot_id (progress_state (run_progress run)) \<longrightarrow>
        \<not> epoch_change_rejected (run_records run) (run_records run'))"
    using c id
  proof (cases rule: change_cases)
    case (reserved d)
    then show ?thesis
      by (simp add: validate_transition_snapshots_def reject_iff transitions_def)
  next
    case (single r r')
    from single_validated [OF single f] show ?thesis by blast
  qed
  have bound: "all_transitions (run_records run') \<le> 65536 * 65539" by (rule transitions_bound [OF b])
  then have bound0: "all_transitions (run_records run) \<le> 65536 * 65539" using V by simp
  have seq: "rj_sequence rec + 1 = run_transition_count (run_records run') 0"
    using V by (simp add: D(12) run_transition_count_nat)
  have nz: "run_transition_count (run_records run') 0 \<noteq> 0"
    using count_value(1) [OF bound] V by (metis Zero_not_Suc unat_0)
  define rec' where "rec' = snapshot_of X (rj_journal rec) (rj_transaction rec) (rj_nonce rec)
    (rj_sequence rec + 1) (Some (rj_identity rec)) run'"
  have live: "validate_live_successor rec run' = Inr ()"
    using V F id by (simp add: validate_live_successor_def bindE_Inr_iff reject_iff D)
  have J': "journals X rec' run'"
    unfolding journals_def using seq nz F D(10,11) by (simp add: rec'_def)
  have state: "progress_id (run_progress run') = progress_id (run_progress run) \<Longrightarrow> run_progress run' = run_progress run"
    using f by (auto simp: fresh_identities_def)
  have "validate_durable_successor rec rec' = Inr ()"
    using V F id state
    by (auto simp: validate_durable_successor_def bindE_Inr_iff reject_iff rec'_def D run_stopped_def)
  moreover have "run_record_valid X rec'" by (rule journals_valid [OF I' J' b])
  moreover have "run_successor X rec run' = Inr rec'"
    using live count_value(2) [OF bound0] by (simp add: run_successor_def rec'_def D(12))
  ultimately show ?thesis using J' by (auto simp: run_next_def)
qed

lemma admitted_journals:
  assumes "admit_run X run nonce = Inr rec"
  shows "journals X rec run" and "run_records run = []"
proof -
  from assms have e: "run_records run = []"
    and rec: "rec = snapshot_of X (journal_identity X (transaction_id (progress_transaction (run_progress run)))
        (run_policy run) nonce) (transaction_id (progress_transaction (run_progress run))) nonce 0 None run"
    by (auto simp: admit_run_def Let_def split: if_splits)
  from e rec show "journals X rec run" by (simp add: journals_def)
  show "run_records run = []" by (rule e)
qed

end
