(* ===== verification/Run_Properties.thy ===== *)
theory Run_Properties
  imports Run_Durable Sample_Operation
begin

text \<open>
  The properties of \<^verbatim>\<open>src/run_journal.cpp\<close>, of the nonces and of the identities, each with a witness.
  They rest on \<open>Run_Chain\<close>, \<open>Run_Durable\<close>, \<open>Identity\<close> and \<open>Nonce\<close>.
\<close>

section \<open>The durable run journal\<close>

definition sample_admitted :: run_journal_record where
  "sample_admitted = projr (admit_run sample_ext sample_run sample_nonce)"

lemma sample_admitted: "admit_run sample_ext sample_run sample_nonce = Inr sample_admitted"
  by (simp add: sample_admitted_def admit_run_def Let_def)

lemmas sample_admitted_journals = admitted_journals(1) [OF sample_admitted]

lemma sample_bounds: "run_bounds (run_records sample_run)" "run_bounds (run_records sample_reserved)"
  by (simp_all add: run_bounds_def sample_record_def maximum_transaction_run_dispatch_count_def
      maximum_transaction_run_member_count_def)

lemma sample_fresh: "fresh_identities sample_run sample_reserved"
proof -
  have "run_id sample_run \<noteq> run_id sample_reserved" by code_simp
  then show ?thesis by (simp add: fresh_identities_def)
qed

text \<open>C13. The journal simulates the ledger: from a snapshot of a run, every dispatch operation on the run has
  exactly one next snapshot, which passes the live and the durable successor checks and the checks on
  reading it back, and is the snapshot of the new run. Assumed are the journal's size bounds and that
  no digest collision hides the change.\<close>

theorem journal_simulates_run:
  assumes "run_inv X us run" and "journals X rec run" and "run_step X run run'"
    and "run_bounds (run_records run')" and "fresh_identities run run'"
  shows "\<exists>rec'. run_successor X rec run' = Inr rec' \<and> validate_durable_successor rec rec' = Inr () \<and>
    run_journal_restore X rec' = Inr rec' \<and> journals X rec' run'"
  using durable_step [OF assms]
  by (auto simp: run_next_def run_record_valid_def run_journal_restore_def)

lemma journal_simulates_run_witness:
  "\<exists>rec'. run_successor sample_ext sample_admitted sample_reserved = Inr rec'"
  using journal_simulates_run [OF sample_run_inv sample_admitted_journals step_reserve [OF sample_reserve]
      sample_bounds(2) sample_fresh] by blast

text \<open>C33. A snapshot reopens to the run that wrote it: given the progress the run had, \<^verbatim>\<open>reopen\<close> rebuilds the
  very same run, and every progress with another identity is refused.\<close>

theorem snapshot_reopens_run:
  assumes "run_inv X us run" and "journals X rec run"
  shows "reopen X rec (run_progress run) = Inr run \<and>
    (\<forall>p. progress_id p \<noteq> progress_id (run_progress run) \<longrightarrow> reopen X rec p = run_record_error)"
  using reopen_journal [OF assms(2,1)] journalsD(2) [OF assms(2)] by (simp add: reopen_def)

lemma snapshot_reopens_run_witness: "reopen sample_ext sample_admitted sample_begin = Inr sample_run"
  using snapshot_reopens_run [OF sample_run_inv sample_admitted_journals] by simp

text \<open>C36. Every durable chain is one journal: the sequence counts the transitions exactly, without wrapping,
  and the journal, its transaction, nonce and policy never change.\<close>

theorem durable_chain:
  assumes "(run_next X ^^ n) r r'"
  shows "unat (rj_sequence r') = unat (rj_sequence r) + n \<and> rj_journal r' = rj_journal r \<and>
    rj_transaction r' = rj_transaction r \<and> rj_nonce r' = rj_nonce r \<and>
    policy_id (rj_policy r') = policy_id (rj_policy r)"
proof -
  have "rj_journal r' = rj_journal r \<and> rj_transaction r' = rj_transaction r \<and> rj_nonce r' = rj_nonce r \<and>
      policy_id (rj_policy r') = policy_id (rj_policy r)"
    by (rule run_chain.chain_preserves [OF relpowp_imp_rtranclp [OF assms],
          of "\<lambda>a b. rj_journal b = rj_journal a \<and> rj_transaction b = rj_transaction a \<and> rj_nonce b = rj_nonce a \<and>
            policy_id (rj_policy b) = policy_id (rj_policy a)"])
      (auto dest: run_nextD)
  then show ?thesis using run_chain.chain_length [OF assms] by simp
qed

lemma durable_chain_witness: "\<exists>rec'. run_next sample_ext sample_admitted rec' \<and> unat (rj_sequence rec') = 1"
proof -
  obtain rec' where n: "run_next sample_ext sample_admitted rec'"
    using durable_step [OF sample_run_inv sample_admitted_journals step_reserve [OF sample_reserve]
        sample_bounds(2) sample_fresh] by blast
  from n have "(run_next sample_ext ^^ 1) sample_admitted rec'" by (simp only: relpowp_1)
  from durable_chain [OF this] have "unat (rj_sequence rec') = 1" by (simp add: sample_admitted_def admit_run_def Let_def)
  with n show ?thesis by blast
qed

text \<open>C32. One durable transition changes one dispatch: the ledger grows by one reserved dispatch on unchanged
  progress, or one record moves forward under the same dispatch; a completed or released record keeps
  its identity, and completion alone changes the progress.\<close>

theorem durable_transition_changes_one:
  assumes "run_next X r r'"
  shows "(length (rj_dispatches r') = Suc (length (rj_dispatches r)) \<and> rj_progress r' = rj_progress r \<and>
      record_state (last (rj_dispatches r')) = Reserved \<and>
      (\<forall>i < length (rj_dispatches r). record_id (rj_dispatches r' ! i) = record_id (rj_dispatches r ! i))) \<or>
    (length (rj_dispatches r') = length (rj_dispatches r) \<and> (\<exists>i < length (rj_dispatches r).
      (\<forall>j < length (rj_dispatches r). j \<noteq> i \<longrightarrow> record_id (rj_dispatches r' ! j) = record_id (rj_dispatches r ! j)) \<and>
      dispatch_id (record_dispatch (rj_dispatches r' ! i)) = dispatch_id (record_dispatch (rj_dispatches r ! i)) \<and>
      (record_state (rj_dispatches r ! i), record_state (rj_dispatches r' ! i)) \<in>
        {(Reserved, Started), (Reserved, Released_unstarted), (Started, Started), (Started, Completed)} \<and>
      (rj_progress r' \<noteq> rj_progress r) = (record_state (rj_dispatches r' ! i) = Completed)))"
  using run_nextD(8) [OF assms]
proof (cases rule: validate_transition_cases)
  case reserve
  then show ?thesis by simp
next
  case (change i)
  have "(record_state (rj_dispatches r ! i), record_state (rj_dispatches r' ! i)) \<in>
        {(Reserved, Started), (Reserved, Released_unstarted), (Started, Started), (Started, Completed)} \<and>
      (rj_progress r' \<noteq> rj_progress r) = (record_state (rj_dispatches r' ! i) = Completed)"
    using change(5) by (auto simp: transition_rejected_def split: transaction_dispatch_state.splits)
  with change(1-4) show ?thesis by blast
qed

lemma durable_transition_changes_one_witness:
  "\<exists>rec'. run_next sample_ext sample_admitted rec' \<and> record_state (last (rj_dispatches rec')) = Reserved"
proof -
  obtain rec' where n: "run_next sample_ext sample_admitted rec'" and J: "journals sample_ext rec' sample_reserved"
    using durable_step [OF sample_run_inv sample_admitted_journals step_reserve [OF sample_reserve]
        sample_bounds(2) sample_fresh] by blast
  have "length (rj_dispatches rec') = Suc (length (rj_dispatches sample_admitted))"
    using journalsD(5) [OF J] journalsD(5) [OF sample_admitted_journals] by simp
  with durable_transition_changes_one [OF n] n show ?thesis by auto
qed

section \<open>Nonces and identities\<close>

text \<open>C38. The text form of a nonce is exact for all three kinds: a text is accepted exactly when it is the
  rendering of a nonce of 32 bytes that are not all zero, and then its value is that nonce.\<close>

theorem nonce_texts_exact:
  "(dispatch_nonce_from_hex s = Inr n \<longleftrightarrow> length n = 32 \<and> (\<exists>b \<in> set n. b \<noteq> 0) \<and> s = dispatch_nonce_hex n) \<and>
   (run_nonce_from_hex s = Inr n \<longleftrightarrow> length n = 32 \<and> (\<exists>b \<in> set n. b \<noteq> 0) \<and> s = run_nonce_hex n) \<and>
   (effect_nonce_from_hex s = Inr n \<longleftrightarrow> length n = 32 \<and> (\<exists>b \<in> set n. b \<noteq> 0) \<and> s = effect_nonce_hex n)"
  using dispatch_nonce.from_hex_iff run_nonce.from_hex_iff effect_nonce.from_hex_iff by (simp add: nonce_ok_def)

lemma nonce_texts_exact_witness: "run_nonce_from_hex (replicate 64 CHR ''7'') = Inr (replicate 32 119)"
proof -
  have "run_nonce_hex (replicate 32 119) = replicate 64 CHR ''7''" by code_simp
  then show ?thesis using nonce_texts_exact [of "replicate 64 CHR ''7''" "replicate 32 119"] by simp
qed

text \<open>C39. Identities are collision-free up to the digest: with the 64-bit length framing, equal preimages
  have the same domain and the same fields, so two different values share an identity only if SHA-256
  collides.\<close>

theorem identity_collision_is_digest_collision:
  assumes "make_session_identity sha d fs = make_session_identity sha d' fs'" and "(d, fs) \<noteq> (d', fs')"
    and "\<forall>f \<in> set (d # fs). length f < 2 ^ 64" and "\<forall>f \<in> set (d' # fs'). length f < 2 ^ 64"
  shows "\<exists>a b. a \<noteq> b \<and> sha a = sha b"
proof -
  have "identity_preimage d fs \<noteq> identity_preimage d' fs'"
    using identity_preimage_inj assms(2-4) by blast
  with make_session_identity_eq [OF assms(1)] show ?thesis by blast
qed

lemma identity_collision_is_digest_collision_witness:
  "\<exists>a b. a \<noteq> b \<and> (\<lambda>_ :: byte list. replicate 32 0 :: byte list) a = (\<lambda>_. replicate 32 0) b"
  by (rule identity_collision_is_digest_collision [of _ "''a''" "[]" "''b''" "[]"])
    (simp_all add: make_session_identity_def)

end
