(* ===== verification/Effect_Request.thy ===== *)
theory Effect_Request
  imports Units Effect_Journal
begin

text \<open>
  The first half of \<^verbatim>\<open>src/effect.cpp\<close>: what an effectful operation may be asked to do. A request names
  one target action of a sealed transaction, the state epoch it is based on, the accepted application
  and the order of the lifecycle nodes around it (\<^verbatim>\<open>effectful_operation_request::make\<close>); a session adds the
  admitted execution of every lifecycle node (\<^verbatim>\<open>effectful_operation_session::admit\<close>). The pointers
  \<^verbatim>\<open>installation()\<close>, \<^verbatim>\<open>upgrade()\<close> and \<^verbatim>\<open>removal()\<close> are the constructors of \<open>application_body\<close>.
\<close>

abbreviation effect_request_error :: "'a res" where
  "effect_request_error \<equiv> Inl (Error invalid_effect_request)"

abbreviation effect_session_error :: "'a res" where
  "effect_session_error \<equiv> Inl (Error invalid_effect_session)"

section \<open>Authority of the application\<close>

fun body_plan :: "application_body \<Rightarrow> operation_plan" where
  "body_plan (Installation p) = p"
| "body_plan (Upgrade p _ _) = p"
| "body_plan (Removal p _ _) = p"

definition preconditions :: "package_application_request \<Rightarrow> operation_plan res" where
  "preconditions request =
     (case application_body request of None \<Rightarrow> effect_request_error | Some b \<Rightarrow> Inr (body_plan b))"

definition application_release :: "package_application_request \<Rightarrow> string res" where
  "application_release request =
     (case application_body request of
        None \<Rightarrow> effect_request_error | Some b \<Rightarrow> Inr (plan_release_name (body_plan b)))"

fun action_kind :: "operation_kind \<Rightarrow> transaction_action_kind" where
  "action_kind Kind_install = Act_install"
| "action_kind Kind_upgrade = Act_upgrade"
| "action_kind Kind_remove = Act_remove"

definition installed_matches :: "installed_package option \<Rightarrow> string \<Rightarrow> string \<Rightarrow> bool" where
  "installed_matches installed package control =
     (case installed of None \<Rightarrow> False
      | Some i \<Rightarrow> package = installed_identity i \<and> control = installed_control i)"

text \<open>\<open>stale_action\<close> is the test whether the package is installed as the action expects it.\<close>

definition stale_action ::
  "transaction_session \<Rightarrow> snapshot \<Rightarrow> transaction_node \<Rightarrow> operation_kind \<Rightarrow> string \<Rightarrow> bool" where
  "stale_action transaction expected_state action kind package_name =
     (if kind = Kind_install then snapshot_find_package expected_state package_name \<noteq> None
      else
        let original = (if kind = Kind_remove then node_installed action
                        else snapshot_find_package (transaction_installed transaction) package_name);
            current = snapshot_find_package expected_state package_name
        in case (original, current) of
             (Some o', Some c) \<Rightarrow> installed_identity o' \<noteq> installed_identity c
           | _ \<Rightarrow> True)"

definition validate_removal :: "snapshot \<Rightarrow> package_application_request \<Rightarrow> string \<Rightarrow> unit res" where
  "validate_removal expected_state application package_name =
     require
       (case application_body application of
          Some (Removal _ package control) \<Rightarrow>
            installed_matches (snapshot_find_package expected_state package_name) package control
        | _ \<Rightarrow> False)
       (Error invalid_effect_request)"

definition incoming_rejected ::
  "transaction_node \<Rightarrow> package_application_request \<Rightarrow> bool" where
  "incoming_rejected action application =
     (case (node_selection action, application_incoming application) of
        (Some selection, Some incoming) \<Rightarrow>
          selection_source selection \<noteq> incoming_source incoming \<or>
          selection_release selection \<noteq> incoming_release incoming
      | _ \<Rightarrow> True)"

definition upgrade_rejected :: "snapshot \<Rightarrow> package_application_request \<Rightarrow> string \<Rightarrow> bool" where
  "upgrade_rejected expected_state application package_name \<longleftrightarrow>
     application_kind application = Kind_upgrade \<and>
     \<not> (case application_body application of
          Some (Upgrade _ package control) \<Rightarrow>
            installed_matches (snapshot_find_package expected_state package_name) package control
        | _ \<Rightarrow> False)"

definition validate_action_authority ::
  "transaction_session \<Rightarrow> snapshot \<Rightarrow> transaction_node \<Rightarrow> package_application_request \<Rightarrow> unit res" where
  "validate_action_authority transaction expected_state action application =
     (if node_environment action \<noteq> Environment_target \<or>
         node_action action \<noteq> action_kind (application_kind application)
      then effect_request_error
      else bindE (application_release application) (\<lambda>package_name.
        if node_package action \<noteq> package_name then effect_request_error
        else if snapshot_target_binding expected_state \<noteq>
                snapshot_target_binding (transaction_installed transaction) then effect_request_error
        else bindE (preconditions application) (\<lambda>plan.
          bindE (reject (Error invalid_effect_request)
            [plan_installed_snapshot plan \<noteq> snapshot_id expected_state \<or>
               plan_ownership_inventory plan \<noteq> snapshot_ownership expected_state,
             target_managed (application_target_of application) \<noteq> snapshot_managed_target expected_state \<or>
               target_root_view (application_target_of application) \<noteq> snapshot_root_view expected_state,
             stale_action transaction expected_state action (application_kind application) package_name])
          (\<lambda>_. if application_kind application = Kind_remove
               then validate_removal expected_state application package_name
               else reject (Error invalid_effect_request)
                 [incoming_rejected action application,
                  upgrade_rejected expected_state application package_name]))))"

section \<open>Requests\<close>

text \<open>The insertion loop of \<^verbatim>\<open>require_unique\<close> throws exactly at a second occurrence.\<close>

definition require_unique :: "node_identity list \<Rightarrow> unit res" where
  "require_unique values = require (distinct values) (Error invalid_effect_request)"

definition lifecycle_order_make :: "node_identity list \<Rightarrow> node_identity list \<Rightarrow> lifecycle_order res" where
  "lifecycle_order_make before after =
     bindE (require_unique before) (\<lambda>_.
     bindE (require_unique after) (\<lambda>_.
     if \<not> distinct (before @ after) then effect_request_error
     else Inr \<lparr>order_before = before, order_after = after\<rparr>))"

definition reason_kind :: "ext \<Rightarrow> installation_reason \<Rightarrow> session_identity" where
  "reason_kind X reason =
     make_identity X ''pkgctl/installation-reason/1''
       [to_string (reason_kind_code reason), text_of (reason_issuer_package reason),
        text_of (reason_issuer_profile reason), text_of (reason_issuer_profile_identity reason),
        text_of (reason_policy reason)]"

definition effect_request_identity ::
  "ext \<Rightarrow> transaction_session \<Rightarrow> snapshot \<Rightarrow> node_identity \<Rightarrow> package_application_request \<Rightarrow>
   lifecycle_order \<Rightarrow> installation_reason option \<Rightarrow> session_identity" where
  "effect_request_identity X transaction expected_state action_node application lifecycle reason =
     make_identity X ''pkgctl/effectful-operation-request/1''
       ([transaction_id transaction, snapshot_id expected_state, action_node, application_id application,
         to_string (length (order_before lifecycle))] @ order_before lifecycle @
        [to_string (length (order_after lifecycle))] @ order_after lifecycle @
        [(case reason of None \<Rightarrow> [] | Some r \<Rightarrow> reason_kind X r)])"

definition effectful_operation_request_make ::
  "ext \<Rightarrow> transaction_session \<Rightarrow> snapshot \<Rightarrow> node_identity \<Rightarrow> package_application_request \<Rightarrow>
   lifecycle_order \<Rightarrow> installation_reason option \<Rightarrow> effectful_operation_request res" where
  "effectful_operation_request_make X transaction expected_state action_node application lifecycle reason =
     (case program_find (transaction_program_of transaction) action_node of
        None \<Rightarrow> effect_request_error
      | Some action \<Rightarrow>
          bindE (validate_action_authority transaction expected_state action application) (\<lambda>_.
          bindE (validate_lifecycle_order (transaction_program_of transaction) action_node lifecycle) (\<lambda>_.
          if (application_kind application = Kind_install) \<noteq> (reason \<noteq> None) then effect_request_error
          else Inr \<lparr>effect_transaction = transaction, effect_expected_state = expected_state,
            effect_action_node = action_node, effect_application_request = application,
            effect_lifecycle = lifecycle, effect_installation_reason = reason,
            effect_request_id = effect_request_identity X transaction expected_state action_node
              application lifecycle reason\<rparr>)))"

section \<open>Sessions\<close>

definition transaction_installed_authority :: "transaction_node \<Rightarrow> installed_package option" where
  "transaction_installed_authority node =
     (case node_installed node of
        Some value \<Rightarrow> Some value
      | None \<Rightarrow> (case node_selection node of None \<Rightarrow> None | Some selected \<Rightarrow> selection_installed selected))"

definition lifecycle_authority_rejected ::
  "package_application_request \<Rightarrow> transaction_node \<Rightarrow> admitted_lifecycle_session \<Rightarrow> bool" where
  "lifecycle_authority_rejected application node execution =
     (let lifecycle = lifecycle_node_of execution in
      lifecycle_request execution \<noteq> application_id application \<or>
      lifecycle_application lifecycle \<noteq> application_id application \<or>
      lifecycle_plan lifecycle \<noteq> application_plan application \<or>
      lifecycle_operation lifecycle \<noteq> application_kind application \<or>
      lifecycle_target lifecycle \<noteq> target_identity (application_target_of application) \<or>
      target_lifecycle_executor (application_target_of application) \<noteq> Some (lifecycle_executor lifecycle) \<or>
      node_lifecycle node \<noteq> Some (lifecycle_action lifecycle) \<or>
      lifecycle_release_name lifecycle \<noteq> node_package node)"

definition incoming_lifecycle_rejected :: "transaction_node \<Rightarrow> lifecycle_node \<Rightarrow> bool" where
  "incoming_lifecycle_rejected node lifecycle =
     (case node_selection node of
        None \<Rightarrow> True
      | Some selected \<Rightarrow>
          lifecycle_source lifecycle \<noteq> Some (selection_source selected) \<or>
          selection_package selected \<noteq> lifecycle_release_name lifecycle \<or>
          selection_version selected \<noteq> lifecycle_version lifecycle \<or>
          to_string (selection_release_number selected) \<noteq> lifecycle_release lifecycle)"

definition installed_lifecycle_rejected :: "transaction_node \<Rightarrow> lifecycle_node \<Rightarrow> bool" where
  "installed_lifecycle_rejected node lifecycle =
     (case transaction_installed_authority node of
        None \<Rightarrow> True
      | Some installed \<Rightarrow>
          lifecycle_installed_control lifecycle \<noteq> Some (installed_control installed) \<or>
          installed_release_name installed \<noteq> lifecycle_release_name lifecycle \<or>
          installed_version installed \<noteq> lifecycle_version lifecycle \<or>
          to_string (installed_release_number installed) \<noteq> lifecycle_release lifecycle)"

definition validate_lifecycle_binding ::
  "effectful_operation_request \<Rightarrow> node_identity \<Rightarrow> admitted_lifecycle_session \<Rightarrow> unit res" where
  "validate_lifecycle_binding request transaction_node execution =
     (case program_find (transaction_program_of (effect_transaction request)) transaction_node of
        None \<Rightarrow> effect_session_error
      | Some node \<Rightarrow>
          if node_action node \<noteq> Act_lifecycle \<or> node_lifecycle node = None then effect_session_error
          else if lifecycle_authority_rejected (effect_application_request request) node execution
          then effect_session_error
          else
            let lifecycle = lifecycle_node_of execution in
            require
              (\<not> (if lifecycle_subject_of lifecycle = Subject_incoming
                  then incoming_lifecycle_rejected node lifecycle
                  else installed_lifecycle_rejected node lifecycle))
              (Error invalid_effect_session))"

definition execution_session_fields :: "admitted_lifecycle_session \<Rightarrow> string list" where
  "execution_session_fields session =
     (let identity = lifecycle_credentials session in
      [lifecycle_node_id (lifecycle_node_of session), lifecycle_execution_root session,
       lifecycle_target_root session, credential_interpreter identity, to_string (credential_user identity),
       to_string (credential_group identity), to_string (length (credential_groups identity))]
      @ map to_string (credential_groups identity))"

definition effect_session_identity ::
  "ext \<Rightarrow> effectful_operation_request \<Rightarrow> admitted_lifecycle_session list \<Rightarrow>
   admitted_lifecycle_session list \<Rightarrow> session_identity" where
  "effect_session_identity X request before after =
     make_identity X ''pkgctl/effectful-operation-session/1''
       ([effect_request_id request, to_string (length before)] @ concat (map execution_session_fields before) @
        [to_string (length after)] @ concat (map execution_session_fields after))"

definition effectful_operation_session_admit ::
  "ext \<Rightarrow> effectful_operation_request \<Rightarrow> admitted_lifecycle_session list \<Rightarrow>
   admitted_lifecycle_session list \<Rightarrow> effectful_operation_session res" where
  "effectful_operation_session_admit X request before after =
     (if length before \<noteq> length (order_before (effect_lifecycle request)) \<or>
         length after \<noteq> length (order_after (effect_lifecycle request))
      then effect_session_error
      else bindE (forE (\<lambda>(node, session). validate_lifecycle_binding request node session)
                    (zip (order_before (effect_lifecycle request)) before)) (\<lambda>_.
           bindE (forE (\<lambda>(node, session). validate_lifecycle_binding request node session)
                    (zip (order_after (effect_lifecycle request)) after)) (\<lambda>_.
           Inr \<lparr>effect_request_of = request, effect_session_before = before, effect_session_after = after,
             effect_session_id = effect_session_identity X request before after\<rparr>)))"

section \<open>Results\<close>

definition result_identity ::
  "ext \<Rightarrow> effectful_operation_session \<Rightarrow> effectful_operation_outcome \<Rightarrow> lifecycle_execution_result list \<Rightarrow>
   application_receipt option \<Rightarrow> lifecycle_execution_result list \<Rightarrow> string option \<Rightarrow>
   state_publication_request option \<Rightarrow> state_publication_receipt option \<Rightarrow> snapshot_identity option \<Rightarrow>
   session_identity" where
  "result_identity X session outcome before application after transaction request receipt reconciled =
     make_identity X ''pkgctl/effectful-operation-result/1''
       ([effect_session_id session, to_string (effect_outcome_code outcome), to_string (length before)] @
        map lifecycle_result_id before @
        [text_of (map_option application_receipt_id application), to_string (length after)] @
        map lifecycle_result_id after @
        [text_of transaction, text_of (map_option publication_request_id request),
         text_of (map_option receipt_id receipt)] @
        (case reconciled of None \<Rightarrow> [] | Some r \<Rightarrow> [r]))"

definition seal_result ::
  "ext \<Rightarrow> effectful_operation_session \<Rightarrow> effectful_operation_outcome \<Rightarrow> lifecycle_execution_result list \<Rightarrow>
   application_receipt option \<Rightarrow> lifecycle_execution_result list \<Rightarrow> string option \<Rightarrow>
   state_publication_request option \<Rightarrow> state_publication_receipt option \<Rightarrow> snapshot_identity option \<Rightarrow>
   effectful_operation_result" where
  "seal_result X session outcome before application after transaction request receipt reconciled =
     \<lparr>effect_session_of = session, effect_outcome = outcome, effect_before = before,
      effect_application = application, effect_after = after, effect_transaction_evidence = transaction,
      effect_publication_request = request, effect_publication_receipt = receipt,
      effect_reconciled_state = reconciled,
      effect_id = result_identity X session outcome before application after transaction request receipt
        reconciled\<rparr>"

end
