(* ===== verification/Process.thy ===== *)
theory Process
  imports Prelude
begin

text \<open>
  Code that calls its environment: a process takes the world to a result, or an exception, and the
  world it leaves behind, so that what happened before an exception stays happened. \<open>wp m Q E w\<close> says
  that \<open>m\<close> run from \<open>w\<close> ends in a world that satisfies \<open>E\<close> when it throws and, with its value, \<open>Q\<close>
  when it returns.
\<close>

type_synonym ('w, 'a) proc = "'w \<Rightarrow> 'a res \<times> 'w"

definition retP :: "'a \<Rightarrow> ('w, 'a) proc" where
  "retP x = (\<lambda>w. (Inr x, w))"

definition failP :: "exn \<Rightarrow> ('w, 'a) proc" where
  "failP e = (\<lambda>w. (Inl e, w))"

definition liftP :: "'a res \<Rightarrow> ('w, 'a) proc" where
  "liftP r = (\<lambda>w. (r, w))"

definition bindP :: "('w, 'a) proc \<Rightarrow> ('a \<Rightarrow> ('w, 'b) proc) \<Rightarrow> ('w, 'b) proc" where
  "bindP m f = (\<lambda>w. case m w of (Inl e, w') \<Rightarrow> (Inl e, w') | (Inr x, w') \<Rightarrow> f x w')"

text \<open>\<open>whenP b m\<close> is \<^verbatim>\<open>if (b) m\<close> for a statement without a value.\<close>

definition whenP :: "bool \<Rightarrow> ('w, unit) proc \<Rightarrow> ('w, unit) proc" where
  "whenP b m = (if b then m else retP ())"

definition wp :: "('w, 'a) proc \<Rightarrow> ('a \<Rightarrow> 'w \<Rightarrow> bool) \<Rightarrow> ('w \<Rightarrow> bool) \<Rightarrow> 'w \<Rightarrow> bool" where
  "wp m Q E w = (case m w of (Inl e, w') \<Rightarrow> E w' | (Inr x, w') \<Rightarrow> Q x w')"

named_theorems wp_simps "weakest preconditions of the process combinators"

lemma wp_retP [wp_simps]: "wp (retP x) Q E w \<longleftrightarrow> Q x w"
  by (simp add: wp_def retP_def)

lemma wp_failP [wp_simps]: "wp (failP e) Q E w \<longleftrightarrow> E w"
  by (simp add: wp_def failP_def)

lemma wp_liftP [wp_simps]: "wp (liftP r) Q E w \<longleftrightarrow> (case r of Inl e \<Rightarrow> E w | Inr x \<Rightarrow> Q x w)"
  by (simp add: wp_def liftP_def)

lemma wp_bindP [wp_simps]: "wp (bindP m f) Q E w \<longleftrightarrow> wp m (\<lambda>x. wp (f x) Q E) E w"
  by (simp add: wp_def bindP_def split: prod.split sum.split)

lemma wp_whenP [wp_simps]: "wp (whenP b m) Q E w \<longleftrightarrow> (if b then wp m Q E w else Q () w)"
  by (simp add: whenP_def wp_retP)

lemma wp_if [wp_simps]: "wp (if b then m else n) Q E w \<longleftrightarrow> (if b then wp m Q E w else wp n Q E w)"
  by simp

lemma wp_let [wp_simps]: "wp (let x = a in m x) Q E w \<longleftrightarrow> (let x = a in wp (m x) Q E w)"
  by simp

lemma wp_mono:
  assumes "wp m Q E w" and "\<And>x w'. Q x w' \<Longrightarrow> Q' x w'" and "\<And>w'. E w' \<Longrightarrow> E' w'"
  shows "wp m Q' E' w"
  using assms by (auto simp: wp_def split: prod.splits sum.splits)

lemma wp_lift_require [wp_simps]:
  "wp (bindP (liftP (require b e)) f) Q E w \<longleftrightarrow> (if b then wp (f ()) Q E w else E w)"
  by (simp add: wp_bindP wp_liftP require_def)

lemma bindP_assoc: "bindP (bindP m f) g = bindP m (\<lambda>x. bindP (f x) g)"
  by (auto simp: bindP_def fun_eq_iff split: prod.split sum.split)

lemma bindP_simps [simp]:
  "bindP (retP x) f = f x" "bindP (failP e) f = failP e" "bindP (liftP (Inr x)) f = f x"
  "bindP (liftP (Inl e)) f = failP e"
  by (simp_all add: bindP_def retP_def failP_def liftP_def)

section \<open>Calls that leave a trace\<close>

text \<open>
  The world of a process is the environment it acts on and the trace of the calls it made, each with
  what it answered.
\<close>

record ('c, 'e) world =
  world_trace :: "'c list"
  world_env :: 'e

definition call :: "('a \<Rightarrow> 'c) \<Rightarrow> ('e \<Rightarrow> 'a \<times> 'e) \<Rightarrow> (('c, 'e) world, 'a) proc" where
  "call event f = (\<lambda>w. case f (world_env w) of (x, e) \<Rightarrow>
     (Inr x, w\<lparr>world_trace := world_trace w @ [event x], world_env := e\<rparr>))"

definition callE :: "('a res \<Rightarrow> 'c) \<Rightarrow> ('e \<Rightarrow> 'a res \<times> 'e) \<Rightarrow> (('c, 'e) world, 'a) proc" where
  "callE event f = bindP (call event f) liftP"

definition extended :: "('c, 'e) world \<Rightarrow> 'c \<Rightarrow> 'e \<Rightarrow> ('c, 'e) world" where
  "extended w c e = w\<lparr>world_trace := world_trace w @ [c], world_env := e\<rparr>"

lemma extended_trace: "world_trace (extended w c e) = world_trace w @ [c]"
  by (simp add: extended_def)

lemma extended_env [simp]: "world_env (extended w c e) = e"
  by (simp add: extended_def)

lemma set_extended [simp]: "set (world_trace (extended w c e)) = insert c (set (world_trace w))"
  by (simp add: extended_trace)

lemma wp_call [wp_simps]:
  "wp (call event f) Q E w \<longleftrightarrow>
     (case f (world_env w) of (x, e) \<Rightarrow> Q x (extended w (event x) e))"
  by (simp add: wp_def call_def extended_def split: prod.split)

lemma wp_callE [wp_simps]:
  "wp (callE event f) Q E w \<longleftrightarrow>
     (case f (world_env w) of (x, e) \<Rightarrow>
        (case x of Inl _ \<Rightarrow> E (extended w (event x) e) | Inr y \<Rightarrow> Q y (extended w (event x) e)))"
  by (simp add: callE_def wp_simps split: prod.split sum.split)

end
