(* ===== verification/Effect_Driver.thy ===== *)
theory Effect_Driver
  imports Effect_Request Process
begin

text \<open>
  The interfaces of \<^verbatim>\<open>include/pkgctl/effect.h\<close> and \<^verbatim>\<open>effect_store.h\<close> an effectful operation runs against:
  the physical driver, the publication driver, the journal store and the optional sink of effect bodies.
  Each is a record of its virtual functions over an environment of type \<open>'e\<close>, which they share and may
  change at will; a call of one of them appends to the trace what was called and what it answered.
  The lease and the projections are queried through the driver that holds them.
\<close>

section \<open>Interfaces\<close>

record 'e effect_driver =
  driver_validate_lease :: "application_target \<Rightarrow> 'e \<Rightarrow> unit res \<times> 'e"
  driver_held :: "'e \<Rightarrow> bool \<times> 'e"
  driver_projection :: string
  driver_publication_projection :: string
  driver_execute_lifecycle :: "admitted_lifecycle_session \<Rightarrow> 'e \<Rightarrow> lifecycle_execution_result res \<times> 'e"
  driver_apply :: "package_application_request \<Rightarrow> 'e \<Rightarrow> application_receipt res \<times> 'e"
  driver_resume :: "package_application_request \<Rightarrow> string \<Rightarrow> 'e \<Rightarrow> application_receipt res \<times> 'e"
  driver_publish :: "state_publication_request \<Rightarrow> 'e \<Rightarrow> state_publication_receipt res \<times> 'e"

record 'e publication_driver =
  publisher_validate_scope :: "application_target \<Rightarrow> 'e \<Rightarrow> unit res \<times> 'e"
  publisher_read_state :: "'e \<Rightarrow> snapshot res \<times> 'e"
  publisher_publish :: "state_publication_request \<Rightarrow> 'e \<Rightarrow> state_publication_receipt res \<times> 'e"

record 'e effect_store =
  store_load_latest :: "session_identity \<Rightarrow> 'e \<Rightarrow> effect_attempt_record option res \<times> 'e"
  store_append :: "effect_attempt_record \<Rightarrow> 'e \<Rightarrow> effect_attempt_record res \<times> 'e"

record 'e body_sink =
  sink_lifecycle :: "lifecycle_execution_result \<Rightarrow> 'e \<Rightarrow> unit res \<times> 'e"
  sink_application :: "package_application_request \<Rightarrow> application_receipt \<Rightarrow> 'e \<Rightarrow> unit res \<times> 'e"
  sink_publication_request :: "state_publication_request \<Rightarrow> 'e \<Rightarrow> unit res \<times> 'e"
  sink_publication_receipt :: "state_publication_request \<Rightarrow> state_publication_receipt \<Rightarrow> 'e \<Rightarrow> unit res \<times> 'e"

datatype effect_event =
    Ev_validate_lease "unit res"
  | Ev_held bool
  | Ev_lifecycle admitted_lifecycle_session "lifecycle_execution_result res"
  | Ev_apply package_application_request "application_receipt res"
  | Ev_resume package_application_request string "application_receipt res"
  | Ev_publish state_publication_request "state_publication_receipt res"
  | Ev_read_state "snapshot res"
  | Ev_load session_identity "effect_attempt_record option res"
  | Ev_append effect_attempt_record "effect_attempt_record res"
  | Ev_keep_lifecycle lifecycle_execution_result "unit res"
  | Ev_keep_application application_receipt "unit res"
  | Ev_keep_request state_publication_request "unit res"
  | Ev_keep_receipt state_publication_receipt "unit res"

type_synonym ('e, 'a) effect_proc = "((effect_event, 'e) world, 'a) proc"

section \<open>Calls\<close>

definition validate_lease :: "'e effect_driver \<Rightarrow> application_target \<Rightarrow> ('e, unit) effect_proc" where
  "validate_lease D target = callE Ev_validate_lease (driver_validate_lease D target)"

definition lease_held :: "'e effect_driver \<Rightarrow> ('e, bool) effect_proc" where
  "lease_held D = call Ev_held (driver_held D)"

definition execute_lifecycle ::
  "'e effect_driver \<Rightarrow> admitted_lifecycle_session \<Rightarrow> ('e, lifecycle_execution_result) effect_proc" where
  "execute_lifecycle D session = callE (Ev_lifecycle session) (driver_execute_lifecycle D session)"

definition apply_application ::
  "'e effect_driver \<Rightarrow> package_application_request \<Rightarrow> ('e, application_receipt) effect_proc" where
  "apply_application D request = callE (Ev_apply request) (driver_apply D request)"

definition resume_application ::
  "'e effect_driver \<Rightarrow> package_application_request \<Rightarrow> string \<Rightarrow> ('e, application_receipt) effect_proc" where
  "resume_application D request declaration =
     callE (Ev_resume request declaration) (driver_resume D request declaration)"

definition publish_state ::
  "(state_publication_request \<Rightarrow> 'e \<Rightarrow> state_publication_receipt res \<times> 'e) \<Rightarrow>
   state_publication_request \<Rightarrow> ('e, state_publication_receipt) effect_proc" where
  "publish_state publish request = callE (Ev_publish request) (publish request)"

definition read_state :: "'e publication_driver \<Rightarrow> ('e, snapshot) effect_proc" where
  "read_state P = callE Ev_read_state (publisher_read_state P)"

definition load_latest ::
  "'e effect_store \<Rightarrow> session_identity \<Rightarrow> ('e, effect_attempt_record option) effect_proc" where
  "load_latest S attempt = callE (Ev_load attempt) (store_load_latest S attempt)"

text \<open>\<^verbatim>\<open>append_record\<close> of \<^verbatim>\<open>src/effect.cpp\<close>: the store must give back the snapshot it was given.\<close>

definition append_record ::
  "'e effect_store \<Rightarrow> effect_attempt_record res \<Rightarrow> ('e, effect_attempt_record) effect_proc" where
  "append_record S step =
     bindP (liftP step) (\<lambda>record.
     bindP (callE (Ev_append record) (store_append S record)) (\<lambda>stored.
       if ea_identity stored \<noteq> ea_identity record then failP (Error driver_contract_violation)
       else retP stored))"

text \<open>\<^verbatim>\<open>if (bodies != nullptr) bodies->retain_...(...)\<close>.\<close>

definition keep_lifecycle ::
  "'e body_sink option \<Rightarrow> lifecycle_execution_result \<Rightarrow> ('e, unit) effect_proc" where
  "keep_lifecycle bodies result =
     (case bodies of None \<Rightarrow> retP () | Some B \<Rightarrow> callE (Ev_keep_lifecycle result) (sink_lifecycle B result))"

definition keep_application ::
  "'e body_sink option \<Rightarrow> package_application_request \<Rightarrow> application_receipt \<Rightarrow> ('e, unit) effect_proc" where
  "keep_application bodies request receipt =
     (case bodies of None \<Rightarrow> retP ()
      | Some B \<Rightarrow> callE (Ev_keep_application receipt) (sink_application B request receipt))"

definition keep_request ::
  "'e body_sink option \<Rightarrow> state_publication_request \<Rightarrow> ('e, unit) effect_proc" where
  "keep_request bodies request =
     (case bodies of None \<Rightarrow> retP ()
      | Some B \<Rightarrow> callE (Ev_keep_request request) (sink_publication_request B request))"

definition keep_receipt ::
  "'e body_sink option \<Rightarrow> state_publication_request \<Rightarrow> state_publication_receipt \<Rightarrow> ('e, unit) effect_proc" where
  "keep_receipt bodies request receipt =
     (case bodies of None \<Rightarrow> retP ()
      | Some B \<Rightarrow> callE (Ev_keep_receipt receipt) (sink_publication_receipt B request receipt))"

section \<open>Checks on what a driver returns\<close>

definition validate_lifecycle_result ::
  "admitted_lifecycle_session \<Rightarrow> lifecycle_execution_result \<Rightarrow> unit res" where
  "validate_lifecycle_result session result =
     reject (Error driver_contract_violation)
       [lifecycle_result_node result \<noteq> lifecycle_node_id (lifecycle_node_of session),
        lifecycle_result_program result \<noteq> lifecycle_program (lifecycle_node_of session),
        \<not> lifecycle_result_is_lifecycle result,
        lifecycle_result_action result \<noteq> Some (lifecycle_action (lifecycle_node_of session)),
        lifecycle_result_root_view result \<noteq> lifecycle_execution_root session,
        lifecycle_result_credentials result \<noteq> lifecycle_credentials session,
        \<not> lifecycle_result_no_new_privileges result,
        \<not> lifecycle_result_network_denied result]"

definition receipt_authority_rejected ::
  "package_application_request \<Rightarrow> application_receipt \<Rightarrow> bool" where
  "receipt_authority_rejected request receipt \<longleftrightarrow>
     application_receipt_request receipt \<noteq> application_id request \<or>
     application_receipt_plan receipt \<noteq> application_plan request \<or>
     application_receipt_kind receipt \<noteq> application_kind request \<or>
     application_receipt_target receipt \<noteq> target_identity (application_target_of request) \<or>
     application_receipt_control receipt \<noteq> application_control request"

definition validate_application_receipt ::
  "effectful_operation_request \<Rightarrow> string \<Rightarrow> application_receipt \<Rightarrow> unit res" where
  "validate_application_receipt request state receipt =
     reject (Error driver_contract_violation)
       [receipt_authority_rejected (effect_application_request request) receipt \<or>
          application_receipt_projection receipt \<noteq> state,
        application_outcome receipt = Application_completed \<and> application_completed_evidence receipt = None]"

definition noncompleted_application_outcome ::
  "application_attempt_outcome \<Rightarrow> effectful_operation_outcome res" where
  "noncompleted_application_outcome outcome =
     (case classify_application_effect outcome of
        Class_definitive_failure \<Rightarrow> Inr Application_not_completed
      | Class_external_resolution_required \<Rightarrow> Inr Application_resolution_required
      | Class_completed \<Rightarrow> Inl (Error driver_contract_violation))"

definition publication_outcome :: "state_publication_receipt \<Rightarrow> effectful_operation_outcome" where
  "publication_outcome receipt =
     (case receipt_outcome receipt of
        Published \<Rightarrow> Effect_completed
      | Published_durability_unconfirmed \<Rightarrow> State_publication_indeterminate
      | Publication_indeterminate \<Rightarrow> State_publication_indeterminate
      | Stale_expected_state \<Rightarrow> State_publication_not_completed
      | Request_rejected \<Rightarrow> State_publication_not_completed
      | Failed_before_publication \<Rightarrow> State_publication_not_completed)"

section \<open>What is published\<close>

definition decode_hex :: "string \<Rightarrow> byte list res" where
  "decode_hex value =
     (if length value \<noteq> 64 then Inl (Error identity_failure)
      else bytes_of_hex (Error identity_failure) value)"

definition transaction_evidence ::
  "ext \<Rightarrow> effectful_operation_session \<Rightarrow> lifecycle_execution_result list \<Rightarrow> string \<Rightarrow>
   lifecycle_execution_result list \<Rightarrow> string res" where
  "transaction_evidence X session before application after =
     bindE (decode_hex (make_identity X ''pkgctl/transaction-evidence/1''
       ([effect_session_id session, to_string (length before)] @ map lifecycle_result_id before @
        [application, to_string (length after)] @ map lifecycle_result_id after))) (\<lambda>digest.
     Inr (evidence_of_sha256 X digest))"

definition project_publication ::
  "ext \<Rightarrow> effectful_operation_request \<Rightarrow> string \<Rightarrow> string \<Rightarrow> string \<Rightarrow> state_publication_request res" where
  "project_publication X request state evidence transaction =
     (let application = effect_application_request request in
      case application_body application of
        Some (Installation _) \<Rightarrow>
          (case effect_installation_reason request of
             None \<Rightarrow> effect_request_error
           | Some reason \<Rightarrow>
               project_completed X (effect_expected_state request) state application evidence (Some reason)
                 transaction)
      | Some (Upgrade _ _ _) \<Rightarrow>
          project_completed X (effect_expected_state request) state application evidence None transaction
      | Some (Removal _ _ _) \<Rightarrow>
          project_completed X (effect_expected_state request) state application evidence None transaction
      | None \<Rightarrow> effect_request_error)"

section \<open>The native driver\<close>

text \<open>
  \<^verbatim>\<open>native_transaction_effect_driver\<close>: what it hands to the foreign libraries. The archive is an optional
  reference; the overloads of \<^verbatim>\<open>pkgapply::apply\<close> and \<^verbatim>\<open>pkgapply::resume_application\<close> are one function each,
  which takes the archive an installation or upgrade needs.
\<close>

record 'e native_backend =
  native_validate_lease :: "string \<Rightarrow> application_target \<Rightarrow> 'e \<Rightarrow> unit res \<times> 'e"
  native_held :: "'e \<Rightarrow> bool \<times> 'e"
  native_execute :: "admitted_lifecycle_session \<Rightarrow> 'e \<Rightarrow> lifecycle_execution_result res \<times> 'e"
  native_apply :: "application_body \<Rightarrow> string \<Rightarrow> string option \<Rightarrow> 'e \<Rightarrow> application_receipt res \<times> 'e"
  native_resume :: "application_body \<Rightarrow> string \<Rightarrow> string \<Rightarrow> string option \<Rightarrow> 'e \<Rightarrow> application_receipt res \<times> 'e"
  native_compare_and_publish :: "state_publication_request \<Rightarrow> 'e \<Rightarrow> state_publication_receipt res \<times> 'e"

definition native_apply_application ::
  "'e native_backend \<Rightarrow> string \<Rightarrow> string option \<Rightarrow> package_application_request \<Rightarrow> 'e \<Rightarrow>
   application_receipt res \<times> 'e" where
  "native_apply_application B state archive request e =
     (case application_body request of
        None \<Rightarrow> (effect_session_error, e)
      | Some (Removal p package control) \<Rightarrow> native_apply B (Removal p package control) state None e
      | Some body \<Rightarrow>
          if archive = None then (effect_session_error, e) else native_apply B body state archive e)"

definition native_resume_application ::
  "'e native_backend \<Rightarrow> string \<Rightarrow> string option \<Rightarrow> package_application_request \<Rightarrow> string \<Rightarrow> 'e \<Rightarrow>
   application_receipt res \<times> 'e" where
  "native_resume_application B state archive request declaration e =
     (case application_body request of
        None \<Rightarrow> (effect_session_error, e)
      | Some (Removal p package control) \<Rightarrow>
          native_resume B (Removal p package control) state declaration None e
      | Some body \<Rightarrow>
          if archive = None then (effect_session_error, e)
          else native_resume B body state declaration archive e)"

definition native_driver ::
  "'e native_backend \<Rightarrow> string \<Rightarrow> string option \<Rightarrow> string option \<Rightarrow> 'e effect_driver" where
  "native_driver B state archive publication_state =
     \<lparr>driver_validate_lease = native_validate_lease B state, driver_held = native_held B,
      driver_projection = state,
      driver_publication_projection = (case publication_state of None \<Rightarrow> state | Some p \<Rightarrow> p),
      driver_execute_lifecycle = native_execute B,
      driver_apply = native_apply_application B state archive,
      driver_resume = native_resume_application B state archive,
      driver_publish = native_compare_and_publish B\<rparr>"

end
