(* ===== verification/Effect_Execution.thy ===== *)
theory Effect_Execution
  imports Effect_Driver
begin

text \<open>
  \<^verbatim>\<open>execute_effectful_operation\<close> and \<^verbatim>\<open>execute_effectful_operation_durable\<close> of \<^verbatim>\<open>src/effect.cpp\<close>: lifecycle
  nodes before the action, the application, lifecycle nodes after it, and the publication of the new
  state, under a lease that is asked for before every step; the durable version writes the intent of
  every effect to the journal before the effect, and its evidence after it. A loop over lifecycle
  sessions is a recursion over the sessions not yet executed; the code after the loop is its argument
  \<open>k\<close>, since the loop may return from the function.
\<close>

section \<open>Execution without a journal\<close>

fun plain_before ::
  "ext \<Rightarrow> 'e effect_driver \<Rightarrow> effectful_operation_session \<Rightarrow>
   (lifecycle_execution_result list \<Rightarrow> ('e, effectful_operation_result) effect_proc) \<Rightarrow>
   admitted_lifecycle_session list \<Rightarrow> lifecycle_execution_result list \<Rightarrow>
   ('e, effectful_operation_result) effect_proc" where
  "plain_before X D session k [] before = k before"
| "plain_before X D session k (v # vs) before =
     bindP (lease_held D) (\<lambda>held.
     if \<not> held then retP (seal_result X session Outer_lease_lost before None [] None None None None)
     else bindP (execute_lifecycle D v) (\<lambda>result.
       bindP (liftP (validate_lifecycle_result v result)) (\<lambda>_.
       if \<not> lifecycle_result_succeeded result
       then retP (seal_result X session Lifecycle_failed_before_application (before @ [result]) None []
                    None None None None)
       else plain_before X D session k vs (before @ [result]))))"

fun plain_after ::
  "ext \<Rightarrow> 'e effect_driver \<Rightarrow> effectful_operation_session \<Rightarrow> lifecycle_execution_result list \<Rightarrow>
   application_receipt \<Rightarrow> (lifecycle_execution_result list \<Rightarrow> ('e, effectful_operation_result) effect_proc) \<Rightarrow>
   admitted_lifecycle_session list \<Rightarrow> lifecycle_execution_result list \<Rightarrow>
   ('e, effectful_operation_result) effect_proc" where
  "plain_after X D session before application k [] after = k after"
| "plain_after X D session before application k (v # vs) after =
     bindP (lease_held D) (\<lambda>held.
     if \<not> held
     then retP (seal_result X session Outer_lease_lost before (Some application) after None None None None)
     else bindP (execute_lifecycle D v) (\<lambda>result.
       bindP (liftP (validate_lifecycle_result v result)) (\<lambda>_.
       if \<not> lifecycle_result_succeeded result
       then retP (seal_result X session Lifecycle_failed_after_application before (Some application)
                    (after @ [result]) None None None None)
       else plain_after X D session before application k vs (after @ [result]))))"

definition plain_publication ::
  "ext \<Rightarrow> 'e effect_driver \<Rightarrow> effectful_operation_session \<Rightarrow> lifecycle_execution_result list \<Rightarrow>
   application_receipt \<Rightarrow> lifecycle_execution_result list \<Rightarrow> ('e, effectful_operation_result) effect_proc" where
  "plain_publication X D session before application after =
     bindP (lease_held D) (\<lambda>held.
     if \<not> held
     then retP (seal_result X session Outer_lease_lost before (Some application) after None None None None)
     else case application_completed_evidence application of
       None \<Rightarrow> failP Undefined_behaviour
     | Some completed \<Rightarrow>
         bindP (liftP (transaction_evidence X session before completed after)) (\<lambda>transaction.
         bindP (liftP (project_publication X (effect_request_of session) (driver_projection D) completed
                         transaction)) (\<lambda>request.
         bindP (publish_state (driver_publish D) request) (\<lambda>receipt.
         if receipt_request receipt \<noteq> publication_request_id request
         then failP (Error driver_contract_violation)
         else bindP (lease_held D) (\<lambda>still_held.
           retP (seal_result X session
             (if \<not> still_held then Outer_lease_lost else publication_outcome receipt) before
             (Some application) after (Some transaction) (Some request) (Some receipt) None))))))"

definition plain_application ::
  "ext \<Rightarrow> 'e effect_driver \<Rightarrow> effectful_operation_session \<Rightarrow> lifecycle_execution_result list \<Rightarrow>
   ('e, effectful_operation_result) effect_proc" where
  "plain_application X D session before =
     bindP (lease_held D) (\<lambda>held.
     if \<not> held then retP (seal_result X session Outer_lease_lost before None [] None None None None)
     else bindP (apply_application D (effect_application_request (effect_request_of session))) (\<lambda>application.
       bindP (liftP (validate_application_receipt (effect_request_of session) (driver_projection D)
                       application)) (\<lambda>_.
       if application_outcome application \<noteq> Application_completed
       then bindP (liftP (noncompleted_application_outcome (application_outcome application))) (\<lambda>outcome.
         retP (seal_result X session outcome before (Some application) [] None None None None))
       else plain_after X D session before application (plain_publication X D session before application)
              (effect_session_after session) [])))"

definition execute_effectful_operation ::
  "ext \<Rightarrow> 'e effect_driver \<Rightarrow> effectful_operation_session \<Rightarrow> ('e, effectful_operation_result) effect_proc" where
  "execute_effectful_operation X D session =
     bindP (validate_lease D (application_target_of (effect_application_request (effect_request_of session))))
       (\<lambda>_. plain_before X D session (plain_application X D session) (effect_session_before session) [])"

section \<open>Execution with a journal\<close>

text \<open>Sealing the journal and then the result with the same outcome.\<close>

definition seal_both ::
  "ext \<Rightarrow> 'e effect_store \<Rightarrow> effect_attempt_record \<Rightarrow> effectful_operation_session \<Rightarrow>
   effectful_operation_outcome \<Rightarrow> lifecycle_execution_result list \<Rightarrow> application_receipt option \<Rightarrow>
   lifecycle_execution_result list \<Rightarrow> string option \<Rightarrow> state_publication_request option \<Rightarrow>
   state_publication_receipt option \<Rightarrow> ('e, effectful_operation_result) effect_proc" where
  "seal_both X S journal session outcome before application after transaction request receipt =
     bindP (append_record S (seal_terminal X journal outcome None)) (\<lambda>_.
       retP (seal_result X session outcome before application after transaction request receipt None))"

fun durable_before ::
  "ext \<Rightarrow> 'e effect_driver \<Rightarrow> 'e effect_store \<Rightarrow> 'e body_sink option \<Rightarrow> effectful_operation_session \<Rightarrow>
   (effect_attempt_record \<Rightarrow> lifecycle_execution_result list \<Rightarrow> ('e, effectful_operation_result) effect_proc) \<Rightarrow>
   admitted_lifecycle_session list \<Rightarrow> effect_attempt_record \<Rightarrow> lifecycle_execution_result list \<Rightarrow>
   ('e, effectful_operation_result) effect_proc" where
  "durable_before X D S bodies session k [] journal before = k journal before"
| "durable_before X D S bodies session k (v # vs) journal before =
     bindP (lease_held D) (\<lambda>held.
     if \<not> held then seal_both X S journal session Outer_lease_lost before None [] None None None
     else bindP (append_record S (begin_before X journal (word_of_nat (length before)))) (\<lambda>intent.
       bindP (execute_lifecycle D v) (\<lambda>result.
       bindP (liftP (validate_lifecycle_result v result)) (\<lambda>_.
       bindP (keep_lifecycle bodies result) (\<lambda>_.
       bindP (append_record S (complete_before X intent result)) (\<lambda>journal'.
       if \<not> lifecycle_result_succeeded result
       then seal_both X S journal' session Lifecycle_failed_before_application (before @ [result]) None []
              None None None
       else durable_before X D S bodies session k vs journal' (before @ [result])))))))"

fun durable_after ::
  "ext \<Rightarrow> 'e effect_driver \<Rightarrow> 'e effect_store \<Rightarrow> 'e body_sink option \<Rightarrow> effectful_operation_session \<Rightarrow>
   lifecycle_execution_result list \<Rightarrow> application_receipt \<Rightarrow>
   (effect_attempt_record \<Rightarrow> lifecycle_execution_result list \<Rightarrow> ('e, effectful_operation_result) effect_proc) \<Rightarrow>
   admitted_lifecycle_session list \<Rightarrow> effect_attempt_record \<Rightarrow> lifecycle_execution_result list \<Rightarrow>
   ('e, effectful_operation_result) effect_proc" where
  "durable_after X D S bodies session before application k [] journal after = k journal after"
| "durable_after X D S bodies session before application k (v # vs) journal after =
     bindP (lease_held D) (\<lambda>held.
     if \<not> held
     then seal_both X S journal session Outer_lease_lost before (Some application) after None None None
     else bindP (append_record S (begin_after X journal (word_of_nat (length after)))) (\<lambda>intent.
       bindP (execute_lifecycle D v) (\<lambda>result.
       bindP (liftP (validate_lifecycle_result v result)) (\<lambda>_.
       bindP (keep_lifecycle bodies result) (\<lambda>_.
       bindP (append_record S (complete_after X intent result)) (\<lambda>journal'.
       if \<not> lifecycle_result_succeeded result
       then seal_both X S journal' session Lifecycle_failed_after_application before (Some application)
              (after @ [result]) None None None
       else durable_after X D S bodies session before application k vs journal' (after @ [result])))))))"

definition durable_publication ::
  "ext \<Rightarrow> 'e effect_driver \<Rightarrow> 'e effect_store \<Rightarrow> 'e body_sink option \<Rightarrow> effectful_operation_session \<Rightarrow>
   lifecycle_execution_result list \<Rightarrow> application_receipt \<Rightarrow> effect_attempt_record \<Rightarrow>
   lifecycle_execution_result list \<Rightarrow> ('e, effectful_operation_result) effect_proc" where
  "durable_publication X D S bodies session before application journal after =
     bindP (lease_held D) (\<lambda>held.
     if \<not> held
     then seal_both X S journal session Outer_lease_lost before (Some application) after None None None
     else case application_completed_evidence application of
       None \<Rightarrow> failP Undefined_behaviour
     | Some completed \<Rightarrow>
         bindP (liftP (transaction_evidence X session before completed after)) (\<lambda>transaction.
         bindP (liftP (project_publication X (effect_request_of session) (driver_projection D) completed
                         transaction)) (\<lambda>request.
         bindP (keep_request bodies request) (\<lambda>_.
         bindP (append_record S (begin_publication X journal transaction request)) (\<lambda>intent.
         bindP (publish_state (driver_publish D) request) (\<lambda>receipt.
         if receipt_request receipt \<noteq> publication_request_id request
         then failP (Error driver_contract_violation)
         else bindP (keep_receipt bodies request receipt) (\<lambda>_.
           bindP (append_record S (complete_publication X intent receipt)) (\<lambda>journal'.
           bindP (lease_held D) (\<lambda>still_held.
           if \<not> still_held
           then seal_both X S journal' session Outer_lease_lost before (Some application) after
                  (Some transaction) (Some request) (Some receipt)
           else if publication_outcome receipt \<noteq> State_publication_indeterminate
           then seal_both X S journal' session (publication_outcome receipt) before (Some application) after
                  (Some transaction) (Some request) (Some receipt)
           else retP (seal_result X session (publication_outcome receipt) before (Some application) after
                  (Some transaction) (Some request) (Some receipt) None))))))))))"

definition durable_application ::
  "ext \<Rightarrow> 'e effect_driver \<Rightarrow> 'e effect_store \<Rightarrow> 'e body_sink option \<Rightarrow> effectful_operation_session \<Rightarrow>
   effect_attempt_record \<Rightarrow> lifecycle_execution_result list \<Rightarrow> ('e, effectful_operation_result) effect_proc" where
  "durable_application X D S bodies session journal before =
     bindP (lease_held D) (\<lambda>held.
     if \<not> held then seal_both X S journal session Outer_lease_lost before None [] None None None
     else bindP (append_record S (begin_application X journal)) (\<lambda>intent.
       bindP (apply_application D (effect_application_request (effect_request_of session))) (\<lambda>application.
       bindP (liftP (validate_application_receipt (effect_request_of session) (driver_projection D)
                       application)) (\<lambda>_.
       bindP (keep_application bodies (effect_application_request (effect_request_of session)) application) (\<lambda>_.
       bindP (append_record S (complete_application X intent application)) (\<lambda>journal'.
       if application_outcome application \<noteq> Application_completed
       then bindP (liftP (noncompleted_application_outcome (application_outcome application))) (\<lambda>outcome.
         if outcome = Application_not_completed
         then seal_both X S journal' session outcome before (Some application) [] None None None
         else retP (seal_result X session outcome before (Some application) [] None None None None))
       else durable_after X D S bodies session before application
              (durable_publication X D S bodies session before application)
              (effect_session_after session) journal' []))))))"

definition execute_effectful_operation_durable ::
  "ext \<Rightarrow> 'e effect_driver \<Rightarrow> 'e effect_store \<Rightarrow> 'e body_sink option \<Rightarrow> effectful_operation_session \<Rightarrow>
   nonce \<Rightarrow> ('e, effectful_operation_result) effect_proc" where
  "execute_effectful_operation_durable X D S bodies session nonce =
     bindP (validate_lease D (application_target_of (effect_application_request (effect_request_of session))))
       (\<lambda>_. bindP (append_record S
                (admit X (effect_session_id session) (word_of_nat (effect_session_before_count session))
                   (word_of_nat (effect_session_after_count session)) nonce)) (\<lambda>journal.
         durable_before X D S bodies session (durable_application X D S bodies session)
           (effect_session_before session) journal []))"

end
