(* ===== verification/Effect_Orderly.thy ===== *)
theory Effect_Orderly
  imports Effect_Execution Effect_Trace
begin

text \<open>
  What a trace of an effectful operation must look like, whatever the environment answers: the records
  given to the store form one attempt, an effect comes directly after the record of its intent, which
  comes directly after the lease was found held, and evidence is written only for what the driver
  returned, after its body was kept. The predicate judges every event by the events before it.
\<close>

section \<open>Reading a trace\<close>

fun stored :: "effect_event \<Rightarrow> effect_attempt_record option" where
  "stored (Ev_append r (Inr _)) = Some r"
| "stored _ = None"

definition next_durable ::
  "effect_attempt_record option \<Rightarrow> effect_event \<Rightarrow> effect_attempt_record option" where
  "next_durable j ev = (case stored ev of None \<Rightarrow> j | Some r \<Rightarrow> Some r)"

text \<open>The last record the store accepted, from the record \<open>r0\<close> on disk at the start.\<close>

definition durable ::
  "effect_attempt_record option \<Rightarrow> effect_event list \<Rightarrow> effect_attempt_record option" where
  "durable r0 tr = foldl next_durable r0 tr"

lemma durable_simps [simp]:
  "durable r0 [] = r0"
  "durable r0 (tr @ [ev]) = next_durable (durable r0 tr) ev"
  by (simp_all add: durable_def)

fun is_effect :: "effect_event \<Rightarrow> bool" where
  "is_effect (Ev_lifecycle _ _) = True"
| "is_effect (Ev_apply _ _) = True"
| "is_effect (Ev_resume _ _ _) = True"
| "is_effect (Ev_publish _ _) = True"
| "is_effect _ = False"

definition effects :: "effect_event list \<Rightarrow> effect_event list" where
  "effects tr = filter is_effect tr"

lemma effects_simps [simp]:
  "effects [] = []"
  "effects (tr @ [ev]) = effects tr @ (if is_effect ev then [ev] else [])"
  by (simp_all add: effects_def)

text \<open>The effect performed since the last record was stored, if any.\<close>

definition next_pending :: "effect_event option \<Rightarrow> effect_event \<Rightarrow> effect_event option" where
  "next_pending p ev = (if stored ev \<noteq> None then None else if is_effect ev then Some ev else p)"

definition pending_effect :: "effect_event list \<Rightarrow> effect_event option" where
  "pending_effect tr = foldl next_pending None tr"

lemma pending_effect_simps [simp]:
  "pending_effect [] = None"
  "pending_effect (tr @ [ev]) = next_pending (pending_effect tr) ev"
  by (simp_all add: pending_effect_def)

lemma next_pending_stored [simp]:
  "next_pending p (Ev_append r (Inr x)) = None"
  "stored ev = None \<Longrightarrow> next_pending p ev = (if is_effect ev then Some ev else p)"
  by (simp_all add: next_pending_def)

lemma next_durable_stored [simp]:
  "next_durable j (Ev_append r (Inr x)) = Some r"
  "stored ev = None \<Longrightarrow> next_durable j ev = j"
  by (simp_all add: next_durable_def)

definition lifecycle_fact_of :: "lifecycle_execution_result \<Rightarrow> effect_lifecycle_fact" where
  "lifecycle_fact_of result =
     \<lparr>fact_result = lifecycle_result_id result, fact_succeeded = lifecycle_result_succeeded result\<rparr>"

section \<open>Why an event may happen\<close>

text \<open>The lifecycle session an intent announces.\<close>

definition announced ::
  "effectful_operation_session \<Rightarrow> effect_attempt_record \<Rightarrow> admitted_lifecycle_session option" where
  "announced s j =
     (if ea_stage j = Before_intent \<and> length (ea_before j) < effect_session_before_count s
      then Some (effect_session_before s ! length (ea_before j))
      else if ea_stage j = After_intent \<and> length (ea_after j) < effect_session_after_count s
      then Some (effect_session_after s ! length (ea_after j))
      else None)"

text \<open>
  The evidence a new record adds is what the driver returned since the last record, or, for the application on a restart,
  the receipt the checkpoint brought (\<open>known\<close>).
\<close>

definition evidenced ::
  "application_receipt option \<Rightarrow> effect_event list \<Rightarrow> effect_attempt_record \<Rightarrow> bool" where
  "evidenced known tr r \<longleftrightarrow>
     (ea_stage r = Before_terminal \<longrightarrow> (\<exists>v result. pending_effect tr = Some (Ev_lifecycle v (Inr result)) \<and>
        ea_before r \<noteq> [] \<and> last (ea_before r) = lifecycle_fact_of result)) \<and>
     (ea_stage r = After_terminal \<longrightarrow> (\<exists>v result. pending_effect tr = Some (Ev_lifecycle v (Inr result)) \<and>
        ea_after r \<noteq> [] \<and> last (ea_after r) = lifecycle_fact_of result)) \<and>
     (ea_stage r = Application_terminal \<longrightarrow> (\<exists>receipt. ea_application r = Some (application_fact_of receipt) \<and>
        (known = Some receipt \<or> (\<exists>q. pending_effect tr = Some (Ev_apply q (Inr receipt))) \<or>
         (\<exists>q d. pending_effect tr = Some (Ev_resume q d (Inr receipt)))))) \<and>
     (ea_stage r = Publication_terminal \<longrightarrow> (\<exists>q receipt. pending_effect tr = Some (Ev_publish q (Inr receipt)) \<and>
        ea_publication r = Some (publication_fact_of receipt)))"

text \<open>With a sink, the body of what a record names was kept before.\<close>

definition kept ::
  "application_receipt option \<Rightarrow> effect_event list \<Rightarrow> effect_attempt_record \<Rightarrow> bool" where
  "kept known tr r \<longleftrightarrow>
     (ea_stage r = Before_terminal \<longrightarrow> (\<exists>result. Ev_keep_lifecycle result (Inr ()) \<in> set tr \<and>
        lifecycle_fact_of result = last (ea_before r))) \<and>
     (ea_stage r = After_terminal \<longrightarrow> (\<exists>result. Ev_keep_lifecycle result (Inr ()) \<in> set tr \<and>
        lifecycle_fact_of result = last (ea_after r))) \<and>
     (ea_stage r = Application_terminal \<longrightarrow> (\<exists>receipt. ea_application r = Some (application_fact_of receipt) \<and>
        (known = Some receipt \<or> Ev_keep_application receipt (Inr ()) \<in> set tr))) \<and>
     (ea_stage r = Publication_intent \<longrightarrow> (\<exists>request. Ev_keep_request request (Inr ()) \<in> set tr \<and>
        ea_publication_request r = Some (publication_request_id request))) \<and>
     (ea_stage r = Publication_terminal \<longrightarrow> (\<exists>receipt. Ev_keep_receipt receipt (Inr ()) \<in> set tr \<and>
        ea_publication r = Some (publication_fact_of receipt)))"

definition unpublished :: "effect_event list \<Rightarrow> bool" where
  "unpublished tr \<longleftrightarrow> (\<forall>ev \<in> set tr. \<forall>q r. ev \<noteq> Ev_publish q r)"

definition directly_intended ::
  "(effect_attempt_record \<Rightarrow> bool) \<Rightarrow> effect_event list \<Rightarrow> bool" where
  "directly_intended P tr \<longleftrightarrow> (\<exists>tr' j. tr = tr' @ [Ev_held True, Ev_append j (Inr j)] \<and> P j)"

text \<open>
  A publication follows the record of its intent directly, which follows the lease that was found held, with
  nothing but the body of the request kept between the two; or it is published again on a restart from its
  intent, when the lease was validated and neither an effect was performed nor a record stored since.
\<close>

definition publication_led ::
  "effect_attempt_record option \<Rightarrow> effect_event list \<Rightarrow> state_publication_request \<Rightarrow> bool" where
  "publication_led r0 tr q \<longleftrightarrow>
     (\<exists>tr' keeps j. tr = tr' @ Ev_held True # keeps @ [Ev_append j (Inr j)] \<and>
        keeps \<in> {[], [Ev_keep_request q (Inr ())]}) \<or>
     (durable r0 tr = r0 \<and> effects tr = [] \<and> Ev_validate_lease (Inr ()) \<in> set tr)"

fun justified ::
  "ext \<Rightarrow> effectful_operation_session \<Rightarrow> bool \<Rightarrow> application_receipt option \<Rightarrow> effect_attempt_record option \<Rightarrow>
   effect_event list \<Rightarrow> effect_event \<Rightarrow> bool" where
  "justified X s bodies known r0 tr (Ev_append r _) \<longleftrightarrow>
     (case durable r0 tr of
        None \<Rightarrow> (\<exists>nonce. admit X (effect_session_id s) (word_of_nat (effect_session_before_count s))
                  (word_of_nat (effect_session_after_count s)) nonce = Inr r)
      | Some j \<Rightarrow> effect_step X j r) \<and>
     evidenced known tr r \<and> (bodies \<longrightarrow> kept known tr r)"
| "justified X s bodies known r0 tr (Ev_lifecycle v _) \<longleftrightarrow>
     directly_intended (\<lambda>j. announced s j = Some v) tr"
| "justified X s bodies known r0 tr (Ev_apply q _) \<longleftrightarrow>
     directly_intended (\<lambda>j. ea_stage j = Application_intent) tr \<and>
     q = effect_application_request (effect_request_of s)"
| "justified X s bodies known r0 tr (Ev_resume q d _) \<longleftrightarrow>
     (\<exists>j. durable r0 tr = Some j \<and> ea_stage j = Application_intent) \<and> effects tr = [] \<and>
     durable r0 tr = r0 \<and> (\<exists>tr'. tr = tr' @ [Ev_held True]) \<and>
     q = effect_application_request (effect_request_of s)"
| "justified X s bodies known r0 tr (Ev_publish q _) \<longleftrightarrow>
     (\<exists>j. durable r0 tr = Some j \<and> ea_stage j = Publication_intent \<and>
       ea_publication_request j = Some (publication_request_id q)) \<and>
     unpublished tr \<and> publication_led r0 tr q"
| "justified X s bodies known r0 tr _ \<longleftrightarrow> True"

definition orderly ::
  "ext \<Rightarrow> effectful_operation_session \<Rightarrow> bool \<Rightarrow> application_receipt option \<Rightarrow> effect_attempt_record option \<Rightarrow>
   effect_event list \<Rightarrow> bool" where
  "orderly X s bodies known r0 tr \<longleftrightarrow>
     (\<forall>i < length tr. justified X s bodies known r0 (take i tr) (tr ! i))"

lemma orderly_Nil [simp]: "orderly X s bodies known r0 []"
  by (simp add: orderly_def)

lemma orderly_snoc [simp]:
  "orderly X s bodies known r0 (tr @ [ev]) \<longleftrightarrow>
     orderly X s bodies known r0 tr \<and> justified X s bodies known r0 tr ev"
  by (auto simp: orderly_def nth_append less_Suc_eq)

lemma orderly_prefix: "orderly X s bodies known r0 (tr @ tr') \<Longrightarrow> orderly X s bodies known r0 tr"
  by (induction tr' rule: rev_induct) (simp_all flip: append_assoc)

lemma extended_simps [simp]:
  "orderly X s bodies known r0 (world_trace (extended w ev e)) \<longleftrightarrow>
     orderly X s bodies known r0 (world_trace w) \<and> justified X s bodies known r0 (world_trace w) ev"
  "durable r0 (world_trace (extended w ev e)) = next_durable (durable r0 (world_trace w)) ev"
  "effects (world_trace (extended w ev e)) = effects (world_trace w) @ (if is_effect ev then [ev] else [])"
  "pending_effect (world_trace (extended w ev e)) = next_pending (pending_effect (world_trace w)) ev"
  by (simp_all add: extended_trace)

lemma unpublished_extended [simp]:
  "unpublished (world_trace (extended w ev e)) \<longleftrightarrow> unpublished (world_trace w) \<and> (\<forall>q r. ev \<noteq> Ev_publish q r)"
  by (auto simp: unpublished_def)

lemma directly_intendedI:
  assumes "\<exists>tr'. world_trace w = tr' @ [Ev_held True]" and "P j"
  shows "directly_intended P (world_trace (extended w (Ev_append j (Inr j)) e))"
  using assms by (auto simp: directly_intended_def extended_trace)

lemma publication_ledI:
  assumes "world_trace w = tr' @ Ev_held True # keeps" and "keeps \<in> {[], [Ev_keep_request q (Inr ())]}"
  shows "publication_led r0 (world_trace (extended w (Ev_append j (Inr j)) e)) q"
  using assms by (auto simp: publication_led_def extended_trace)

section \<open>What the operations leave in a record\<close>

lemma lifecycle_ok_id: "session_identity_from_hex i = Inr h \<Longrightarrow> h = i"
  by (simp add: session_identity_from_hex_Inr)

text \<open>
  The evidence of a record, as the controller holds it in its variables, compared the way a restart
  checkpoint compares them: an identity and its absence count as the same text.
\<close>

fun application_matches :: "effect_application_fact option \<Rightarrow> application_receipt option \<Rightarrow> bool" where
  "application_matches None None = True"
| "application_matches (Some a) (Some receipt) \<longleftrightarrow>
     application_receipt_id receipt = app_receipt a \<and> application_outcome receipt = app_outcome a \<and>
     text_of (application_journal receipt) = text_of (app_journal a) \<and>
     text_of (application_completed_evidence receipt) = text_of (app_completed_evidence a)"
| "application_matches _ _ = False"

fun publication_matches :: "effect_publication_fact option \<Rightarrow> state_publication_receipt option \<Rightarrow> bool" where
  "publication_matches None None = True"
| "publication_matches (Some p) (Some receipt) \<longleftrightarrow>
     receipt_id receipt = pub_receipt p \<and> receipt_outcome receipt = pub_outcome p"
| "publication_matches _ _ = False"

lemma application_matches_simps [simp]:
  "application_matches a None \<longleftrightarrow> a = None" "application_matches None q \<longleftrightarrow> q = None"
  "application_matches (Some (application_fact_of receipt)) (Some receipt)"
  by (cases a; cases q; simp add: application_fact_of_def)+

lemma publication_matches_simps [simp]:
  "publication_matches a None \<longleftrightarrow> a = None" "publication_matches None q \<longleftrightarrow> q = None"
  "publication_matches (Some (publication_fact_of receipt)) (Some receipt)"
  by (cases a; cases q; simp add: publication_fact_of_def)+

definition matches ::
  "effectful_operation_session \<Rightarrow> effect_attempt_record \<Rightarrow> lifecycle_execution_result list \<Rightarrow>
   application_receipt option \<Rightarrow> lifecycle_execution_result list \<Rightarrow> string option \<Rightarrow>
   state_publication_request option \<Rightarrow> state_publication_receipt option \<Rightarrow> bool" where
  "matches s j before application after transaction request receipt \<longleftrightarrow>
     ea_session j = effect_session_id s \<and>
     ea_before_total j = word_of_nat (effect_session_before_count s) \<and>
     ea_after_total j = word_of_nat (effect_session_after_count s) \<and>
     ea_before j = map lifecycle_fact_of before \<and> application_matches (ea_application j) application \<and>
     ea_after j = map lifecycle_fact_of after \<and> ea_transaction_evidence j = transaction \<and>
     ea_publication_request j = map_option publication_request_id request \<and>
     publication_matches (ea_publication j) receipt"

named_theorems op_results "what a journal operation makes of a record"

lemma begin_before_result [op_results]:
  assumes "begin_before X j i = Inr r" and "matches s j before application after te pr pp"
  shows "ea_stage r = Before_intent \<and> matches s r before application after te pr pp"
  using assms by (auto simp: begin_before_def Let_def successor_Inr matches_def split: if_splits)

lemma complete_before_result [op_results]:
  assumes "complete_before X j result = Inr r" and "matches s j before application after te pr pp"
  shows "ea_stage j = Before_intent \<and> ea_stage r = Before_terminal \<and>
    matches s r (before @ [result]) application after te pr pp"
  using assms
  by (auto simp: complete_before_def successor_Inr matches_def bindE_Inr_iff lifecycle_fact_of_def
      dest!: lifecycle_ok_id split: if_splits)

lemma begin_application_result [op_results]:
  assumes "begin_application X j = Inr r" and "matches s j before None [] None None None"
  shows "ea_stage r = Application_intent \<and> matches s r before None [] None None None"
  using assms by (auto simp: begin_application_def Let_def successor_Inr matches_def split: if_splits)

lemma complete_application_result [op_results]:
  assumes "complete_application X j receipt = Inr r" and "matches s j before None [] None None None"
  shows "ea_stage r = Application_terminal \<and> matches s r before (Some receipt) [] None None None \<and>
    ea_application r = Some (application_fact_of receipt)"
  using assms
  by (auto simp: complete_application_def successor_Inr matches_def application_fact_of_def split: if_splits)

lemma begin_after_result [op_results]:
  assumes "begin_after X j i = Inr r" and "matches s j before application after te pr pp"
  shows "ea_stage r = After_intent \<and> matches s r before application after te pr pp"
  using assms by (auto simp: begin_after_def Let_def successor_Inr matches_def split: if_splits)

lemma complete_after_result [op_results]:
  assumes "complete_after X j result = Inr r" and "matches s j before application after te pr pp"
  shows "ea_stage j = After_intent \<and> ea_stage r = After_terminal \<and>
    matches s r before application (after @ [result]) te pr pp"
  using assms
  by (auto simp: complete_after_def successor_Inr matches_def bindE_Inr_iff lifecycle_fact_of_def
      dest!: lifecycle_ok_id split: if_splits)

lemma begin_publication_result [op_results]:
  assumes "begin_publication X j transaction request = Inr r"
    and "matches s j before application after None None None"
  shows "ea_stage r = Publication_intent \<and>
    matches s r before application after (Some transaction) (Some request) None"
  using assms by (auto simp: begin_publication_def Let_def successor_Inr matches_def split: if_splits)

lemma complete_publication_result [op_results]:
  assumes "complete_publication X j receipt = Inr r" and "matches s j before application after te pr None"
  shows "ea_stage j = Publication_intent \<and> ea_stage r = Publication_terminal \<and>
    matches s r before application after te pr (Some receipt) \<and> ea_publication r = Some (publication_fact_of receipt)"
  using assms
  by (auto simp: complete_publication_def successor_Inr matches_def publication_fact_of_def split: if_splits)

lemma seal_terminal_result [op_results]:
  assumes "seal_terminal X j outcome reconciled = Inr r" and "matches s j before application after te pr pp"
  shows "ea_stage r = Terminal \<and> ea_terminal_outcome r = Some outcome \<and> ea_reconciled_state r = reconciled \<and>
    matches s r before application after te pr pp"
  using assms by (auto simp: seal_terminal_def successor_Inr matches_def bindE_Inr_iff)

lemma admit_result:
  assumes "admit X (effect_session_id s) (word_of_nat (effect_session_before_count s))
      (word_of_nat (effect_session_after_count s)) nonce = Inr r"
  shows "ea_stage r = Admitted \<and> matches s r [] None [] None None None"
  using admit_Inr(3) [OF assms] by (simp add: matches_def admitted_record_def)

section \<open>Processes that keep a trace orderly\<close>

definition orderly_world ::
  "ext \<Rightarrow> effectful_operation_session \<Rightarrow> bool \<Rightarrow> application_receipt option \<Rightarrow> effect_attempt_record option \<Rightarrow>
   (effect_event, 'e) world \<Rightarrow> bool" where
  "orderly_world X s bodies known r0 w = orderly X s bodies known r0 (world_trace w)"

text \<open>The store gives back the record it was given, when it gives one back.\<close>

definition store_echoes :: "'e effect_store \<Rightarrow> bool" where
  "store_echoes S \<longleftrightarrow> (\<forall>r e r' e'. store_append S r e = (Inr r', e') \<longrightarrow> r' = r)"

lemma wp_append_record:
  assumes "store_echoes S"
    and "\<And>e. step = Inl e \<Longrightarrow> E w"
    and "\<And>r x e. step = Inr r \<Longrightarrow> E (extended w (Ev_append r x) e)"
    and "\<And>r e. step = Inr r \<Longrightarrow> Q r (extended w (Ev_append r (Inr r)) e)"
  shows "wp (append_record S step) Q E w"
proof (cases step)
  case (Inl e)
  then show ?thesis using assms(2) by (simp add: append_record_def wp_simps)
next
  case (Inr r)
  obtain x e where x: "store_append S r (world_env w) = (x, e)" by fastforce
  have "x = Inr r' \<Longrightarrow> r' = r" for r' using assms(1) x by (auto simp: store_echoes_def)
  then show ?thesis using assms(3) [OF Inr] assms(4) [OF Inr] Inr x
    by (cases x) (auto simp: append_record_def wp_simps)
qed

lemma wp_callE_all:
  assumes "\<And>x e. E (extended w (event x) e)" and "\<And>y e. Q y (extended w (event (Inr y)) e)"
  shows "wp (callE event f) Q E w"
  using assms by (auto simp: wp_simps split: prod.split sum.split)

lemma wp_call_all:
  assumes "\<And>x e. Q x (extended w (event x) e)"
  shows "wp (call event f) Q E w"
  using assms by (auto simp: wp_simps split: prod.split)

end
