(* ===== verification/Effect_Writes.thy ===== *)
theory Effect_Writes
  imports Effect_Orderly
begin

text \<open>
  Durable execution keeps its trace orderly, whatever the environment answers and wherever it throws,
  and when it returns, the journal and the result tell the same story.
\<close>

section \<open>Agreement of the journal and the result\<close>

definition concluded ::
  "effectful_operation_session \<Rightarrow> effect_attempt_record \<Rightarrow> effectful_operation_result \<Rightarrow> bool" where
  "concluded s j result \<longleftrightarrow>
     effect_session_of result = s \<and>
     matches s j (effect_before result) (effect_application result) (effect_after result)
       (effect_transaction_evidence result) (effect_publication_request result)
       (effect_publication_receipt result) \<and>
     ((ea_stage j = Terminal \<and> ea_terminal_outcome j = Some (effect_outcome result) \<and>
        ea_reconciled_state j = effect_reconciled_state result) \<or>
      (ea_stage j = Application_terminal \<and> effect_outcome result = Application_resolution_required \<and>
        effect_reconciled_state result = None) \<or>
      (ea_stage j = Publication_terminal \<and> effect_outcome result = State_publication_indeterminate \<and>
        effect_reconciled_state result = None))"

definition settled ::
  "ext \<Rightarrow> effectful_operation_session \<Rightarrow> bool \<Rightarrow> application_receipt option \<Rightarrow> effect_attempt_record option \<Rightarrow>
   (effect_event, 'e) world \<Rightarrow> effect_attempt_record \<Rightarrow> lifecycle_execution_result list \<Rightarrow>
   application_receipt option \<Rightarrow> lifecycle_execution_result list \<Rightarrow> string option \<Rightarrow>
   state_publication_request option \<Rightarrow> state_publication_receipt option \<Rightarrow> bool" where
  "settled X s bodies known r0 w j before application after te pr pp \<longleftrightarrow>
     orderly X s bodies known r0 (world_trace w) \<and> durable r0 (world_trace w) = Some j \<and>
     matches s j before application after te pr pp \<and> (pp = None \<longrightarrow> unpublished (world_trace w))"

abbreviation orderly_end ::
  "ext \<Rightarrow> effectful_operation_session \<Rightarrow> bool \<Rightarrow> application_receipt option \<Rightarrow> effect_attempt_record option \<Rightarrow>
   (effect_event, 'e) world \<Rightarrow> bool" where
  "orderly_end X s bodies known r0 w \<equiv> orderly X s bodies known r0 (world_trace w)"

abbreviation concluded_end ::
  "ext \<Rightarrow> effectful_operation_session \<Rightarrow> bool \<Rightarrow> application_receipt option \<Rightarrow> effect_attempt_record option \<Rightarrow>
   effectful_operation_result \<Rightarrow> (effect_event, 'e) world \<Rightarrow> bool" where
  "concluded_end X s bodies known r0 result w \<equiv> orderly X s bodies known r0 (world_trace w) \<and>
     (\<exists>j. durable r0 (world_trace w) = Some j \<and> concluded s j result)"

lemma seal_result_fields [simp]:
  "effect_session_of (seal_result X s out b a af te pr pp rc) = s"
  "effect_outcome (seal_result X s out b a af te pr pp rc) = out"
  "effect_before (seal_result X s out b a af te pr pp rc) = b"
  "effect_application (seal_result X s out b a af te pr pp rc) = a"
  "effect_after (seal_result X s out b a af te pr pp rc) = af"
  "effect_transaction_evidence (seal_result X s out b a af te pr pp rc) = te"
  "effect_publication_request (seal_result X s out b a af te pr pp rc) = pr"
  "effect_publication_receipt (seal_result X s out b a af te pr pp rc) = pp"
  "effect_reconciled_state (seal_result X s out b a af te pr pp rc) = rc"
  by (simp_all add: seal_result_def)

lemma evidenced_terminal: "ea_stage r = Terminal \<Longrightarrow> evidenced known tr r \<and> kept known tr r"
  by (simp add: evidenced_def kept_def)

lemma evidenced_intent: "ea_stage r \<in> {Admitted, Before_intent, After_intent, Application_intent} \<Longrightarrow>
    evidenced known tr r \<and> kept known tr r"
  by (auto simp: evidenced_def kept_def)

text \<open>Appending the next record of the attempt.\<close>

lemma settled_append:
  assumes "store_echoes S" and "settled X s bodies known r0 w j before application after te pr pp"
    and "\<And>r. step = Inr r \<Longrightarrow> effect_step X j r \<and> evidenced known (world_trace w) r \<and>
        (bodies \<longrightarrow> kept known (world_trace w) r)"
    and "\<And>r e. step = Inr r \<Longrightarrow> orderly X s bodies known r0 (world_trace (extended w (Ev_append r (Inr r)) e)) \<Longrightarrow>
        durable r0 (world_trace (extended w (Ev_append r (Inr r)) e)) = Some r \<Longrightarrow>
        (pp = None \<longrightarrow> unpublished (world_trace (extended w (Ev_append r (Inr r)) e))) \<Longrightarrow>
        Q r (extended w (Ev_append r (Inr r)) e)"
  shows "wp (append_record S step) Q (orderly_end X s bodies known r0) w"
proof (rule wp_append_record [OF assms(1)])
  note S = assms(2) [unfolded settled_def]
  show "orderly_end X s bodies known r0 w" using S by blast
  show "orderly_end X s bodies known r0 (extended w (Ev_append r x) e)" if "step = Inr r" for r x e
    using S assms(3) [OF that] by simp
  show "Q r (extended w (Ev_append r (Inr r)) e)" if "step = Inr r" for r e
    using S assms(3) [OF that] by (intro assms(4) [OF that]) (simp_all add: next_durable_def)
qed

text \<open>Events that leave the journal as it is.\<close>

lemma settled_event:
  assumes "settled X s bodies known r0 w j before application after te pr pp"
    and "stored ev = None" and "justified X s bodies known r0 (world_trace w) ev" and "\<And>q r. ev \<noteq> Ev_publish q r"
  shows "settled X s bodies known r0 (extended w ev e) j before application after te pr pp"
  using assms by (simp add: settled_def next_durable_def)

lemma settled_orderly:
  "settled X s bodies known r0 w j before application after te pr pp \<Longrightarrow> orderly_end X s bodies known r0 w"
  by (simp add: settled_def)

lemma settled_matches:
  "settled X s bodies known r0 w j before application after te pr pp \<Longrightarrow> matches s j before application after te pr pp"
  by (simp add: settled_def)

lemma seal_both_concludes:
  assumes "store_echoes S" and "settled X s bodies known r0 w j before application after te pr pp"
  shows "wp (seal_both X S j s outcome before application after te pr pp)
    (concluded_end X s bodies known r0) (orderly_end X s bodies known r0) w"
  unfolding seal_both_def wp_bindP
proof (rule settled_append [OF assms])
  fix r assume r: "seal_terminal X j outcome None = Inr r"
  note R = seal_terminal_result [OF r settled_matches [OF assms(2)]]
  show "effect_step X j r \<and> evidenced known (world_trace w) r \<and> (bodies \<longrightarrow> kept known (world_trace w) r)"
    using step_seal_terminal [OF r] R evidenced_terminal by blast
  fix e
  assume "orderly X s bodies known r0 (world_trace (extended w (Ev_append r (Inr r)) e))"
    and "durable r0 (world_trace (extended w (Ev_append r (Inr r)) e)) = Some r"
  then show "wp (retP (seal_result X s outcome before application after te pr pp None))
      (concluded_end X s bodies known r0) (orderly_end X s bodies known r0)
      (extended w (Ev_append r (Inr r)) e)"
    using R by (simp add: wp_retP concluded_def)
qed

section \<open>One lifecycle step\<close>

text \<open>
  The body of both loops, for the operations \<open>begin\<close> and \<open>complete\<close> of one side: if the lease is held,
  the intent is stored, the session executed, its body kept and its evidence stored.
\<close>

lemma lifecycle_step_wp:
  assumes echo: "store_echoes S" and bodies: "bodies \<longleftrightarrow> B \<noteq> None"
    and st: "settled X s bodies known r0 w j before application after te pr pp"
    and trace: "\<exists>tr'. world_trace w = tr' @ [Ev_held True]"
    and intent: "\<And>r. begin_op = Inr r \<Longrightarrow> effect_step X j r \<and> matches s r before application after te pr pp \<and>
        ea_stage r \<in> {Before_intent, After_intent} \<and> announced s r = Some v"
    and complete: "\<And>i result r. complete_op i result = Inr r \<Longrightarrow> matches s i before application after te pr pp \<Longrightarrow>
        effect_step X i r \<and> matches s r (before' result) application (after' result) te pr pp \<and>
        ((ea_stage r = Before_terminal \<and> ea_before r \<noteq> [] \<and> last (ea_before r) = lifecycle_fact_of result) \<or>
         (ea_stage r = After_terminal \<and> ea_after r \<noteq> [] \<and> last (ea_after r) = lifecycle_fact_of result))"
    and cont: "\<And>w' r result. settled X s bodies known r0 w' r (before' result) application (after' result) te pr pp \<Longrightarrow>
        ea_stage r \<in> {Before_terminal, After_terminal} \<Longrightarrow>
        wp (k r result) Q (orderly_end X s bodies known r0) w'"
  shows "wp (bindP (append_record S begin_op) (\<lambda>i.
       bindP (execute_lifecycle D v) (\<lambda>result.
       bindP (liftP (validate_lifecycle_result v result)) (\<lambda>_.
       bindP (keep_lifecycle B result) (\<lambda>_.
       bindP (append_record S (complete_op i result)) (\<lambda>r. k r result))))))
     Q (orderly_end X s bodies known r0) w"
  unfolding wp_bindP
proof (rule settled_append [OF echo st])
  fix i assume i: "begin_op = Inr i"
  note I = intent [OF i]
  show "effect_step X j i \<and> evidenced known (world_trace w) i \<and> (bodies \<longrightarrow> kept known (world_trace w) i)"
    using I evidenced_intent by blast
  fix e
  let ?w = "extended w (Ev_append i (Inr i)) e"
  assume o: "orderly X s bodies known r0 (world_trace ?w)" and d: "durable r0 (world_trace ?w) = Some i"
    and u: "pp = None \<longrightarrow> unpublished (world_trace ?w)"
  have s: "settled X s bodies known r0 ?w i before application after te pr pp"
    using o d u I by (simp add: settled_def)
  have J: "justified X s bodies known r0 (world_trace ?w) (Ev_lifecycle v x)" for x
    using directly_intendedI [OF trace] I by simp
  show "wp (execute_lifecycle D v) (\<lambda>result. wp (liftP (validate_lifecycle_result v result))
      (\<lambda>_. wp (keep_lifecycle B result) (\<lambda>_. wp (append_record S (complete_op i result))
        (\<lambda>r. wp (k r result) Q (orderly_end X s bodies known r0))
        (orderly_end X s bodies known r0)) (orderly_end X s bodies known r0))
      (orderly_end X s bodies known r0)) (orderly_end X s bodies known r0) ?w"
    unfolding execute_lifecycle_def
  proof (rule wp_callE_all)
    show "orderly_end X s bodies known r0 (extended ?w (Ev_lifecycle v x) e')" for x e'
      using o J by simp
    fix result e'
    let ?w2 = "extended ?w (Ev_lifecycle v (Inr result)) e'"
    have s2: "settled X s bodies known r0 ?w2 i before application after te pr pp"
      by (rule settled_event [OF s _ J]) simp_all
    have finish: "wp (append_record S (complete_op i result)) (\<lambda>r. wp (k r result) Q (orderly_end X s bodies known r0))
        (orderly_end X s bodies known r0) w3"
      if s3: "settled X s bodies known r0 w3 i before application after te pr pp"
        and l: "pending_effect (world_trace w3) = Some (Ev_lifecycle v (Inr result))"
        and b: "bodies \<Longrightarrow> Ev_keep_lifecycle result (Inr ()) \<in> set (world_trace w3)" for w3
    proof (rule settled_append [OF echo s3])
      fix r assume r: "complete_op i result = Inr r"
      note C = complete [OF r settled_matches [OF s3]]
      show "effect_step X i r \<and> evidenced known (world_trace w3) r \<and> (bodies \<longrightarrow> kept known (world_trace w3) r)"
        using C l b by (auto simp: evidenced_def kept_def)
      fix e2
      assume "orderly X s bodies known r0 (world_trace (extended w3 (Ev_append r (Inr r)) e2))"
        and "durable r0 (world_trace (extended w3 (Ev_append r (Inr r)) e2)) = Some r"
        and "pp = None \<longrightarrow> unpublished (world_trace (extended w3 (Ev_append r (Inr r)) e2))"
      then show "wp (k r result) Q (orderly_end X s bodies known r0) (extended w3 (Ev_append r (Inr r)) e2)"
        using C by (intro cont) (auto simp: settled_def)
    qed
    show "wp (liftP (validate_lifecycle_result v result))
      (\<lambda>_. wp (keep_lifecycle B result) (\<lambda>_. wp (append_record S (complete_op i result))
        (\<lambda>r. wp (k r result) Q (orderly_end X s bodies known r0))
        (orderly_end X s bodies known r0)) (orderly_end X s bodies known r0))
      (orderly_end X s bodies known r0) ?w2"
    proof (cases "validate_lifecycle_result v result")
      case (Inl x)
      then show ?thesis using settled_orderly [OF s2] by (simp add: wp_liftP)
    next
      case (Inr u)
      have "wp (keep_lifecycle B result) (\<lambda>_. wp (append_record S (complete_op i result))
          (\<lambda>r. wp (k r result) Q (orderly_end X s bodies known r0))
          (orderly_end X s bodies known r0)) (orderly_end X s bodies known r0) ?w2"
      proof (cases B)
        case None
        then show ?thesis using finish [OF s2] bodies by (simp add: keep_lifecycle_def wp_retP)
      next
        case (Some sink)
        have "wp (callE (Ev_keep_lifecycle result) (sink_lifecycle sink result))
          (\<lambda>_. wp (append_record S (complete_op i result))
            (\<lambda>r. wp (k r result) Q (orderly_end X s bodies known r0))
            (orderly_end X s bodies known r0)) (orderly_end X s bodies known r0) ?w2"
        proof (rule wp_callE_all)
          show "orderly_end X s bodies known r0 (extended ?w2 (Ev_keep_lifecycle result x) e2)" for x e2
            using settled_orderly [OF s2] by simp
          show "wp (append_record S (complete_op i result)) (\<lambda>r. wp (k r result) Q (orderly_end X s bodies known r0))
              (orderly_end X s bodies known r0) (extended ?w2 (Ev_keep_lifecycle result (Inr y)) e2)" for y e2
            by (rule finish [OF settled_event [OF s2]]) simp_all
        qed
        with Some show ?thesis by (simp add: keep_lifecycle_def)
      qed
      with Inr show ?thesis by (simp add: wp_liftP)
    qed
  qed
qed

end
