(* ===== verification/Effect_Durable.thy ===== *)
theory Effect_Durable
  imports Effect_Writes
begin

text \<open>The two loops, the application and the publication of a durable execution, put together.\<close>

section \<open>The loops\<close>

text \<open>Asking for the lease: afterwards the trace ends with the answer.\<close>

lemma lease_held_wp:
  assumes st: "settled X s bodies known r0 w j before application after te pr pp"
    and "\<And>w'. settled X s bodies known r0 w' j before application after te pr pp \<Longrightarrow> wp lost Q E w'"
    and "\<And>w'. settled X s bodies known r0 w' j before application after te pr pp \<Longrightarrow>
      \<exists>tr'. world_trace w' = tr' @ [Ev_held True] \<Longrightarrow> effects (world_trace w') = effects (world_trace w) \<Longrightarrow>
      wp kept_on Q E w'"
  shows "wp (bindP (lease_held D) (\<lambda>held. if \<not> held then lost else kept_on)) Q E w"
  unfolding wp_bindP lease_held_def
proof (rule wp_call_all)
  fix b e
  have "settled X s bodies known r0 (extended w (Ev_held b) e) j before application after te pr pp"
    by (rule settled_event [OF st]) simp_all
  then show "wp (if \<not> b then lost else kept_on) Q E (extended w (Ev_held b) e)"
    using assms(2,3) by (cases b) (auto simp: extended_trace)
qed

lemma announced_before:
  "ea_stage r = Before_intent \<Longrightarrow> ea_before r = map lifecycle_fact_of before \<Longrightarrow>
   v # vs = drop (length before) (effect_session_before s) \<Longrightarrow> announced s r = Some v"
  by (metis announced_def drop_eq_Nil length_map linorder_not_le list.distinct(1) nth_via_drop)

lemma announced_after:
  "ea_stage r = After_intent \<Longrightarrow> ea_after r = map lifecycle_fact_of after \<Longrightarrow>
   v # vs = drop (length after) (effect_session_after s) \<Longrightarrow> announced s r = Some v"
  by (metis announced_def effect_attempt_stage.distinct drop_eq_Nil length_map linorder_not_le
      list.distinct(1) nth_via_drop)

lemma drop_next: "v # vs = drop n xs \<Longrightarrow> vs = drop (Suc n) xs"
  by (metis drop_Suc list.sel(3) tl_drop)

lemma matches_before_last:
  "matches s r (before @ [result]) application after te pr pp \<Longrightarrow>
     ea_before r \<noteq> [] \<and> last (ea_before r) = lifecycle_fact_of result"
  by (simp add: matches_def)

lemma matches_after_last:
  "matches s r before application (after @ [result]) te pr pp \<Longrightarrow>
     ea_after r \<noteq> [] \<and> last (ea_after r) = lifecycle_fact_of result"
  by (simp add: matches_def)

lemma durable_before_wp:
  assumes echo: "store_echoes S" and bodies: "bodies \<longleftrightarrow> B \<noteq> None"
    and k: "\<And>w j before. settled X s bodies known r0 w j before None [] None None None \<Longrightarrow>
      wp (k j before) (concluded_end X s bodies known r0) (orderly_end X s bodies known r0) w"
  shows "settled X s bodies known r0 w j before None [] None None None \<Longrightarrow>
    vs = drop (length before) (effect_session_before s) \<Longrightarrow>
    wp (durable_before X D S B s k vs j before) (concluded_end X s bodies known r0)
      (orderly_end X s bodies known r0) w"
proof (induction vs arbitrary: w j before)
  case Nil
  then show ?case using k by simp
next
  case (Cons v vs)
  note d = Cons.prems(2)
  show ?case
    unfolding durable_before.simps
  proof (rule lease_held_wp [OF Cons.prems(1)], goal_cases)
    case (1 w')
    then show ?case by (rule seal_both_concludes [OF echo])
  next
    case (2 w')
    show ?case
    proof (rule lifecycle_step_wp [OF echo bodies 2(1,2), where before' = "\<lambda>result. before @ [result]"
          and after' = "\<lambda>_. []"], goal_cases)
      case (1 r)
      note R = begin_before_result [OF 1 settled_matches [OF 2(1)]]
      have "announced s r = Some v" using R d by (intro announced_before) (auto simp: matches_def)
      with R step_begin_before [OF 1] show ?case by blast
    next
      case (2 i result r)
      from complete_before_result [OF 2] step_complete_before [OF 2(1)] show ?case
        using matches_before_last by blast
    next
      case (3 w2 r result)
      show ?case using seal_both_concludes [OF echo 3(1)] Cons.IH [OF 3(1)] drop_next [OF d] by simp
    qed
  qed
qed

lemma durable_after_wp:
  assumes echo: "store_echoes S" and bodies: "bodies \<longleftrightarrow> B \<noteq> None"
    and k: "\<And>w j after. settled X s bodies known r0 w j before (Some application) after None None None \<Longrightarrow>
      wp (k j after) (concluded_end X s bodies known r0) (orderly_end X s bodies known r0) w"
  shows "settled X s bodies known r0 w j before (Some application) after None None None \<Longrightarrow>
    vs = drop (length after) (effect_session_after s) \<Longrightarrow>
    wp (durable_after X D S B s before application k vs j after) (concluded_end X s bodies known r0)
      (orderly_end X s bodies known r0) w"
proof (induction vs arbitrary: w j after)
  case Nil
  then show ?case using k by simp
next
  case (Cons v vs)
  note d = Cons.prems(2)
  show ?case
    unfolding durable_after.simps
  proof (rule lease_held_wp [OF Cons.prems(1)], goal_cases)
    case (1 w')
    then show ?case by (rule seal_both_concludes [OF echo])
  next
    case (2 w')
    show ?case
    proof (rule lifecycle_step_wp [OF echo bodies 2(1,2), where before' = "\<lambda>_. before"
          and after' = "\<lambda>result. after @ [result]"], goal_cases)
      case (1 r)
      note R = begin_after_result [OF 1 settled_matches [OF 2(1)]]
      have "announced s r = Some v" using R d by (intro announced_after) (auto simp: matches_def)
      with R step_begin_after [OF 1] show ?case by blast
    next
      case (2 i result r)
      from complete_after_result [OF 2] step_complete_after [OF 2(1)] show ?case
        using matches_after_last by blast
    next
      case (3 w2 r result)
      show ?case using seal_both_concludes [OF echo 3(1)] Cons.IH [OF 3(1)] drop_next [OF d] by simp
    qed
  qed
qed

section \<open>The application\<close>

text \<open>From the driver's receipt to the record of it.\<close>

lemma application_evidence_wp:
  assumes echo: "store_echoes S" and bodies: "bodies \<longleftrightarrow> B \<noteq> None"
    and s: "settled X s bodies known r0 w i before None [] None None None"
    and l: "(\<exists>q. pending_effect (world_trace w) = Some (Ev_apply q (Inr app))) \<or>
      (\<exists>q d. pending_effect (world_trace w) = Some (Ev_resume q d (Inr app)))"
    and k: "\<And>w' r. settled X s bodies known r0 w' r before (Some app) [] None None None \<Longrightarrow>
      ea_stage r = Application_terminal \<Longrightarrow> wp (k r) Q (orderly_end X s bodies known r0) w'"
  shows "wp (bindP (liftP (validate_application_receipt request state app)) (\<lambda>_.
      bindP (keep_application B q app) (\<lambda>_. bindP (append_record S (complete_application X i app)) k)))
    Q (orderly_end X s bodies known r0) w"
proof -
  let ?E = "orderly_end X s bodies known r0"
  have finish: "wp (bindP (append_record S (complete_application X i app)) k) Q ?E w3"
    if s3: "settled X s bodies known r0 w3 i before None [] None None None"
      and e: "pending_effect (world_trace w3) = pending_effect (world_trace w)"
      and b: "bodies \<Longrightarrow> Ev_keep_application app (Inr ()) \<in> set (world_trace w3)" for w3
    unfolding wp_bindP
  proof (rule settled_append [OF echo s3], goal_cases)
    case (1 r)
    from complete_application_result [OF 1 settled_matches [OF s3]] step_complete_application [OF 1] l b e
    show ?case by (auto simp: evidenced_def kept_def matches_def)
  next
    case (2 r e)
    from complete_application_result [OF 2(1) settled_matches [OF s3]] 2(2-4) show ?case
      by (intro k) (simp_all add: settled_def)
  qed
  show ?thesis
  proof (cases "validate_application_receipt request state app")
    case (Inl x)
    then show ?thesis using settled_orderly [OF s] by (simp add: wp_bindP wp_liftP wp_failP)
  next
    case (Inr u)
    have "wp (bindP (keep_application B q app) (\<lambda>_. bindP (append_record S (complete_application X i app)) k)) Q ?E w"
    proof (cases B)
      case None
      then show ?thesis using finish [OF s refl] bodies by (simp add: keep_application_def)
    next
      case (Some sink)
      have "wp (bindP (callE (Ev_keep_application app) (sink_application sink q app))
          (\<lambda>_. bindP (append_record S (complete_application X i app)) k)) Q ?E w"
        unfolding wp_bindP [of "callE _ _"]
      proof (rule wp_callE_all, goal_cases)
        case (1 x e)
        then show ?case using settled_orderly [OF s] by simp
      next
        case (2 y e)
        show ?case by (rule finish [OF settled_event [OF s]]) simp_all
      qed
      with Some show ?thesis by (simp add: keep_application_def)
    qed
    with Inr show ?thesis by (simp add: wp_bindP wp_liftP)
  qed
qed

section \<open>The publication\<close>

lemma publication_evidence_wp:
  assumes echo: "store_echoes S" and bodies: "bodies \<longleftrightarrow> B \<noteq> None"
    and s: "settled X s bodies known r0 w i before application after te (Some request) None"
    and i: "ea_stage i = Publication_intent" and led: "publication_led r0 (world_trace w) request"
    and k: "\<And>w' r receipt. settled X s bodies known r0 w' r before application after te (Some request) (Some receipt) \<Longrightarrow>
      ea_stage r = Publication_terminal \<Longrightarrow> wp (k receipt r) Q (orderly_end X s bodies known r0) w'"
  shows "wp (bindP (publish_state publish request) (\<lambda>receipt.
      if receipt_request receipt \<noteq> publication_request_id request then failP (Error driver_contract_violation)
      else bindP (keep_receipt B request receipt) (\<lambda>_.
        bindP (append_record S (complete_publication X i receipt)) (k receipt))))
    Q (orderly_end X s bodies known r0) w"
  unfolding publish_state_def wp_bindP [of "callE _ _"]
proof (rule wp_callE_all)
  let ?E = "orderly_end X s bodies known r0"
  note S = s [unfolded settled_def]
  have J: "justified X s bodies known r0 (world_trace w) (Ev_publish request x)" for x
    using S i led by (auto simp: matches_def)
  show "?E (extended w (Ev_publish request x) e)" for x e using S J by simp
  fix receipt e
  let ?w = "extended w (Ev_publish request (Inr receipt)) e"
  have finish: "wp (bindP (append_record S (complete_publication X i receipt)) (k receipt)) Q ?E w3"
    if o: "?E w3" and d: "durable r0 (world_trace w3) = Some i"
      and l: "pending_effect (world_trace w3) = Some (Ev_publish request (Inr receipt))"
      and b: "bodies \<Longrightarrow> Ev_keep_receipt receipt (Inr ()) \<in> set (world_trace w3)" for w3
    unfolding wp_bindP
  proof (rule wp_append_record [OF echo])
    show "?E w3" by (rule o)
    fix r e assume r: "complete_publication X i receipt = Inr r"
    note R = complete_publication_result [OF r, of s before application after te "Some request"]
    have J: "justified X s bodies known r0 (world_trace w3) (Ev_append r x)" for x
      using R S step_complete_publication [OF r] d l b by (auto simp: evidenced_def kept_def matches_def)
    show "?E (extended w3 (Ev_append r x) e)" for x using o J by simp
    show "wp (k receipt r) Q ?E (extended w3 (Ev_append r (Inr r)) e)"
      using R S o J d by (intro k) (auto simp: settled_def next_durable_def)
  qed
  show "wp (if receipt_request receipt \<noteq> publication_request_id request then failP (Error driver_contract_violation)
      else bindP (keep_receipt B request receipt) (\<lambda>_.
        bindP (append_record S (complete_publication X i receipt)) (k receipt))) Q ?E ?w"
  proof (cases "receipt_request receipt = publication_request_id request")
    case False
    then show ?thesis using S J by (simp add: wp_failP)
  next
    case True
    have "wp (bindP (keep_receipt B request receipt) (\<lambda>_.
        bindP (append_record S (complete_publication X i receipt)) (k receipt))) Q ?E ?w"
    proof (cases B)
      case None
      then show ?thesis using S J bodies finish [of ?w] by (simp add: keep_receipt_def next_durable_def)
    next
      case (Some sink)
      have "wp (bindP (callE (Ev_keep_receipt receipt) (sink_publication_receipt sink request receipt))
          (\<lambda>_. bindP (append_record S (complete_publication X i receipt)) (k receipt))) Q ?E ?w"
        unfolding wp_bindP [of "callE _ _"]
      proof (rule wp_callE_all, goal_cases)
        case (1 x e)
        then show ?case using S J by simp
      next
        case (2 y e)
        show ?case using S J by (intro finish) (simp_all add: next_durable_def)
      qed
      with Some show ?thesis by (simp add: keep_receipt_def)
    qed
    with True show ?thesis by simp
  qed
qed

lemma publication_intent_wp:
  assumes echo: "store_echoes S" and bodies: "bodies \<longleftrightarrow> B \<noteq> None"
    and s: "settled X s bodies known r0 w j before application after None None None"
    and held: "\<exists>tr'. world_trace w = tr' @ [Ev_held True]"
    and k: "\<And>w' r. settled X s bodies known r0 w' r before application after (Some te) (Some request) None \<Longrightarrow>
      ea_stage r = Publication_intent \<Longrightarrow> publication_led r0 (world_trace w') request \<Longrightarrow> wp (k r) Q (orderly_end X s bodies known r0) w'"
  shows "wp (bindP (keep_request B request) (\<lambda>_. bindP (append_record S (begin_publication X j te request)) k))
    Q (orderly_end X s bodies known r0) w"
proof -
  let ?E = "orderly_end X s bodies known r0"
  have finish: "wp (bindP (append_record S (begin_publication X j te request)) k) Q ?E w3"
    if s3: "settled X s bodies known r0 w3 j before application after None None None"
      and b: "bodies \<Longrightarrow> Ev_keep_request request (Inr ()) \<in> set (world_trace w3)"
      and l: "world_trace w3 = tr' @ Ev_held True # keeps" "keeps \<in> {[], [Ev_keep_request request (Inr ())]}"
    for w3 tr' keeps
    unfolding wp_bindP
  proof (rule settled_append [OF echo s3], goal_cases)
    case (1 r)
    from begin_publication_result [OF 1 settled_matches [OF s3]] step_begin_publication [OF 1] b
    show ?case by (auto simp: evidenced_def kept_def matches_def)
  next
    case (2 r e)
    from begin_publication_result [OF 2(1) settled_matches [OF s3]] 2(2-4) show ?case
      by (intro k publication_ledI [OF l]) (simp_all add: settled_def)
  qed
  show ?thesis
  proof (cases B)
    case None
    from held obtain tr' where "world_trace w = tr' @ [Ev_held True]" by blast
    with None show ?thesis using finish [OF s, of tr' "[]"] bodies by (simp add: keep_request_def)
  next
    case (Some sink)
    have "wp (bindP (callE (Ev_keep_request request) (sink_publication_request sink request))
        (\<lambda>_. bindP (append_record S (begin_publication X j te request)) k)) Q ?E w"
      unfolding wp_bindP [of "callE _ _"]
    proof (rule wp_callE_all, goal_cases)
      case (1 x e)
      then show ?case using settled_orderly [OF s] by simp
    next
      case (2 y e)
      from held obtain tr' where "world_trace w = tr' @ [Ev_held True]" by blast
      then show ?case
        by (intro finish [OF settled_event [OF s], of _ _ tr' "[Ev_keep_request request (Inr y)]"])
          (simp_all add: extended_trace)
    qed
    with Some show ?thesis by (simp add: keep_request_def)
  qed
qed

lemma wp_lift_all:
  assumes "E w" and "\<And>x. r = Inr x \<Longrightarrow> wp (f x) Q E w"
  shows "wp (bindP (liftP r) f) Q E w"
  using assms by (cases r) (simp_all add: wp_failP)

lemma concluded_open:
  assumes "settled X s bodies known r0 w j before application after te pr pp"
    and "(ea_stage j = Application_terminal \<and> outcome = Application_resolution_required) \<or>
      (ea_stage j = Publication_terminal \<and> outcome = State_publication_indeterminate)"
  shows "wp (retP (seal_result X s outcome before application after te pr pp None))
    (concluded_end X s bodies known r0) (orderly_end X s bodies known r0) w"
  using assms by (auto simp: wp_retP concluded_def settled_def)

lemma durable_publication_wp:
  assumes echo: "store_echoes S" and bodies: "bodies \<longleftrightarrow> B \<noteq> None"
    and s: "settled X s bodies known r0 w j before (Some application) after None None None"
  shows "wp (durable_publication X D S B s before application j after)
    (concluded_end X s bodies known r0) (orderly_end X s bodies known r0) w"
  unfolding durable_publication_def
proof (rule lease_held_wp [OF s], goal_cases)
  case (1 w')
  then show ?case by (rule seal_both_concludes [OF echo])
next
  case (2 w')
  note s' = 2(1)
  show ?case
  proof (cases "application_completed_evidence application")
    case None
    then show ?thesis using settled_orderly [OF s'] by (simp add: wp_failP)
  next
    case (Some completed)
    show ?thesis
      unfolding Some option.case
    proof (intro wp_lift_all settled_orderly [OF s'] publication_intent_wp [OF echo bodies s' 2(2)], goal_cases)
      case (1 transaction request w2 intent)
      note publication = 1
      show ?case
      proof (rule publication_evidence_wp [OF echo bodies 1(3-5)], goal_cases)
        case (1 w3 j' receipt)
        show ?case
        proof (rule lease_held_wp [OF 1(1)], goal_cases)
          case (1 w4)
          then show ?case by (rule seal_both_concludes [OF echo])
        next
          case (2 w4)
          show ?case
          proof (cases "publication_outcome receipt = State_publication_indeterminate")
            case True
            then show ?thesis using concluded_open [OF 2(1)] 1(2) by simp
          next
            case False
            then show ?thesis using seal_both_concludes [OF echo 2(1)] by simp
          qed
        qed
      qed
    qed
  qed
qed

lemma noncompleted_outcome:
  "noncompleted_application_outcome a = Inr outcome \<Longrightarrow>
    outcome = Application_not_completed \<or> outcome = Application_resolution_required"
  by (cases a) (auto simp: noncompleted_application_outcome_def)

lemma durable_application_wp:
  assumes echo: "store_echoes S" and bodies: "bodies \<longleftrightarrow> B \<noteq> None"
    and s: "settled X s bodies known r0 w j before None [] None None None"
  shows "wp (durable_application X D S B s j before)
    (concluded_end X s bodies known r0) (orderly_end X s bodies known r0) w"
  unfolding durable_application_def
proof (rule lease_held_wp [OF s], goal_cases)
  case (1 w')
  then show ?case by (rule seal_both_concludes [OF echo])
next
  case (2 w')
  note s' = 2(1)
  show ?case
    unfolding wp_bindP [of "append_record _ _"]
  proof (rule settled_append [OF echo s'], goal_cases)
    case (1 i)
    from begin_application_result [OF 1 settled_matches [OF s']] step_begin_application [OF 1]
    show ?case using evidenced_intent by blast
  next
    case (2 i e)
    let ?w = "extended w' (Ev_append i (Inr i)) e"
    note I = begin_application_result [OF 2(1) settled_matches [OF s']]
    have s2: "settled X s bodies known r0 ?w i before None [] None None None"
      using 2(2-4) I by (simp add: settled_def)
    have J: "justified X s bodies known r0 (world_trace ?w)
        (Ev_apply (effect_application_request (effect_request_of s)) x)" for x
      using directly_intendedI [OF \<open>\<exists>tr'. world_trace w' = tr' @ [Ev_held True]\<close>] I by simp
    show ?case
      unfolding apply_application_def wp_bindP [of "callE _ _"]
    proof (rule wp_callE_all, goal_cases)
      case (1 x e)
      show ?case using settled_orderly [OF s2] J by simp
    next
      case (2 app e')
      have s3: "settled X s bodies known r0 (extended ?w (Ev_apply (effect_application_request
          (effect_request_of s)) (Inr app)) e') i before None [] None None None"
        by (rule settled_event [OF s2 _ J]) simp_all
      show ?case
      proof (rule application_evidence_wp [OF echo bodies s3], goal_cases)
        case 1
        show ?case by simp
      next
        case (2 w4 r)
        note s4 = 2
        show ?case
        proof (cases "application_outcome app = Application_completed")
          case True
          have "wp (durable_after X D S B s before app (durable_publication X D S B s before app)
              (effect_session_after s) r []) (concluded_end X s bodies known r0) (orderly_end X s bodies known r0) w4"
            by (rule durable_after_wp [OF echo bodies _ s4(1)])
              (auto intro: durable_publication_wp [OF echo bodies])
          with True show ?thesis by simp
        next
          case False
          show ?thesis
            using False seal_both_concludes [OF echo s4(1)] concluded_open [OF s4(1)] s4(2)
            by (auto intro!: wp_lift_all settled_orderly [OF s4(1)] dest!: noncompleted_outcome)
        qed
      qed
    qed
  qed
qed

section \<open>The whole execution\<close>

lemma durable_execution_wp:
  assumes echo: "store_echoes S" and "world_trace w = []"
  shows "wp (execute_effectful_operation_durable X D S B s nonce)
    (concluded_end X s (B \<noteq> None) known None) (orderly_end X s (B \<noteq> None) known None) w"
  unfolding execute_effectful_operation_durable_def validate_lease_def wp_bindP
proof (rule wp_callE_all, goal_cases)
  case (1 x e)
  then show ?case using assms(2) by simp
next
  case (2 y e)
  let ?w = "extended w (Ev_validate_lease (Inr y)) e"
  have u: "unpublished (world_trace ?w)" and d: "durable None (world_trace ?w) = None"
    and o: "orderly_end X s (B \<noteq> None) known None ?w"
    using assms(2) by (simp_all add: unpublished_def next_durable_def)
  show ?case
  proof (rule wp_append_record [OF echo], goal_cases)
    case (1 e')
    show ?case by (rule o)
  next
    case (2 r x e)
    then show ?case using o d admit_result [OF 2] evidenced_intent by auto
  next
    case (3 r e)
    note R = admit_result [OF 3]
    have s: "settled X s (B \<noteq> None) known None (extended ?w (Ev_append r (Inr r)) e) r [] None [] None None None"
      using o d u R 3 evidenced_intent by (auto simp: settled_def next_durable_def)
    show ?case
      by (rule durable_before_wp [OF echo _ _ s]) (auto intro: durable_application_wp [OF echo])
  qed
qed

end
