(* ===== verification/Effect_Restart.thy ===== *)
theory Effect_Restart
  imports Effect_Execution
begin

text \<open>
  \<^verbatim>\<open>src/effect_restart.cpp\<close>, \<^verbatim>\<open>src/effect_inspect.cpp\<close> and \<^verbatim>\<open>resume_effectful_operation\<close> of \<^verbatim>\<open>src/effect.cpp\<close>:
  what the last durable record of an attempt allows a restarted controller to do, the checkpoint that
  binds the record to the evidence kept elsewhere, and the continuation. Reading an absent optional or
  the back of an empty vector is \<open>Undefined_behaviour\<close>.
\<close>

section \<open>Assessment\<close>

datatype effect_restart_disposition =
    Continue_before_lifecycle | Start_application | Resume_application | Continue_after_application
  | Continue_after_lifecycle | Start_publication | Reconcile_publication | Seal_terminal
  | Restart_terminal | External_resolution_required

record effect_restart_assessment =
  assessment_attempt :: session_identity
  assessment_record :: session_identity
  assessment_stage :: effect_attempt_stage
  assessment_disposition :: effect_restart_disposition

definition automatically_continuable :: "effect_restart_assessment \<Rightarrow> bool" where
  "automatically_continuable a \<longleftrightarrow> assessment_disposition a \<noteq> External_resolution_required"

definition restart_disposition :: "effect_attempt_record \<Rightarrow> effect_restart_disposition res" where
  "restart_disposition r =
     (case ea_stage r of
        Admitted \<Rightarrow> Inr (if ea_before_total r = 0 then Start_application else Continue_before_lifecycle)
      | Before_intent \<Rightarrow> Inr External_resolution_required
      | Before_terminal \<Rightarrow>
          if ea_before r = [] then Inl Undefined_behaviour
          else Inr (if \<not> fact_succeeded (last (ea_before r)) then Seal_terminal
                    else if length (ea_before r) < unat (ea_before_total r) then Continue_before_lifecycle
                    else Start_application)
      | Application_intent \<Rightarrow> Inr Resume_application
      | Application_terminal \<Rightarrow>
          (case ea_application r of
             None \<Rightarrow> Inl Undefined_behaviour
           | Some a \<Rightarrow> Inr (case classify_application_effect (app_outcome a) of
                 Class_definitive_failure \<Rightarrow> Seal_terminal
               | Class_external_resolution_required \<Rightarrow> External_resolution_required
               | Class_completed \<Rightarrow>
                   if ea_after_total r = 0 then Start_publication else Continue_after_application))
      | After_intent \<Rightarrow> Inr External_resolution_required
      | After_terminal \<Rightarrow>
          if ea_after r = [] then Inl Undefined_behaviour
          else Inr (if \<not> fact_succeeded (last (ea_after r)) then Seal_terminal
                    else if length (ea_after r) < unat (ea_after_total r) then Continue_after_lifecycle
                    else Start_publication)
      | Publication_intent \<Rightarrow> Inr Reconcile_publication
      | Publication_terminal \<Rightarrow>
          (case ea_publication r of
             None \<Rightarrow> Inl Undefined_behaviour
           | Some p \<Rightarrow> Inr (if pub_outcome p = Published_durability_unconfirmed \<or>
                                pub_outcome p = Publication_indeterminate
                             then Reconcile_publication else Seal_terminal))
      | Terminal \<Rightarrow> Inr Restart_terminal)"

definition assess_effect_restart :: "effect_attempt_record \<Rightarrow> effect_restart_assessment res" where
  "assess_effect_restart r =
     bindE (restart_disposition r) (\<lambda>d.
       Inr \<lparr>assessment_attempt = ea_attempt r, assessment_record = ea_identity r,
            assessment_stage = ea_stage r, assessment_disposition = d\<rparr>)"

section \<open>Inspection\<close>

definition validate_inspection :: "effect_attempt_record \<Rightarrow> effect_restart_assessment \<Rightarrow> unit res" where
  "validate_inspection r assessment =
     (if assessment_attempt assessment \<noteq> ea_attempt r \<or> assessment_record assessment \<noteq> ea_identity r \<or>
         assessment_stage assessment \<noteq> ea_stage r
      then effect_record_error
      else bindE (assess_effect_restart r) (\<lambda>expected.
        require (assessment_disposition assessment = assessment_disposition expected)
          (Effect_journal_error invalid_record)))"

definition inspect_effect_attempt ::
  "session_identity \<Rightarrow> 'e effect_store \<Rightarrow> ('e, effect_attempt_record \<times> effect_restart_assessment) effect_proc" where
  "inspect_effect_attempt attempt S =
     bindP (load_latest S attempt) (\<lambda>record.
     case record of
       None \<Rightarrow> failP (Effect_journal_error store_conflict)
     | Some r \<Rightarrow>
         if ea_attempt r \<noteq> attempt then failP (Effect_journal_error store_contract_violation)
         else bindP (liftP (assess_effect_restart r)) (\<lambda>assessment.
           bindP (liftP (validate_inspection r assessment)) (\<lambda>_. retP (r, assessment))))"

section \<open>Checkpoints\<close>

record effect_restart_checkpoint =
  checkpoint_session :: effectful_operation_session
  checkpoint_record :: effect_attempt_record
  checkpoint_before :: "lifecycle_execution_result list"
  checkpoint_application :: "application_receipt option"
  checkpoint_after :: "lifecycle_execution_result list"
  checkpoint_publication_request :: "state_publication_request option"
  checkpoint_publication_receipt :: "state_publication_receipt option"
  checkpoint_declaration :: "application_declaration option"
  checkpoint_journal :: "application_journal_record option"

definition header_rejected :: "package_application_request \<Rightarrow> application_header \<Rightarrow> bool" where
  "header_rejected request header \<longleftrightarrow>
     header_request header \<noteq> application_id request \<or> header_plan header \<noteq> application_plan request \<or>
     header_kind header \<noteq> application_kind request \<or>
     header_target header \<noteq> target_identity (application_target_of request) \<or>
     header_control header \<noteq> application_control request"

definition validate_checkpoint_receipt ::
  "effectful_operation_session \<Rightarrow> application_receipt \<Rightarrow> unit res" where
  "validate_checkpoint_receipt session receipt =
     reject (Error invalid_effect_session)
       [receipt_authority_rejected (effect_application_request (effect_request_of session)) receipt,
        application_outcome receipt = Application_completed \<and> application_completed_evidence receipt = None]"

definition validate_application_journal ::
  "effectful_operation_session \<Rightarrow> application_journal_record \<Rightarrow> unit res" where
  "validate_application_journal session journal =
     require (\<not> header_rejected (effect_application_request (effect_request_of session)) (journal_header journal))
       (Error invalid_effect_session)"

definition validate_declaration_projection ::
  "effectful_operation_session \<Rightarrow> application_declaration \<Rightarrow> application_journal_record \<Rightarrow> unit res" where
  "validate_declaration_projection session declaration journal =
     reject (Error invalid_effect_session)
       [header_rejected (effect_application_request (effect_request_of session)) (declaration_header declaration),
        header_identity (declaration_header declaration) \<noteq> header_identity (journal_header journal) \<or>
          length (declaration_effects declaration) \<noteq> length (journal_effects journal),
        declaration_effects declaration \<noteq> journal_effects journal]"

definition validate_ahead_receipt ::
  "ext \<Rightarrow> effectful_operation_session \<Rightarrow> application_receipt \<Rightarrow> application_journal_record \<Rightarrow> unit res" where
  "validate_ahead_receipt X session receipt journal =
     bindE (validate_checkpoint_receipt session receipt) (\<lambda>_.
     reject (Error invalid_effect_session)
       [assess_application_restart X journal \<noteq> Application_restart_terminal,
        journal_receipt journal \<noteq> Some (application_receipt_id receipt),
        application_journal receipt \<noteq> Some (header_identity (journal_header journal)),
        application_completed_evidence receipt \<noteq> journal_completed_evidence journal])"

text \<open>One loop over the lifecycle evidence of one side; the third list is indexed beyond its end only
  when it is shorter, which the preceding checks exclude.\<close>

definition lifecycle_evidence_rejected ::
  "lifecycle_execution_result \<Rightarrow> effect_lifecycle_fact \<Rightarrow> admitted_lifecycle_session \<Rightarrow> bool" where
  "lifecycle_evidence_rejected result held_fact session \<longleftrightarrow>
     lifecycle_result_id result \<noteq> fact_result held_fact \<or>
     lifecycle_result_succeeded result \<noteq> fact_succeeded held_fact \<or>
     lifecycle_result_node result \<noteq> lifecycle_node_id (lifecycle_node_of session)"

definition validate_lifecycle_evidence ::
  "lifecycle_execution_result list \<Rightarrow> effect_lifecycle_fact list \<Rightarrow> admitted_lifecycle_session list \<Rightarrow>
   unit res" where
  "validate_lifecycle_evidence results facts sessions =
     (if length results \<noteq> length facts then effect_session_error
      else forE (\<lambda>i. if length sessions \<le> i then Inl Undefined_behaviour
                 else require (\<not> lifecycle_evidence_rejected (results ! i) (facts ! i) (sessions ! i))
                   (Error invalid_effect_session)) [0 ..< length results])"

definition ahead_application ::
  "effect_attempt_record \<Rightarrow> application_receipt option \<Rightarrow> application_declaration option \<Rightarrow>
   application_journal_record option \<Rightarrow> bool" where
  "ahead_application r application declaration journal \<longleftrightarrow>
     application \<noteq> None \<and> ea_application r = None \<and> ea_stage r = Application_intent \<and>
     declaration \<noteq> None \<and> journal \<noteq> None"

definition validate_checkpoint_application ::
  "ext \<Rightarrow> effectful_operation_session \<Rightarrow> effect_attempt_record \<Rightarrow> application_receipt option \<Rightarrow>
   application_declaration option \<Rightarrow> application_journal_record option \<Rightarrow> unit res" where
  "validate_checkpoint_application X session r application declaration journal =
     (let ahead = ahead_application r application declaration journal in
      if (application \<noteq> None) \<noteq> (ea_application r \<noteq> None) \<and> \<not> ahead then effect_session_error
      else case application of
        None \<Rightarrow> Inr ()
      | Some receipt \<Rightarrow>
          if ahead then
            (case journal of
               None \<Rightarrow> Inl Undefined_behaviour
             | Some j \<Rightarrow> bindE (validate_application_journal session j) (\<lambda>_.
                 validate_ahead_receipt X session receipt j))
          else bindE (validate_checkpoint_receipt session receipt) (\<lambda>_.
            case ea_application r of
              None \<Rightarrow> Inl Undefined_behaviour
            | Some held_fact \<Rightarrow>
                reject (Error invalid_effect_session)
                  [application_receipt_id receipt \<noteq> app_receipt held_fact \<or>
                   application_outcome receipt \<noteq> app_outcome held_fact \<or>
                   text_of (application_journal receipt) \<noteq> text_of (app_journal held_fact) \<or>
                   text_of (application_completed_evidence receipt) \<noteq> text_of (app_completed_evidence held_fact)]))"

definition publication_evidence_rejected ::
  "effect_attempt_record \<Rightarrow> state_publication_request option \<Rightarrow> state_publication_receipt option \<Rightarrow> bool list" where
  "publication_evidence_rejected r request receipt =
     [(request \<noteq> None) \<noteq> (ea_publication_request r \<noteq> None),
      request \<noteq> None \<and> map_option publication_request_id request \<noteq> ea_publication_request r,
      (receipt \<noteq> None) \<noteq> (ea_publication r \<noteq> None),
      receipt \<noteq> None \<and> (map_option receipt_id receipt \<noteq> map_option pub_receipt (ea_publication r) \<or>
        map_option receipt_outcome receipt \<noteq> map_option pub_outcome (ea_publication r))]"

definition validate_checkpoint_journal ::
  "effectful_operation_session \<Rightarrow> effect_attempt_record \<Rightarrow> application_journal_record option \<Rightarrow> unit res" where
  "validate_checkpoint_journal session r journal =
     (case journal of
        None \<Rightarrow> Inr ()
      | Some j \<Rightarrow>
          if ea_stage r \<noteq> Application_intent then effect_session_error
          else bindE (validate_application_journal session j) (\<lambda>_.
            require
              (\<not> (case ea_application r of
                    None \<Rightarrow> False
                  | Some held_fact \<Rightarrow> app_journal held_fact \<noteq> None \<and>
                      app_journal held_fact \<noteq> Some (header_identity (journal_header j))))
              (Error invalid_effect_session)))"

definition effect_restart_checkpoint_make ::
  "ext \<Rightarrow> effectful_operation_session \<Rightarrow> effect_attempt_record \<Rightarrow> lifecycle_execution_result list \<Rightarrow>
   application_receipt option \<Rightarrow> lifecycle_execution_result list \<Rightarrow> state_publication_request option \<Rightarrow>
   state_publication_receipt option \<Rightarrow> application_declaration option \<Rightarrow>
   application_journal_record option \<Rightarrow> effect_restart_checkpoint res" where
  "effect_restart_checkpoint_make X session r before application after request receipt declaration journal =
     bindE (reject (Error invalid_effect_session)
       [ea_session r \<noteq> effect_session_id session \<or>
          unat (ea_before_total r) \<noteq> effect_session_before_count session \<or>
          unat (ea_after_total r) \<noteq> effect_session_after_count session,
        (declaration \<noteq> None) \<noteq> (journal \<noteq> None)]) (\<lambda>_.
     bindE (case (declaration, journal) of
              (Some d, Some j) \<Rightarrow> validate_declaration_projection session d j
            | _ \<Rightarrow> Inr ()) (\<lambda>_.
     bindE (validate_lifecycle_evidence before (ea_before r) (effect_session_before session)) (\<lambda>_.
     bindE (validate_checkpoint_application X session r application declaration journal) (\<lambda>_.
     bindE (validate_lifecycle_evidence after (ea_after r) (effect_session_after session)) (\<lambda>_.
     bindE (reject (Error invalid_effect_session) (publication_evidence_rejected r request receipt)) (\<lambda>_.
     bindE (validate_checkpoint_journal session r journal) (\<lambda>_.
       Inr \<lparr>checkpoint_session = session, checkpoint_record = r, checkpoint_before = before,
            checkpoint_application = application, checkpoint_after = after,
            checkpoint_publication_request = request, checkpoint_publication_receipt = receipt,
            checkpoint_declaration = declaration, checkpoint_journal = journal\<rparr>)))))))"

definition requires_continuation_driver :: "effect_restart_checkpoint \<Rightarrow> bool res" where
  "requires_continuation_driver c =
     bindE (restart_disposition (checkpoint_record c)) (\<lambda>d. Inr
       (case d of
          External_resolution_required \<Rightarrow> False
        | Reconcile_publication \<Rightarrow> False
        | Seal_terminal \<Rightarrow> False
        | Restart_terminal \<Rightarrow> False
        | Resume_application \<Rightarrow> checkpoint_declaration c \<noteq> None \<and> checkpoint_journal c \<noteq> None
        | _ \<Rightarrow> True))"

definition requires_publication_driver :: "effect_restart_checkpoint \<Rightarrow> bool res" where
  "requires_publication_driver c =
     bindE (restart_disposition (checkpoint_record c)) (\<lambda>d. Inr (d = Reconcile_publication))"

end
