(* ===== verification/Effect_Resume.thy ===== *)
theory Effect_Resume
  imports Effect_Restart
begin

text \<open>
  \<^verbatim>\<open>resume_effectful_operation\<close> of \<^verbatim>\<open>src/effect.cpp\<close>: the continuation of an attempt from its last durable
  record. The local variables the C++ function updates (journal, evidence, publication) are arguments.
\<close>

record effect_restart_result =
  result_disposition :: effect_restart_disposition
  result_journal :: effect_attempt_record
  result_operation :: "effectful_operation_result option"

definition restart_result_terminal :: "effect_restart_result \<Rightarrow> bool" where
  "restart_result_terminal r \<longleftrightarrow> ea_stage (result_journal r) = Terminal"

definition external_result :: "effect_attempt_record \<Rightarrow> effect_restart_result" where
  "external_result j = \<lparr>result_disposition = External_resolution_required, result_journal = j,
     result_operation = None\<rparr>"

definition transaction_identity_from_string :: "ext \<Rightarrow> string \<Rightarrow> string res" where
  "transaction_identity_from_string X value =
     (if parse_transaction_evidence X value then Inr value else Inl Std_exception)"

definition state_identity_from_string :: "ext \<Rightarrow> string \<Rightarrow> string res" where
  "state_identity_from_string X value = (if parse_snapshot X value then Inr value else Inl Std_exception)"

definition optionally :: "('a \<Rightarrow> 'b res) \<Rightarrow> 'a option \<Rightarrow> 'b option res" where
  "optionally f v = (case v of None \<Rightarrow> Inr None | Some x \<Rightarrow> bindE (f x) (\<lambda>y. Inr (Some y)))"

definition current_transaction ::
  "ext \<Rightarrow> state_publication_request option \<Rightarrow> effect_attempt_record \<Rightarrow> string option res" where
  "current_transaction X request journal =
     (case Option.bind request publication_transaction_evidence of
        Some t \<Rightarrow> Inr (Some t)
      | None \<Rightarrow> optionally (transaction_identity_from_string X) (ea_transaction_evidence journal))"

text \<open>The closure \<^verbatim>\<open>finish\<close>: the journal is sealed, then the result.\<close>

definition finish ::
  "ext \<Rightarrow> 'e effect_store \<Rightarrow> effectful_operation_session \<Rightarrow> effect_attempt_record \<Rightarrow>
   lifecycle_execution_result list \<Rightarrow> application_receipt option \<Rightarrow> lifecycle_execution_result list \<Rightarrow>
   state_publication_request option \<Rightarrow> state_publication_receipt option \<Rightarrow> effectful_operation_outcome \<Rightarrow>
   snapshot_identity option \<Rightarrow> ('e, effect_restart_result) effect_proc" where
  "finish X S session j before application after request receipt outcome reconciled =
     bindP (append_record S (seal_terminal X j outcome reconciled)) (\<lambda>journal.
     bindP (liftP (current_transaction X request journal)) (\<lambda>transaction.
       retP \<lparr>result_disposition = Restart_terminal, result_journal = journal,
         result_operation = Some (seal_result X session outcome before application after transaction request
           receipt reconciled)\<rparr>))"

section \<open>A terminal record\<close>

definition rehydrate_terminal_effectful_operation ::
  "ext \<Rightarrow> effect_restart_checkpoint \<Rightarrow> effectful_operation_result res" where
  "rehydrate_terminal_effectful_operation X c =
     (let journal = checkpoint_record c in
      case (ea_stage journal, ea_terminal_outcome journal) of
        (Terminal, Some outcome) \<Rightarrow>
          bindE (current_transaction X (checkpoint_publication_request c) journal) (\<lambda>transaction.
          bindE (optionally (state_identity_from_string X) (ea_reconciled_state journal)) (\<lambda>reconciled.
            Inr (seal_result X (checkpoint_session c) outcome (checkpoint_before c) (checkpoint_application c)
              (checkpoint_after c) transaction (checkpoint_publication_request c)
              (checkpoint_publication_receipt c) reconciled)))
      | _ \<Rightarrow> effect_session_error)"

section \<open>Evidence of a failure that was not yet sealed\<close>

definition resume_seal ::
  "ext \<Rightarrow> 'e effect_store \<Rightarrow> effect_restart_checkpoint \<Rightarrow> ('e, effect_restart_result) effect_proc" where
  "resume_seal X S c =
     (let journal = checkpoint_record c;
          done_with = (\<lambda>outcome. finish X S (checkpoint_session c) journal (checkpoint_before c)
            (checkpoint_application c) (checkpoint_after c) (checkpoint_publication_request c)
            (checkpoint_publication_receipt c) outcome None)
      in case ea_stage journal of
           Before_terminal \<Rightarrow> done_with Lifecycle_failed_before_application
         | Application_terminal \<Rightarrow>
             (case ea_application journal of
                None \<Rightarrow> failP Undefined_behaviour
              | Some a \<Rightarrow> bindP (liftP (noncompleted_application_outcome (app_outcome a))) (\<lambda>outcome.
                  if outcome = Application_resolution_required then retP (external_result journal)
                  else done_with outcome))
         | After_terminal \<Rightarrow> done_with Lifecycle_failed_after_application
         | Publication_terminal \<Rightarrow>
             (case checkpoint_publication_receipt c of
                None \<Rightarrow> failP Undefined_behaviour
              | Some receipt \<Rightarrow> done_with (publication_outcome receipt))
         | _ \<Rightarrow> failP (Error invalid_effect_session))"

section \<open>Reconciling a publication\<close>

definition projected_state :: "ext \<Rightarrow> state_publication_request \<Rightarrow> snapshot \<Rightarrow> snapshot res" where
  "projected_state X request expected =
     (case project_publication_request X request expected of
        Inl State_error \<Rightarrow> Inl (Error driver_contract_violation)
      | r \<Rightarrow> r)"

text \<open>What follows the durable receipt of a publication, under a lease that is not asked for again.\<close>

definition settle_publication ::
  "ext \<Rightarrow> 'e effect_store \<Rightarrow> effectful_operation_session \<Rightarrow> effect_attempt_record \<Rightarrow>
   lifecycle_execution_result list \<Rightarrow> application_receipt option \<Rightarrow> lifecycle_execution_result list \<Rightarrow>
   state_publication_request \<Rightarrow> state_publication_receipt \<Rightarrow> ('e, effect_restart_result) effect_proc" where
  "settle_publication X S session journal before application after request receipt =
     (if publication_outcome receipt = State_publication_indeterminate
      then bindP (liftP (current_transaction X (Some request) journal)) (\<lambda>transaction.
        retP \<lparr>result_disposition = Reconcile_publication, result_journal = journal,
          result_operation = Some (seal_result X session (publication_outcome receipt) before application after
            transaction (Some request) (Some receipt) None)\<rparr>)
      else finish X S session journal before application after (Some request) (Some receipt)
             (publication_outcome receipt) None)"

definition resume_reconcile ::
  "ext \<Rightarrow> 'e publication_driver option \<Rightarrow> 'e effect_store \<Rightarrow> 'e body_sink option \<Rightarrow>
   effect_restart_checkpoint \<Rightarrow> ('e, effect_restart_result) effect_proc" where
  "resume_reconcile X publication S bodies c =
     (let session = checkpoint_session c; journal = checkpoint_record c;
          expected = effect_expected_state (effect_request_of session) in
      bindP (liftP (requires_publication_driver c)) (\<lambda>required.
      case (publication, checkpoint_publication_request c) of
        (Some P, Some request) \<Rightarrow>
          if \<not> required then failP (Error invalid_effect_session)
          else bindP (callE Ev_validate_lease (publisher_validate_scope P
                 (application_target_of (effect_application_request (effect_request_of session))))) (\<lambda>_.
            bindP (read_state P) (\<lambda>observed.
            bindP (liftP (projected_state X request expected)) (\<lambda>resulting.
            if snapshot_id observed = snapshot_id resulting
            then finish X S session journal (checkpoint_before c) (checkpoint_application c)
                   (checkpoint_after c) (Some request) (checkpoint_publication_receipt c) Effect_completed
                   (Some (snapshot_id observed))
            else if snapshot_id observed \<noteq> snapshot_id expected \<or> ea_stage journal = Publication_terminal
            then retP (external_result journal)
            else bindP (publish_state (publisher_publish P) request) (\<lambda>receipt.
              if receipt_request receipt \<noteq> publication_request_id request
              then failP (Error driver_contract_violation)
              else bindP (keep_receipt bodies request receipt) (\<lambda>_.
                bindP (append_record S (complete_publication X journal receipt)) (\<lambda>journal'.
                  settle_publication X S session journal' (checkpoint_before c) (checkpoint_application c)
                    (checkpoint_after c) request receipt))))))
      | _ \<Rightarrow> failP (Error invalid_effect_session)))"

section \<open>Continuing with the effects that were not started\<close>

definition resume_publication ::
  "ext \<Rightarrow> 'e effect_driver \<Rightarrow> 'e effect_store \<Rightarrow> 'e body_sink option \<Rightarrow> effect_restart_checkpoint \<Rightarrow>
   lifecycle_execution_result list \<Rightarrow> application_receipt \<Rightarrow> effect_attempt_record \<Rightarrow>
   lifecycle_execution_result list \<Rightarrow> ('e, effect_restart_result) effect_proc" where
  "resume_publication X D S bodies c before application journal after =
     (let session = checkpoint_session c in
      bindP (lease_held D) (\<lambda>held.
      if \<not> held
      then finish X S session journal before (Some application) after (checkpoint_publication_request c)
             (checkpoint_publication_receipt c) Outer_lease_lost None
      else
        let publish = (\<lambda>request intent.
          bindP (publish_state (driver_publish D) request) (\<lambda>receipt.
          if receipt_request receipt \<noteq> publication_request_id request
          then failP (Error driver_contract_violation)
          else bindP (keep_receipt bodies request receipt) (\<lambda>_.
            bindP (append_record S (complete_publication X intent receipt)) (\<lambda>journal'.
            bindP (lease_held D) (\<lambda>still_held.
            if \<not> still_held
            then finish X S session journal' before (Some application) after (Some request) (Some receipt)
                   Outer_lease_lost None
            else settle_publication X S session journal' before (Some application) after request receipt)))))
        in case checkpoint_publication_request c of
             Some request \<Rightarrow> publish request journal
           | None \<Rightarrow>
               (case application_completed_evidence application of
                  None \<Rightarrow> failP Undefined_behaviour
                | Some completed \<Rightarrow>
                    bindP (liftP (transaction_evidence X session before completed after)) (\<lambda>transaction.
                    bindP (liftP (project_publication X (effect_request_of session)
                                    (driver_publication_projection D) completed transaction)) (\<lambda>request.
                    bindP (keep_request bodies request) (\<lambda>_.
                    bindP (append_record S (begin_publication X journal transaction request)) (\<lambda>intent.
                      publish request intent)))))))"

fun resume_after ::
  "ext \<Rightarrow> 'e effect_driver \<Rightarrow> 'e effect_store \<Rightarrow> 'e body_sink option \<Rightarrow> effect_restart_checkpoint \<Rightarrow>
   lifecycle_execution_result list \<Rightarrow> application_receipt \<Rightarrow>
   (effect_attempt_record \<Rightarrow> lifecycle_execution_result list \<Rightarrow> ('e, effect_restart_result) effect_proc) \<Rightarrow>
   admitted_lifecycle_session list \<Rightarrow> effect_attempt_record \<Rightarrow> lifecycle_execution_result list \<Rightarrow>
   ('e, effect_restart_result) effect_proc" where
  "resume_after X D S bodies c before application k [] journal after = k journal after"
| "resume_after X D S bodies c before application k (v # vs) journal after =
     bindP (lease_held D) (\<lambda>held.
     if \<not> held
     then finish X S (checkpoint_session c) journal before (Some application) after
            (checkpoint_publication_request c) (checkpoint_publication_receipt c) Outer_lease_lost None
     else bindP (append_record S (begin_after X journal (word_of_nat (length after)))) (\<lambda>intent.
       bindP (execute_lifecycle D v) (\<lambda>result.
       bindP (liftP (validate_lifecycle_result v result)) (\<lambda>_.
       bindP (keep_lifecycle bodies result) (\<lambda>_.
       bindP (append_record S (complete_after X intent result)) (\<lambda>journal'.
       if \<not> lifecycle_result_succeeded result
       then finish X S (checkpoint_session c) journal' before (Some application) (after @ [result])
              (checkpoint_publication_request c) (checkpoint_publication_receipt c)
              Lifecycle_failed_after_application None
       else resume_after X D S bodies c before application k vs journal' (after @ [result])))))))"

text \<open>After the receipt of the application is durable.\<close>

definition resume_applied ::
  "ext \<Rightarrow> 'e effect_driver \<Rightarrow> 'e effect_store \<Rightarrow> 'e body_sink option \<Rightarrow> effect_restart_checkpoint \<Rightarrow>
   lifecycle_execution_result list \<Rightarrow> application_receipt \<Rightarrow> effect_attempt_record \<Rightarrow>
   ('e, effect_restart_result) effect_proc" where
  "resume_applied X D S bodies c before application journal =
     resume_after X D S bodies c before application (resume_publication X D S bodies c before application)
       (drop (length (checkpoint_after c)) (effect_session_after (checkpoint_session c))) journal
       (checkpoint_after c)"

definition resume_receipt ::
  "ext \<Rightarrow> 'e effect_driver \<Rightarrow> 'e effect_store \<Rightarrow> 'e body_sink option \<Rightarrow> effect_restart_checkpoint \<Rightarrow>
   lifecycle_execution_result list \<Rightarrow> application_receipt \<Rightarrow> effect_attempt_record \<Rightarrow>
   ('e, effect_restart_result) effect_proc" where
  "resume_receipt X D S bodies c before application journal =
     (if application_outcome application \<noteq> Application_completed
      then bindP (liftP (noncompleted_application_outcome (application_outcome application))) (\<lambda>outcome.
        if outcome = Application_resolution_required then retP (external_result journal)
        else finish X S (checkpoint_session c) journal before (Some application) (checkpoint_after c)
               (checkpoint_publication_request c) (checkpoint_publication_receipt c) outcome None)
      else resume_applied X D S bodies c before application journal)"

definition resume_application_step ::
  "ext \<Rightarrow> 'e effect_driver \<Rightarrow> 'e effect_store \<Rightarrow> 'e body_sink option \<Rightarrow> effect_restart_checkpoint \<Rightarrow>
   effect_restart_disposition \<Rightarrow> effect_attempt_record \<Rightarrow> lifecycle_execution_result list \<Rightarrow>
   ('e, effect_restart_result) effect_proc" where
  "resume_application_step X D S bodies c disposition journal before =
     (let session = checkpoint_session c; request = effect_request_of session;
          application_request = effect_application_request request in
      case checkpoint_application c of
        Some application \<Rightarrow>
          if ea_application journal = None then
            bindP (liftP (validate_application_receipt request (driver_publication_projection D) application)) (\<lambda>_.
            bindP (append_record S (complete_application X journal application)) (\<lambda>journal'.
              resume_receipt X D S bodies c before application journal'))
          else resume_applied X D S bodies c before application journal
      | None \<Rightarrow>
          bindP (lease_held D) (\<lambda>held.
          if \<not> held
          then finish X S session journal before None (checkpoint_after c) (checkpoint_publication_request c)
                 (checkpoint_publication_receipt c) Outer_lease_lost None
          else bindP (if ea_stage journal \<noteq> Application_intent
                      then append_record S (begin_application X journal) else retP journal) (\<lambda>intent.
            bindP (if disposition = Resume_application
                   then (case checkpoint_declaration c of
                           None \<Rightarrow> failP (Error invalid_effect_session)
                         | Some declaration \<Rightarrow>
                             resume_application D application_request (declaration_identity declaration))
                   else apply_application D application_request) (\<lambda>application.
            bindP (liftP (validate_application_receipt request (driver_projection D) application)) (\<lambda>_.
            bindP (keep_application bodies application_request application) (\<lambda>_.
            bindP (append_record S (complete_application X intent application)) (\<lambda>journal'.
              resume_receipt X D S bodies c before application journal')))))))"

fun resume_before ::
  "ext \<Rightarrow> 'e effect_driver \<Rightarrow> 'e effect_store \<Rightarrow> 'e body_sink option \<Rightarrow> effect_restart_checkpoint \<Rightarrow>
   (effect_attempt_record \<Rightarrow> lifecycle_execution_result list \<Rightarrow> ('e, effect_restart_result) effect_proc) \<Rightarrow>
   admitted_lifecycle_session list \<Rightarrow> effect_attempt_record \<Rightarrow> lifecycle_execution_result list \<Rightarrow>
   ('e, effect_restart_result) effect_proc" where
  "resume_before X D S bodies c k [] journal before = k journal before"
| "resume_before X D S bodies c k (v # vs) journal before =
     bindP (lease_held D) (\<lambda>held.
     if \<not> held
     then finish X S (checkpoint_session c) journal before (checkpoint_application c) (checkpoint_after c)
            (checkpoint_publication_request c) (checkpoint_publication_receipt c) Outer_lease_lost None
     else bindP (append_record S (begin_before X journal (word_of_nat (length before)))) (\<lambda>intent.
       bindP (execute_lifecycle D v) (\<lambda>result.
       bindP (liftP (validate_lifecycle_result v result)) (\<lambda>_.
       bindP (keep_lifecycle bodies result) (\<lambda>_.
       bindP (append_record S (complete_before X intent result)) (\<lambda>journal'.
       if \<not> lifecycle_result_succeeded result
       then finish X S (checkpoint_session c) journal' (before @ [result]) (checkpoint_application c)
              (checkpoint_after c) (checkpoint_publication_request c) (checkpoint_publication_receipt c)
              Lifecycle_failed_before_application None
       else resume_before X D S bodies c k vs journal' (before @ [result])))))))"

definition resume_continue ::
  "ext \<Rightarrow> 'e effect_driver option \<Rightarrow> 'e effect_store \<Rightarrow> 'e body_sink option \<Rightarrow> effect_restart_checkpoint \<Rightarrow>
   effect_restart_disposition \<Rightarrow> ('e, effect_restart_result) effect_proc" where
  "resume_continue X continuation S bodies c disposition =
     (let session = checkpoint_session c; journal = checkpoint_record c in
      bindP (liftP (requires_continuation_driver c)) (\<lambda>required.
      case continuation of
        None \<Rightarrow> failP (Error invalid_effect_session)
      | Some D \<Rightarrow>
          if \<not> required then failP (Error invalid_effect_session)
          else bindP (lease_held D) (\<lambda>held.
            if \<not> held then failP (Error invalid_effect_session)
            else bindP (validate_lease D
                   (application_target_of (effect_application_request (effect_request_of session)))) (\<lambda>_.
              if disposition = Continue_before_lifecycle \<or> ea_stage journal = Admitted \<or>
                 ea_stage journal = Before_terminal
              then resume_before X D S bodies c (resume_application_step X D S bodies c disposition)
                     (drop (length (checkpoint_before c)) (effect_session_before session)) journal
                     (checkpoint_before c)
              else resume_application_step X D S bodies c disposition journal (checkpoint_before c)))))"

section \<open>The whole continuation\<close>

text \<open>
  The reasons to give an application back unresolved: no durable declaration of it was supplied, or its
  own journal needs external resolution, or ended without the receipt at hand.
\<close>

definition application_unresolved :: "ext \<Rightarrow> effect_restart_checkpoint \<Rightarrow> bool" where
  "application_unresolved X c =
     (case (checkpoint_declaration c, checkpoint_journal c) of
        (Some _, Some journal) \<Rightarrow>
          assess_application_restart X journal = Application_restart_external \<or>
          (assess_application_restart X journal = Application_restart_terminal \<and>
             checkpoint_application c = None)
      | _ \<Rightarrow> True)"

definition resume_effectful_operation ::
  "ext \<Rightarrow> effect_restart_checkpoint \<Rightarrow> 'e effect_driver option \<Rightarrow> 'e publication_driver option \<Rightarrow>
   'e effect_store \<Rightarrow> 'e body_sink option \<Rightarrow> ('e, effect_restart_result) effect_proc" where
  "resume_effectful_operation X c continuation publication S bodies =
     (let journal = checkpoint_record c in
      bindP (load_latest S (ea_attempt journal)) (\<lambda>latest.
      if map_option ea_identity latest \<noteq> Some (ea_identity journal)
      then failP (Error invalid_effect_session)
      else bindP (liftP (assess_effect_restart journal)) (\<lambda>assessment.
        let disposition = assessment_disposition assessment in
        if disposition = External_resolution_required then retP (external_result journal)
        else if disposition = Resume_application \<and> application_unresolved X c
        then retP (external_result journal)
        else if disposition = Restart_terminal
        then bindP (liftP (rehydrate_terminal_effectful_operation X c)) (\<lambda>operation.
          retP \<lparr>result_disposition = Restart_terminal, result_journal = journal,
            result_operation = Some operation\<rparr>)
        else if disposition = Seal_terminal then resume_seal X S c
        else if disposition = Reconcile_publication then resume_reconcile X publication S bodies c
        else resume_continue X continuation S bodies c disposition)))"

end
