(* ===== verification/Effect_Resumed.thy ===== *)
theory Effect_Resumed
  imports Effect_Durable Effect_Resume
begin

text \<open>
  A restarted attempt continues the trace of the one that was interrupted: from its last durable record
  on, the continuation is orderly in the same sense, and its result agrees with the journal.
\<close>

definition agrees ::
  "effectful_operation_session \<Rightarrow> effect_attempt_record \<Rightarrow> effectful_operation_result \<Rightarrow> bool" where
  "agrees s j result \<longleftrightarrow>
     effect_session_of result = s \<and>
     (\<exists>te. matches s j (effect_before result) (effect_application result) (effect_after result) te
       (effect_publication_request result) (effect_publication_receipt result)) \<and>
     ((ea_stage j = Terminal \<and> ea_terminal_outcome j = Some (effect_outcome result) \<and>
        ea_reconciled_state j = effect_reconciled_state result) \<or>
      (ea_stage j = Publication_terminal \<and> effect_outcome result = State_publication_indeterminate \<and>
        effect_reconciled_state result = None))"

definition resumed ::
  "effectful_operation_session \<Rightarrow> effect_attempt_record \<Rightarrow> effect_restart_result \<Rightarrow> bool" where
  "resumed s j result \<longleftrightarrow>
     result_journal result = j \<and>
     (case result_operation result of
        None \<Rightarrow> result_disposition result = External_resolution_required
      | Some operation \<Rightarrow> agrees s j operation \<and>
          result_disposition result \<in> {Restart_terminal, Reconcile_publication} \<and>
          (result_disposition result = Restart_terminal) = (ea_stage j = Terminal))"

abbreviation resumed_end ::
  "ext \<Rightarrow> effectful_operation_session \<Rightarrow> bool \<Rightarrow> application_receipt option \<Rightarrow> effect_attempt_record option \<Rightarrow>
   effect_restart_result \<Rightarrow> (effect_event, 'e) world \<Rightarrow> bool" where
  "resumed_end X s bodies known r0 result w \<equiv> orderly X s bodies known r0 (world_trace w) \<and>
     durable r0 (world_trace w) = Some (result_journal result) \<and> resumed s (result_journal result) result"

lemma finish_wp:
  assumes "store_echoes S" and st: "settled X s bodies known r0 w j before application after te pr pp"
  shows "wp (finish X S s j before application after pr pp outcome reconciled)
    (resumed_end X s bodies known r0) (orderly_end X s bodies known r0) w"
  unfolding finish_def wp_bindP [of "append_record _ _"]
proof (rule settled_append [OF assms], goal_cases)
  case (1 r)
  from seal_terminal_result [OF 1 settled_matches [OF st]] step_seal_terminal [OF 1]
  show ?case using evidenced_terminal by blast
next
  case (2 r e)
  from seal_terminal_result [OF 2(1) settled_matches [OF st]] 2(2,3) show ?case
    by (auto intro!: wp_lift_all simp: wp_retP resumed_def agrees_def)
qed

lemma settle_publication_wp:
  assumes "store_echoes S"
    and st: "settled X s bodies known r0 w j before application after te (Some request) (Some receipt)"
    and "ea_stage j = Publication_terminal"
  shows "wp (settle_publication X S s j before application after request receipt)
    (resumed_end X s bodies known r0) (orderly_end X s bodies known r0) w"
proof (cases "publication_outcome receipt = State_publication_indeterminate")
  case True
  have "wp (bindP (liftP (current_transaction X (Some request) j)) (\<lambda>transaction.
        retP \<lparr>result_disposition = Reconcile_publication, result_journal = j,
          result_operation = Some (seal_result X s (publication_outcome receipt) before application after
            transaction (Some request) (Some receipt) None)\<rparr>))
     (resumed_end X s bodies known r0) (orderly_end X s bodies known r0) w"
    using st True assms(3)
    by (intro wp_lift_all) (auto simp: wp_retP settled_def resumed_def agrees_def)
  with True show ?thesis by (simp add: settle_publication_def)
next
  case False
  then show ?thesis using finish_wp [OF assms(1,2)] by (simp add: settle_publication_def)
qed

lemma resume_publication_wp:
  assumes echo: "store_echoes S" and bodies: "bodies \<longleftrightarrow> B \<noteq> None"
    and c: "checkpoint_session c = s" "checkpoint_publication_request c = None" "checkpoint_publication_receipt c = None"
    and s: "settled X s bodies known r0 w j before (Some application) after None None None"
  shows "wp (resume_publication X D S B c before application j after)
    (resumed_end X s bodies known r0) (orderly_end X s bodies known r0) w"
  unfolding resume_publication_def Let_def c option.case
proof (rule lease_held_wp [OF s], goal_cases)
  case (1 w')
  then show ?case by (rule finish_wp [OF echo])
next
  case (2 w')
  note s' = 2(1)
  show ?case
  proof (cases "application_completed_evidence application")
    case None
    then show ?thesis using settled_orderly [OF s'] by (simp add: wp_failP)
  next
    case (Some completed)
    show ?thesis
      unfolding Some option.case
    proof (intro wp_lift_all settled_orderly [OF s'] publication_intent_wp [OF echo bodies s' 2(2)], goal_cases)
      case (1 transaction request w2 intent)
      show ?case
      proof (rule publication_evidence_wp [OF echo bodies 1(3-5)], goal_cases)
        case (1 w3 j' receipt)
        note publication = 1
        show ?case
        proof (rule lease_held_wp [OF 1(1)], goal_cases)
          case (1 w4)
          then show ?case by (rule finish_wp [OF echo])
        next
          case (2 w4)
          show ?case by (rule settle_publication_wp [OF echo 2(1) publication(2)])
        qed
      qed
    qed
  qed
qed

lemma resume_after_wp:
  assumes echo: "store_echoes S" and bodies: "bodies \<longleftrightarrow> B \<noteq> None"
    and c: "checkpoint_session c = s" "checkpoint_publication_request c = None" "checkpoint_publication_receipt c = None"
    and k: "\<And>w j after. settled X s bodies known r0 w j before (Some application) after None None None \<Longrightarrow>
      wp (k j after) (resumed_end X s bodies known r0) (orderly_end X s bodies known r0) w"
  shows "settled X s bodies known r0 w j before (Some application) after None None None \<Longrightarrow>
    vs = drop (length after) (effect_session_after s) \<Longrightarrow>
    wp (resume_after X D S B c before application k vs j after) (resumed_end X s bodies known r0)
      (orderly_end X s bodies known r0) w"
proof (induction vs arbitrary: w j after)
  case Nil
  then show ?case using k by simp
next
  case (Cons v vs)
  note d = Cons.prems(2)
  show ?case
    unfolding resume_after.simps c
  proof (rule lease_held_wp [OF Cons.prems(1)], goal_cases)
    case (1 w')
    then show ?case by (rule finish_wp [OF echo])
  next
    case (2 w')
    show ?case
    proof (rule lifecycle_step_wp [OF echo bodies 2(1,2), where before' = "\<lambda>_. before"
          and after' = "\<lambda>result. after @ [result]"], goal_cases)
      case (1 r)
      note R = begin_after_result [OF 1 settled_matches [OF 2(1)]]
      have "announced s r = Some v" using R d by (intro announced_after) (auto simp: matches_def)
      with R step_begin_after [OF 1] show ?case by blast
    next
      case (2 i result r)
      from complete_after_result [OF 2] step_complete_after [OF 2(1)] show ?case
        using matches_after_last by blast
    next
      case (3 w2 r result)
      show ?case using finish_wp [OF echo 3(1)] Cons.IH [OF 3(1)] drop_next [OF d] by simp
    qed
  qed
qed

lemma resume_applied_wp:
  assumes echo: "store_echoes S" and bodies: "bodies \<longleftrightarrow> B \<noteq> None"
    and c: "checkpoint_session c = s" "checkpoint_publication_request c = None" "checkpoint_publication_receipt c = None"
    and s: "settled X s bodies known r0 w j before (Some application) (checkpoint_after c) None None None"
  shows "wp (resume_applied X D S B c before application j)
    (resumed_end X s bodies known r0) (orderly_end X s bodies known r0) w"
  unfolding resume_applied_def c
  by (rule resume_after_wp [OF echo bodies c _ s refl]) (rule resume_publication_wp [OF echo bodies c])

lemma resume_receipt_wp:
  assumes echo: "store_echoes S" and bodies: "bodies \<longleftrightarrow> B \<noteq> None"
    and c: "checkpoint_session c = s" "checkpoint_publication_request c = None" "checkpoint_publication_receipt c = None"
    and s: "settled X s bodies known r0 w j before (Some application) (checkpoint_after c) None None None"
  shows "wp (resume_receipt X D S B c before application j)
    (resumed_end X s bodies known r0) (orderly_end X s bodies known r0) w"
proof (cases "application_outcome application = Application_completed")
  case True
  then show ?thesis using resume_applied_wp [OF assms] by (simp add: resume_receipt_def)
next
  case False
  have "wp (if outcome = Application_resolution_required then retP (external_result j)
        else finish X S s j before (Some application) (checkpoint_after c) None None outcome None)
      (resumed_end X s bodies known r0) (orderly_end X s bodies known r0) w" for outcome
    using finish_wp [OF echo s] s
    by (simp add: wp_retP external_result_def resumed_def settled_def)
  then have "wp (bindP (liftP (noncompleted_application_outcome (application_outcome application))) (\<lambda>outcome.
        if outcome = Application_resolution_required then retP (external_result j)
        else finish X S s j before (Some application) (checkpoint_after c) None None outcome None))
      (resumed_end X s bodies known r0) (orderly_end X s bodies known r0) w"
    by (intro wp_lift_all settled_orderly [OF s])
  with False show ?thesis unfolding resume_receipt_def c by simp
qed

section \<open>The application\<close>

text \<open>A receipt that is ahead of the journal, one the journal has, and none.\<close>

lemma resume_ahead_wp:
  assumes echo: "store_echoes S" and bodies: "bodies \<longleftrightarrow> B \<noteq> None"
    and c: "checkpoint_session c = s" "checkpoint_publication_request c = None" "checkpoint_publication_receipt c = None"
      "checkpoint_after c = []" "checkpoint_application c = Some application" "ea_application j = None"
    and known: "known = Some application"
    and s: "settled X s bodies known r0 w j before None [] None None None"
  shows "wp (resume_application_step X D S B c disposition j before)
    (resumed_end X s bodies known r0) (orderly_end X s bodies known r0) w"
proof -
  have "wp (bindP (append_record S (complete_application X j application)) (\<lambda>j'.
      resume_receipt X D S B c before application j')) (resumed_end X s bodies known r0) (orderly_end X s bodies known r0) w"
    unfolding wp_bindP
  proof (rule settled_append [OF echo s], goal_cases)
    case (1 r)
    from complete_application_result [OF 1 settled_matches [OF s]] step_complete_application [OF 1] known
    show ?case by (auto simp: evidenced_def kept_def)
  next
    case (2 r e)
    from complete_application_result [OF 2(1) settled_matches [OF s]] 2(2-4) show ?case
      by (intro resume_receipt_wp [OF echo bodies c(1-3)]) (simp_all add: settled_def c)
  qed
  then show ?thesis using settled_orderly [OF s]
    by (auto simp: resume_application_step_def Let_def c intro!: wp_lift_all)
qed

lemma resume_new_application_wp:
  assumes echo: "store_echoes S" and bodies: "bodies \<longleftrightarrow> B \<noteq> None"
    and c: "checkpoint_session c = s" "checkpoint_publication_request c = None" "checkpoint_publication_receipt c = None"
      "checkpoint_after c = []" "checkpoint_application c = None"
    and stage: "(ea_stage j = Application_intent) = (disposition = Resume_application)"
    and fresh: "ea_stage j = Application_intent \<Longrightarrow> effects (world_trace w) = [] \<and> durable r0 (world_trace w) = r0"
    and s: "settled X s bodies known r0 w j before None [] None None None"
  shows "wp (resume_application_step X D S B c disposition j before)
    (resumed_end X s bodies known r0) (orderly_end X s bodies known r0) w"
  unfolding resume_application_step_def Let_def c option.case
proof (rule lease_held_wp [OF s], goal_cases)
  case (1 w')
  then show ?case by (rule finish_wp [OF echo])
next
  case (2 w')
  note s' = 2(1)
  let ?q = "effect_application_request (effect_request_of s)"
  have rest: "wp (bindP (liftP (validate_application_receipt (effect_request_of s) (driver_projection D) app)) (\<lambda>_.
      bindP (keep_application B ?q app) (\<lambda>_. bindP (append_record S (complete_application X i app)) (\<lambda>j'.
        resume_receipt X D S B c before app j')))) (resumed_end X s bodies known r0) (orderly_end X s bodies known r0) w3"
    if "settled X s bodies known r0 w3 i before None [] None None None"
      and "(\<exists>q. pending_effect (world_trace w3) = Some (Ev_apply q (Inr app))) \<or>
        (\<exists>q d. pending_effect (world_trace w3) = Some (Ev_resume q d (Inr app)))" for w3 i app
    by (rule application_evidence_wp [OF echo bodies that])
      (rule resume_receipt_wp [OF echo bodies c(1-3)], simp add: c)
  show ?case
  proof (cases "ea_stage j = Application_intent")
    case True
    have d: "durable r0 (world_trace w') = Some j" "durable r0 (world_trace w) = Some j"
      using s s' by (simp_all add: settled_def)
    with fresh [OF True] have "r0 = Some j" by simp
    then have J: "justified X s bodies known r0 (world_trace w') (Ev_resume ?q d x)" for d x
      using fresh [OF True] 2(2,3) d True by simp
    show ?thesis
    proof (cases "checkpoint_declaration c")
      case None
      then show ?thesis using True stage settled_orderly [OF s'] by (simp add: wp_failP)
    next
      case (Some d)
      have "wp (bindP (resume_application D ?q (declaration_identity d)) (\<lambda>app.
          bindP (liftP (validate_application_receipt (effect_request_of s) (driver_projection D) app)) (\<lambda>_.
          bindP (keep_application B ?q app) (\<lambda>_. bindP (append_record S (complete_application X j app)) (\<lambda>j'.
          resume_receipt X D S B c before app j'))))) (resumed_end X s bodies known r0) (orderly_end X s bodies known r0) w'"
        unfolding resume_application_def wp_bindP [of "callE _ _"]
      proof (rule wp_callE_all, goal_cases)
        case (1 x e)
        show ?case using settled_orderly [OF s'] J by (simp del: justified.simps)
      next
        case (2 app e)
        show ?case by (rule rest [OF settled_event [OF s' _ J]]) simp_all
      qed
      then show ?thesis using True stage Some by simp
    qed
  next
    case False
    have "wp (bindP (append_record S (begin_application X j)) (\<lambda>i. bindP (apply_application D ?q) (\<lambda>app.
          bindP (liftP (validate_application_receipt (effect_request_of s) (driver_projection D) app)) (\<lambda>_.
          bindP (keep_application B ?q app) (\<lambda>_. bindP (append_record S (complete_application X i app)) (\<lambda>j'.
          resume_receipt X D S B c before app j')))))) (resumed_end X s bodies known r0) (orderly_end X s bodies known r0) w'"
      unfolding wp_bindP [of "append_record _ _"]
    proof (rule settled_append [OF echo s'], goal_cases)
      case (1 i)
      from begin_application_result [OF 1 settled_matches [OF s']] step_begin_application [OF 1]
      show ?case using evidenced_intent by blast
    next
      case (2 i e)
      let ?w = "extended w' (Ev_append i (Inr i)) e"
      note I = begin_application_result [OF 2(1) settled_matches [OF s']]
      have s2: "settled X s bodies known r0 ?w i before None [] None None None"
        using 2(2-4) I by (simp add: settled_def)
      have J: "justified X s bodies known r0 (world_trace ?w) (Ev_apply ?q x)" for x
        using directly_intendedI [OF \<open>\<exists>tr'. world_trace w' = tr' @ [Ev_held True]\<close>] I by simp
      show ?case
        unfolding apply_application_def wp_bindP [of "callE _ _"]
      proof (rule wp_callE_all, goal_cases)
        case (1 x e)
        show ?case using settled_orderly [OF s2] J by simp
      next
        case (2 app e')
        show ?case by (rule rest [OF settled_event [OF s2 _ J]]) simp_all
      qed
    qed
    then show ?thesis using False stage by simp
  qed
qed

end
