(* ===== verification/Effect_Reopened.thy ===== *)
theory Effect_Reopened
  imports Effect_Resumed
begin

text \<open>What a checkpoint that was made knows about its record, and the whole continuation.\<close>

section \<open>Checkpoints\<close>

definition checkpoint_ok :: "ext \<Rightarrow> effect_restart_checkpoint \<Rightarrow> bool" where
  "checkpoint_ok X c \<longleftrightarrow>
     effect_valid X (checkpoint_record c) \<and> totals_ok (checkpoint_record c) \<and>
     effect_restart_checkpoint_make X (checkpoint_session c) (checkpoint_record c) (checkpoint_before c)
       (checkpoint_application c) (checkpoint_after c) (checkpoint_publication_request c)
       (checkpoint_publication_receipt c) (checkpoint_declaration c) (checkpoint_journal c) = Inr c"

lemma lifecycle_evidence_map:
  assumes "validate_lifecycle_evidence results facts sessions = Inr ()"
  shows "map lifecycle_fact_of results = facts"
proof (rule nth_equalityI)
  from assms show l: "length (map lifecycle_fact_of results) = length facts"
    by (auto simp: validate_lifecycle_evidence_def split: if_splits)
  fix i assume "i < length (map lifecycle_fact_of results)"
  then have i: "i < length results" by simp
  then have "\<not> lifecycle_evidence_rejected (results ! i) (facts ! i) (sessions ! i)"
    using assms by (auto simp: validate_lifecycle_evidence_def forE_Inr_iff split: if_splits)
  then show "map lifecycle_fact_of results ! i = facts ! i"
    using i by (simp add: lifecycle_evidence_rejected_def lifecycle_fact_of_def)
qed

lemma checkpoint_makeD:
  assumes "effect_restart_checkpoint_make X s r before application after request receipt d j = Inr c"
  shows "ea_session r = effect_session_id s" and "unat (ea_before_total r) = effect_session_before_count s"
    and "unat (ea_after_total r) = effect_session_after_count s"
    and "map lifecycle_fact_of before = ea_before r" and "map lifecycle_fact_of after = ea_after r"
    and "validate_checkpoint_application X s r application d j = Inr ()"
    and "list_all Not (publication_evidence_rejected r request receipt)"
  using assms
  by (auto simp: effect_restart_checkpoint_make_def bindE_Inr_iff reject_iff dest!: lifecycle_evidence_map)

lemma checkpoint_application_matches:
  assumes "validate_checkpoint_application X s r application d j = Inr ()"
  shows "application_matches (ea_application r) (if ea_application r = None then None else application)"
  using assms
  by (cases "ea_application r"; cases application)
    (auto simp: validate_checkpoint_application_def ahead_application_def Let_def bindE_Inr_iff reject_iff
      split: if_splits)

lemma checkpoint_publication_matches:
  assumes "list_all Not (publication_evidence_rejected r request receipt)"
  shows "ea_publication_request r = map_option publication_request_id request"
    and "publication_matches (ea_publication r) receipt"
  using assms
  by (cases request; cases "ea_publication_request r"; auto simp: publication_evidence_rejected_def)
    (use assms in \<open>cases receipt; cases "ea_publication r"; auto simp: publication_evidence_rejected_def\<close>)

text \<open>The receipt the controller starts with: one that the journal does not have yet does not count.\<close>

definition retained_application :: "effect_restart_checkpoint \<Rightarrow> application_receipt option" where
  "retained_application c =
     (if ea_application (checkpoint_record c) = None then None else checkpoint_application c)"

lemma checkpoint_matches:
  assumes "checkpoint_ok X c"
  shows "matches (checkpoint_session c) (checkpoint_record c) (checkpoint_before c) (retained_application c)
    (checkpoint_after c) (ea_transaction_evidence (checkpoint_record c)) (checkpoint_publication_request c)
    (checkpoint_publication_receipt c)"
proof -
  note C = assms [unfolded checkpoint_ok_def]
  note D = checkpoint_makeD [OF C [THEN conjunct2, THEN conjunct2]]
  have "ea_before_total (checkpoint_record c) = word_of_nat (effect_session_before_count (checkpoint_session c))"
    and "ea_after_total (checkpoint_record c) = word_of_nat (effect_session_after_count (checkpoint_session c))"
    by (simp_all flip: D(2,3))
  with D(1,4,5) checkpoint_application_matches [OF D(6)] checkpoint_publication_matches [OF D(7)] show ?thesis
    by (simp add: matches_def retained_application_def)
qed

abbreviation start_record :: "effect_restart_checkpoint \<Rightarrow> effect_attempt_record option" where
  "start_record c \<equiv> Some (checkpoint_record c)"

text \<open>Before anything was appended.\<close>

lemma checkpoint_settled:
  assumes "checkpoint_ok X c"
    and "orderly X (checkpoint_session c) bodies known (start_record c) (world_trace w)"
    and "durable (start_record c) (world_trace w) = start_record c"
    and "checkpoint_publication_receipt c = None \<Longrightarrow> unpublished (world_trace w)"
  shows "settled X (checkpoint_session c) bodies known (start_record c) w (checkpoint_record c)
    (checkpoint_before c) (retained_application c) (checkpoint_after c)
    (ea_transaction_evidence (checkpoint_record c)) (checkpoint_publication_request c)
    (checkpoint_publication_receipt c)"
  using assms checkpoint_matches [OF assms(1)] by (simp add: settled_def)

lemma checkpoint_open:
  assumes "checkpoint_ok X c"
    and "ea_stage (checkpoint_record c) \<in>
      {Admitted, Before_terminal, Application_intent, Application_terminal, After_terminal}"
  shows "checkpoint_publication_request c = None" and "checkpoint_publication_receipt c = None"
    and "ea_transaction_evidence (checkpoint_record c) = None"
    and "ea_stage (checkpoint_record c) \<in> {Admitted, Before_terminal, Application_intent} \<Longrightarrow>
      checkpoint_after c = [] \<and> ea_application (checkpoint_record c) = None"
    and "ea_stage (checkpoint_record c) \<in> {Application_terminal, After_terminal} \<Longrightarrow>
      ea_application (checkpoint_record c) \<noteq> None"
proof -
  note m = checkpoint_matches [OF assms(1)]
  have v: "\<not> stage_rejected (checkpoint_record c)"
    using assms(1) effect_validD(4) unfolding checkpoint_ok_def by blast
  from v assms(2) have "\<not> has_publication_authority (checkpoint_record c)"
    by (auto simp: stage_rejected_def)
  with m show "checkpoint_publication_request c = None" "checkpoint_publication_receipt c = None"
    "ea_transaction_evidence (checkpoint_record c) = None"
    by (auto simp: has_publication_authority_def matches_def)
  show "checkpoint_after c = [] \<and> ea_application (checkpoint_record c) = None"
    if "ea_stage (checkpoint_record c) \<in> {Admitted, Before_terminal, Application_intent}"
    using v that m by (auto simp: stage_rejected_def matches_def)
  show "ea_application (checkpoint_record c) \<noteq> None"
    if "ea_stage (checkpoint_record c) \<in> {Application_terminal, After_terminal}"
    using v that by (auto simp: stage_rejected_def application_complete_def split: option.splits)
qed

section \<open>Continuing\<close>

lemma resume_before_wp:
  assumes echo: "store_echoes S" and bodies: "bodies \<longleftrightarrow> B \<noteq> None"
    and c: "checkpoint_session c = s" "checkpoint_publication_request c = None" "checkpoint_publication_receipt c = None"
      "checkpoint_after c = []" "checkpoint_application c = None"
    and k: "\<And>w j before. settled X s bodies known r0 w j before None [] None None None \<Longrightarrow>
      ea_stage j \<noteq> Application_intent \<Longrightarrow>
      wp (k j before) (resumed_end X s bodies known r0) (orderly_end X s bodies known r0) w"
  shows "settled X s bodies known r0 w j before None [] None None None \<Longrightarrow> ea_stage j \<noteq> Application_intent \<Longrightarrow>
    vs = drop (length before) (effect_session_before s) \<Longrightarrow>
    wp (resume_before X D S B c k vs j before) (resumed_end X s bodies known r0)
      (orderly_end X s bodies known r0) w"
proof (induction vs arbitrary: w j before)
  case Nil
  then show ?case using k by simp
next
  case (Cons v vs)
  note d = Cons.prems(3)
  show ?case
    unfolding resume_before.simps c
  proof (rule lease_held_wp [OF Cons.prems(1)], goal_cases)
    case (1 w')
    then show ?case by (rule finish_wp [OF echo])
  next
    case (2 w')
    show ?case
    proof (rule lifecycle_step_wp [OF echo bodies 2(1,2), where before' = "\<lambda>result. before @ [result]"
          and after' = "\<lambda>_. []"], goal_cases)
      case (1 r)
      note R = begin_before_result [OF 1 settled_matches [OF 2(1)]]
      have "announced s r = Some v" using R d by (intro announced_before) (auto simp: matches_def)
      with R step_begin_before [OF 1] show ?case by blast
    next
      case (2 i result r)
      from complete_before_result [OF 2] step_complete_before [OF 2(1)] show ?case
        using matches_before_last by blast
    next
      case (3 w2 r result)
      have "ea_stage r \<noteq> Application_intent" using 3(2) by auto
      then show ?case using finish_wp [OF echo 3(1)] Cons.IH [OF 3(1)] drop_next [OF d] by simp
    qed
  qed
qed

text \<open>The stage an automatic continuation starts from.\<close>

lemma continuing_stage:
  assumes "restart_disposition r = Inr d"
    and "d \<notin> {External_resolution_required, Restart_terminal, Seal_terminal, Reconcile_publication}"
  shows "ea_stage r \<in> {Admitted, Before_terminal, Application_intent, Application_terminal, After_terminal}"
    and "(ea_stage r = Application_intent) = (d = Resume_application)"
    and "d = Continue_before_lifecycle \<Longrightarrow> ea_stage r \<in> {Admitted, Before_terminal}"
  using assms
  by (cases "ea_stage r";
      auto simp: restart_disposition_def split: if_splits option.splits application_effect_classification.splits)+

lemma checkpoint_application_retained:
  assumes "checkpoint_ok X c" and "ea_stage (checkpoint_record c) \<noteq> Application_intent"
  shows "checkpoint_application c = retained_application c"
proof -
  have "validate_checkpoint_application X (checkpoint_session c) (checkpoint_record c) (checkpoint_application c)
      (checkpoint_declaration c) (checkpoint_journal c) = Inr ()"
    using checkpoint_makeD(6) assms(1) unfolding checkpoint_ok_def by blast
  with assms(2) show ?thesis
    by (auto simp: retained_application_def validate_checkpoint_application_def ahead_application_def Let_def
        split: if_splits)
qed

lemma resume_continue_wp:
  assumes echo: "store_echoes S" and bodies: "bodies \<longleftrightarrow> B \<noteq> None" and ok: "checkpoint_ok X c"
    and d: "restart_disposition (checkpoint_record c) = Inr d"
      "d \<notin> {External_resolution_required, Restart_terminal, Seal_terminal, Reconcile_publication}"
    and o: "orderly X s bodies known (start_record c) (world_trace w)"
      "durable (start_record c) (world_trace w) = start_record c" "effects (world_trace w) = []"
    and known: "known = checkpoint_application c" and c: "checkpoint_session c = s"
  shows "wp (resume_continue X continuation S B c d)
    (resumed_end X s bodies known (start_record c)) (orderly_end X s bodies known (start_record c)) w"
proof -
  let ?r = "checkpoint_record c"
  note st = continuing_stage [OF d]
  note P = checkpoint_open [OF ok st(1)]
  have u: "unpublished (world_trace w)" using o(3) by (auto simp: effects_def unpublished_def filter_empty_conv)
  have s0: "settled X s bodies known (start_record c) w ?r (checkpoint_before c) (retained_application c)
      (checkpoint_after c) None None None"
    using checkpoint_settled [OF ok, of bodies known w] o u P(1-3) c by simp
  have main: "wp (if d = Continue_before_lifecycle \<or> ea_stage ?r = Admitted \<or> ea_stage ?r = Before_terminal
      then resume_before X D S B c (resume_application_step X D S B c d)
             (drop (length (checkpoint_before c)) (effect_session_before s)) ?r (checkpoint_before c)
      else resume_application_step X D S B c d ?r (checkpoint_before c))
    (resumed_end X s bodies known (start_record c)) (orderly_end X s bodies known (start_record c)) w'"
    if s': "settled X s bodies known (start_record c) w' ?r (checkpoint_before c) (retained_application c)
      (checkpoint_after c) None None None" and e: "effects (world_trace w') = []" for w' D
  proof -
    consider "ea_stage ?r \<in> {Admitted, Before_terminal}" | "ea_stage ?r = Application_intent"
      | "ea_stage ?r \<in> {Application_terminal, After_terminal}"
      using st(1) by auto
    then show ?thesis
    proof cases
      case 1
      have a: "checkpoint_after c = []" "retained_application c = None" "checkpoint_application c = None"
        using P(4) 1 checkpoint_application_retained [OF ok] by (auto simp: retained_application_def)
      have i: "ea_stage ?r \<noteq> Application_intent" "d \<noteq> Resume_application" using 1 st(2) by auto
      have "wp (resume_before X D S B c (resume_application_step X D S B c d)
          (drop (length (checkpoint_before c)) (effect_session_before s)) ?r (checkpoint_before c))
        (resumed_end X s bodies known (start_record c)) (orderly_end X s bodies known (start_record c)) w'"
      proof (rule resume_before_wp [OF echo bodies c P(1,2) a(1,3) _ _ i(1) refl])
        show "settled X s bodies known (start_record c) w' ?r (checkpoint_before c) None [] None None None"
          using s' a by simp
        show "wp (resume_application_step X D S B c d j before)
            (resumed_end X s bodies known (start_record c)) (orderly_end X s bodies known (start_record c)) w2"
          if "settled X s bodies known (start_record c) w2 j before None [] None None None"
            and "ea_stage j \<noteq> Application_intent" for w2 j before
          using that i by (intro resume_new_application_wp [OF echo bodies c P(1,2) a(1,3)]) auto
      qed
      then show ?thesis using 1 by auto
    next
      case 2
      then have a: "checkpoint_after c = []" "retained_application c = None" "ea_application ?r = None"
        using P(4) by (auto simp: retained_application_def)
      have s2: "settled X s bodies known (start_record c) w' ?r (checkpoint_before c) None [] None None None"
        using s' a by simp
      have "wp (resume_application_step X D S B c d ?r (checkpoint_before c))
        (resumed_end X s bodies known (start_record c)) (orderly_end X s bodies known (start_record c)) w'"
      proof (cases "checkpoint_application c")
        case None
        have "durable (start_record c) (world_trace w') = start_record c" using s2 by (simp add: settled_def)
        with None show ?thesis using st(2) e
          by (intro resume_new_application_wp [OF echo bodies c P(1,2) a(1) _ _ _ s2]) auto
      next
        case (Some application)
        then show ?thesis using known
          by (intro resume_ahead_wp [OF echo bodies c P(1,2) a(1) _ a(3) _ s2]) auto
      qed
      then show ?thesis using 2 st(3) by auto
    next
      case 3
      then have "ea_application ?r \<noteq> None" using P(5) by simp
      moreover from this s' obtain application where a: "retained_application c = Some application"
        by (cases "retained_application c") (auto simp: settled_def matches_def)
      moreover have "checkpoint_application c = Some application"
        using checkpoint_application_retained [OF ok] 3 a by auto
      moreover have "wp (resume_applied X D S B c (checkpoint_before c) application ?r)
        (resumed_end X s bodies known (start_record c)) (orderly_end X s bodies known (start_record c)) w'"
        using s' a by (intro resume_applied_wp [OF echo bodies c P(1,2)]) simp
      ultimately show ?thesis using 3 st(3) by (auto simp: resume_application_step_def Let_def)
    qed
  qed
  have fail: "wp (failP x) (resumed_end X s bodies known (start_record c))
      (orderly_end X s bodies known (start_record c)) w'"
    if "orderly_end X s bodies known (start_record c) w'" for x w'
    using that by (simp add: wp_failP)
  show ?thesis
  proof (cases continuation)
    case None
    then show ?thesis using fail [OF o(1)]
      by (auto simp: resume_continue_def Let_def intro!: wp_lift_all o(1))
  next
    case (Some D)
    have held: "wp (bindP (lease_held D) (\<lambda>held. if \<not> held then failP (Error invalid_effect_session)
        else bindP (validate_lease D (application_target_of (effect_application_request (effect_request_of s)))) (\<lambda>_.
          if d = Continue_before_lifecycle \<or> ea_stage ?r = Admitted \<or> ea_stage ?r = Before_terminal
          then resume_before X D S B c (resume_application_step X D S B c d)
             (drop (length (checkpoint_before c)) (effect_session_before s)) ?r (checkpoint_before c)
          else resume_application_step X D S B c d ?r (checkpoint_before c))))
      (resumed_end X s bodies known (start_record c)) (orderly_end X s bodies known (start_record c)) w"
    proof (rule lease_held_wp [OF s0], goal_cases)
      case (1 w')
      then show ?case using fail settled_orderly by blast
    next
      case (2 w')
      show ?case
        unfolding validate_lease_def wp_bindP [of "callE _ _"]
      proof (rule wp_callE_all, goal_cases)
        case (1 x e)
        then show ?case using settled_orderly [OF 2(1)] by simp
      next
        case (2 y e)
        show ?case
          using \<open>effects (world_trace w') = effects (world_trace w)\<close> o(3)
          by (intro main settled_event [OF \<open>settled X s bodies known (start_record c) w' _ _ _ _ _ _ _\<close>]) simp_all
      qed
    qed
    show ?thesis
      unfolding resume_continue_def Let_def c Some option.case
    proof (rule wp_lift_all [where E = "orderly_end X s bodies known (start_record c)"], goal_cases)
      case 1
      show ?case by (rule o(1))
    next
      case (2 required)
      then show ?case using held fail [OF o(1)] by simp
    qed
  qed
qed

section \<open>Sealing and reconciling\<close>

lemma resume_seal_wp:
  assumes echo: "store_echoes S" and ok: "checkpoint_ok X c" and c: "checkpoint_session c = s"
    and o: "orderly X s bodies known (start_record c) (world_trace w)"
      "durable (start_record c) (world_trace w) = start_record c" "effects (world_trace w) = []"
    and d: "ea_stage (checkpoint_record c) \<noteq> Application_intent"
  shows "wp (resume_seal X S c)
    (resumed_end X s bodies known (start_record c)) (orderly_end X s bodies known (start_record c)) w"
proof -
  have u: "unpublished (world_trace w)" using o(3) by (auto simp: effects_def unpublished_def filter_empty_conv)
  have s0: "settled X s bodies known (start_record c) w (checkpoint_record c) (checkpoint_before c)
      (checkpoint_application c) (checkpoint_after c) (ea_transaction_evidence (checkpoint_record c))
      (checkpoint_publication_request c) (checkpoint_publication_receipt c)"
    using checkpoint_settled [OF ok, of bodies known w] o u c checkpoint_application_retained [OF ok d] by simp
  note F = finish_wp [OF echo s0]
  have F': "wp (finish X S s (checkpoint_record c) (checkpoint_before c) (checkpoint_application c)
      (checkpoint_after c) (checkpoint_publication_request c) (Some receipt) outcome None)
      (resumed_end X s bodies known (start_record c)) (orderly_end X s bodies known (start_record c)) w"
    if "checkpoint_publication_receipt c = Some receipt" for receipt outcome
    using F [of outcome None] that by simp
  have external: "wp (retP (external_result (checkpoint_record c)))
      (resumed_end X s bodies known (start_record c)) (orderly_end X s bodies known (start_record c)) w"
    using o by (simp add: wp_retP external_result_def resumed_def)
  have fail: "wp (failP x) (resumed_end X s bodies known (start_record c))
      (orderly_end X s bodies known (start_record c)) w" for x
    using o by (simp add: wp_failP)
  show ?thesis
    unfolding resume_seal_def Let_def c
    by (cases "ea_stage (checkpoint_record c)")
      (auto simp: F F' external fail split: option.split intro!: wp_lift_all o(1))
qed

lemma resume_reconcile_wp:
  assumes echo: "store_echoes S" and bodies: "bodies \<longleftrightarrow> B \<noteq> None" and ok: "checkpoint_ok X c"
    and c: "checkpoint_session c = s"
    and o: "orderly X s bodies known (start_record c) (world_trace w)"
      "durable (start_record c) (world_trace w) = start_record c" "effects (world_trace w) = []"
    and d: "restart_disposition (checkpoint_record c) = Inr Reconcile_publication"
  shows "wp (resume_reconcile X publication S B c)
    (resumed_end X s bodies known (start_record c)) (orderly_end X s bodies known (start_record c)) w"
proof -
  let ?r = "checkpoint_record c"
  let ?Q = "resumed_end X s bodies known (start_record c)" and ?E = "orderly_end X s bodies known (start_record c)"
  have st: "ea_stage ?r \<in> {Publication_intent, Publication_terminal}"
    using d by (cases "ea_stage ?r") (auto simp: restart_disposition_def
        split: if_splits option.splits application_effect_classification.splits)
  have u: "unpublished (world_trace w)" using o(3) by (auto simp: effects_def unpublished_def filter_empty_conv)
  have a: "checkpoint_application c = retained_application c"
    using st by (intro checkpoint_application_retained [OF ok]) auto
  let ?settled = "\<lambda>w. settled X s bodies known (start_record c) w ?r (checkpoint_before c)
      (checkpoint_application c) (checkpoint_after c) (ea_transaction_evidence ?r)
      (checkpoint_publication_request c) (checkpoint_publication_receipt c)"
  have s0: "?settled w" using checkpoint_settled [OF ok, of bodies known w] o u c a by simp
  have fail: "wp (failP x) ?Q ?E w" for x using o by (simp add: wp_failP)
  show ?thesis
  proof (cases "publication = None \<or> checkpoint_publication_request c = None")
    case True
    then show ?thesis using fail
      by (auto simp: resume_reconcile_def Let_def intro!: wp_lift_all o(1) split: option.split)
  next
    case False
    then obtain P request where P: "publication = Some P" and q: "checkpoint_publication_request c = Some request" by auto
    have decide: "wp (if snapshot_id observed = snapshot_id resulting
        then finish X S s ?r (checkpoint_before c) (checkpoint_application c) (checkpoint_after c) (Some request)
               (checkpoint_publication_receipt c) Effect_completed (Some (snapshot_id observed))
        else if snapshot_id observed \<noteq> snapshot_id (effect_expected_state (effect_request_of s)) \<or>
                ea_stage ?r = Publication_terminal
        then retP (external_result ?r)
        else bindP (publish_state (publisher_publish P) request) (\<lambda>receipt.
          if receipt_request receipt \<noteq> publication_request_id request then failP (Error driver_contract_violation)
          else bindP (keep_receipt B request receipt) (\<lambda>_.
            bindP (append_record S (complete_publication X ?r receipt)) (\<lambda>journal'.
              settle_publication X S s journal' (checkpoint_before c) (checkpoint_application c)
                (checkpoint_after c) request receipt)))) ?Q ?E w2"
      if s2: "?settled w2" and l: "publication_led (start_record c) (world_trace w2) request" for w2 observed resulting
    proof -
      have "wp (finish X S s ?r (checkpoint_before c) (checkpoint_application c) (checkpoint_after c) (Some request)
               (checkpoint_publication_receipt c) Effect_completed (Some (snapshot_id observed))) ?Q ?E w2"
        using finish_wp [OF echo s2] q by simp
      moreover have "wp (retP (external_result ?r)) ?Q ?E w2"
        using s2 by (simp add: wp_retP external_result_def resumed_def settled_def)
      moreover have "wp (bindP (publish_state (publisher_publish P) request) (\<lambda>receipt.
          if receipt_request receipt \<noteq> publication_request_id request then failP (Error driver_contract_violation)
          else bindP (keep_receipt B request receipt) (\<lambda>_.
            bindP (append_record S (complete_publication X ?r receipt)) (\<lambda>journal'.
              settle_publication X S s journal' (checkpoint_before c) (checkpoint_application c)
                (checkpoint_after c) request receipt)))) ?Q ?E w2" if "ea_stage ?r \<noteq> Publication_terminal"
      proof -
        have i: "ea_stage ?r = Publication_intent" using st that by blast
        have "ea_publication ?r = None"
          using ok effect_validD(1) i unfolding checkpoint_ok_def header_conditions_def by (auto simp: Let_def)
        then have "checkpoint_publication_receipt c = None" using s2 by (simp add: settled_def matches_def)
        then show ?thesis
          using s2 q settle_publication_wp [OF echo]
          by (intro publication_evidence_wp [OF echo bodies _ i l]) auto
      qed
      ultimately show ?thesis by auto
    qed
    show ?thesis
      unfolding resume_reconcile_def Let_def c P q option.case prod.case
    proof (rule wp_lift_all [where E = ?E], goal_cases)
      case 1
      show ?case by (rule o(1))
    next
      case (2 required)
      have "wp (bindP (callE Ev_validate_lease (publisher_validate_scope P
             (application_target_of (effect_application_request (effect_request_of s))))) (\<lambda>_.
          bindP (read_state P) (\<lambda>observed.
          bindP (liftP (projected_state X request (effect_expected_state (effect_request_of s)))) (\<lambda>resulting.
          if snapshot_id observed = snapshot_id resulting
          then finish X S s ?r (checkpoint_before c) (checkpoint_application c) (checkpoint_after c) (Some request)
               (checkpoint_publication_receipt c) Effect_completed (Some (snapshot_id observed))
          else if snapshot_id observed \<noteq> snapshot_id (effect_expected_state (effect_request_of s)) \<or>
                ea_stage ?r = Publication_terminal
          then retP (external_result ?r)
          else bindP (publish_state (publisher_publish P) request) (\<lambda>receipt.
            if receipt_request receipt \<noteq> publication_request_id request then failP (Error driver_contract_violation)
            else bindP (keep_receipt B request receipt) (\<lambda>_.
              bindP (append_record S (complete_publication X ?r receipt)) (\<lambda>journal'.
                settle_publication X S s journal' (checkpoint_before c) (checkpoint_application c)
                  (checkpoint_after c) request receipt)))))) ) ?Q ?E w"
        unfolding wp_bindP [of "callE _ _"] read_state_def
      proof (rule wp_callE_all, goal_cases)
        case (1 x e)
        then show ?case using o by simp
      next
        case (2 y e)
        have s1: "?settled (extended w (Ev_validate_lease (Inr y)) e)" by (rule settled_event [OF s0]) simp_all
        show ?case
        proof (rule wp_callE_all, goal_cases)
          case (1 x e)
          then show ?case using settled_orderly [OF s1] by simp
        next
          case (2 observed e2)
          have s2: "?settled (extended (extended w (Ev_validate_lease (Inr y)) e) (Ev_read_state (Inr observed)) e2)"
            by (rule settled_event [OF s1]) simp_all
          show ?case
          proof (rule wp_lift_all [where E = ?E], goal_cases)
            case 1
            show ?case by (rule settled_orderly [OF s2])
          next
            case (2 resulting)
            show ?case using o by (intro decide [OF s2]) (simp add: publication_led_def extended_trace durable_def effects_def next_durable_def)
          qed
        qed
      qed
      then show ?case using fail by simp
    qed
  qed
qed

section \<open>The whole continuation\<close>

lemma rehydrate_agrees:
  assumes "checkpoint_ok X c" and "checkpoint_session c = s"
    and "rehydrate_terminal_effectful_operation X c = Inr operation"
  shows "ea_stage (checkpoint_record c) = Terminal \<and> agrees s (checkpoint_record c) operation"
proof -
  let ?r = "checkpoint_record c"
  have t: "ea_stage ?r = Terminal"
    using assms(3) by (auto simp: rehydrate_terminal_effectful_operation_def Let_def
        split: effect_attempt_stage.splits option.splits)
  then have "checkpoint_application c = retained_application c"
    by (intro checkpoint_application_retained [OF assms(1)]) simp
  with checkpoint_matches [OF assms(1)] assms t show ?thesis
    by (auto simp: rehydrate_terminal_effectful_operation_def Let_def agrees_def bindE_Inr_iff
        optionally_def state_identity_from_string_def split: option.splits if_splits)
qed

lemma resume_wp:
  assumes echo: "store_echoes S" and ok: "checkpoint_ok X c" and "world_trace w = []"
  shows "wp (resume_effectful_operation X c continuation publication S B)
    (resumed_end X (checkpoint_session c) (B \<noteq> None) (checkpoint_application c) (start_record c))
    (orderly_end X (checkpoint_session c) (B \<noteq> None) (checkpoint_application c) (start_record c)) w"
  unfolding resume_effectful_operation_def Let_def load_latest_def wp_bindP [of "callE _ _"]
proof (rule wp_callE_all, goal_cases)
  case (1 x e)
  then show ?case using assms(3) by simp
next
  case (2 latest e)
  let ?w = "extended w (Ev_load (ea_attempt (checkpoint_record c)) (Inr latest)) e"
  let ?s = "checkpoint_session c" and ?known = "checkpoint_application c"
  let ?Q = "resumed_end X ?s (B \<noteq> None) ?known (start_record c)"
  let ?E = "orderly_end X ?s (B \<noteq> None) ?known (start_record c)"
  have o: "orderly X ?s (B \<noteq> None) ?known (start_record c) (world_trace ?w)"
    "durable (start_record c) (world_trace ?w) = start_record c" "effects (world_trace ?w) = []"
    using assms(3) by simp_all
  have fail: "wp (failP x) ?Q ?E ?w" for x using o by (simp add: wp_failP)
  have external: "wp (retP (external_result (checkpoint_record c))) ?Q ?E ?w"
    using o by (simp add: wp_retP external_result_def resumed_def)
  have "wp (if d = External_resolution_required then retP (external_result (checkpoint_record c))
      else if d = Resume_application \<and> application_unresolved X c then retP (external_result (checkpoint_record c))
      else if d = Restart_terminal
      then bindP (liftP (rehydrate_terminal_effectful_operation X c)) (\<lambda>operation.
        retP \<lparr>result_disposition = Restart_terminal, result_journal = checkpoint_record c,
          result_operation = Some operation\<rparr>)
      else if d = Seal_terminal then resume_seal X S c
      else if d = Reconcile_publication then resume_reconcile X publication S B c
      else resume_continue X continuation S B c d) ?Q ?E ?w"
    if d: "restart_disposition (checkpoint_record c) = Inr d" for d
  proof -
    have "wp (bindP (liftP (rehydrate_terminal_effectful_operation X c)) (\<lambda>operation.
        retP \<lparr>result_disposition = Restart_terminal, result_journal = checkpoint_record c,
          result_operation = Some operation\<rparr>)) ?Q ?E ?w"
      using o rehydrate_agrees [OF ok refl] by (intro wp_lift_all) (simp_all add: wp_retP resumed_def)
    moreover have "wp (resume_seal X S c) ?Q ?E ?w" if "d = Seal_terminal"
      using d that by (intro resume_seal_wp [OF echo ok refl o]) (auto simp: restart_disposition_def)
    moreover have "wp (resume_reconcile X publication S B c) ?Q ?E ?w" if "d = Reconcile_publication"
      using d that by (intro resume_reconcile_wp [OF echo refl ok refl o]) simp
    moreover have "wp (resume_continue X continuation S B c d) ?Q ?E ?w"
      if "d \<notin> {External_resolution_required, Restart_terminal, Seal_terminal, Reconcile_publication}"
      by (rule resume_continue_wp [OF echo refl ok d that o refl refl])
    ultimately show ?thesis using external by simp
  qed
  then show ?case
    using fail o(1)
    by (auto simp: assess_effect_restart_def bindE_Inr_iff intro!: wp_lift_all)
qed

end
