(* ===== verification/Effect_History.thy ===== *)
theory Effect_History
  imports Effect_Reopened
begin

text \<open>
  An attempt over any number of crashes: an execution that stops anywhere, then continuations from the
  last record the store accepted, which may stop anywhere themselves. Over the whole history a step is
  started at most once, in the order of the program.
\<close>

section \<open>Histories\<close>

text \<open>What of \<open>justified\<close> survives putting traces of one attempt together.\<close>

fun continued ::
  "ext \<Rightarrow> effectful_operation_session \<Rightarrow> effect_event list \<Rightarrow> effect_event \<Rightarrow> bool" where
  "continued X s tr (Ev_append r _) \<longleftrightarrow>
     (case durable None tr of
        None \<Rightarrow> (\<exists>nonce. admit X (effect_session_id s) (word_of_nat (effect_session_before_count s))
                  (word_of_nat (effect_session_after_count s)) nonce = Inr r)
      | Some j \<Rightarrow> effect_step X j r)"
| "continued X s tr (Ev_lifecycle v _) \<longleftrightarrow> directly_intended (\<lambda>j. announced s j = Some v) tr"
| "continued X s tr (Ev_apply q _) \<longleftrightarrow> directly_intended (\<lambda>j. ea_stage j = Application_intent) tr"
| "continued X s tr _ \<longleftrightarrow> True"

definition history :: "ext \<Rightarrow> effectful_operation_session \<Rightarrow> effect_event list \<Rightarrow> bool" where
  "history X s tr \<longleftrightarrow> (\<forall>i < length tr. continued X s (take i tr) (tr ! i))"

lemma history_Nil [simp]: "history X s []"
  by (simp add: history_def)

lemma history_snoc [simp]: "history X s (tr @ [ev]) \<longleftrightarrow> history X s tr \<and> continued X s tr ev"
  by (auto simp: history_def nth_append less_Suc_eq)

lemma directly_intended_append: "directly_intended P tr' \<Longrightarrow> directly_intended P (tr @ tr')"
  by (auto simp: directly_intended_def)

lemma durable_append: "durable r0 (tr @ tr') = durable (durable r0 tr) tr'"
  by (simp add: durable_def)

text \<open>A trace from a start record extends the history that ended with it.\<close>

lemma history_append:
  assumes "history X s tr" and "durable None tr = r0" and "orderly X s bodies known r0 tr'"
  shows "history X s (tr @ tr')"
  using assms(3)
proof (induction tr' rule: rev_induct)
  case Nil
  then show ?case using assms(1) by simp
next
  case (snoc ev tr')
  then have "history X s (tr @ tr')" and j: "justified X s bodies known r0 tr' ev" by simp_all
  moreover from j have "continued X s (tr @ tr') ev"
    by (cases ev) (auto simp: durable_append assms(2) directly_intended_append)
  ultimately show ?case using history_snoc [of X s "tr @ tr'" ev] by simp
qed

lemma orderly_history: "orderly X s bodies known None tr \<Longrightarrow> history X s tr"
  using history_append [of X s "[]" None bodies known tr] by simp

text \<open>The durable record of a history is always a valid one of the session's attempt.\<close>

lemma history_durable:
  assumes "history X s tr" and "durable None tr = Some j"
  shows "effect_valid X j" and "totals_ok j" and "ea_session j = effect_session_id s"
    and "ea_before_total j = word_of_nat (effect_session_before_count s)"
    and "ea_after_total j = word_of_nat (effect_session_after_count s)"
proof -
  have "effect_valid X j \<and> totals_ok j \<and> ea_session j = effect_session_id s \<and>
      ea_before_total j = word_of_nat (effect_session_before_count s) \<and>
      ea_after_total j = word_of_nat (effect_session_after_count s)"
    using assms
  proof (induction tr arbitrary: j rule: rev_induct)
    case Nil
    then show ?case by simp
  next
    case (snoc ev tr)
    note h = snoc.prems(1) [unfolded history_snoc]
    show ?case
    proof (cases "stored ev")
      case None
      then show ?thesis using snoc.IH h snoc.prems(2) by simp
    next
      case (Some r)
      then obtain x where ev: "ev = Ev_append r (Inr x)" by (cases ev rule: stored.cases) auto
      then have r: "j = r" using snoc.prems(2) by simp
      show ?thesis
      proof (cases "durable None tr")
        case None
        then show ?thesis using h ev r admit_Inr admit_result by (auto simp: matches_def)
      next
        case (Some i)
        note I = snoc.IH [OF conjunct1 [OF h] Some]
        have n: "effect_next X i r" using h ev Some effect_step_next by simp
        from effect_nextD [OF n] totals_ok_next [OF n] I r show ?thesis by simp
      qed
    qed
  qed
  then show "effect_valid X j" "totals_ok j" "ea_session j = effect_session_id s"
    "ea_before_total j = word_of_nat (effect_session_before_count s)"
    "ea_after_total j = word_of_nat (effect_session_after_count s)" by simp_all
qed

section \<open>Started steps\<close>

text \<open>The place of the step an intent announces: lifecycle nodes before, the application, nodes after.\<close>

definition step_position :: "effect_attempt_record \<Rightarrow> nat" where
  "step_position j =
     (case ea_stage j of
        Before_intent \<Rightarrow> length (ea_before j)
      | Application_intent \<Rightarrow> unat (ea_before_total j)
      | _ \<Rightarrow> unat (ea_before_total j) + 1 + length (ea_after j))"

fun started_call :: "effect_event \<Rightarrow> admitted_lifecycle_session option option" where
  "started_call (Ev_lifecycle v _) = Some (Some v)"
| "started_call (Ev_apply _ _) = Some None"
| "started_call _ = None"

definition next_started ::
  "effect_attempt_record option \<Rightarrow> (nat \<times> admitted_lifecycle_session option) list \<Rightarrow> effect_event \<Rightarrow>
   (nat \<times> admitted_lifecycle_session option) list" where
  "next_started j acc ev =
     (case (j, started_call ev) of (Some r, Some v) \<Rightarrow> acc @ [(step_position r, v)] | _ \<Rightarrow> acc)"

text \<open>The steps a trace starts, each with the place announced by the record stored before it.\<close>

definition started :: "effect_event list \<Rightarrow> (nat \<times> admitted_lifecycle_session option) list" where
  "started tr = snd (foldl (\<lambda>(j, acc) ev. (next_durable j ev, next_started j acc ev)) (None, []) tr)"

lemma started_durable:
  "foldl (\<lambda>(j, acc) ev. (next_durable j ev, next_started j acc ev)) (None, []) tr = (durable None tr, started tr)"
proof -
  have "fst (foldl (\<lambda>(j, acc) ev. (next_durable j ev, next_started j acc ev)) (None, []) tr) = durable None tr"
    by (induction tr rule: rev_induct) (auto simp: split_beta)
  then show ?thesis by (simp add: started_def prod_eq_iff)
qed

lemma started_simps [simp]:
  "started [] = []"
  "started (tr @ [ev]) = next_started (durable None tr) (started tr) ev"
  by (simp_all add: started_def) (simp add: started_durable started_def [symmetric])

definition step_program :: "effectful_operation_session \<Rightarrow> admitted_lifecycle_session option list" where
  "step_program s = map Some (effect_session_before s) @ [None] @ map Some (effect_session_after s)"

lemma intent_sequence:
  assumes "effect_valid X j" and "totals_ok j" and "ea_stage j \<in> {Before_intent, Application_intent, After_intent}"
  shows "unat (ea_sequence j) = 2 * step_position j + 1"
  using valid_sequence(1) [OF assms(1,2)] assms(3)
  by (auto simp: transition_number_def step_position_def Let_def)

lemma intent_program:
  assumes "effect_session_before_count s < 2 ^ 64" and "effect_valid X j"
    and "ea_before_total j = word_of_nat (effect_session_before_count s)"
  shows "announced s j = Some v \<Longrightarrow> step_program s ! step_position j = Some v"
    and "ea_stage j = Application_intent \<Longrightarrow> step_program s ! step_position j = None"
proof -
  have u: "unat (ea_before_total j) = effect_session_before_count s"
    using assms(1) by (simp add: assms(3) unat_of_nat)
  show "announced s j = Some v \<Longrightarrow> step_program s ! step_position j = Some v"
    using u by (auto simp: announced_def step_program_def step_position_def nth_append split: if_splits)
  show "ea_stage j = Application_intent \<Longrightarrow> step_program s ! step_position j = None"
    using u by (simp add: step_program_def step_position_def nth_append)
qed

lemma announced_stage: "announced s j = Some v \<Longrightarrow> ea_stage j \<in> {Before_intent, After_intent}"
  by (auto simp: announced_def split: if_splits)

definition started_ok :: "effectful_operation_session \<Rightarrow> effect_event list \<Rightarrow> bool" where
  "started_ok s tr \<longleftrightarrow>
     sorted_wrt (<) (map fst (started tr)) \<and> (\<forall>(p, v) \<in> set (started tr). step_program s ! p = v) \<and>
     (\<forall>p \<in> fst ` set (started tr). \<exists>j. durable None tr = Some j \<and> 2 * p + 1 \<le> unat (ea_sequence j))"

text \<open>Starting the step that was announced directly before.\<close>

lemma started_ok_start:
  assumes small: "effect_session_before_count s < 2 ^ 64"
    and h: "history X s (tr' @ [Ev_held True, Ev_append j (Inr j)])"
    and ok: "started_ok s tr'" and v: "announced s j = Some v \<and> step = Some v \<or> ea_stage j = Application_intent \<and> step = None"
  shows "sorted_wrt (<) (map fst (started tr' @ [(step_position j, step)]))"
    and "step_program s ! step_position j = step"
    and "unat (ea_sequence j) = 2 * step_position j + 1"
    and "\<And>p. p \<in> fst ` set (started tr') \<Longrightarrow> p < step_position j"
proof -
  let ?tr = "(tr' @ [Ev_held True]) @ [Ev_append j (Inr j)]"
  have h': "history X s ?tr" using h by simp
  have "durable None ?tr = Some j" by (simp del: append_assoc)
  note J = history_durable [OF h' this]
  have st: "ea_stage j \<in> {Before_intent, Application_intent, After_intent}" using v announced_stage by fastforce
  show seq: "unat (ea_sequence j) = 2 * step_position j + 1" by (rule intent_sequence [OF J(1,2) st])
  show "step_program s ! step_position j = step"
    using v intent_program [OF small J(1,4)] by auto
  show less: "p < step_position j" if p: "p \<in> fst ` set (started tr')" for p
  proof -
    obtain i where i: "durable None tr' = Some i" and q: "2 * p + 1 \<le> unat (ea_sequence i)"
      using ok p by (auto simp: started_ok_def)
    have "effect_step X i j" using h' i by (simp add: history_snoc del: append_assoc)
    then have n: "effect_next X i j" by (rule effect_step_next)
    have "unat (ea_sequence j) = unat (ea_sequence i) + 1"
      using effect_chain.step_sequence [OF n] by simp
    with q seq show ?thesis by simp
  qed
  show "sorted_wrt (<) (map fst (started tr' @ [(step_position j, step)]))"
    using ok less by (auto simp: started_ok_def sorted_wrt_append)
qed

lemma history_started_ok:
  assumes small: "effect_session_before_count s < 2 ^ 64"
  shows "history X s tr \<Longrightarrow> started_ok s tr"
proof (induction "length tr" arbitrary: tr rule: less_induct)
  case less
  show ?case
  proof (cases tr rule: rev_cases)
    case Nil
    then show ?thesis by (simp add: started_ok_def)
  next
    case (snoc tr' ev)
    have h: "history X s tr'" and c: "continued X s tr' ev" using less.prems snoc by simp_all
    have ok: "started_ok s tr'" using less.hyps [of tr'] h snoc by simp
    show ?thesis
    proof (cases "started_call ev")
      case None
      then have e: "started tr = started tr'" using snoc by (simp add: next_started_def split: option.split)
      have "\<exists>i. durable None tr = Some i \<and> 2 * p + 1 \<le> unat (ea_sequence i)" if p: "p \<in> fst ` set (started tr')" for p
      proof -
        obtain j where j: "durable None tr' = Some j" "2 * p + 1 \<le> unat (ea_sequence j)"
          using ok p by (auto simp: started_ok_def)
        show ?thesis
        proof (cases "stored ev")
          case None
          then show ?thesis using j snoc by simp
        next
          case (Some r)
          then obtain x where ev: "ev = Ev_append r (Inr x)" by (cases ev rule: stored.cases) auto
          have "effect_next X j r" using c ev j effect_step_next by simp
          then have "unat (ea_sequence r) = unat (ea_sequence j) + 1"
            using effect_chain.step_sequence by simp
          then show ?thesis using j ev snoc by simp
        qed
      qed
      then show ?thesis using ok e by (simp add: started_ok_def)
    next
      case (Some step)
      have "\<exists>j a v. tr' = a @ [Ev_held True, Ev_append j (Inr j)] \<and>
          (announced s j = Some v \<and> step = Some v \<or> ea_stage j = Application_intent \<and> step = None)"
        using c Some by (cases ev) (auto simp: directly_intended_def)
      then obtain j a v where a: "tr' = a @ [Ev_held True, Ev_append j (Inr j)]"
        and v: "announced s j = Some v \<and> step = Some v \<or> ea_stage j = Application_intent \<and> step = None"
        by blast
      have a': "tr' = (a @ [Ev_held True]) @ [Ev_append j (Inr j)]" using a by simp
      have s: "started tr' = started a" "durable None tr' = Some j" unfolding a'
        by (simp_all add: next_started_def split: option.split del: append_assoc)
      have "history X s a" using h unfolding a' by (simp del: append_assoc)
      then have "started_ok s a" using less.hyps [of a] snoc a by simp
      note S = started_ok_start [OF small h [unfolded a] this v]
      have t: "started tr = started a @ [(step_position j, step)]"
        using Some s snoc by (simp add: next_started_def)
      have "durable None tr = Some j" using Some snoc s by (cases ev) simp_all
      with S t show ?thesis
        using \<open>started_ok s a\<close> by (auto simp: started_ok_def) (metis less_imp_le_nat add_le_cancel_right mult_le_mono2 fst_conv image_eqI)+
    qed
  qed
qed

end
