(* ===== verification/Sample_Execution.thy ===== *)
theory Sample_Execution
  imports Effect_History Sample_Attempt
begin

text \<open>
  A sample execution: a driver that holds the lease for a number of questions (the first part of its
  environment counts them down), a store that keeps the last record (the second part), and the
  installation sample executed to its end, with a crash after the application in between or not.
\<close>

type_synonym sample_env = "nat \<times> effect_attempt_record option"

abbreviation fresh :: "'e \<Rightarrow> (effect_event, 'e) world" where
  "fresh e \<equiv> \<lparr>world_trace = [], world_env = e\<rparr>"

definition sample_driver :: "sample_env effect_driver" where
  "sample_driver = \<lparr>driver_validate_lease = (\<lambda>_ e. (Inr (), e)),
     driver_held = (\<lambda>(n, j). (0 < n, (n - 1, j))),
     driver_projection = ''sp'', driver_publication_projection = ''sp'',
     driver_execute_lifecycle = (\<lambda>_ e. (Inr (sample_lifecycle_result (replicate 64 CHR ''0'')), e)),
     driver_apply = (\<lambda>_ e. (Inr sample_receipt, e)),
     driver_resume = (\<lambda>_ _ e. (Inr sample_receipt, e)),
     driver_publish = (\<lambda>_ e. (Inr sample_publication, e))\<rparr>"

definition sample_store :: "sample_env effect_store" where
  "sample_store = \<lparr>store_load_latest = (\<lambda>_ (n, j). (Inr j, (n, j))),
     store_append = (\<lambda>r (n, j). (Inr r, (n, Some r)))\<rparr>"

lemma sample_store_echoes: "store_echoes sample_store"
  by (simp add: store_echoes_def sample_store_def)

lemma sample_sha_length [simp]: "length (sha256 sample_ext bs) = 32"
  by (simp add: sample_ext_def)

lemma sample_transaction_evidence [simp]:
  "transaction_evidence sample_ext s before application after = Inr ''te''"
  by (simp add: transaction_evidence_def decode_hex_def make_session_identity_def)
    (simp add: sample_ext_def)

lemma sample_projection [simp]:
  "project_publication sample_ext (effect_request_of install_effect_session) p evidence ''te'' = Inr sample_request"
  by (simp add: project_publication_def install_effect_session_def sample_application_def sample_ext_def
      sample_request_def sample_state_def)

lemma sample_receipt_accepted [simp]:
  "validate_application_receipt (effect_request_of install_effect_session) ''sp'' sample_receipt = Inr ()"
  by (simp add: validate_application_receipt_def receipt_authority_rejected_def install_effect_session_def
      sample_application_def sample_receipt_def reject_def)

lemma install_session_fields [simp]:
  "effect_session_id install_effect_session = ''es''" "effect_session_before install_effect_session = []"
  "effect_session_after install_effect_session = []"
  by (simp_all add: install_effect_session_def)

abbreviation install_application :: package_application_request where
  "install_application \<equiv> effect_application_request (effect_request_of install_effect_session)"

lemma sample_receipt_fields [simp]:
  "application_outcome sample_receipt = Application_completed"
  "application_completed_evidence sample_receipt = Some ''ev''"
  "publication_request_id sample_request = ''pr''" "receipt_request sample_publication = ''pr''"
  "publication_outcome sample_publication = Effect_completed"
  by (simp_all add: sample_receipt_def sample_request_def sample_publication_def publication_outcome_def)

section \<open>Running the sample driver\<close>

lemma run_call: "call ev f w = (case f (world_env w) of (x, e) \<Rightarrow> (Inr x, extended w (ev x) e))"
  by (simp add: call_def extended_def)

lemma run_callE: "callE ev f w = (case f (world_env w) of (x, e) \<Rightarrow> (x, extended w (ev x) e))"
  by (simp add: callE_def bindP_def run_call liftP_def split: prod.split sum.split)

lemma run_ret: "retP x w = (Inr x, w)"
  by (simp add: retP_def)

lemma run_bind: "m w = (Inr x, w') \<Longrightarrow> bindP m f w = f x w'"
  by (simp add: bindP_def)

lemma run_append:
  "append_record sample_store (Inr r) w =
     (Inr r, extended w (Ev_append r (Inr r)) (fst (world_env w), Some r))"
  by (simp add: append_record_def) (simp add: bindP_def run_callE sample_store_def retP_def split_beta)

lemma run_held:
  "lease_held sample_driver w = (Inr (0 < fst (world_env w)),
     extended w (Ev_held (0 < fst (world_env w))) (fst (world_env w) - 1, snd (world_env w)))"
  by (simp add: lease_held_def run_call sample_driver_def split_beta)

lemma run_validate: "validate_lease sample_driver t w = (Inr (), extended w (Ev_validate_lease (Inr ())) (world_env w))"
  by (simp add: validate_lease_def run_callE sample_driver_def)

lemma run_apply: "apply_application sample_driver q w =
    (Inr sample_receipt, extended w (Ev_apply q (Inr sample_receipt)) (world_env w))"
  by (simp add: apply_application_def run_callE sample_driver_def)

lemma run_publish: "publish_state (driver_publish sample_driver) q w =
    (Inr sample_publication, extended w (Ev_publish q (Inr sample_publication)) (world_env w))"
  by (simp add: publish_state_def run_callE sample_driver_def)

lemma run_load: "load_latest sample_store a w =
    (Inr (snd (world_env w)), extended w (Ev_load a (Inr (snd (world_env w)))) (world_env w))"
  by (simp add: load_latest_def run_callE sample_store_def split_beta)

lemma run_fields [simp]: "driver_projection sample_driver = ''sp''" "driver_publication_projection sample_driver = ''sp''"
  by (simp_all add: sample_driver_def)

lemmas run_steps = run_bind [OF run_append] run_bind [OF run_held] run_bind [OF run_validate]
  run_bind [OF run_apply] run_bind [OF run_publish] run_bind [OF run_load]

text \<open>The record the attempt ends with when its driver completes, and the calls up to and after a crash.\<close>

definition install_calls :: "effect_event list" where
  "install_calls =
     [Ev_validate_lease (Inr ()), Ev_append install_attempt (Inr install_attempt),
      Ev_held True, Ev_append attempt1 (Inr attempt1), Ev_apply install_application (Inr sample_receipt),
      Ev_append attempt2 (Inr attempt2)]"

definition publish_calls :: "effect_event list" where
  "publish_calls =
     [Ev_held True, Ev_append attempt3 (Inr attempt3), Ev_publish sample_request (Inr sample_publication),
      Ev_append attempt4 (Inr attempt4), Ev_held True, Ev_append attempt5 (Inr attempt5)]"

definition install_result :: effectful_operation_result where
  "install_result = seal_result sample_ext install_effect_session Effect_completed [] (Some sample_receipt) []
     (Some ''te'') (Some sample_request) (Some sample_publication) None"

lemma install_execution:
  "execute_effectful_operation_durable sample_ext sample_driver sample_store None install_effect_session
     sample_nonce (fresh (9, None)) =
   (Inr install_result, \<lparr>world_trace = install_calls @ publish_calls, world_env = (6, Some attempt5)\<rparr>)"
  by (simp add: execute_effectful_operation_durable_def run_steps install_admit durable_application_def
      attempt1 attempt2 attempt3 attempt4 attempt5 keep_application_def keep_request_def keep_receipt_def
      durable_publication_def seal_both_def install_result_def run_ret extended_def install_calls_def
      publish_calls_def)

section \<open>Crashed after the application\<close>

definition install_checkpoint :: effect_restart_checkpoint where
  "install_checkpoint = \<lparr>checkpoint_session = install_effect_session, checkpoint_record = attempt2,
     checkpoint_before = [], checkpoint_application = Some sample_receipt, checkpoint_after = [],
     checkpoint_publication_request = None, checkpoint_publication_receipt = None,
     checkpoint_declaration = None, checkpoint_journal = None\<rparr>"

lemma attempt2_fields [simp]:
  "ea_stage attempt2 = Application_terminal" "ea_session attempt2 = ''es''" "ea_before_total attempt2 = 0"
  "ea_after_total attempt2 = 0" "ea_before attempt2 = []" "ea_after attempt2 = []"
  "ea_application attempt2 = Some (application_fact_of sample_receipt)" "ea_publication_request attempt2 = None"
  "ea_publication attempt2 = None" "ea_transaction_evidence attempt2 = None"
  by (simp_all add: attempt_defs admitted_record_def)

lemma sample_fact [simp]: "classify_application_effect (app_outcome (application_fact_of sample_receipt)) = Class_completed"
  by (simp add: application_fact_of_def sample_receipt_def)

lemma install_checkpoint_fields [simp]:
  "checkpoint_session install_checkpoint = install_effect_session" "checkpoint_record install_checkpoint = attempt2"
  "checkpoint_before install_checkpoint = []" "checkpoint_application install_checkpoint = Some sample_receipt"
  "checkpoint_after install_checkpoint = []" "checkpoint_publication_request install_checkpoint = None"
  "checkpoint_publication_receipt install_checkpoint = None" "checkpoint_declaration install_checkpoint = None"
  "checkpoint_journal install_checkpoint = None"
  by (simp_all add: install_checkpoint_def)

lemma install_checkpoint_ok: "checkpoint_ok sample_ext install_checkpoint"
proof -
  have "validate_checkpoint_application sample_ext install_effect_session attempt2 (Some sample_receipt) None None = Inr ()"
    by (simp add: validate_checkpoint_application_def ahead_application_def validate_checkpoint_receipt_def
        receipt_authority_rejected_def install_effect_session_def sample_application_def reject_def)
      (simp add: sample_receipt_def application_fact_of_def)
  then show ?thesis
    using attempt2_valid by (simp add: checkpoint_ok_def effect_restart_checkpoint_make_def reject_def
        validate_lifecycle_evidence_def publication_evidence_rejected_def validate_checkpoint_journal_def
        install_checkpoint_def [symmetric])
qed

definition reopened_calls :: "effect_event list" where
  "reopened_calls = [Ev_load (ea_attempt attempt2) (Inr (Some attempt2)), Ev_held True, Ev_validate_lease (Inr ())]"

lemma install_continuation:
  "resume_effectful_operation sample_ext install_checkpoint (Some sample_driver) None sample_store None
     (fresh (9, Some attempt2)) =
   (Inr \<lparr>result_disposition = Restart_terminal, result_journal = attempt5, result_operation = Some install_result\<rparr>,
    \<lparr>world_trace = reopened_calls @ publish_calls, world_env = (6, Some attempt5)\<rparr>)"
proof -
  have d: "restart_disposition attempt2 = Inr Start_publication" by (simp add: restart_disposition_def)
  have r: "requires_continuation_driver install_checkpoint = Inr True"
    by (simp add: requires_continuation_driver_def d)
  show ?thesis
    by (simp add: resume_effectful_operation_def run_steps assess_effect_restart_def d resume_continue_def r
        resume_application_step_def resume_applied_def resume_publication_def attempt3 attempt4 attempt5
        keep_request_def keep_receipt_def settle_publication_def finish_def current_transaction_def
        install_result_def run_ret extended_def reopened_calls_def publish_calls_def)
      (simp add: sample_request_def run_ret)
qed

end
