(* ===== verification/Execution_Properties.thy ===== *)
theory Execution_Properties
  imports Effect_History Sample_Execution "HOL-Library.Sublist"
begin

text \<open>The properties of executing an effectful operation: write-ahead journal, agreement, crashes, restart.\<close>

lemma wp_result:
  assumes "wp m Q E w"
  shows "fst (m w) = Inr x \<Longrightarrow> Q x (snd (m w))" and "fst (m w) = Inl f \<Longrightarrow> E (snd (m w))"
  using assms by (auto simp: wp_def split: prod.splits sum.splits)

lemma wp_always:
  assumes "wp m Q E w" and "\<And>x w. Q x w \<Longrightarrow> P w" and "\<And>w. E w \<Longrightarrow> P w"
  shows "P (snd (m w))"
  using wp_result [OF assms(1)] assms(2,3) by (cases "fst (m w)") blast+

section \<open>The properties\<close>

text \<open>C2. Every effect is written ahead. With a store that, when it accepts a record, returns that very record (the
  code compares the identity), and whatever the driver and the sink do and wherever the execution stops or
  throws: each lifecycle step and the application come directly after the lease was found held and the
  matching intent was stored; the publication comes directly after its intent was stored, which follows the
  lease that was found held with only the body of the request kept between the two; nothing is resumed and nothing
  published twice. The stored records form one attempt, and evidence is stored only for what the driver
  returned, after the sink kept its body.\<close>

theorem effects_are_written_ahead:
  assumes "store_echoes S"
  shows "orderly X s (B \<noteq> None) None None
    (world_trace (snd (execute_effectful_operation_durable X D S B s nonce (fresh e))))"
  by (rule wp_always [OF durable_execution_wp [OF assms]]) simp_all

lemma effects_are_written_ahead_witness:
  "orderly sample_ext sample_effect_session False None None (world_trace (snd
     (execute_effectful_operation_durable sample_ext sample_driver sample_store None sample_effect_session
        sample_nonce (fresh (9, None)))))"
  using effects_are_written_ahead [OF sample_store_echoes, of sample_ext sample_effect_session None] by simp

text \<open>C3. The result and the journal agree: when a durable execution returns, the last stored record has
  exactly the evidence of the result, and is sealed with its outcome unless the outcome leaves the
  application or the publication unresolved.\<close>

theorem result_agrees_with_journal:
  assumes "store_echoes S"
    and "execute_effectful_operation_durable X D S B s nonce (fresh e) = (Inr result, w)"
  shows "\<exists>j. durable None (world_trace w) = Some j \<and> effect_valid X j \<and> concluded s j result"
proof -
  have "wp (execute_effectful_operation_durable X D S B s nonce) (concluded_end X s (B \<noteq> None) None None)
      (orderly_end X s (B \<noteq> None) None None) (fresh e)"
    by (rule durable_execution_wp [OF assms(1)]) simp
  from wp_result(1) [OF this, of result] assms(2) obtain j where j: "durable None (world_trace w) = Some j" "concluded s j result"
    and o: "orderly X s (B \<noteq> None) None None (world_trace w)" by auto
  from history_durable(1) [OF orderly_history [OF o] j(1)] j show ?thesis by blast
qed

lemma result_agrees_with_journal_witness:
  "effect_outcome install_result = Effect_completed \<and>
    (\<exists>j. durable None (install_calls @ publish_calls) = Some j \<and> effect_valid sample_ext j \<and>
      concluded install_effect_session j install_result)"
  using result_agrees_with_journal [OF sample_store_echoes install_execution]
  by (simp add: install_result_def seal_result_def)

text \<open>C4. A continuation is written ahead as well: from the record of its checkpoint on, resuming an attempt
  keeps the same discipline, starts no lifecycle step and no application whose intent it did not store
  itself, and its result agrees with the record it leaves.\<close>

theorem resumed_effects_are_written_ahead:
  assumes "store_echoes S" and "checkpoint_ok X c"
    and "resume_effectful_operation X c continuation publication S B (fresh e) = (r, w)"
  shows "orderly X (checkpoint_session c) (B \<noteq> None) (checkpoint_application c) (Some (checkpoint_record c))
      (world_trace w) \<and>
    (\<forall>result. r = Inr result \<longrightarrow> durable (Some (checkpoint_record c)) (world_trace w) = Some (result_journal result) \<and>
      resumed (checkpoint_session c) (result_journal result) result)"
proof -
  note W = resume_wp [OF assms(1,2), of "fresh e" continuation publication B]
  have "orderly X (checkpoint_session c) (B \<noteq> None) (checkpoint_application c) (Some (checkpoint_record c))
      (world_trace (snd (resume_effectful_operation X c continuation publication S B (fresh e))))"
    by (rule wp_always [OF W]) simp_all
  with wp_result(1) [OF W] assms(3) show ?thesis by simp
qed

lemma resumed_effects_are_written_ahead_witness:
  "orderly sample_ext install_effect_session False (Some sample_receipt) (Some attempt2)
    (reopened_calls @ publish_calls) \<and> durable (Some attempt2) (reopened_calls @ publish_calls) = Some attempt5"
  using resumed_effects_are_written_ahead [OF sample_store_echoes install_checkpoint_ok install_continuation] by simp

section \<open>Crashes and restarts\<close>

text \<open>
  The executions of one attempt: a durable execution and any number of continuations, each stopped after
  an arbitrary prefix of its trace, with an arbitrary environment afterwards; a continuation starts from
  a checkpoint of the last record stored.
\<close>

inductive attempt_run ::
  "ext \<Rightarrow> effectful_operation_session \<Rightarrow> (effect_event, 'e) world \<Rightarrow> bool" for X s where
  executed: "store_echoes S \<Longrightarrow>
    prefix (world_trace w) (world_trace (snd (execute_effectful_operation_durable X D S B s nonce (fresh (e :: 'e))))) \<Longrightarrow>
    attempt_run X s w"
| reopened: "attempt_run X s w \<Longrightarrow> durable None (world_trace w) = Some (checkpoint_record c) \<Longrightarrow>
    checkpoint_ok X c \<Longrightarrow> checkpoint_session c = s \<Longrightarrow> store_echoes S \<Longrightarrow>
    prefix tr (world_trace (snd (resume_effectful_operation X c continuation publication S B (fresh (e :: 'e))))) \<Longrightarrow>
    attempt_run X s \<lparr>world_trace = world_trace w @ tr, world_env = e'\<rparr>"

lemma orderly_prefixed: "prefix tr tr' \<Longrightarrow> orderly X s bodies known r0 tr' \<Longrightarrow> orderly X s bodies known r0 tr"
  using orderly_prefix by (auto simp: prefix_def)

lemma attempt_run_history: "attempt_run X s w \<Longrightarrow> history X s (world_trace w)"
proof (induction rule: attempt_run.induct)
  case (executed S w D B nonce e)
  have "orderly X s (B \<noteq> None) None None
      (world_trace (snd (execute_effectful_operation_durable X D S B s nonce (fresh e))))"
    by (rule wp_always [OF durable_execution_wp [OF executed(1)]]) simp_all
  from orderly_history [OF orderly_prefixed [OF executed(2) this]] show ?case .
next
  case (reopened w c S tr continuation publication B e e')
  have "orderly X (checkpoint_session c) (B \<noteq> None) (checkpoint_application c) (Some (checkpoint_record c))
      (world_trace (snd (resume_effectful_operation X c continuation publication S B (fresh e))))"
    by (rule wp_always [OF resume_wp [OF reopened(5,3)]]) simp_all
  from history_append [OF reopened.IH reopened(2) orderly_prefixed [OF reopened(6) this [unfolded reopened(4)]]] show ?case by simp
qed

text \<open>C1. Over any number of crashes and restarts no step is started twice and none out of order: the steps
  started, each at the place its stored intent announces, are strictly increasing positions in the
  session's program, and what is executed at a place is what the program has there.\<close>

theorem steps_start_once_across_crashes:
  assumes "attempt_run X s w" and "effect_session_before_count s < 2 ^ 64"
  shows "sorted_wrt (<) (map fst (started (world_trace w))) \<and>
    (\<forall>(p, v) \<in> set (started (world_trace w)). step_program s ! p = v)"
  using history_started_ok [OF assms(2) attempt_run_history [OF assms(1)]] by (simp add: started_ok_def)

lemma crashed_run: "attempt_run sample_ext install_effect_session
    \<lparr>world_trace = install_calls @ reopened_calls @ publish_calls, world_env = (6 :: nat, Some attempt5)\<rparr>"
proof -
  have "attempt_run sample_ext install_effect_session \<lparr>world_trace = install_calls, world_env = (7 :: nat, Some attempt2)\<rparr>"
    by (rule executed [OF sample_store_echoes, where e = "(9, None)" and D = sample_driver and B = None and
          nonce = sample_nonce]) (simp add: install_execution)
  from reopened [OF this, of install_checkpoint sample_store "reopened_calls @ publish_calls" "Some sample_driver" None None
      "(9, Some attempt2)"] show ?thesis
    by (simp add: install_continuation sample_store_echoes install_checkpoint_ok)
      (simp add: install_calls_def durable_def next_durable_def)
qed

lemma crashed_started: "started (install_calls @ reopened_calls @ publish_calls) = [(0, None)]"
  by (simp add: started_def install_calls_def reopened_calls_def publish_calls_def next_durable_def next_started_def
      step_position_def attempt1_def application_intent_of_def next_record_def install_attempt_def admitted_record_def)

lemma steps_start_once_across_crashes_witness:
  "started (install_calls @ reopened_calls @ publish_calls) = [(0, None)] \<and>
    sorted_wrt (<) (map fst (started (install_calls @ reopened_calls @ publish_calls)))"
  using steps_start_once_across_crashes [OF crashed_run] crashed_started by simp

text \<open>C22. A restart is always decided: the last record of an attempt never makes the assessment read absent
  evidence, and it demands external resolution exactly when a lifecycle intent is unresolved or the
  application ended in a way only its owner can classify.\<close>

theorem assessment_decides:
  assumes "effect_valid X r"
  shows "\<exists>a. assess_effect_restart r = Inr a \<and> assessment_record a = ea_identity r \<and>
    (\<not> automatically_continuable a \<longleftrightarrow> ea_stage r = Before_intent \<or> ea_stage r = After_intent \<or>
      (ea_stage r = Application_terminal \<and> (\<exists>f. ea_application r = Some f \<and>
        classify_application_effect (app_outcome f) = Class_external_resolution_required)))"
proof -
  have v: "\<not> stage_rejected r" and h: "list_all Not (header_conditions r)"
    using effect_validD(1,4) [OF assms] by blast+
  have "\<exists>d. restart_disposition r = Inr d \<and> (d = External_resolution_required \<longleftrightarrow>
      ea_stage r = Before_intent \<or> ea_stage r = After_intent \<or>
      (ea_stage r = Application_terminal \<and> (\<exists>f. ea_application r = Some f \<and>
        classify_application_effect (app_outcome f) = Class_external_resolution_required)))"
    using v by (cases "ea_stage r")
      (auto simp: restart_disposition_def stage_rejected_def
        split: application_effect_classification.split option.splits)
  then show ?thesis by (auto simp: assess_effect_restart_def automatically_continuable_def)
qed

lemma assessment_decides_witness:
  "\<exists>a. assess_effect_restart attempt3 = Inr a \<and> automatically_continuable a"
  using assessment_decides [OF attempt3_valid(2)] by (auto simp: attempt_defs)

text \<open>C23. An admitted session executes exactly the phase nodes of its transaction: the request's lifecycle
  order is the program's, so every result of the session is acceptable evidence for the progression, and
  each lifecycle session is bound to the transaction node at its place in that order.\<close>

theorem admitted_session_follows_program:
  assumes "effectful_operation_request_make X ts state node application lifecycle reason = Inr request"
    and "effectful_operation_session_admit X request before after = Inr s"
  shows "effect_local (transaction_program_of ts) (seal_result X s outcome b a af te pr pp rc) \<and>
    length before = length (order_before lifecycle) \<and> length after = length (order_after lifecycle) \<and>
    (\<forall>(n, v) \<in> set (zip (order_before lifecycle) before) \<union> set (zip (order_after lifecycle) after).
       \<exists>m. program_find (transaction_program_of ts) n = Some m \<and> node_action m = Act_lifecycle \<and>
         node_lifecycle m = Some (lifecycle_action (lifecycle_node_of v)) \<and>
         lifecycle_application (lifecycle_node_of v) = application_id application)"
proof -
  have r: "effect_transaction request = ts" "effect_action_node request = node" "effect_lifecycle request = lifecycle"
      "effect_application_request request = application"
    and l: "validate_lifecycle_order (transaction_program_of ts) node lifecycle = Inr ()"
    using assms(1)
    by (auto simp: effectful_operation_request_make_def bindE_Inr_iff split: option.splits if_splits)
  have s: "effect_request_of s = request" "length before = length (order_before lifecycle)"
      "length after = length (order_after lifecycle)"
    and b: "\<forall>(n, v) \<in> set (zip (order_before lifecycle) before) \<union> set (zip (order_after lifecycle) after).
        validate_lifecycle_binding request n v = Inr ()"
    using assms(2) r(3)
    by (auto simp: effectful_operation_session_admit_def bindE_Inr_iff forE_Inr_iff split: if_splits)
  have m: "\<exists>m. program_find (transaction_program_of ts) n = Some m \<and> node_action m = Act_lifecycle \<and>
         node_lifecycle m = Some (lifecycle_action (lifecycle_node_of v)) \<and>
         lifecycle_application (lifecycle_node_of v) = application_id application"
    if "validate_lifecycle_binding request n v = Inr ()" for n v
    using that r
    by (auto simp: validate_lifecycle_binding_def lifecycle_authority_rejected_def Let_def split: option.splits if_splits)
  have "\<forall>(n, v) \<in> set (zip (order_before lifecycle) before) \<union> set (zip (order_after lifecycle) after).
       \<exists>m. program_find (transaction_program_of ts) n = Some m \<and> node_action m = Act_lifecycle \<and>
         node_lifecycle m = Some (lifecycle_action (lifecycle_node_of v)) \<and>
         lifecycle_application (lifecycle_node_of v) = application_id application"
  proof (rule ballI, clarify)
    fix n v assume "(n, v) \<in> set (zip (order_before lifecycle) before) \<union> set (zip (order_after lifecycle) after)"
    with b have "validate_lifecycle_binding request n v = Inr ()" by blast
    then show "\<exists>m. program_find (transaction_program_of ts) n = Some m \<and> node_action m = Act_lifecycle \<and>
         node_lifecycle m = Some (lifecycle_action (lifecycle_node_of v)) \<and>
         lifecycle_application (lifecycle_node_of v) = application_id application" by (rule m)
  qed
  moreover have "effect_local (transaction_program_of ts) (seal_result X s outcome b a af te pr pp rc)"
    using l r s(1) by (simp add: effect_local_def seal_result_def)
  ultimately show ?thesis using s(2,3) by blast
qed

lemma sample_session_admitted:
  obtains request s where "effectful_operation_request_make sample_ext sample_session sample_state ''i'' sample_application
      \<lparr>order_before = [''l''], order_after = []\<rparr> (Some sample_reason) = Inr request"
    and "effectful_operation_session_admit sample_ext request [sample_lifecycle] [] = Inr s"
proof -
  have f: "program_find (transaction_program_of sample_session) ''i'' = Some (sample_node ''i'' Act_install)"
      "program_find (transaction_program_of sample_session) ''l'' = Some (sample_node ''l'' Act_lifecycle)"
    by (simp_all add: sample_session_def sample_program_def sample_nodes_def sample_node_def)
  have o: "validate_lifecycle_order (transaction_program_of sample_session) ''i'' \<lparr>order_before = [''l''], order_after = []\<rparr> = Inr ()"
    by code_simp
  have a: "validate_action_authority sample_session sample_state (sample_node ''i'' Act_install) sample_application = Inr ()"
    by (simp add: validate_action_authority_def sample_node_def sample_application_def application_release_def
        preconditions_def sample_state_def sample_session_def stale_action_def incoming_rejected_def
        upgrade_rejected_def reject_def)
  have digit: "to_string (Suc 0) = ''1''" by code_simp
  obtain request where r: "effectful_operation_request_make sample_ext sample_session sample_state ''i'' sample_application
      \<lparr>order_before = [''l''], order_after = []\<rparr> (Some sample_reason) = Inr request"
    and rf: "effect_transaction request = sample_session" "effect_application_request request = sample_application"
      "effect_lifecycle request = \<lparr>order_before = [''l''], order_after = []\<rparr>"
    by (simp add: effectful_operation_request_make_def f o a) (simp add: sample_application_def)
  have "validate_lifecycle_binding request ''l'' sample_lifecycle = Inr ()"
    by (simp add: validate_lifecycle_binding_def rf f lifecycle_authority_rejected_def incoming_lifecycle_rejected_def
        sample_node_def sample_lifecycle_def sample_application_def digit)
  then obtain s where "effectful_operation_session_admit sample_ext request [sample_lifecycle] [] = Inr s"
    by (simp add: effectful_operation_session_admit_def rf)
  with r that show thesis by blast
qed

lemma admitted_session_follows_program_witness:
  "\<exists>s. effect_local (transaction_program_of sample_session)
     (seal_result sample_ext s Outer_lease_lost [] None [] None None None None)"
  using sample_session_admitted admitted_session_follows_program by metis

end
