(* ===== verification/Codec.thy ===== *)
theory Codec
  imports Nonce
begin

text \<open>
  What the byte writers and readers of \<^verbatim>\<open>src/effect_journal_codec.cpp\<close> and \<^verbatim>\<open>src/run_journal_codec.cpp\<close> share.
  A writer appends to the bytes written so far and throws when they exceed the bound of the format; a
  reader takes what is left of the input to a value and what is left after it. The contract of a pair of
  them is the locale \<open>codec\<close>: the reader accepts exactly what the writer renders.
\<close>

section \<open>Writers\<close>

type_synonym writer = "byte list \<Rightarrow> byte list res"

definition put :: "nat \<Rightarrow> exn \<Rightarrow> byte list \<Rightarrow> writer" where
  "put limit e bs out = (if limit < length out + length bs then Inl e else Inr (out @ bs))"

text \<open>\<^verbatim>\<open>writer::raw\<close>, which writes nothing and checks nothing when there is nothing to write.\<close>

definition put_raw :: "nat \<Rightarrow> exn \<Rightarrow> byte list \<Rightarrow> writer" where
  "put_raw limit e bs out = (if bs = [] then Inr out else put limit e bs out)"

definition put_word :: "nat \<Rightarrow> exn \<Rightarrow> nat \<Rightarrow> 'a::len word \<Rightarrow> writer" where
  "put_word limit e k w = put limit e (be_bytes k w)"

definition put_byte :: "nat \<Rightarrow> exn \<Rightarrow> byte \<Rightarrow> writer" where
  "put_byte limit e b = put limit e [b]"

definition put_bool :: "nat \<Rightarrow> exn \<Rightarrow> bool \<Rightarrow> writer" where
  "put_bool limit e b = put_byte limit e (if b then 1 else 0)"

fun statements :: "writer list \<Rightarrow> writer" where
  "statements [] out = Inr out"
| "statements (w # ws) out = bindE (w out) (statements ws)"

definition put_optional :: "nat \<Rightarrow> exn \<Rightarrow> ('a \<Rightarrow> writer) \<Rightarrow> 'a option \<Rightarrow> writer" where
  "put_optional limit e w v =
     statements (put_bool limit e (v \<noteq> None) # (case v of None \<Rightarrow> [] | Some x \<Rightarrow> [w x]))"

definition put_each :: "('a \<Rightarrow> writer) \<Rightarrow> 'a list \<Rightarrow> writer" where
  "put_each w xs = statements (map w xs)"

text \<open>What a writer writes, as long as it fits.\<close>

definition writes :: "nat \<Rightarrow> exn \<Rightarrow> writer \<Rightarrow> byte list \<Rightarrow> bool" where
  "writes limit e w bs \<longleftrightarrow> (\<forall>out. length out \<le> limit \<longrightarrow> w out = put limit e bs out)"

named_theorems writing "what the writers write"

lemma writes_put [writing]: "writes limit e (put limit e bs) bs"
  by (simp add: writes_def)

lemma writes_raw [writing]: "writes limit e (put_raw limit e bs) bs"
  by (simp add: writes_def put_raw_def put_def)

lemma writes_word [writing]: "writes limit e (put_word limit e k w) (be_bytes k w)"
  by (simp add: writes_def put_word_def)

lemma writes_byte [writing]: "writes limit e (put_byte limit e b) [b]"
  by (simp add: writes_def put_byte_def)

definition bool_byte :: "bool \<Rightarrow> byte list" where
  "bool_byte b = [if b then 1 else 0]"

lemma writes_bool [writing]: "writes limit e (put_bool limit e b) (bool_byte b)"
  by (simp add: writes_def put_bool_def put_byte_def bool_byte_def)

lemma writes_Nil [writing]: "writes limit e (statements []) []"
  by (simp add: writes_def put_def)

lemma writes_Cons [writing]:
  assumes "writes limit e w bs" and "writes limit e (statements ws) bs'"
  shows "writes limit e (statements (w # ws)) (bs @ bs')"
  using assms by (auto simp: writes_def put_def bindE_def)

definition optional_bytes :: "('a \<Rightarrow> byte list) \<Rightarrow> 'a option \<Rightarrow> byte list" where
  "optional_bytes f v = bool_byte (v \<noteq> None) @ (case v of None \<Rightarrow> [] | Some x \<Rightarrow> f x)"

lemma writes_optional [writing]:
  assumes "\<And>x. v = Some x \<Longrightarrow> writes limit e (w x) (f x)"
  shows "writes limit e (put_optional limit e w v) (optional_bytes f v)"
proof (cases v)
  case None
  then show ?thesis
    using writes_Cons [OF writes_bool writes_Nil, of limit e False] by (simp add: put_optional_def optional_bytes_def)
next
  case (Some x)
  from writes_Cons [OF writes_bool writes_Cons [OF assms [OF Some] writes_Nil], of True] Some show ?thesis
    by (simp add: put_optional_def optional_bytes_def)
qed

lemma writes_each [writing]:
  "(\<And>x. x \<in> set xs \<Longrightarrow> writes limit e (w x) (f x)) \<Longrightarrow> writes limit e (put_each w xs) (concat (map f xs))"
  unfolding put_each_def by (induction xs) (simp_all add: writes_Nil writes_Cons del: statements.simps)

lemma writes_statements:
  "list_all2 (writes limit e) ws bss \<Longrightarrow> writes limit e (statements ws) (concat bss)"
  by (induction rule: list_all2_induct) (simp_all add: writes_Nil writes_Cons del: statements.simps)

lemma writes_run: "writes limit e w bs \<Longrightarrow> w [] = (if limit < length bs then Inl e else Inr bs)"
  by (simp add: writes_def put_def)

section \<open>Readers\<close>

type_synonym 'a reader = "byte list \<Rightarrow> ('a \<times> byte list) res"

definition retR :: "'a \<Rightarrow> 'a reader" where
  "retR x bs = Inr (x, bs)"

definition liftR :: "'a res \<Rightarrow> 'a reader" where
  "liftR r bs = bindE r (\<lambda>x. Inr (x, bs))"

definition bindR :: "'a reader \<Rightarrow> ('a \<Rightarrow> 'b reader) \<Rightarrow> 'b reader" where
  "bindR m f bs = bindE (m bs) (\<lambda>(x, rest). f x rest)"

lemma retR_iff [res_simps]: "retR x bs = Inr y \<longleftrightarrow> y = (x, bs)"
  by (auto simp: retR_def)

lemma liftR_iff [res_simps]: "liftR r bs = Inr (x, rest) \<longleftrightarrow> r = Inr x \<and> rest = bs"
  by (auto simp: liftR_def bindE_Inr_iff)

lemma bindR_iff [res_simps]: "bindR m f bs = Inr y \<longleftrightarrow> (\<exists>x rest. m bs = Inr (x, rest) \<and> f x rest = Inr y)"
  by (auto simp: bindR_def bindE_Inr_iff)

definition get_raw :: "exn \<Rightarrow> nat \<Rightarrow> byte list reader" where
  "get_raw e n bs = (if length bs < n then Inl e else Inr (take n bs, drop n bs))"

definition get_byte :: "exn \<Rightarrow> byte reader" where
  "get_byte e bs = (case bs of [] \<Rightarrow> Inl e | b # rest \<Rightarrow> Inr (b, rest))"

definition get_word :: "exn \<Rightarrow> nat \<Rightarrow> 'a::len word reader" where
  "get_word e k = bindR (get_raw e k) (\<lambda>bs. retR (be_value bs))"

definition get_bool :: "exn \<Rightarrow> bool reader" where
  "get_bool e = bindR (get_byte e) (\<lambda>b. if 1 < b then liftR (Inl e) else retR (b = 1))"

definition get_optional :: "exn \<Rightarrow> 'a reader \<Rightarrow> 'a option reader" where
  "get_optional e get = bindR (get_bool e) (\<lambda>present.
     if present then bindR get (\<lambda>x. retR (Some x)) else retR None)"

fun get_times :: "nat \<Rightarrow> 'a reader \<Rightarrow> 'a list reader" where
  "get_times 0 get = retR []"
| "get_times (Suc n) get = bindR get (\<lambda>x. bindR (get_times n get) (\<lambda>xs. retR (x # xs)))"

section \<open>The contract\<close>

locale codec =
  fixes bytes :: "'a \<Rightarrow> byte list" and get :: "'a reader" and ok :: "'a \<Rightarrow> bool"
  assumes get_bytes: "ok x \<Longrightarrow> get (bytes x @ rest) = Inr (x, rest)"
    and bytes_get: "get bs = Inr (x, rest) \<Longrightarrow> ok x \<and> bs = bytes x @ rest"
begin

lemma get_iff: "get bs = Inr (x, rest) \<longleftrightarrow> ok x \<and> bs = bytes x @ rest"
  using get_bytes bytes_get by blast

lemma times_iff:
  "get_times n get bs = Inr (xs, rest) \<longleftrightarrow> length xs = n \<and> list_all ok xs \<and> bs = concat (map bytes xs) @ rest"
proof (induction n arbitrary: bs xs)
  case 0
  show ?case by (auto simp: retR_iff)
next
  case (Suc n)
  show ?case by (cases xs) (auto simp: bindR_iff retR_iff get_iff Suc.IH)
qed

lemma bytes_inj: "ok x \<Longrightarrow> ok y \<Longrightarrow> bytes x @ r = bytes y @ s \<Longrightarrow> x = y \<and> r = s"
  by (metis get_bytes sum.inject(2) prod.inject)

end

lemma codecI:
  "(\<And>bs x rest. get bs = Inr (x, rest) \<longleftrightarrow> ok x \<and> bs = bytes x @ rest) \<Longrightarrow> codec bytes get ok"
  by unfold_locales auto

text \<open>What a reader accepts after a value of another: the rules by which a composed reader is read off.\<close>

named_theorems reading "what the readers accept"

lemma get_raw_iff [reading]: "get_raw e n bs = Inr (x, rest) \<longleftrightarrow> length x = n \<and> bs = x @ rest"
  by (auto simp: get_raw_def)

lemma get_byte_iff [reading]: "get_byte e bs = Inr (x, rest) \<longleftrightarrow> bs = [x] @ rest"
  by (auto simp: get_byte_def split: list.split)

lemma byte_at_most_1: "b \<le> 1 \<longleftrightarrow> b = 0 \<or> b = (1 :: byte)"
  by (auto simp: word_le_nat_alt word_unat_eq_iff le_Suc_eq)

lemma get_bool_cases:
  "get_bool e bs = (case bs of [] \<Rightarrow> Inl e | b # rest \<Rightarrow> if 1 < b then Inl e else Inr (b = 1, rest))"
  by (simp add: get_bool_def bindR_def get_byte_def liftR_def retR_def split: list.split)

lemma get_bool_iff [reading]: "get_bool e bs = Inr (x, rest) \<longleftrightarrow> bs = bool_byte x @ rest"
proof (cases bs)
  case Nil
  then show ?thesis by (simp add: get_bool_cases bool_byte_def)
next
  case (Cons b bs')
  then show ?thesis
    using byte_at_most_1 [of b] by (cases "b \<le> 1") (auto simp: get_bool_cases bool_byte_def)
qed

lemma be_bytes_value: "length bs = k \<Longrightarrow> 8 * k \<le> LENGTH('a) \<Longrightarrow> be_bytes k (be_value bs :: 'a::len word) = bs"
proof (induction k arbitrary: bs)
  case 0
  then show ?case by simp
next
  case (Suc k)
  then obtain cs b where bs: "bs = cs @ [b]" and cs: "length cs = k" by (cases bs rule: rev_cases) auto
  let ?w = "be_value cs :: 'a word"
  have IH: "be_bytes k ?w = cs" using Suc.IH [OF cs] Suc.prems(2) by simp
  have low: "?w = take_bit (8 * k) ?w" by (metis IH be_value_be_bytes)
  have "drop_bit 8 (push_bit 8 ?w OR ucast b) = ?w"
  proof (rule bit_word_eqI)
    fix n
    assume n: "n < LENGTH('a)"
    have "bit ?w n \<Longrightarrow> n < 8 * k" by (metis low bit_take_bit_iff)
    moreover have "\<not> bit (b :: byte) (8 + n)" using bit_imp_le_length [of b "8 + n"] by auto
    ultimately show "bit (drop_bit 8 (push_bit 8 ?w OR ucast b)) n \<longleftrightarrow> bit ?w n"
      using n Suc.prems(2) by (auto simp: bit_simps)
  qed
  moreover have "ucast (push_bit 8 ?w OR ucast b) = b"
    by (rule bit_word_eqI) (use Suc.prems(2) in \<open>auto simp: bit_simps\<close>)
  ultimately show ?case by (simp add: bs be_bytes_Suc be_value_snoc IH)
qed

lemma get_word_iff [reading]:
  assumes "8 * k = LENGTH('a)"
  shows "get_word e k bs = Inr (x :: 'a::len word, rest) \<longleftrightarrow> bs = be_bytes k x @ rest"
proof -
  have "be_value (be_bytes k x) = x" using assms by (simp add: be_value_be_bytes take_bit_word_eq_self)
  then show ?thesis
    using be_bytes_value [where 'a = 'a and k = k] assms
    by (auto simp: get_word_def bindR_iff retR_iff get_raw_iff)
qed

lemma get_optional_iff:
  assumes "\<And>bs x rest. get bs = Inr (x, rest) \<longleftrightarrow> ok x \<and> bs = f x @ rest"
  shows "get_optional e get bs = Inr (v, rest) \<longleftrightarrow> pred_option ok v \<and> bs = optional_bytes f v @ rest"
  by (cases v) (auto simp: get_optional_def bindR_iff retR_iff get_bool_iff assms optional_bytes_def split: if_splits)

section \<open>Enumerations\<close>

text \<open>
  An enumerator is written as its numeric value in one byte and read by a range check and a cast; a value
  in the range that no enumerator has would be cast to a value that is none of them.
\<close>

definition enum_of_code :: "('a \<Rightarrow> nat) \<Rightarrow> 'a list \<Rightarrow> nat \<Rightarrow> 'a res" where
  "enum_of_code code xs v =
     (case find (\<lambda>x. code x = v) xs of None \<Rightarrow> Inl Undefined_behaviour | Some x \<Rightarrow> Inr x)"

definition get_enum :: "exn \<Rightarrow> ('a \<Rightarrow> nat) \<Rightarrow> 'a list \<Rightarrow> nat \<Rightarrow> nat \<Rightarrow> 'a reader" where
  "get_enum e code xs lower upper = bindR (get_byte e) (\<lambda>v.
     if unat v < lower \<or> upper < unat v then liftR (Inl e) else liftR (enum_of_code code xs (unat v)))"

definition enum_byte :: "('a \<Rightarrow> nat) \<Rightarrow> 'a \<Rightarrow> byte list" where
  "enum_byte code x = [word_of_nat (code x)]"

definition enum_ok :: "('a \<Rightarrow> nat) \<Rightarrow> 'a list \<Rightarrow> nat \<Rightarrow> nat \<Rightarrow> 'a \<Rightarrow> bool" where
  "enum_ok code xs lower upper x \<longleftrightarrow>
     lower \<le> code x \<and> code x \<le> upper \<and> code x < 256 \<and> find (\<lambda>y. code y = code x) xs = Some x"

lemma enum_of_code_Inr: "enum_of_code code xs v = Inr x \<longleftrightarrow> find (\<lambda>y. code y = v) xs = Some x"
  by (simp add: enum_of_code_def split: option.split)

lemma get_enum_cases:
  "get_enum e code xs lower upper (v # rest) = Inr (x, rest') \<longleftrightarrow>
     rest' = rest \<and> lower \<le> unat v \<and> unat v \<le> upper \<and> find (\<lambda>y. code y = unat v) xs = Some x"
  by (auto simp: get_enum_def bindR_def get_byte_def liftR_def bindE_Inr_iff enum_of_code_Inr not_less)

lemma get_enum_iff:
  "get_enum e code xs lower upper bs = Inr (x, rest) \<longleftrightarrow>
     enum_ok code xs lower upper x \<and> bs = enum_byte code x @ rest"
proof
  assume get: "get_enum e code xs lower upper bs = Inr (x, rest)"
  then obtain v bs' where bs: "bs = v # bs'"
    by (cases bs) (simp_all add: get_enum_def bindR_def get_byte_def)
  from get have c: "bs' = rest" "lower \<le> unat v" "unat v \<le> upper" "find (\<lambda>y. code y = unat v) xs = Some x"
    by (simp_all add: bs get_enum_cases)
  from c(4) have "code x = unat v" by (auto simp: find_Some_iff)
  moreover have "unat v < 256" using unsigned_less [of v, where ?'a = nat] by simp
  ultimately show "enum_ok code xs lower upper x \<and> bs = enum_byte code x @ rest"
    using c bs by (simp add: enum_ok_def enum_byte_def)
next
  assume ok: "enum_ok code xs lower upper x \<and> bs = enum_byte code x @ rest"
  then have "unat (word_of_nat (code x) :: byte) = code x" by (simp add: enum_ok_def unat_of_nat)
  with ok show "get_enum e code xs lower upper bs = Inr (x, rest)"
    by (simp add: enum_ok_def enum_byte_def get_enum_cases)
qed

end
