(* ===== verification/Effect_Codec.thy ===== *)
theory Effect_Codec
  imports Codec Effect_Trace
begin

text \<open>
  \<^verbatim>\<open>src/effect_journal_codec.cpp\<close>: one snapshot of an effect attempt as bytes. A magic, the versions, the
  fields in a fixed order, then the SHA-256 of everything before. Every text carries its length, every
  optional a flag, every list its length.
\<close>

definition maximum_effect_attempt_encoding_size :: nat where
  "maximum_effect_attempt_encoding_size = 1024 * 1024"

definition effect_magic :: "byte list" where
  "effect_magic = bytes_of_string ''PCTLJNL1''"

abbreviation effect_unwritable :: exn where
  "effect_unwritable \<equiv> Effect_journal_error invalid_record"

abbreviation effect_corrupt :: exn where
  "effect_corrupt \<equiv> Effect_journal_error corrupt_encoding"

abbreviation effect_writes :: "writer \<Rightarrow> byte list \<Rightarrow> bool" where
  "effect_writes \<equiv> writes maximum_effect_attempt_encoding_size effect_unwritable"

section \<open>The writer\<close>

definition ew_raw :: "byte list \<Rightarrow> writer" where
  "ew_raw = put_raw maximum_effect_attempt_encoding_size effect_unwritable"

definition ew_u8 :: "byte \<Rightarrow> writer" where
  "ew_u8 = put_byte maximum_effect_attempt_encoding_size effect_unwritable"

definition ew_u16 :: "16 word \<Rightarrow> writer" where
  "ew_u16 = put_word maximum_effect_attempt_encoding_size effect_unwritable 2"

definition ew_u64 :: "u64 \<Rightarrow> writer" where
  "ew_u64 = put_word maximum_effect_attempt_encoding_size effect_unwritable 8"

definition ew_boolean :: "bool \<Rightarrow> writer" where
  "ew_boolean = put_bool maximum_effect_attempt_encoding_size effect_unwritable"

definition ew_text :: "string \<Rightarrow> writer" where
  "ew_text value =
     (if 2 ^ 32 - 1 < length value then (\<lambda>_. Inl effect_unwritable)
      else statements [ew_u64 (word_of_nat (length value)), ew_raw (bytes_of_string value)])"

definition ew_optional :: "('a \<Rightarrow> writer) \<Rightarrow> 'a option \<Rightarrow> writer" where
  "ew_optional = put_optional maximum_effect_attempt_encoding_size effect_unwritable"

definition ew_fact :: "effect_lifecycle_fact \<Rightarrow> writer" where
  "ew_fact f = statements [ew_text (fact_result f), ew_boolean (fact_succeeded f)]"

definition ew_application :: "ext \<Rightarrow> effect_application_fact \<Rightarrow> writer" where
  "ew_application X a = statements
     [ew_text (app_receipt a), ew_u8 (word_of_nat (application_outcome_code X (app_outcome a))),
      ew_optional ew_text (app_journal a), ew_optional ew_text (app_completed_evidence a)]"

definition ew_publication :: "ext \<Rightarrow> effect_publication_fact \<Rightarrow> writer" where
  "ew_publication X p = statements
     [ew_text (pub_receipt p), ew_u8 (word_of_nat (publication_outcome_code X (pub_outcome p))),
      ew_optional ew_text (pub_resulting_snapshot p)]"

definition ew_record :: "ext \<Rightarrow> effect_attempt_record \<Rightarrow> writer" where
  "ew_record X r = statements
     [ew_raw effect_magic, ew_u16 1, ew_u16 1,
      ew_text (ea_identity r), ew_text (ea_attempt r), ew_text (ea_session r), ew_raw (ea_nonce r),
      ew_u64 (ea_sequence r), ew_optional ew_text (ea_previous r),
      ew_u64 (ea_before_total r), ew_u64 (ea_after_total r),
      ew_u8 (word_of_nat (stage_code (ea_stage r))), ew_optional ew_u64 (ea_active_index r),
      ew_u64 (word_of_nat (length (ea_before r))), put_each ew_fact (ea_before r),
      ew_optional (ew_application X) (ea_application r),
      ew_u64 (word_of_nat (length (ea_after r))), put_each ew_fact (ea_after r),
      ew_optional ew_text (ea_transaction_evidence r), ew_optional ew_text (ea_publication_request r),
      ew_optional (ew_publication X) (ea_publication r),
      ew_optional (\<lambda>t. ew_u8 (word_of_nat (effect_outcome_code t))) (ea_terminal_outcome r),
      ew_optional ew_text (ea_reconciled_state r)]"

definition encode_effect_attempt_record :: "ext \<Rightarrow> effect_attempt_record \<Rightarrow> byte list res" where
  "encode_effect_attempt_record X r =
     bindE (ew_record X r []) (\<lambda>encoding.
       let sealed = encoding @ sha256 X encoding in
       if maximum_effect_attempt_encoding_size < length sealed then Inl effect_unwritable else Inr sealed)"

section \<open>The reader\<close>

definition er_u64 :: "u64 reader" where
  "er_u64 = get_word effect_corrupt 8"

definition er_u16 :: "16 word reader" where
  "er_u16 = get_word effect_corrupt 2"

definition er_boolean :: "bool reader" where
  "er_boolean = get_bool effect_corrupt"

definition er_text :: "string reader" where
  "er_text = bindR er_u64 (\<lambda>n rest.
     if length rest < unat n then Inl effect_corrupt
     else Inr (string_of_bytes (take (unat n) rest), drop (unat n) rest))"

definition er_optional :: "'a reader \<Rightarrow> 'a option reader" where
  "er_optional = get_optional effect_corrupt"

definition er_identity :: "session_identity reader" where
  "er_identity = bindR er_text (\<lambda>s. liftR (session_identity_from_hex s))"

definition er_expect :: "byte list \<Rightarrow> unit reader" where
  "er_expect expected = bindR (get_raw effect_corrupt (length expected)) (\<lambda>bs.
     liftR (require (bs = expected) effect_corrupt))"

definition er_count :: "u64 reader" where
  "er_count = bindR er_u64 (\<lambda>n. if 65536 < unat n then liftR (Inl effect_corrupt) else retR n)"

definition er_stage :: "effect_attempt_stage reader" where
  "er_stage = get_enum effect_corrupt stage_code
     [Admitted, Before_intent, Before_terminal, Application_intent, Application_terminal, After_intent,
      After_terminal, Publication_intent, Publication_terminal, Terminal]
     (stage_code Admitted) (stage_code Terminal)"

definition er_application_outcome :: "ext \<Rightarrow> application_attempt_outcome reader" where
  "er_application_outcome X = get_enum effect_corrupt (application_outcome_code X)
     [Precondition_refused, Failed_before_target_mutation, Failed_fully_recovered, Failed_with_partial_effects,
      Effects_visible_durability_unconfirmed, Application_completed, Application_indeterminate]
     (application_outcome_code X Precondition_refused) (application_outcome_code X Application_indeterminate)"

definition er_publication_outcome :: "ext \<Rightarrow> state_publication_outcome reader" where
  "er_publication_outcome X = get_enum effect_corrupt (publication_outcome_code X)
     [Published, Published_durability_unconfirmed, Publication_indeterminate, Stale_expected_state,
      Request_rejected, Failed_before_publication]
     (publication_outcome_code X Published) (publication_outcome_code X Publication_indeterminate)"

definition er_terminal_outcome :: "effectful_operation_outcome reader" where
  "er_terminal_outcome = get_enum effect_corrupt effect_outcome_code
     [Lifecycle_failed_before_application, Application_not_completed, Lifecycle_failed_after_application,
      Outer_lease_lost, State_publication_not_completed, State_publication_indeterminate, Effect_completed,
      Application_resolution_required] 0 (effect_outcome_code Effect_completed)"

definition er_fact :: "effect_lifecycle_fact reader" where
  "er_fact = bindR er_identity (\<lambda>i. bindR er_boolean (\<lambda>b. retR \<lparr>fact_result = i, fact_succeeded = b\<rparr>))"

definition er_facts :: "effect_lifecycle_fact list reader" where
  "er_facts = bindR er_count (\<lambda>n. get_times (unat n) er_fact)"

definition er_application :: "ext \<Rightarrow> effect_application_fact reader" where
  "er_application X =
     bindR er_text (\<lambda>receipt. bindR (er_application_outcome X) (\<lambda>outcome.
     bindR (er_optional er_text) (\<lambda>journal. bindR (er_optional er_text) (\<lambda>completed.
       retR \<lparr>app_receipt = receipt, app_outcome = outcome, app_journal = journal,
         app_completed_evidence = completed\<rparr>))))"

definition er_publication :: "ext \<Rightarrow> effect_publication_fact reader" where
  "er_publication X =
     bindR er_text (\<lambda>receipt. bindR (er_publication_outcome X) (\<lambda>outcome.
     bindR (er_optional er_text) (\<lambda>resulting.
       retR \<lparr>pub_receipt = receipt, pub_outcome = outcome, pub_resulting_snapshot = resulting\<rparr>)))"

definition er_nonce :: "nonce reader" where
  "er_nonce = bindR (get_raw effect_corrupt 32) (\<lambda>bs. liftR (effect_nonce_from_bytes bs))"

definition er_header :: "unit reader" where
  "er_header =
     bindR (er_expect effect_magic) (\<lambda>_.
     bindR er_u16 (\<lambda>v. bindR (liftR (require (v = 1) (Effect_journal_error unsupported_encoding))) (\<lambda>_.
     bindR er_u16 (\<lambda>v. liftR (require (v = 1) (Effect_journal_error unsupported_encoding))))))"

definition er_record :: "ext \<Rightarrow> effect_attempt_record reader" where
  "er_record X =
     bindR er_header (\<lambda>_.
     bindR er_identity (\<lambda>i. bindR er_identity (\<lambda>attempt. bindR er_identity (\<lambda>session.
     bindR er_nonce (\<lambda>nonce. bindR er_u64 (\<lambda>sequence. bindR (er_optional er_identity) (\<lambda>previous.
     bindR er_count (\<lambda>before_total. bindR er_count (\<lambda>after_total.
     bindR er_stage (\<lambda>stage. bindR (er_optional er_count) (\<lambda>active_index.
     bindR er_facts (\<lambda>before. bindR (er_optional (er_application X)) (\<lambda>application.
     bindR er_facts (\<lambda>after.
     bindR (er_optional er_text) (\<lambda>transaction. bindR (er_optional er_text) (\<lambda>publication_request.
     bindR (er_optional (er_publication X)) (\<lambda>publication.
     bindR (er_optional er_terminal_outcome) (\<lambda>terminal. bindR (er_optional er_text) (\<lambda>reconciled.
       retR \<lparr>ea_identity = i, ea_attempt = attempt, ea_session = session, ea_nonce = nonce,
         ea_sequence = sequence, ea_previous = previous, ea_before_total = before_total,
         ea_after_total = after_total, ea_stage = stage, ea_active_index = active_index, ea_before = before,
         ea_application = application, ea_after = after, ea_transaction_evidence = transaction,
         ea_publication_request = publication_request, ea_publication = publication,
         ea_terminal_outcome = terminal, ea_reconciled_state = reconciled\<rparr>)))))))))))))))))))"

text \<open>The two \<^verbatim>\<open>catch\<close> clauses around the reader.\<close>

definition effect_decoding_error :: "exn \<Rightarrow> exn" where
  "effect_decoding_error e =
     (if e \<in> {Effect_journal_error unsupported_encoding, Effect_journal_error corrupt_encoding,
              Undefined_behaviour, Diverges} then e
      else effect_corrupt)"

definition read_effect_attempt_record :: "ext \<Rightarrow> byte list \<Rightarrow> effect_attempt_record res" where
  "read_effect_attempt_record X encoding =
     (if length encoding < length effect_magic + 4 + 32 \<or> maximum_effect_attempt_encoding_size < length encoding
      then Inl effect_corrupt
      else
        let payload = take (length encoding - 32) encoding in
        if sha256 X payload \<noteq> drop (length encoding - 32) encoding then Inl effect_corrupt
        else bindE (er_record X payload) (\<lambda>(r, rest).
          if rest \<noteq> [] then Inl effect_corrupt else effect_restore X r))"

definition decode_effect_attempt_record :: "ext \<Rightarrow> byte list \<Rightarrow> effect_attempt_record res" where
  "decode_effect_attempt_record X encoding =
     (case read_effect_attempt_record X encoding of
        Inl e \<Rightarrow> Inl (effect_decoding_error e) | Inr r \<Rightarrow> Inr r)"

end
