(* ===== verification/Effect_Codec_Laws.thy ===== *)
theory Effect_Codec_Laws
  imports Effect_Codec
begin

text \<open>
  The byte layout of an effect attempt record as a function, \<open>record_bytes\<close>: the writer writes it, and
  the reader accepts exactly it, part by part (an interpretation of \<open>codec\<close> each) and as a whole.
\<close>

section \<open>Layout\<close>

definition text_bytes :: "string \<Rightarrow> byte list" where
  "text_bytes s = be_bytes 8 (word_of_nat (length s) :: u64) @ bytes_of_string s"

definition count_bytes :: "u64 \<Rightarrow> byte list" where
  "count_bytes n = be_bytes 8 n"

definition fact_bytes :: "effect_lifecycle_fact \<Rightarrow> byte list" where
  "fact_bytes f = text_bytes (fact_result f) @ bool_byte (fact_succeeded f)"

definition facts_bytes :: "effect_lifecycle_fact list \<Rightarrow> byte list" where
  "facts_bytes fs = count_bytes (word_of_nat (length fs)) @ concat (map fact_bytes fs)"

definition application_bytes :: "ext \<Rightarrow> effect_application_fact \<Rightarrow> byte list" where
  "application_bytes X a =
     text_bytes (app_receipt a) @ enum_byte (application_outcome_code X) (app_outcome a) @
     optional_bytes text_bytes (app_journal a) @ optional_bytes text_bytes (app_completed_evidence a)"

definition publication_bytes :: "ext \<Rightarrow> effect_publication_fact \<Rightarrow> byte list" where
  "publication_bytes X p =
     text_bytes (pub_receipt p) @ enum_byte (publication_outcome_code X) (pub_outcome p) @
     optional_bytes text_bytes (pub_resulting_snapshot p)"

definition header_bytes :: "byte list" where
  "header_bytes = effect_magic @ be_bytes 2 (1 :: 16 word) @ be_bytes 2 (1 :: 16 word)"

definition record_bytes :: "ext \<Rightarrow> effect_attempt_record \<Rightarrow> byte list" where
  "record_bytes X r = concat
     [header_bytes, text_bytes (ea_identity r), text_bytes (ea_attempt r), text_bytes (ea_session r),
      ea_nonce r, count_bytes (ea_sequence r), optional_bytes text_bytes (ea_previous r),
      count_bytes (ea_before_total r), count_bytes (ea_after_total r), enum_byte stage_code (ea_stage r),
      optional_bytes count_bytes (ea_active_index r), facts_bytes (ea_before r),
      optional_bytes (application_bytes X) (ea_application r), facts_bytes (ea_after r),
      optional_bytes text_bytes (ea_transaction_evidence r),
      optional_bytes text_bytes (ea_publication_request r),
      optional_bytes (publication_bytes X) (ea_publication r),
      optional_bytes (enum_byte effect_outcome_code) (ea_terminal_outcome r),
      optional_bytes text_bytes (ea_reconciled_state r)]"

section \<open>The writer writes the layout\<close>

lemma effect_limit: "maximum_effect_attempt_encoding_size = 1048576"
  by (simp add: maximum_effect_attempt_encoding_size_def)

lemmas ew_defs = ew_raw_def ew_u8_def ew_u16_def ew_u64_def ew_boolean_def ew_optional_def

lemma writes_text: "effect_writes (ew_text s) (text_bytes s)"
proof (cases "2 ^ 32 - 1 < length s")
  case True
  then show ?thesis by (simp add: ew_text_def writes_def put_def text_bytes_def effect_limit)
next
  case False
  have "effect_writes (statements [ew_u64 (word_of_nat (length s)), ew_raw (bytes_of_string s)])
      (concat [be_bytes 8 (word_of_nat (length s) :: u64), bytes_of_string s])"
    by (intro writes_statements) (simp add: ew_defs writing)
  with False show ?thesis by (simp add: ew_text_def text_bytes_def)
qed

lemma writes_part: "list_all2 effect_writes ws bss \<Longrightarrow> concat bss = bs \<Longrightarrow> effect_writes (statements ws) bs"
  using writes_statements by blast

lemma writes_fact: "effect_writes (ew_fact f) (fact_bytes f)"
  unfolding ew_fact_def
  by (rule writes_part [where bss = "[text_bytes (fact_result f), bool_byte (fact_succeeded f)]"])
    (simp_all add: fact_bytes_def writes_text ew_defs writing)

lemma writes_optional_text: "effect_writes (ew_optional ew_text v) (optional_bytes text_bytes v)"
  unfolding ew_optional_def by (rule writes_optional) (rule writes_text)

lemma writes_application: "effect_writes (ew_application X a) (application_bytes X a)"
  unfolding ew_application_def
  by (rule writes_part [where bss = "[text_bytes (app_receipt a),
        enum_byte (application_outcome_code X) (app_outcome a), optional_bytes text_bytes (app_journal a),
        optional_bytes text_bytes (app_completed_evidence a)]"])
    (simp_all add: application_bytes_def enum_byte_def writes_text writes_optional_text ew_u8_def writing)

lemma writes_publication: "effect_writes (ew_publication X p) (publication_bytes X p)"
  unfolding ew_publication_def
  by (rule writes_part [where bss = "[text_bytes (pub_receipt p),
        enum_byte (publication_outcome_code X) (pub_outcome p),
        optional_bytes text_bytes (pub_resulting_snapshot p)]"])
    (simp_all add: publication_bytes_def enum_byte_def writes_text writes_optional_text ew_u8_def writing)

lemma writes_u64: "effect_writes (ew_u64 n) (count_bytes n)"
  by (simp add: ew_u64_def count_bytes_def writing)

lemma writes_each_fact: "effect_writes (put_each ew_fact fs) (concat (map fact_bytes fs))"
  by (rule writes_each) (rule writes_fact)

lemma writes_record: "effect_writes (ew_record X r) (record_bytes X r)"
  unfolding ew_record_def
  by (rule writes_part [where bss =
       "[effect_magic, be_bytes 2 (1 :: 16 word), be_bytes 2 (1 :: 16 word),
         text_bytes (ea_identity r), text_bytes (ea_attempt r), text_bytes (ea_session r), ea_nonce r,
         count_bytes (ea_sequence r), optional_bytes text_bytes (ea_previous r),
         count_bytes (ea_before_total r), count_bytes (ea_after_total r),
         enum_byte stage_code (ea_stage r), optional_bytes count_bytes (ea_active_index r),
         count_bytes (word_of_nat (length (ea_before r))), concat (map fact_bytes (ea_before r)),
         optional_bytes (application_bytes X) (ea_application r),
         count_bytes (word_of_nat (length (ea_after r))), concat (map fact_bytes (ea_after r)),
         optional_bytes text_bytes (ea_transaction_evidence r),
         optional_bytes text_bytes (ea_publication_request r),
         optional_bytes (publication_bytes X) (ea_publication r),
         optional_bytes (enum_byte effect_outcome_code) (ea_terminal_outcome r),
         optional_bytes text_bytes (ea_reconciled_state r)]"])
    (simp_all add: record_bytes_def facts_bytes_def header_bytes_def writes_text writes_optional_text
      writes_u64 writes_each_fact,
     auto simp: ew_raw_def ew_u16_def ew_u8_def ew_optional_def enum_byte_def
       intro!: writes_raw writes_word writes_byte writes_optional writes_u64 writes_application writes_publication)

lemma encode_iff:
  "encode_effect_attempt_record X r = Inr bs \<longleftrightarrow>
     length bs \<le> maximum_effect_attempt_encoding_size \<and> bs = record_bytes X r @ sha256 X (record_bytes X r)"
  by (auto simp: encode_effect_attempt_record_def writes_run [OF writes_record] bindE_def Let_def)

lemma encode_fails: "encode_effect_attempt_record X r = Inl e \<Longrightarrow> e = effect_unwritable"
  by (auto simp: encode_effect_attempt_record_def writes_run [OF writes_record] bindE_def Let_def
      split: if_splits)

section \<open>The reader accepts the layout\<close>

definition text_fits :: "string \<Rightarrow> bool" where
  "text_fits s \<longleftrightarrow> length s < 2 ^ 64"

lemma er_text_iff: "er_text bs = Inr (s, rest) \<longleftrightarrow> text_fits s \<and> bs = text_bytes s @ rest"
proof -
  have n: "unat (word_of_nat (length s) :: u64) = length s" if "text_fits s"
    using that by (simp add: text_fits_def unat_of_nat)
  show ?thesis
  proof
    assume "er_text bs = Inr (s, rest)"
    then obtain v bs' where bs: "bs = be_bytes 8 (v :: u64) @ bs'" and l: "unat v \<le> length bs'"
      and s: "s = string_of_bytes (take (unat v) bs')" and r: "rest = drop (unat v) bs'"
      by (auto simp: er_text_def er_u64_def bindR_iff reading not_less split: if_splits)
    from s l have len: "length s = unat v" by simp
    then have "text_fits s" using unsigned_less [of v, where ?'a = nat] by (simp add: text_fits_def)
    moreover have "bytes_of_string s @ rest = bs'" by (simp add: s r)
    ultimately show "text_fits s \<and> bs = text_bytes s @ rest" by (simp add: bs text_bytes_def len)
  next
    assume "text_fits s \<and> bs = text_bytes s @ rest"
    with n show "er_text bs = Inr (s, rest)"
      by (auto simp: er_text_def er_u64_def bindR_iff reading text_bytes_def be_bytes_inj_64)
  qed
qed

lemma identity_fits: "identity_text_ok s \<Longrightarrow> text_fits s"
  by (simp add: identity_text_ok_def text_fits_def)

lemma er_identity_iff: "er_identity bs = Inr (s, rest) \<longleftrightarrow> identity_text_ok s \<and> bs = text_bytes s @ rest"
  using identity_fits by (auto simp: er_identity_def bindR_iff liftR_iff er_text_iff session_identity_from_hex_Inr)

definition count_ok :: "u64 \<Rightarrow> bool" where
  "count_ok n \<longleftrightarrow> unat n \<le> 65536"

lemma er_u64_iff: "er_u64 bs = Inr (n, rest) \<longleftrightarrow> bs = count_bytes n @ rest"
  by (simp add: er_u64_def count_bytes_def reading)

lemma er_count_iff: "er_count bs = Inr (n, rest) \<longleftrightarrow> count_ok n \<and> bs = count_bytes n @ rest"
  by (auto simp: er_count_def bindR_iff er_u64_iff liftR_iff retR_iff count_ok_def count_bytes_def be_bytes_inj_64
      split: if_splits)
    (metis not_less)

lemma er_boolean_iff: "er_boolean bs = Inr (b, rest) \<longleftrightarrow> bs = bool_byte b @ rest"
  by (simp add: er_boolean_def get_bool_iff)

definition fact_typed :: "effect_lifecycle_fact \<Rightarrow> bool" where
  "fact_typed f \<longleftrightarrow> identity_text_ok (fact_result f)"

interpretation fact_codec: codec fact_bytes er_fact fact_typed
proof (rule codecI)
  fix bs x rest
  show "er_fact bs = Inr (x, rest) \<longleftrightarrow> fact_typed x \<and> bs = fact_bytes x @ rest"
    by (cases x) (auto simp: er_fact_def bindR_iff retR_iff er_identity_iff er_boolean_iff fact_typed_def fact_bytes_def)
qed

definition facts_typed :: "effect_lifecycle_fact list \<Rightarrow> bool" where
  "facts_typed fs \<longleftrightarrow> length fs \<le> 65536 \<and> list_all fact_typed fs"

interpretation facts_codec: codec facts_bytes er_facts facts_typed
proof (rule codecI)
  fix bs rest and x :: "effect_lifecycle_fact list"
  have "unat (word_of_nat (length x) :: u64) = length x" if "length x \<le> 65536"
    using that by (simp add: unat_of_nat)
  then show "er_facts bs = Inr (x, rest) \<longleftrightarrow> facts_typed x \<and> bs = facts_bytes x @ rest"
    by (auto simp: er_facts_def bindR_iff er_count_iff fact_codec.times_iff facts_typed_def facts_bytes_def count_ok_def)
      (metis)
qed

definition application_typed :: "ext \<Rightarrow> effect_application_fact \<Rightarrow> bool" where
  "application_typed X a \<longleftrightarrow> text_fits (app_receipt a) \<and>
     (\<exists>rest. er_application_outcome X (enum_byte (application_outcome_code X) (app_outcome a)) =
        Inr (app_outcome a, rest)) \<and>
     pred_option text_fits (app_journal a) \<and> pred_option text_fits (app_completed_evidence a)"

definition publication_typed :: "ext \<Rightarrow> effect_publication_fact \<Rightarrow> bool" where
  "publication_typed X p \<longleftrightarrow> text_fits (pub_receipt p) \<and>
     (\<exists>rest. er_publication_outcome X (enum_byte (publication_outcome_code X) (pub_outcome p)) =
        Inr (pub_outcome p, rest)) \<and>
     pred_option text_fits (pub_resulting_snapshot p)"

lemma er_optional_text: "er_optional er_text bs = Inr (v, rest) \<longleftrightarrow>
    pred_option text_fits v \<and> bs = optional_bytes text_bytes v @ rest"
  unfolding er_optional_def by (rule get_optional_iff) (rule er_text_iff)

lemma enum_prefix:
  "(\<exists>rest. get_enum e code xs l u (enum_byte code x) = Inr (x, rest)) \<longleftrightarrow> enum_ok code xs l u x"
  by (auto simp: get_enum_iff)

interpretation application_codec: codec "application_bytes X" "er_application X" "application_typed X" for X
proof (rule codecI)
  fix bs x rest
  show "er_application X bs = Inr (x, rest) \<longleftrightarrow> application_typed X x \<and> bs = application_bytes X x @ rest"
    unfolding er_application_def application_typed_def er_application_outcome_def enum_prefix
    by (cases x) (auto simp: bindR_iff retR_iff er_text_iff er_optional_text get_enum_iff application_bytes_def)
qed

interpretation publication_codec: codec "publication_bytes X" "er_publication X" "publication_typed X" for X
proof (rule codecI)
  fix bs x rest
  show "er_publication X bs = Inr (x, rest) \<longleftrightarrow> publication_typed X x \<and> bs = publication_bytes X x @ rest"
    unfolding er_publication_def publication_typed_def er_publication_outcome_def enum_prefix
    by (cases x) (auto simp: bindR_iff retR_iff er_text_iff er_optional_text get_enum_iff publication_bytes_def)
qed

section \<open>The whole record\<close>

lemma er_header_iff: "er_header bs = Inr (u, rest) \<longleftrightarrow> bs = header_bytes @ rest"
  by (auto simp: er_header_def er_expect_def er_u16_def bindR_iff liftR_iff reading header_bytes_def)

lemma er_stage_iff: "er_stage bs = Inr (s, rest) \<longleftrightarrow> bs = enum_byte stage_code s @ rest"
proof -
  have "enum_ok stage_code [Admitted, Before_intent, Before_terminal, Application_intent, Application_terminal,
      After_intent, After_terminal, Publication_intent, Publication_terminal, Terminal]
      (stage_code Admitted) (stage_code Terminal) s"
    by (cases s) (simp_all add: enum_ok_def)
  then show ?thesis unfolding er_stage_def get_enum_iff by simp
qed

lemma er_terminal_outcome_iff:
  "er_terminal_outcome bs = Inr (t, rest) \<longleftrightarrow>
     t \<noteq> Application_resolution_required \<and> bs = enum_byte effect_outcome_code t @ rest"
proof -
  have "enum_ok effect_outcome_code [Lifecycle_failed_before_application, Application_not_completed,
      Lifecycle_failed_after_application, Outer_lease_lost, State_publication_not_completed,
      State_publication_indeterminate, Effect_completed, Application_resolution_required] 0
      (effect_outcome_code Effect_completed) t \<longleftrightarrow> t \<noteq> Application_resolution_required"
    by (cases t) (simp_all add: enum_ok_def)
  then show ?thesis unfolding er_terminal_outcome_def get_enum_iff by simp
qed

lemma er_nonce_iff: "er_nonce bs = Inr (n, rest) \<longleftrightarrow> nonce_ok n \<and> bs = n @ rest"
  by (auto simp: er_nonce_def bindR_iff liftR_iff reading effect_nonce_from_bytes_def nonce_ok_def list_all_iff
      split: if_splits)

lemma er_optional_identity: "er_optional er_identity bs = Inr (v, rest) \<longleftrightarrow>
    pred_option identity_text_ok v \<and> bs = optional_bytes text_bytes v @ rest"
  unfolding er_optional_def by (rule get_optional_iff) (rule er_identity_iff)

lemma er_optional_count: "er_optional er_count bs = Inr (v, rest) \<longleftrightarrow>
    pred_option count_ok v \<and> bs = optional_bytes count_bytes v @ rest"
  unfolding er_optional_def by (rule get_optional_iff) (rule er_count_iff)

lemma er_optional_application: "er_optional (er_application X) bs = Inr (v, rest) \<longleftrightarrow>
    pred_option (application_typed X) v \<and> bs = optional_bytes (application_bytes X) v @ rest"
  unfolding er_optional_def by (rule get_optional_iff) (rule application_codec.get_iff)

lemma er_optional_publication: "er_optional (er_publication X) bs = Inr (v, rest) \<longleftrightarrow>
    pred_option (publication_typed X) v \<and> bs = optional_bytes (publication_bytes X) v @ rest"
  unfolding er_optional_def by (rule get_optional_iff) (rule publication_codec.get_iff)

lemma er_optional_outcome: "er_optional er_terminal_outcome bs = Inr (v, rest) \<longleftrightarrow>
    pred_option (\<lambda>t. t \<noteq> Application_resolution_required) v \<and>
    bs = optional_bytes (enum_byte effect_outcome_code) v @ rest"
  unfolding er_optional_def by (rule get_optional_iff) (rule er_terminal_outcome_iff)

lemmas er_iffs = er_header_iff er_identity_iff er_nonce_iff er_u64_iff er_optional_identity er_count_iff
  er_stage_iff er_optional_count facts_codec.get_iff er_optional_application er_optional_text
  er_optional_publication er_optional_outcome

text \<open>What every record the controller makes satisfies, and what the reader demands.\<close>

definition record_typed :: "ext \<Rightarrow> effect_attempt_record \<Rightarrow> bool" where
  "record_typed X r \<longleftrightarrow>
     identity_text_ok (ea_identity r) \<and> identity_text_ok (ea_attempt r) \<and> identity_text_ok (ea_session r) \<and>
     nonce_ok (ea_nonce r) \<and> pred_option identity_text_ok (ea_previous r) \<and>
     count_ok (ea_before_total r) \<and> count_ok (ea_after_total r) \<and> pred_option count_ok (ea_active_index r) \<and>
     facts_typed (ea_before r) \<and> pred_option (application_typed X) (ea_application r) \<and>
     facts_typed (ea_after r) \<and> pred_option text_fits (ea_transaction_evidence r) \<and>
     pred_option text_fits (ea_publication_request r) \<and>
     pred_option (publication_typed X) (ea_publication r) \<and>
     pred_option (\<lambda>t. t \<noteq> Application_resolution_required) (ea_terminal_outcome r) \<and>
     pred_option text_fits (ea_reconciled_state r)"

lemmas er_accepts = er_header_iff [of _ "()", THEN iffD2, OF refl] er_u64_iff [THEN iffD2, OF refl]
  er_stage_iff [THEN iffD2, OF refl] er_identity_iff [THEN iffD2, OF conjI, OF _ refl]
  er_nonce_iff [THEN iffD2, OF conjI, OF _ refl] er_optional_identity [THEN iffD2, OF conjI, OF _ refl]
  er_count_iff [THEN iffD2, OF conjI, OF _ refl] er_optional_count [THEN iffD2, OF conjI, OF _ refl]
  facts_codec.get_bytes er_optional_application [THEN iffD2, OF conjI, OF _ refl]
  er_optional_text [THEN iffD2, OF conjI, OF _ refl] er_optional_publication [THEN iffD2, OF conjI, OF _ refl]
  er_optional_outcome [THEN iffD2, OF conjI, OF _ refl]

interpretation record_codec: codec "record_bytes X" "er_record X" "record_typed X" for X
proof
  fix x rest
  assume ok: "record_typed X x"
  note typed = this [unfolded record_typed_def]
  show "er_record X (record_bytes X x @ rest) = Inr (x, rest)"
    unfolding er_record_def record_bytes_def
    by (simp add: bindR_def er_accepts typed retR_def)
next
  fix bs x rest
  assume "er_record X bs = Inr (x, rest)"
  then show "record_typed X x \<and> bs = record_bytes X x @ rest"
    unfolding er_record_def
    by (auto simp: bindR_iff er_iffs retR_iff record_typed_def record_bytes_def)
qed

end
