(* ===== verification/Effect_Stored.thy ===== *)
theory Effect_Stored
  imports Effect_Codec_Laws
begin

text \<open>
  Decoding is the inverse of encoding; every record an admitted attempt reaches is one the reader
  accepts, as long as it fits the format; and the reader throws nothing but its own two errors.
\<close>

section \<open>The decoder\<close>

lemma record_bytes_length: "12 \<le> length (record_bytes X r)"
  by (simp add: record_bytes_def header_bytes_def effect_magic_def)

lemma effect_restore_Inr: "effect_restore X r = Inr r' \<longleftrightarrow> r' = r \<and> effect_valid X r"
  by (auto simp: effect_restore_def bindE_Inr_iff effect_valid_def)

lemma er_record_whole: "er_record X payload = Inr (r, []) \<longleftrightarrow> record_typed X r \<and> payload = record_bytes X r"
  using record_codec.get_iff [of X payload r "[]"] by simp

lemma read_iff:
  assumes "digest_ok (sha256 X)"
  shows "read_effect_attempt_record X bs = Inr r \<longleftrightarrow>
    record_typed X r \<and> effect_valid X r \<and> encode_effect_attempt_record X r = Inr bs"
proof -
  have sha: "length (sha256 X p) = 32" for p using assms by (simp add: digest_ok_def)
  have m: "length effect_magic = 8" by (simp add: effect_magic_def)
  show ?thesis
  proof
    let ?n = "length bs - 32"
    assume "read_effect_attempt_record X bs = Inr r"
    then have "\<not> length bs < 44" "length bs \<le> maximum_effect_attempt_encoding_size"
      and d: "sha256 X (take ?n bs) = drop ?n bs" and e: "er_record X (take ?n bs) = Inr (r, [])"
      and v: "effect_valid X r"
      by (auto simp: read_effect_attempt_record_def Let_def m bindE_Inr_iff effect_restore_Inr split: if_splits)
    from e have "record_typed X r" and t: "take ?n bs = record_bytes X r" by (simp_all add: er_record_whole)
    moreover have "bs = record_bytes X r @ sha256 X (record_bytes X r)" using d t by (metis append_take_drop_id)
    ultimately show "record_typed X r \<and> effect_valid X r \<and> encode_effect_attempt_record X r = Inr bs"
      using v \<open>length bs \<le> _\<close> by (simp add: encode_iff)
  next
    assume r: "record_typed X r \<and> effect_valid X r \<and> encode_effect_attempt_record X r = Inr bs"
    then have l: "length bs \<le> maximum_effect_attempt_encoding_size"
      and bs: "bs = record_bytes X r @ sha256 X (record_bytes X r)" unfolding encode_iff by blast+
    have "length bs - 32 = length (record_bytes X r)" by (simp add: bs sha)
    then have t: "take (length bs - 32) bs = record_bytes X r" "drop (length bs - 32) bs = sha256 X (record_bytes X r)"
      by (simp_all add: bs)
    have "\<not> length bs < 44" using record_bytes_length [of X r] by (simp add: bs sha)
    with l r t show "read_effect_attempt_record X bs = Inr r"
      using er_record_whole [of X "record_bytes X r" r]
      by (simp add: read_effect_attempt_record_def Let_def m effect_restore_Inr)
  qed
qed

lemma decode_Inr: "decode_effect_attempt_record X bs = Inr r \<longleftrightarrow> read_effect_attempt_record X bs = Inr r"
  by (simp add: decode_effect_attempt_record_def split: sum.split)

section \<open>Records an attempt reaches\<close>

definition identities_typed :: "effect_attempt_record \<Rightarrow> bool" where
  "identities_typed r \<longleftrightarrow>
     identity_text_ok (ea_identity r) \<and> identity_text_ok (ea_attempt r) \<and> identity_text_ok (ea_session r) \<and>
     nonce_ok (ea_nonce r) \<and> pred_option identity_text_ok (ea_previous r) \<and>
     list_all fact_typed (ea_before r) \<and> list_all fact_typed (ea_after r)"

lemma identities_typed_admit:
  assumes "digest_ok (sha256 X)" and "identity_text_ok session" and "nonce_ok nonce"
    and "admit X session before_total after_total nonce = Inr r"
  shows "identities_typed r"
  using admit_Inr(3) [OF assms(4)] assms(1-3)
  by (simp add: identities_typed_def admitted_record_def effect_attempt_identity_def effect_record_identity_def)

lemma identities_typed_successor:
  assumes "digest_ok (sha256 X)" and "identities_typed r"
    and "successor X r st i b a af te pr p t rc = Inr r'"
    and "list_all fact_typed b" and "list_all fact_typed af"
  shows "identities_typed r'"
  using assms by (simp add: successor_Inr identities_typed_def next_record_def effect_record_identity_def)

lemma identities_typed_step:
  assumes "digest_ok (sha256 X)" and "identities_typed r" and "effect_step X r r'"
  shows "identities_typed r'"
proof -
  note S = identities_typed_successor [OF assms(1,2)]
  have f: "list_all fact_typed (ea_before r)" "list_all fact_typed (ea_after r)"
    using assms(2) by (simp_all add: identities_typed_def)
  have fact: "session_identity_from_hex s = Inr i \<Longrightarrow> fact_typed \<lparr>fact_result = i, fact_succeeded = b\<rparr>" for s i b
    by (simp add: fact_typed_def session_identity_from_hex_Inr)
  from assms(3) show ?thesis
    by (cases rule: effect_stepE)
      (use f in \<open>auto simp: begin_before_def complete_before_def begin_application_def complete_application_def
         begin_after_def complete_after_def begin_publication_def complete_publication_def seal_terminal_def
         Let_def bindE_Inr_iff dest: fact dest!: S split: if_splits\<close>)
qed

lemma identities_typed_steps:
  assumes "digest_ok (sha256 X)" and "identities_typed r"
  shows "(effect_step X)\<^sup>*\<^sup>* r r' \<Longrightarrow> identities_typed r'"
  by (induction rule: rtranclp_induct) (use assms identities_typed_step in blast)+

text \<open>The foreign enumerations: distinct values of one byte, without gaps between the bounds that are tested.\<close>

definition codes_ok :: "('a \<Rightarrow> nat) \<Rightarrow> 'a \<Rightarrow> 'a \<Rightarrow> bool" where
  "codes_ok code lower upper \<longleftrightarrow> inj code \<and> code upper < 256 \<and> range code = {code lower .. code upper}"

definition ext_codes_ok :: "ext \<Rightarrow> bool" where
  "ext_codes_ok X \<longleftrightarrow>
     codes_ok (application_outcome_code X) Precondition_refused Application_indeterminate \<and>
     codes_ok (publication_outcome_code X) Published Publication_indeterminate"

lemma enum_okI:
  assumes "codes_ok code lower upper" and "set xs = UNIV"
  shows "enum_ok code xs (code lower) (code upper) x"
proof -
  have r: "code x \<in> {code lower .. code upper}" using assms(1) by (auto simp: codes_ok_def)
  have "find (\<lambda>y. code y = code x) xs \<noteq> None" using assms(2) by (auto simp: find_None_iff)
  then obtain y where y: "find (\<lambda>y. code y = code x) xs = Some y" by blast
  then have "code y = code x" by (auto simp: find_Some_iff)
  with assms(1) have "y = x" by (auto simp: codes_ok_def inj_def)
  with r y assms(1) show ?thesis by (simp add: enum_ok_def codes_ok_def)
qed

lemma application_outcomes: "set [Precondition_refused, Failed_before_target_mutation, Failed_fully_recovered,
    Failed_with_partial_effects, Effects_visible_durability_unconfirmed, Application_completed,
    Application_indeterminate] = UNIV"
  by (auto intro: application_attempt_outcome.exhaust)

lemma publication_outcomes: "set [Published, Published_durability_unconfirmed, Publication_indeterminate,
    Stale_expected_state, Request_rejected, Failed_before_publication] = UNIV"
  by (auto intro: state_publication_outcome.exhaust)

lemma outcomes_readable:
  assumes "ext_codes_ok X"
  shows "\<exists>rest. er_application_outcome X (enum_byte (application_outcome_code X) o1) = Inr (o1, rest)"
    and "\<exists>rest. er_publication_outcome X (enum_byte (publication_outcome_code X) o2) = Inr (o2, rest)"
  using assms enum_okI [OF _ application_outcomes] enum_okI [OF _ publication_outcomes]
  unfolding er_application_outcome_def er_publication_outcome_def enum_prefix ext_codes_ok_def by blast+

text \<open>What fits the format has short texts.\<close>

lemma record_texts_fit:
  assumes "length (record_bytes X r) < 2 ^ 64"
  shows "pred_option (\<lambda>a. text_fits (app_receipt a) \<and> pred_option text_fits (app_journal a) \<and>
      pred_option text_fits (app_completed_evidence a)) (ea_application r)"
    and "pred_option text_fits (ea_transaction_evidence r)" and "pred_option text_fits (ea_publication_request r)"
    and "pred_option (\<lambda>p. text_fits (pub_receipt p) \<and> pred_option text_fits (pub_resulting_snapshot p)) (ea_publication r)"
    and "pred_option text_fits (ea_reconciled_state r)"
proof -
  have t: "length (text_bytes s) < 2 ^ 64 \<Longrightarrow> text_fits s" for s
    by (simp add: text_bytes_def text_fits_def)
  have o': "length (optional_bytes text_bytes v) < 2 ^ 64 \<Longrightarrow> pred_option text_fits v" for v
    by (cases v) (simp_all add: optional_bytes_def t)
  have a: "length (application_bytes X a) < 2 ^ 64 \<Longrightarrow> text_fits (app_receipt a) \<and>
      pred_option text_fits (app_journal a) \<and> pred_option text_fits (app_completed_evidence a)" for a
    by (intro conjI t o') (simp_all add: application_bytes_def)
  have p: "length (publication_bytes X p) < 2 ^ 64 \<Longrightarrow> text_fits (pub_receipt p) \<and>
      pred_option text_fits (pub_resulting_snapshot p)" for p
    by (intro conjI t o') (simp_all add: publication_bytes_def)
  have parts: "length (optional_bytes (application_bytes X) (ea_application r)) < 2 ^ 64"
    "length (optional_bytes text_bytes (ea_transaction_evidence r)) < 2 ^ 64"
    "length (optional_bytes text_bytes (ea_publication_request r)) < 2 ^ 64"
    "length (optional_bytes (publication_bytes X) (ea_publication r)) < 2 ^ 64"
    "length (optional_bytes text_bytes (ea_reconciled_state r)) < 2 ^ 64"
    using assms by (simp_all add: record_bytes_def)
  show "pred_option (\<lambda>a. text_fits (app_receipt a) \<and> pred_option text_fits (app_journal a) \<and>
      pred_option text_fits (app_completed_evidence a)) (ea_application r)"
    using parts(1) a by (cases "ea_application r") (simp_all add: optional_bytes_def)
  show "pred_option (\<lambda>p. text_fits (pub_receipt p) \<and> pred_option text_fits (pub_resulting_snapshot p)) (ea_publication r)"
    using parts(4) p by (cases "ea_publication r") (simp_all add: optional_bytes_def)
  show "pred_option text_fits (ea_transaction_evidence r)" "pred_option text_fits (ea_publication_request r)"
    "pred_option text_fits (ea_reconciled_state r)" using parts o' by blast+
qed

lemma reached_record_typed:
  assumes "ext_codes_ok X" and "identities_typed r" and "effect_valid X r" and "totals_ok r"
    and "encode_effect_attempt_record X r = Inr bs"
  shows "record_typed X r"
proof -
  have t: "unat (ea_before_total r) \<le> 65536" "unat (ea_after_total r) \<le> 65536"
    using assms(4) by (simp_all add: totals_ok_def maximum_effect_lifecycle_count_def)
  have l: "length (ea_before r) \<le> unat (ea_before_total r)" "length (ea_after r) \<le> unat (ea_after_total r)"
    using effect_validD(1) [OF assms(3)] by (simp_all add: header_conditions_def Let_def)
  have i: "pred_option count_ok (ea_active_index r)"
    using valid_index [OF assms(3)] l t by (simp add: count_ok_def unat_of_nat)
  have o': "pred_option (\<lambda>t. t \<noteq> Application_resolution_required) (ea_terminal_outcome r)"
    using effect_validD(1,4) [OF assms(3)]
    by (cases "ea_stage r"; cases "ea_terminal_outcome r")
      (auto simp: stage_rejected_def terminal_rejected_def header_conditions_def Let_def)
  have "length (record_bytes X r) \<le> 1048576" using assms(5) unfolding encode_iff effect_limit by auto
  then have "length (record_bytes X r) < 2 ^ 64" by simp
  note T = record_texts_fit [OF this]
  have a: "pred_option (application_typed X) (ea_application r)"
    using T(1) outcomes_readable(1) [OF assms(1)] by (cases "ea_application r") (simp_all add: application_typed_def)
  have p: "pred_option (publication_typed X) (ea_publication r)"
    using T(4) outcomes_readable(2) [OF assms(1)] by (cases "ea_publication r") (simp_all add: publication_typed_def)
  show ?thesis
    using assms(2) t l i o' a p T(2,3,5)
    by (simp add: record_typed_def identities_typed_def facts_typed_def count_ok_def)
qed

end
