(* ===== verification/Run_Codec.thy ===== *)
theory Run_Codec
  imports Codec Run_Journal
begin

text \<open>
  \<^verbatim>\<open>src/run_journal_codec.cpp\<close>: one snapshot of a run as bytes. Identities are written as their 32 bytes,
  lists with a 32-bit length within a bound; every sealed value is rebuilt when it is read and its
  identity compared. A foreign node identity is its hexadecimal text, as \<^verbatim>\<open>from_sha256\<close> makes it.
\<close>

definition maximum_transaction_run_encoding_size :: nat where
  "maximum_transaction_run_encoding_size = 16 * 1024 * 1024"

definition maximum_state_identity_size :: nat where
  "maximum_state_identity_size = 256"

definition encoding_magic :: "byte list" where
  "encoding_magic = bytes_of_string ''PKGRUNJ1''"

abbreviation run_unwritable :: exn where
  "run_unwritable \<equiv> Run_journal_error invalid_record"

abbreviation run_corrupt :: exn where
  "run_corrupt \<equiv> Run_journal_error corrupt_encoding"

abbreviation run_writes :: "writer \<Rightarrow> byte list \<Rightarrow> bool" where
  "run_writes \<equiv> writes maximum_transaction_run_encoding_size run_unwritable"

section \<open>The writer\<close>

definition rw_raw :: "byte list \<Rightarrow> writer" where
  "rw_raw = put_raw maximum_transaction_run_encoding_size run_unwritable"

definition rw_byte :: "byte \<Rightarrow> writer" where
  "rw_byte = put_byte maximum_transaction_run_encoding_size run_unwritable"

definition rw_u16 :: "16 word \<Rightarrow> writer" where
  "rw_u16 = put_word maximum_transaction_run_encoding_size run_unwritable 2"

definition rw_u32 :: "32 word \<Rightarrow> writer" where
  "rw_u32 = put_word maximum_transaction_run_encoding_size run_unwritable 4"

definition rw_u64 :: "u64 \<Rightarrow> writer" where
  "rw_u64 = put_word maximum_transaction_run_encoding_size run_unwritable 8"

definition rw_boolean :: "bool \<Rightarrow> writer" where
  "rw_boolean = put_bool maximum_transaction_run_encoding_size run_unwritable"

definition rw_text :: "string \<Rightarrow> writer" where
  "rw_text value =
     (if 2 ^ 32 - 1 < length value then (\<lambda>_. Inl run_unwritable)
      else statements [rw_u32 (word_of_nat (length value)), rw_raw (bytes_of_string value)])"

definition rw_hex_identity :: "string \<Rightarrow> writer" where
  "rw_hex_identity value out =
     (if length value \<noteq> 64 then Inl run_unwritable
      else bindE (bytes_of_hex run_unwritable value) (\<lambda>bs.
        put maximum_transaction_run_encoding_size run_unwritable bs out))"

definition rw_optional_identity :: "session_identity option \<Rightarrow> writer" where
  "rw_optional_identity = put_optional maximum_transaction_run_encoding_size run_unwritable rw_hex_identity"

text \<open>\<^verbatim>\<open>output.u32(checked_count(size, maximum))\<close>.\<close>

definition rw_count :: "nat \<Rightarrow> nat \<Rightarrow> writer" where
  "rw_count maximum n =
     (if maximum < n \<or> 2 ^ 32 - 1 < n then (\<lambda>_. Inl run_unwritable) else rw_u32 (word_of_nat n))"

fun encode_unit_kind :: "transaction_unit_kind \<Rightarrow> nat" where
  "encode_unit_kind Construction_unit = 0"
| "encode_unit_kind Check_unit = 1"
| "encode_unit_kind Operation_unit = 2"

fun encode_dispatch_state :: "transaction_dispatch_state \<Rightarrow> nat" where
  "encode_dispatch_state Reserved = 0"
| "encode_dispatch_state Started = 1"
| "encode_dispatch_state Completed = 2"
| "encode_dispatch_state Released_unstarted = 3"

text \<open>The enumeration has one value; any other cannot be encoded.\<close>

definition rw_failure_containment :: "transaction_failure_containment \<Rightarrow> writer" where
  "rw_failure_containment c = (case c of Stop_after_terminal_failure \<Rightarrow> rw_byte 0)"

definition rw_policy :: "transaction_dispatch_policy \<Rightarrow> writer" where
  "rw_policy p = statements
     [rw_u64 (policy_construction_capacity p), rw_u64 (policy_check_capacity p),
      rw_failure_containment (policy_failure_containment p), rw_hex_identity (policy_id p)]"

definition rw_dependency :: "transaction_dispatch_dependency \<Rightarrow> writer" where
  "rw_dependency d = statements
     [rw_hex_identity (dependency_node d), rw_hex_identity (dependency_evidence d),
      rw_hex_identity (dependency_id d)]"

definition rw_dispatch_record :: "transaction_dispatch_record \<Rightarrow> writer" where
  "rw_dispatch_record r =
     (let d = record_dispatch r; u = dispatch_unit d in statements
       [rw_hex_identity (record_id r), rw_byte (word_of_nat (encode_dispatch_state (record_state r))),
        rw_hex_identity (dispatch_id d), rw_byte (word_of_nat (encode_unit_kind (unit_kind u))),
        rw_hex_identity (unit_primary u),
        rw_count maximum_transaction_run_member_count (length (unit_members u)),
        put_each rw_hex_identity (unit_members u), rw_hex_identity (unit_id u),
        rw_raw (dispatch_nonce_of d), rw_hex_identity (dispatch_reserved_from d),
        rw_text (dispatch_reserved_state d),
        rw_count maximum_transaction_run_dependency_count (length (dispatch_dependencies d)),
        put_each rw_dependency (dispatch_dependencies d),
        rw_optional_identity (record_attempt_session r), rw_optional_identity (record_effect_attempt r),
        rw_count maximum_transaction_run_observation_count (length (record_observations r)),
        put_each rw_hex_identity (record_observations r), rw_optional_identity (record_terminal r)])"

definition rw_record :: "run_journal_record \<Rightarrow> writer" where
  "rw_record r = statements
     [rw_raw encoding_magic, rw_u16 1, rw_u16 1,
      rw_hex_identity (rj_identity r), rw_hex_identity (rj_journal r), rw_hex_identity (rj_transaction r),
      rw_raw (rj_nonce r), rw_u64 (rj_sequence r), rw_optional_identity (rj_previous r),
      rw_hex_identity (rj_run r), rw_hex_identity (rj_progress r), rw_text (rj_state r),
      rw_policy (rj_policy r), rw_boolean (rj_complete r), rw_boolean (rj_failed r), rw_boolean (rj_stopped r),
      rw_count maximum_transaction_run_dispatch_count (length (rj_dispatches r)),
      put_each rw_dispatch_record (rj_dispatches r)]"

definition encode_transaction_run_record :: "run_journal_record \<Rightarrow> byte list res" where
  "encode_transaction_run_record r = rw_record r []"

section \<open>The reader\<close>

definition rr_u16 :: "16 word reader" where "rr_u16 = get_word run_corrupt 2"
definition rr_u32 :: "32 word reader" where "rr_u32 = get_word run_corrupt 4"
definition rr_u64 :: "u64 reader" where "rr_u64 = get_word run_corrupt 8"
definition rr_boolean :: "bool reader" where "rr_boolean = get_bool run_corrupt"

definition rr_text :: "nat \<Rightarrow> string reader" where
  "rr_text maximum = bindR rr_u32 (\<lambda>size.
     if maximum < unat size then liftR (Inl run_corrupt)
     else bindR (get_raw run_corrupt (unat size)) (\<lambda>bs. retR (string_of_bytes bs)))"

definition rr_hex_identity :: "string reader" where
  "rr_hex_identity = bindR (get_raw run_corrupt 32) (\<lambda>bs. retR (hex_of_bytes bs))"

definition rr_identity :: "session_identity reader" where
  "rr_identity = bindR rr_hex_identity (\<lambda>s. liftR (session_identity_from_hex s))"

definition rr_optional_identity :: "session_identity option reader" where
  "rr_optional_identity = get_optional run_corrupt rr_identity"

definition rr_state :: "ext \<Rightarrow> snapshot_identity reader" where
  "rr_state X = bindR (rr_text maximum_state_identity_size) (\<lambda>s.
     liftR (if parse_snapshot X s then Inr s else Inl Std_exception))"

definition rr_run_nonce :: "nonce reader" where
  "rr_run_nonce = bindR (get_raw run_corrupt 32) (\<lambda>bs. liftR (run_nonce_from_bytes bs))"

definition rr_dispatch_nonce :: "nonce reader" where
  "rr_dispatch_nonce = bindR (get_raw run_corrupt 32) (\<lambda>bs. liftR (dispatch_nonce_from_bytes bs))"

definition decode_unit_kind :: "transaction_unit_kind reader" where
  "decode_unit_kind = get_enum run_corrupt encode_unit_kind [Construction_unit, Check_unit, Operation_unit] 0 2"

definition decode_dispatch_state :: "transaction_dispatch_state reader" where
  "decode_dispatch_state =
     get_enum run_corrupt encode_dispatch_state [Reserved, Started, Completed, Released_unstarted] 0 3"

definition decode_failure_containment :: "transaction_failure_containment reader" where
  "decode_failure_containment = bindR (get_byte run_corrupt) (\<lambda>v.
     liftR (if v \<noteq> 0 then Inl run_corrupt else Inr Stop_after_terminal_failure))"

definition decode_policy :: "ext \<Rightarrow> transaction_dispatch_policy reader" where
  "decode_policy X =
     bindR rr_u64 (\<lambda>construction. bindR rr_u64 (\<lambda>check.
     bindR decode_failure_containment (\<lambda>containment. bindR rr_identity (\<lambda>i.
       liftR (restore_policy X construction check containment i)))))"

text \<open>A length, at most \<open>maximum\<close>, then that many elements.\<close>

definition rr_list :: "nat \<Rightarrow> 'a reader \<Rightarrow> 'a list reader" where
  "rr_list maximum get = bindR rr_u32 (\<lambda>n.
     if maximum < unat n then liftR (Inl run_corrupt) else get_times (unat n) get)"

definition rr_members :: "node_identity list reader" where
  "rr_members = bindR rr_u32 (\<lambda>n.
     if n = 0 \<or> maximum_transaction_run_member_count < unat n then liftR (Inl run_corrupt)
     else get_times (unat n) rr_hex_identity)"

definition decode_dependency :: "ext \<Rightarrow> transaction_dispatch_dependency reader" where
  "decode_dependency X =
     bindR rr_hex_identity (\<lambda>node. bindR rr_identity (\<lambda>evidence. bindR rr_identity (\<lambda>i.
       liftR (restore_dependency X node evidence i))))"

definition decode_dispatch_record :: "ext \<Rightarrow> session_identity \<Rightarrow> transaction_dispatch_record reader" where
  "decode_dispatch_record X transaction =
     bindR rr_identity (\<lambda>record_identity. bindR decode_dispatch_state (\<lambda>state.
     bindR rr_identity (\<lambda>dispatch_identity. bindR decode_unit_kind (\<lambda>kind.
     bindR rr_hex_identity (\<lambda>primary. bindR rr_members (\<lambda>members. bindR rr_identity (\<lambda>unit_identity.
     bindR (liftR (restore_unit X transaction kind primary members unit_identity)) (\<lambda>u.
     bindR rr_dispatch_nonce (\<lambda>nonce. bindR rr_identity (\<lambda>reserved_progress. bindR (rr_state X) (\<lambda>reserved_state.
     bindR (rr_list maximum_transaction_run_dependency_count (decode_dependency X)) (\<lambda>dependencies.
     bindR (liftR (restore_dispatch X u nonce reserved_progress reserved_state dependencies dispatch_identity)) (\<lambda>d.
     bindR rr_optional_identity (\<lambda>attempt. bindR rr_optional_identity (\<lambda>effect_attempt.
     bindR (rr_list maximum_transaction_run_observation_count rr_identity) (\<lambda>observations.
     bindR rr_optional_identity (\<lambda>terminal.
       liftR (restore_record X d state attempt effect_attempt observations terminal record_identity))))))))))))))))))"

definition rr_header :: "unit reader" where
  "rr_header =
     bindR (get_raw run_corrupt 8) (\<lambda>bs. bindR (liftR (require (bs = encoding_magic) run_corrupt)) (\<lambda>_.
     bindR rr_u16 (\<lambda>v. bindR (liftR (require (v = 1) (Run_journal_error unsupported_encoding))) (\<lambda>_.
     bindR rr_u16 (\<lambda>v. liftR (require (v = 1) (Run_journal_error unsupported_encoding)))))))"

definition rr_record :: "ext \<Rightarrow> run_journal_record reader" where
  "rr_record X =
     bindR rr_header (\<lambda>_.
     bindR rr_identity (\<lambda>i. bindR rr_identity (\<lambda>journal. bindR rr_identity (\<lambda>transaction.
     bindR rr_run_nonce (\<lambda>nonce. bindR rr_u64 (\<lambda>sequence. bindR rr_optional_identity (\<lambda>previous.
     bindR rr_identity (\<lambda>run. bindR rr_identity (\<lambda>progress. bindR (rr_state X) (\<lambda>current_state.
     bindR (decode_policy X) (\<lambda>policy.
     bindR rr_boolean (\<lambda>complete. bindR rr_boolean (\<lambda>failed. bindR rr_boolean (\<lambda>stopped.
     bindR (rr_list maximum_transaction_run_dispatch_count (decode_dispatch_record X transaction)) (\<lambda>dispatches.
       retR \<lparr>rj_identity = i, rj_journal = journal, rj_transaction = transaction, rj_nonce = nonce,
         rj_sequence = sequence, rj_previous = previous, rj_run = run, rj_progress = progress,
         rj_state = current_state, rj_policy = policy, rj_dispatches = dispatches, rj_complete = complete,
         rj_failed = failed, rj_stopped = stopped\<rparr>)))))))))))))))"

definition run_decoding_error :: "exn \<Rightarrow> exn" where
  "run_decoding_error e =
     (if e \<in> {Run_journal_error unsupported_encoding, Run_journal_error corrupt_encoding,
              Undefined_behaviour, Diverges} then e
      else run_corrupt)"

definition decode_transaction_run_record :: "ext \<Rightarrow> byte list \<Rightarrow> run_journal_record res" where
  "decode_transaction_run_record X encoding =
     (if maximum_transaction_run_encoding_size < length encoding then Inl run_corrupt
      else case bindE (rr_record X encoding) (\<lambda>(r, rest).
             if rest \<noteq> [] then Inl run_corrupt else run_journal_restore X r) of
        Inl e \<Rightarrow> Inl (run_decoding_error e) | Inr r \<Rightarrow> Inr r)"

end
