(* ===== verification/Run_Codec_Laws.thy ===== *)
theory Run_Codec_Laws
  imports Run_Codec
begin

text \<open>
  The byte layout of a run snapshot, written by the writer when every identity is one and every list is
  within its bound, and accepted by the reader exactly when every sealed value in it is what its
  constructor makes of its fields.
\<close>

section \<open>Layout\<close>

definition id_bytes :: "string \<Rightarrow> byte list" where
  "id_bytes s = bytes_of_lower_hex s"

definition size_bytes :: "nat \<Rightarrow> byte list" where
  "size_bytes n = be_bytes 4 (word_of_nat n :: 32 word)"

definition short_text_bytes :: "string \<Rightarrow> byte list" where
  "short_text_bytes s = size_bytes (length s) @ bytes_of_string s"

definition list_bytes :: "('a \<Rightarrow> byte list) \<Rightarrow> 'a list \<Rightarrow> byte list" where
  "list_bytes f xs = size_bytes (length xs) @ concat (map f xs)"

definition policy_bytes :: "transaction_dispatch_policy \<Rightarrow> byte list" where
  "policy_bytes p = concat
     [be_bytes 8 (policy_construction_capacity p), be_bytes 8 (policy_check_capacity p), [0], id_bytes (policy_id p)]"

definition dependency_bytes :: "transaction_dispatch_dependency \<Rightarrow> byte list" where
  "dependency_bytes d = concat
     [id_bytes (dependency_node d), id_bytes (dependency_evidence d), id_bytes (dependency_id d)]"

definition dispatch_record_bytes :: "transaction_dispatch_record \<Rightarrow> byte list" where
  "dispatch_record_bytes r =
     (let d = record_dispatch r; u = dispatch_unit d in concat
       [id_bytes (record_id r), enum_byte encode_dispatch_state (record_state r), id_bytes (dispatch_id d),
        enum_byte encode_unit_kind (unit_kind u), id_bytes (unit_primary u), list_bytes id_bytes (unit_members u),
        id_bytes (unit_id u), dispatch_nonce_of d, id_bytes (dispatch_reserved_from d),
        short_text_bytes (dispatch_reserved_state d), list_bytes dependency_bytes (dispatch_dependencies d),
        optional_bytes id_bytes (record_attempt_session r), optional_bytes id_bytes (record_effect_attempt r),
        list_bytes id_bytes (record_observations r), optional_bytes id_bytes (record_terminal r)])"

definition run_header_bytes :: "byte list" where
  "run_header_bytes = encoding_magic @ be_bytes 2 (1 :: 16 word) @ be_bytes 2 (1 :: 16 word)"

definition run_record_bytes :: "run_journal_record \<Rightarrow> byte list" where
  "run_record_bytes r = concat
     [run_header_bytes, id_bytes (rj_identity r), id_bytes (rj_journal r), id_bytes (rj_transaction r),
      rj_nonce r, be_bytes 8 (rj_sequence r), optional_bytes id_bytes (rj_previous r), id_bytes (rj_run r),
      id_bytes (rj_progress r), short_text_bytes (rj_state r), policy_bytes (rj_policy r),
      bool_byte (rj_complete r), bool_byte (rj_failed r), bool_byte (rj_stopped r),
      list_bytes dispatch_record_bytes (rj_dispatches r)]"

section \<open>Parts the reader accepts\<close>

lemma id_bytes_hex: "id_bytes (hex_of_bytes bs) = bs"
proof -
  have "bytes_of_hex run_corrupt (hex_of_bytes bs) = Inr (bytes_of_lower_hex (hex_of_bytes bs))"
    by (rule bytes_of_hex_lower) (rule hex_of_bytes_lower)
  then show ?thesis by (simp add: id_bytes_def)
qed

lemma hex_id_bytes:
  assumes "identity_text_ok s"
  shows "hex_of_bytes (id_bytes s) = s" and "length (id_bytes s) = 32"
proof -
  have "bytes_of_hex run_corrupt s = Inr (id_bytes s)" and l: "length s = 64"
    using assms by (simp_all add: identity_text_ok_def id_bytes_def bytes_of_hex_lower)
  from bytes_of_hex_sound [OF this(1)] l show "hex_of_bytes (id_bytes s) = s" "length (id_bytes s) = 32"
    by simp_all
qed

lemma rr_hex_identity_iff: "rr_hex_identity bs = Inr (s, rest) \<longleftrightarrow> identity_text_ok s \<and> bs = id_bytes s @ rest"
proof
  assume "rr_hex_identity bs = Inr (s, rest)"
  then obtain b where "length b = 32" "bs = b @ rest" "s = hex_of_bytes b"
    by (auto simp: rr_hex_identity_def bindR_iff retR_iff reading)
  then show "identity_text_ok s \<and> bs = id_bytes s @ rest"
    by (simp add: id_bytes_hex identity_text_ok_def hex_of_bytes_lower)
next
  assume "identity_text_ok s \<and> bs = id_bytes s @ rest"
  then show "rr_hex_identity bs = Inr (s, rest)"
    by (simp add: rr_hex_identity_def bindR_iff retR_iff reading hex_id_bytes)
qed

lemma rr_identity_iff: "rr_identity bs = Inr (s, rest) \<longleftrightarrow> identity_text_ok s \<and> bs = id_bytes s @ rest"
  by (auto simp: rr_identity_def bindR_iff liftR_iff rr_hex_identity_iff session_identity_from_hex_Inr)

lemma rr_optional_identity_iff: "rr_optional_identity bs = Inr (v, rest) \<longleftrightarrow>
    pred_option identity_text_ok v \<and> bs = optional_bytes id_bytes v @ rest"
  unfolding rr_optional_identity_def by (rule get_optional_iff) (rule rr_identity_iff)

lemma rr_u32_iff: "rr_u32 bs = Inr (n, rest) \<longleftrightarrow> bs = size_bytes (unat n) @ rest"
  by (simp add: rr_u32_def size_bytes_def reading)

lemma size_unat: "n < 2 ^ 32 \<Longrightarrow> unat (word_of_nat n :: 32 word) = n"
  by (simp add: unat_of_nat)

lemma size_bytes_inj: "size_bytes (unat m) = size_bytes (unat (n :: 32 word)) \<longleftrightarrow> m = n"
  for m :: "32 word"
proof
  assume e: "size_bytes (unat m) = size_bytes (unat n)"
  have "be_value (be_bytes 4 w) = w" for w :: "32 word"
    by (simp add: be_value_be_bytes take_bit_word_eq_self)
  moreover have "size_bytes (unat w) = be_bytes 4 w" for w :: "32 word" by (simp add: size_bytes_def)
  ultimately show "m = n" using e by metis
qed simp

text \<open>A bounded length and what it introduces.\<close>

lemma sized_iff:
  assumes "maximum < 2 ^ 32" and "\<And>n bs. k n bs = Inr (x, rest) \<longleftrightarrow> len x = n \<and> P x \<and> bs = f x @ rest"
  shows "bindR rr_u32 (\<lambda>n. if maximum < unat n then liftR (Inl e) else k (unat n)) bs = Inr (x, rest) \<longleftrightarrow>
    len x \<le> maximum \<and> P x \<and> bs = size_bytes (len x) @ f x @ rest"
proof
  assume "bindR rr_u32 (\<lambda>n. if maximum < unat n then liftR (Inl e) else k (unat n)) bs = Inr (x, rest)"
  then show "len x \<le> maximum \<and> P x \<and> bs = size_bytes (len x) @ f x @ rest"
    by (auto simp: bindR_iff rr_u32_iff liftR_iff assms(2) split: if_splits)
next
  assume r: "len x \<le> maximum \<and> P x \<and> bs = size_bytes (len x) @ f x @ rest"
  let ?n = "word_of_nat (len x) :: 32 word"
  have "unat ?n = len x" using r assms(1) by (intro size_unat) simp
  with r show "bindR rr_u32 (\<lambda>n. if maximum < unat n then liftR (Inl e) else k (unat n)) bs = Inr (x, rest)"
    unfolding bindR_iff by (intro exI [of _ ?n] exI [of _ "f x @ rest"]) (simp add: rr_u32_iff assms(2))
qed

definition list_ok :: "nat \<Rightarrow> ('a \<Rightarrow> bool) \<Rightarrow> 'a list \<Rightarrow> bool" where
  "list_ok maximum ok xs \<longleftrightarrow> length xs \<le> maximum \<and> list_all ok xs"

lemma rr_list_iff:
  assumes "codec f get ok" and "maximum < 2 ^ 32"
  shows "rr_list maximum get bs = Inr (xs, rest) \<longleftrightarrow> list_ok maximum ok xs \<and> bs = list_bytes f xs @ rest"
  unfolding rr_list_def
  by (subst sized_iff [where P = "list_all ok" and f = "\<lambda>xs. concat (map f xs)" and len = length])
    (use assms(2) in \<open>auto simp: codec.times_iff [OF assms(1)] list_ok_def list_bytes_def\<close>)

interpretation id_codec: codec id_bytes rr_hex_identity identity_text_ok
  by (rule codecI) (rule rr_hex_identity_iff)

interpretation session_id_codec: codec id_bytes rr_identity identity_text_ok
  by (rule codecI) (rule rr_identity_iff)

lemma rr_members_iff: "rr_members bs = Inr (xs, rest) \<longleftrightarrow>
    xs \<noteq> [] \<and> list_ok maximum_transaction_run_member_count identity_text_ok xs \<and> bs = list_bytes id_bytes xs @ rest"
proof -
  let ?k = "\<lambda>n. if n = 0 then liftR (Inl run_corrupt) else get_times n rr_hex_identity"
  have eq: "rr_members = bindR rr_u32 (\<lambda>n. if maximum_transaction_run_member_count < unat n
      then liftR (Inl run_corrupt) else ?k (unat n))"
    by (auto simp: rr_members_def unat_eq_zero intro!: arg_cong [where f = "bindR rr_u32"])
  have k: "?k n bs = Inr (xs, rest) \<longleftrightarrow> length xs = n \<and> (xs \<noteq> [] \<and> list_all identity_text_ok xs) \<and>
      bs = concat (map id_bytes xs) @ rest" for n bs
    by (auto simp: liftR_iff id_codec.times_iff)
  show ?thesis unfolding eq
    by (subst sized_iff [where P = "\<lambda>xs. xs \<noteq> [] \<and> list_all identity_text_ok xs" and len = length
          and f = "\<lambda>xs. concat (map id_bytes xs)"])
      (use k in \<open>auto simp: maximum_transaction_run_member_count_def list_ok_def list_bytes_def\<close>)
qed

definition state_text_ok :: "ext \<Rightarrow> string \<Rightarrow> bool" where
  "state_text_ok X s \<longleftrightarrow> length s \<le> 256 \<and> parse_snapshot X s"

lemma rr_text_iff: "maximum < 2 ^ 32 \<Longrightarrow>
    rr_text maximum bs = Inr (s, rest) \<longleftrightarrow> length s \<le> maximum \<and> bs = short_text_bytes s @ rest"
  unfolding rr_text_def
  by (subst sized_iff [where P = "\<lambda>_. True" and len = length and f = bytes_of_string])
    (auto simp: bindR_iff retR_iff reading short_text_bytes_def)

lemma rr_state_iff: "rr_state X bs = Inr (s, rest) \<longleftrightarrow> state_text_ok X s \<and> bs = short_text_bytes s @ rest"
  by (auto simp: rr_state_def bindR_iff liftR_iff rr_text_iff maximum_state_identity_size_def state_text_ok_def
      split: if_splits)

lemma rr_u64_iff: "rr_u64 bs = Inr (n, rest) \<longleftrightarrow> bs = be_bytes 8 n @ rest"
  by (simp add: rr_u64_def reading)

lemma rr_boolean_iff: "rr_boolean bs = Inr (b, rest) \<longleftrightarrow> bs = bool_byte b @ rest"
  by (simp add: rr_boolean_def get_bool_iff)

lemma rr_run_nonce_iff: "rr_run_nonce bs = Inr (n, rest) \<longleftrightarrow> nonce_ok n \<and> bs = n @ rest"
  by (auto simp: rr_run_nonce_def bindR_iff liftR_iff reading run_nonce.from_bytes_Inr nonce_ok_def)

lemma rr_dispatch_nonce_iff: "rr_dispatch_nonce bs = Inr (n, rest) \<longleftrightarrow> nonce_ok n \<and> bs = n @ rest"
  by (auto simp: rr_dispatch_nonce_def bindR_iff liftR_iff reading dispatch_nonce.from_bytes_Inr nonce_ok_def)

lemma decode_unit_kind_iff: "decode_unit_kind bs = Inr (k, rest) \<longleftrightarrow> bs = enum_byte encode_unit_kind k @ rest"
proof -
  have "enum_ok encode_unit_kind [Construction_unit, Check_unit, Operation_unit] 0 2 k"
    by (cases k) (simp_all add: enum_ok_def)
  then show ?thesis by (simp add: decode_unit_kind_def get_enum_iff)
qed

lemma decode_dispatch_state_iff:
  "decode_dispatch_state bs = Inr (s, rest) \<longleftrightarrow> bs = enum_byte encode_dispatch_state s @ rest"
proof -
  have "enum_ok encode_dispatch_state [Reserved, Started, Completed, Released_unstarted] 0 3 s"
    by (cases s) (simp_all add: enum_ok_def)
  then show ?thesis by (simp add: decode_dispatch_state_def get_enum_iff)
qed

lemma decode_failure_containment_iff: "decode_failure_containment bs = Inr (c, rest) \<longleftrightarrow> bs = [0] @ rest"
  by (cases c) (auto simp: decode_failure_containment_def bindR_iff liftR_iff reading split: if_splits)

section \<open>Sealed values\<close>

lemma restore_policy_fields: "restore_policy X c k f i = Inr p \<Longrightarrow>
    policy_construction_capacity p = c \<and> policy_check_capacity p = k \<and> policy_failure_containment p = f \<and> policy_id p = i"
  by (auto simp: restore_policy_def make_policy_def bindE_Inr_iff split: if_splits)

lemma restore_dependency_fields: "restore_dependency X n e i = Inr d \<Longrightarrow>
    dependency_node d = n \<and> dependency_evidence d = e \<and> dependency_id d = i"
  by (auto simp: restore_dependency_def make_dependency_def Let_def split: if_splits)

lemma restore_unit_fields: "restore_unit X t k p ms i = Inr u \<Longrightarrow>
    unit_kind u = k \<and> unit_primary u = p \<and> unit_members u = ms \<and> unit_id u = i"
  by (auto simp: restore_unit_def Let_def split: if_splits)

lemma restore_dispatch_fields: "restore_dispatch X u n p st ds i = Inr d \<Longrightarrow>
    dispatch_unit d = u \<and> dispatch_nonce_of d = n \<and> dispatch_reserved_from d = p \<and>
    dispatch_reserved_state d = st \<and> dispatch_dependencies d = ds \<and> dispatch_id d = i"
  by (auto simp: restore_dispatch_def make_dispatch_def Let_def split: if_splits)

lemma restore_record_fields: "restore_record X d st a ea os t i = Inr r \<Longrightarrow>
    record_dispatch r = d \<and> record_state r = st \<and> record_attempt_session r = a \<and>
    record_effect_attempt r = ea \<and> record_observations r = os \<and> record_terminal r = t \<and> record_id r = i"
  by (auto simp: restore_record_def make_record_def Let_def bindE_Inr_iff split: if_splits)

definition policy_ok :: "ext \<Rightarrow> transaction_dispatch_policy \<Rightarrow> bool" where
  "policy_ok X p \<longleftrightarrow> identity_text_ok (policy_id p) \<and>
     restore_policy X (policy_construction_capacity p) (policy_check_capacity p) (policy_failure_containment p)
       (policy_id p) = Inr p"

lemma decode_policy_iff: "decode_policy X bs = Inr (p, rest) \<longleftrightarrow> policy_ok X p \<and> bs = policy_bytes p @ rest"
proof
  assume "decode_policy X bs = Inr (p, rest)"
  then obtain c k f i where i: "identity_text_ok i" and r: "restore_policy X c k f i = Inr p"
    and bs: "bs = be_bytes 8 c @ be_bytes 8 k @ [0] @ id_bytes i @ rest"
    by (auto simp: decode_policy_def bindR_iff liftR_iff rr_u64_iff decode_failure_containment_iff rr_identity_iff)
  from restore_policy_fields [OF r] i r bs show "policy_ok X p \<and> bs = policy_bytes p @ rest"
    by (simp add: policy_ok_def policy_bytes_def)
next
  assume p: "policy_ok X p \<and> bs = policy_bytes p @ rest"
  have f: "policy_failure_containment p = Stop_after_terminal_failure" by (cases "policy_failure_containment p") simp
  from p show "decode_policy X bs = Inr (p, rest)"
    by (simp add: decode_policy_def bindR_def rr_u64_iff [THEN iffD2, OF refl]
        decode_failure_containment_iff [of _ Stop_after_terminal_failure, THEN iffD2, OF refl, simplified]
        rr_identity_iff [THEN iffD2, OF conjI, OF _ refl] policy_bytes_def policy_ok_def f liftR_def)
qed

definition dependency_ok :: "ext \<Rightarrow> transaction_dispatch_dependency \<Rightarrow> bool" where
  "dependency_ok X d \<longleftrightarrow> identity_text_ok (dependency_node d) \<and> identity_text_ok (dependency_evidence d) \<and>
     identity_text_ok (dependency_id d) \<and>
     restore_dependency X (dependency_node d) (dependency_evidence d) (dependency_id d) = Inr d"

interpretation dependency_codec: codec dependency_bytes "decode_dependency X" "dependency_ok X" for X
proof
  fix x rest
  assume "dependency_ok X x"
  then show "decode_dependency X (dependency_bytes x @ rest) = Inr (x, rest)"
    by (simp add: decode_dependency_def bindR_def id_codec.get_bytes session_id_codec.get_bytes
        dependency_bytes_def dependency_ok_def liftR_def)
next
  fix bs x rest
  assume "decode_dependency X bs = Inr (x, rest)"
  then obtain n e i where i: "identity_text_ok n" "identity_text_ok e" "identity_text_ok i"
    and r: "restore_dependency X n e i = Inr x" and bs: "bs = id_bytes n @ id_bytes e @ id_bytes i @ rest"
    by (auto simp: decode_dependency_def bindR_iff liftR_iff id_codec.get_iff session_id_codec.get_iff)
  from restore_dependency_fields [OF r] i r bs show "dependency_ok X x \<and> bs = dependency_bytes x @ rest"
    by (simp add: dependency_ok_def dependency_bytes_def)
qed

section \<open>Dispatch records and snapshots\<close>

definition dispatch_record_ok :: "ext \<Rightarrow> session_identity \<Rightarrow> transaction_dispatch_record \<Rightarrow> bool" where
  "dispatch_record_ok X transaction r \<longleftrightarrow>
     (let d = record_dispatch r; u = dispatch_unit d in
      identity_text_ok (record_id r) \<and> identity_text_ok (dispatch_id d) \<and> identity_text_ok (unit_primary u) \<and>
      unit_members u \<noteq> [] \<and> list_ok maximum_transaction_run_member_count identity_text_ok (unit_members u) \<and>
      identity_text_ok (unit_id u) \<and>
      restore_unit X transaction (unit_kind u) (unit_primary u) (unit_members u) (unit_id u) = Inr u \<and>
      nonce_ok (dispatch_nonce_of d) \<and> identity_text_ok (dispatch_reserved_from d) \<and>
      state_text_ok X (dispatch_reserved_state d) \<and>
      list_ok maximum_transaction_run_dependency_count (dependency_ok X) (dispatch_dependencies d) \<and>
      restore_dispatch X u (dispatch_nonce_of d) (dispatch_reserved_from d) (dispatch_reserved_state d)
        (dispatch_dependencies d) (dispatch_id d) = Inr d \<and>
      pred_option identity_text_ok (record_attempt_session r) \<and>
      pred_option identity_text_ok (record_effect_attempt r) \<and>
      list_ok maximum_transaction_run_observation_count identity_text_ok (record_observations r) \<and>
      pred_option identity_text_ok (record_terminal r) \<and>
      restore_record X d (record_state r) (record_attempt_session r) (record_effect_attempt r)
        (record_observations r) (record_terminal r) (record_id r) = Inr r)"

lemma rr_dependencies_iff: "rr_list maximum_transaction_run_dependency_count (decode_dependency X) bs = Inr (ds, rest) \<longleftrightarrow>
    list_ok maximum_transaction_run_dependency_count (dependency_ok X) ds \<and> bs = list_bytes dependency_bytes ds @ rest"
  by (rule rr_list_iff [OF dependency_codec.codec_axioms]) (simp add: maximum_transaction_run_dependency_count_def)

lemma rr_observations_iff: "rr_list maximum_transaction_run_observation_count rr_identity bs = Inr (os, rest) \<longleftrightarrow>
    list_ok maximum_transaction_run_observation_count identity_text_ok os \<and> bs = list_bytes id_bytes os @ rest"
  by (rule rr_list_iff [OF session_id_codec.codec_axioms]) (simp add: maximum_transaction_run_observation_count_def)

lemmas rr_iffs = rr_identity_iff rr_hex_identity_iff decode_dispatch_state_iff decode_unit_kind_iff rr_members_iff
  rr_dispatch_nonce_iff rr_run_nonce_iff rr_state_iff rr_dependencies_iff rr_observations_iff
  rr_optional_identity_iff rr_u64_iff rr_boolean_iff decode_policy_iff

lemmas rr_accepts = rr_identity_iff [THEN iffD2, OF conjI, OF _ refl]
  rr_hex_identity_iff [THEN iffD2, OF conjI, OF _ refl] decode_dispatch_state_iff [THEN iffD2, OF refl]
  decode_unit_kind_iff [THEN iffD2, OF refl] rr_members_iff [THEN iffD2, OF conjI, OF _ conjI, OF _ _ refl]
  rr_dispatch_nonce_iff [THEN iffD2, OF conjI, OF _ refl] rr_run_nonce_iff [THEN iffD2, OF conjI, OF _ refl]
  rr_state_iff [THEN iffD2, OF conjI, OF _ refl] rr_dependencies_iff [THEN iffD2, OF conjI, OF _ refl]
  rr_observations_iff [THEN iffD2, OF conjI, OF _ refl] rr_optional_identity_iff [THEN iffD2, OF conjI, OF _ refl]
  rr_u64_iff [THEN iffD2, OF refl] rr_boolean_iff [THEN iffD2, OF refl]
  decode_policy_iff [THEN iffD2, OF conjI, OF _ refl]

lemma bindRE:
  assumes "bindR f g bs = Inr (y, rest)"
  obtains x bs' where "f bs = Inr (x, bs')" "g x bs' = Inr (y, rest)"
  using assms by (auto simp: bindR_iff)

lemma liftR_Inr [simp]: "liftR (Inr x) bs = Inr (x, bs)"
  by (simp add: liftR_def)

lemma dispatch_record_read:
  "decode_dispatch_record X t bs = Inr (x, rest) \<Longrightarrow> dispatch_record_ok X t x \<and> bs = dispatch_record_bytes x @ rest"
  unfolding decode_dispatch_record_def
  apply (elim bindRE, unfold liftR_iff rr_iffs, elim conjE)
  apply (frule restore_unit_fields, frule restore_dispatch_fields, frule restore_record_fields)
  apply (elim conjE, hypsubst, unfold dispatch_record_ok_def dispatch_record_bytes_def Let_def append_assoc)
  apply (intro conjI)
  apply (assumption | rule refl)+
  apply (simp only: concat.simps append_Nil2 append_assoc)
  done

interpretation dispatch_record_codec: codec dispatch_record_bytes "decode_dispatch_record X t" "dispatch_record_ok X t" for X t
proof
  fix x rest
  assume "dispatch_record_ok X t x"
  note ok = this [unfolded dispatch_record_ok_def Let_def]
  show "decode_dispatch_record X t (dispatch_record_bytes x @ rest) = Inr (x, rest)"
    unfolding decode_dispatch_record_def dispatch_record_bytes_def Let_def
    by (simp add: bindR_def rr_accepts ok)
next
  fix bs x rest
  show "decode_dispatch_record X t bs = Inr (x, rest) \<Longrightarrow> dispatch_record_ok X t x \<and> bs = dispatch_record_bytes x @ rest"
    by (rule dispatch_record_read)
qed

definition run_record_typed :: "ext \<Rightarrow> run_journal_record \<Rightarrow> bool" where
  "run_record_typed X r \<longleftrightarrow>
     identity_text_ok (rj_identity r) \<and> identity_text_ok (rj_journal r) \<and> identity_text_ok (rj_transaction r) \<and>
     nonce_ok (rj_nonce r) \<and> pred_option identity_text_ok (rj_previous r) \<and> identity_text_ok (rj_run r) \<and>
     identity_text_ok (rj_progress r) \<and> state_text_ok X (rj_state r) \<and> policy_ok X (rj_policy r) \<and>
     list_ok maximum_transaction_run_dispatch_count (dispatch_record_ok X (rj_transaction r)) (rj_dispatches r)"

lemma rr_header_iff: "rr_header bs = Inr (u, rest) \<longleftrightarrow> bs = run_header_bytes @ rest"
proof -
  have "length encoding_magic = 8" by (simp add: encoding_magic_def)
  then show ?thesis
    by (auto simp: rr_header_def rr_u16_def bindR_iff liftR_iff reading run_header_bytes_def)
qed

lemma rr_dispatches_iff: "rr_list maximum_transaction_run_dispatch_count (decode_dispatch_record X t) bs = Inr (rs, rest) \<longleftrightarrow>
    list_ok maximum_transaction_run_dispatch_count (dispatch_record_ok X t) rs \<and>
    bs = list_bytes dispatch_record_bytes rs @ rest"
  by (rule rr_list_iff [OF dispatch_record_codec.codec_axioms]) (simp add: maximum_transaction_run_dispatch_count_def)

interpretation run_record_codec: codec run_record_bytes "rr_record X" "run_record_typed X" for X
proof
  fix x rest
  assume "run_record_typed X x"
  note ok = this [unfolded run_record_typed_def]
  show "rr_record X (run_record_bytes x @ rest) = Inr (x, rest)"
    unfolding rr_record_def run_record_bytes_def
    by (simp add: bindR_def rr_accepts rr_header_iff [of _ "()", THEN iffD2, OF refl]
        rr_dispatches_iff [THEN iffD2, OF conjI, OF _ refl] ok retR_def)
next
  fix bs x rest
  show "rr_record X bs = Inr (x, rest) \<Longrightarrow> run_record_typed X x \<and> bs = run_record_bytes x @ rest"
    unfolding rr_record_def
    by (elim bindRE, unfold retR_iff rr_iffs rr_header_iff rr_dispatches_iff, elim conjE, hypsubst)
      (simp add: run_record_typed_def run_record_bytes_def)
qed

end
