(* ===== verification/Run_Stored.thy ===== *)
theory Run_Stored
  imports Run_Codec_Laws Run_Durable
begin

text \<open>Decoding a run snapshot is the inverse of encoding it, and what an admitted journal holds can be stored.\<close>

section \<open>The writer writes the layout\<close>

lemma run_limit: "maximum_transaction_run_encoding_size = 16777216"
  by (simp add: maximum_transaction_run_encoding_size_def)

lemma writes_rw_text: "run_writes (rw_text s) (short_text_bytes s)"
proof (cases "2 ^ 32 - 1 < length s")
  case True
  then show ?thesis by (simp add: rw_text_def writes_def put_def short_text_bytes_def run_limit)
next
  case False
  have "run_writes (statements [rw_u32 (word_of_nat (length s)), rw_raw (bytes_of_string s)])
      (concat [be_bytes 4 (word_of_nat (length s) :: 32 word), bytes_of_string s])"
    by (intro writes_statements) (simp add: rw_u32_def rw_raw_def writing)
  with False show ?thesis by (simp add: rw_text_def short_text_bytes_def size_bytes_def)
qed

lemma writes_rw_part: "list_all2 run_writes ws bss \<Longrightarrow> concat bss = bs \<Longrightarrow> run_writes (statements ws) bs"
  using writes_statements by blast

lemma writes_rw_identity: "identity_text_ok s \<Longrightarrow> run_writes (rw_hex_identity s) (id_bytes s)"
  by (simp add: writes_def rw_hex_identity_def identity_text_ok_def bytes_of_hex_lower id_bytes_def)

lemma writes_rw_optional: "pred_option identity_text_ok v \<Longrightarrow> run_writes (rw_optional_identity v) (optional_bytes id_bytes v)"
  unfolding rw_optional_identity_def by (rule writes_optional) (simp add: writes_rw_identity)

lemma writes_rw_count: "n \<le> maximum \<Longrightarrow> maximum < 2 ^ 32 \<Longrightarrow> run_writes (rw_count maximum n) (size_bytes n)"
  by (simp add: rw_count_def rw_u32_def size_bytes_def writing)

lemma writes_rw_ids:
  "list_ok maximum identity_text_ok xs \<Longrightarrow> run_writes (put_each rw_hex_identity xs) (concat (map id_bytes xs))"
  by (rule writes_each) (simp add: list_ok_def list_all_iff writes_rw_identity)

lemma writes_rw_policy: "policy_ok X p \<Longrightarrow> run_writes (rw_policy p) (policy_bytes p)"
  unfolding rw_policy_def
  by (rule writes_rw_part [where bss = "[be_bytes 8 (policy_construction_capacity p), be_bytes 8 (policy_check_capacity p),
        [0], id_bytes (policy_id p)]"])
    (simp_all add: policy_bytes_def policy_ok_def writes_rw_identity rw_u64_def rw_failure_containment_def rw_byte_def
      writing split: transaction_failure_containment.split)

lemma writes_rw_dependency: "dependency_ok X d \<Longrightarrow> run_writes (rw_dependency d) (dependency_bytes d)"
  unfolding rw_dependency_def
  by (rule writes_rw_part [where bss = "[id_bytes (dependency_node d), id_bytes (dependency_evidence d), id_bytes (dependency_id d)]"])
    (simp_all add: dependency_bytes_def dependency_ok_def writes_rw_identity)

lemma writes_rw_dependencies: "list_ok maximum (dependency_ok X) ds \<Longrightarrow>
    run_writes (put_each rw_dependency ds) (concat (map dependency_bytes ds))"
  by (rule writes_each) (auto simp: list_ok_def list_all_iff intro: writes_rw_dependency)

lemma writes_rw_dispatch_record:
  assumes "dispatch_record_ok X t r"
  shows "run_writes (rw_dispatch_record r) (dispatch_record_bytes r)"
proof -
  note ok = assms [unfolded dispatch_record_ok_def Let_def]
  have small: "maximum_transaction_run_member_count < 2 ^ 32" "maximum_transaction_run_dependency_count < 2 ^ 32"
    "maximum_transaction_run_observation_count < 2 ^ 32"
    by (simp_all add: maximum_transaction_run_member_count_def maximum_transaction_run_dependency_count_def
        maximum_transaction_run_observation_count_def)
  let ?d = "record_dispatch r" let ?u = "dispatch_unit ?d"
  have counts: "run_writes (rw_count maximum_transaction_run_member_count (length (unit_members ?u)))
      (size_bytes (length (unit_members ?u)))"
    "run_writes (rw_count maximum_transaction_run_dependency_count (length (dispatch_dependencies ?d)))
      (size_bytes (length (dispatch_dependencies ?d)))"
    "run_writes (rw_count maximum_transaction_run_observation_count (length (record_observations r)))
      (size_bytes (length (record_observations r)))"
    using ok small by (auto intro!: writes_rw_count simp: list_ok_def)
  have lists: "run_writes (put_each rw_hex_identity (unit_members ?u)) (concat (map id_bytes (unit_members ?u)))"
    "run_writes (put_each rw_dependency (dispatch_dependencies ?d)) (concat (map dependency_bytes (dispatch_dependencies ?d)))"
    "run_writes (put_each rw_hex_identity (record_observations r)) (concat (map id_bytes (record_observations r)))"
    using ok writes_rw_ids writes_rw_dependencies by blast+
  show ?thesis
    unfolding rw_dispatch_record_def Let_def
    by (rule writes_rw_part [where bss = "[id_bytes (record_id r), enum_byte encode_dispatch_state (record_state r),
          id_bytes (dispatch_id ?d), enum_byte encode_unit_kind (unit_kind ?u), id_bytes (unit_primary ?u),
          size_bytes (length (unit_members ?u)), concat (map id_bytes (unit_members ?u)), id_bytes (unit_id ?u),
          dispatch_nonce_of ?d, id_bytes (dispatch_reserved_from ?d), short_text_bytes (dispatch_reserved_state ?d),
          size_bytes (length (dispatch_dependencies ?d)), concat (map dependency_bytes (dispatch_dependencies ?d)),
          optional_bytes id_bytes (record_attempt_session r), optional_bytes id_bytes (record_effect_attempt r),
          size_bytes (length (record_observations r)), concat (map id_bytes (record_observations r)),
          optional_bytes id_bytes (record_terminal r)]"])
      (simp_all add: ok counts lists writes_rw_identity writes_rw_text writes_rw_optional rw_byte_def rw_raw_def
        enum_byte_def writing dispatch_record_bytes_def list_bytes_def Let_def)
qed

lemma writes_rw_record:
  assumes "run_record_typed X r"
  shows "run_writes (rw_record r) (run_record_bytes r)"
proof -
  note ok = assms [unfolded run_record_typed_def]
  have c: "run_writes (rw_count maximum_transaction_run_dispatch_count (length (rj_dispatches r)))
      (size_bytes (length (rj_dispatches r)))"
    using ok by (auto intro!: writes_rw_count simp: list_ok_def maximum_transaction_run_dispatch_count_def)
  have l: "run_writes (put_each rw_dispatch_record (rj_dispatches r)) (concat (map dispatch_record_bytes (rj_dispatches r)))"
    by (rule writes_each) (use ok in \<open>auto simp: list_ok_def list_all_iff intro: writes_rw_dispatch_record\<close>)
  have p: "run_writes (rw_policy (rj_policy r)) (policy_bytes (rj_policy r))"
    by (rule writes_rw_policy) (use ok in blast)
  show ?thesis
    unfolding rw_record_def
    by (rule writes_rw_part [where bss = "[encoding_magic, be_bytes 2 (1 :: 16 word), be_bytes 2 (1 :: 16 word),
          id_bytes (rj_identity r), id_bytes (rj_journal r), id_bytes (rj_transaction r), rj_nonce r,
          be_bytes 8 (rj_sequence r), optional_bytes id_bytes (rj_previous r), id_bytes (rj_run r),
          id_bytes (rj_progress r), short_text_bytes (rj_state r), policy_bytes (rj_policy r),
          bool_byte (rj_complete r), bool_byte (rj_failed r), bool_byte (rj_stopped r),
          size_bytes (length (rj_dispatches r)), concat (map dispatch_record_bytes (rj_dispatches r))]"])
      (simp_all add: ok c l p writes_rw_identity writes_rw_text writes_rw_optional rw_u16_def rw_u64_def rw_raw_def
        rw_boolean_def writing run_record_bytes_def run_header_bytes_def list_bytes_def)
qed

lemma run_encode_iff:
  assumes "run_record_typed X r"
  shows "encode_transaction_run_record r = Inr bs \<longleftrightarrow>
    length bs \<le> maximum_transaction_run_encoding_size \<and> bs = run_record_bytes r"
  unfolding encode_transaction_run_record_def writes_run [OF writes_rw_record [OF assms]] by auto

section \<open>The decoder\<close>

lemma run_decode_iff:
  "decode_transaction_run_record X bs = Inr r \<longleftrightarrow>
     run_record_typed X r \<and> run_journal_restore X r = Inr r \<and> encode_transaction_run_record r = Inr bs"
proof -
  have same: "run_journal_restore X r' = Inr r \<Longrightarrow> r' = r" for r'
    by (auto simp: run_journal_restore_def bindE_Inr_iff)
  have whole: "rr_record X bs = Inr (r, []) \<longleftrightarrow> run_record_typed X r \<and> bs = run_record_bytes r"
    using run_record_codec.get_iff [of X bs r "[]"] by simp
  have body: "bindE (rr_record X bs) (\<lambda>(r, rest). if rest \<noteq> [] then Inl run_corrupt else run_journal_restore X r) = Inr r \<longleftrightarrow>
      rr_record X bs = Inr (r, []) \<and> run_journal_restore X r = Inr r"
    by (auto simp: bindE_Inr_iff split: if_splits dest: same)
  have "decode_transaction_run_record X bs = Inr r \<longleftrightarrow> length bs \<le> maximum_transaction_run_encoding_size \<and>
      rr_record X bs = Inr (r, []) \<and> run_journal_restore X r = Inr r"
    unfolding body [symmetric] decode_transaction_run_record_def by (simp split: sum.split)
  then show ?thesis using whole run_encode_iff [of X r bs] by blast
qed

end
