(* ===== verification/Run_Sealed.thy ===== *)
theory Run_Sealed
  imports Run_Stored Containment
begin

text \<open>
  Every record of a reached run is what the sealing functions make of its fields, so that a snapshot of
  the run, once its texts are proper identities, is one the decoder rebuilds value by value.
\<close>

section \<open>Sealed records\<close>

definition sealed_dispatch :: "ext \<Rightarrow> transaction_dispatch \<Rightarrow> bool" where
  "sealed_dispatch X d \<longleftrightarrow>
     d = make_dispatch X (dispatch_unit d) (dispatch_nonce_of d) (dispatch_reserved_from d)
       (dispatch_reserved_state d) (dispatch_dependencies d)"

definition sealed_record :: "ext \<Rightarrow> transaction_dispatch_record \<Rightarrow> bool" where
  "sealed_record X r \<longleftrightarrow> sealed_dispatch X (record_dispatch r) \<and>
     r = make_record X (record_dispatch r) (record_state r) (record_attempt_session r) (record_effect_attempt r)
       (record_observations r) (record_terminal r)"

lemma sealed_make_dispatch [simp]: "sealed_dispatch X (make_dispatch X u n p st ds)"
  by (simp add: sealed_dispatch_def make_dispatch_def)

lemma sealed_make_record [simp]: "sealed_record X (make_record X d st a e os t) \<longleftrightarrow> sealed_dispatch X d"
  by (simp add: sealed_record_def make_record_def)

lemma sealed_moved:
  assumes "sealed_record X r"
  shows "sealed_record X (started_record X r session e)" and "sealed_record X (released_record X r)"
    and "sealed_record X (completed_record X r evidence)"
    and "observed_record X r ob = Inr r' \<Longrightarrow> sealed_record X r'"
  using assms
  by (auto simp: started_record_def released_record_def completed_record_def observed_record_def sealed_record_def [of X r]
      split: if_splits)

definition sealed_run :: "ext \<Rightarrow> transaction_run \<Rightarrow> bool" where
  "sealed_run X run \<longleftrightarrow> list_all (sealed_record X) (run_records run)"

lemma sealed_run_reserved:
  assumes "sealed_run X run" and "reserve_next X run nonce = Inr (run', d)"
  shows "sealed_run X run'"
  using assms
  by (auto simp: reserve_next_def Let_def bindE_Inr_iff make_run_Inr sealed_run_def split: if_splits option.splits)

lemma replace_record_length: "replace_record X run n r p = Inr run' \<Longrightarrow> length (run_records run') = length (run_records run)"
  by (simp add: replace_record_def make_run_Inr)

lemma run_step_length:
  assumes "run_step X run run'" and "\<nexists>nonce d. reserve_next X run nonce = Inr (run', d)"
  shows "length (run_records run') = length (run_records run)"
  using assms
  by (cases rule: run_stepE)
    (auto simp: start_construction_dispatch_def start_check_dispatch_def start_operation_dispatch_def
      release_unstarted_dispatch_def complete_construction_dispatch_def complete_check_dispatch_def
      submit_operation_dispatch_result_def bindE_Inr_iff as_dispatch_error_Inr split: if_splits dest: replace_record_length)

lemma sealed_run_step:
  assumes "sealed_run X run" and "run_inv X us run" and "run_step X run run'"
  shows "sealed_run X run'"
proof (cases "\<exists>nonce d. reserve_next X run nonce = Inr (run', d)")
  case True
  with sealed_run_reserved [OF assms(1)] show ?thesis by blast
next
  case False
  have "run_change X run run'" using run_step_change [OF assms(2,3)] by blast
  then show ?thesis
  proof cases
    case change_none
    with assms(1) show ?thesis by simp
  next
    case (change_reserve d)
    with run_step_length [OF assms(3) False] show ?thesis by simp
  qed (use assms(1) in \<open>auto simp: starts_as_def completes_as_def sealed_run_def intro: sealed_moved\<close>)
qed

lemma sealed_run_steps:
  assumes "(run_step X)\<^sup>*\<^sup>* run run'" and "run_inv X us run" and "sealed_run X run"
  shows "run_inv X us run' \<and> sealed_run X run'"
  using assms
proof (induction rule: rtranclp_induct)
  case (step y z)
  then show ?case using run_step_preserves sealed_run_step by blast
qed simp

section \<open>Typed snapshots\<close>

text \<open>The texts inside a record: what the identity types and the node parser guarantee.\<close>

definition dispatch_texts_ok :: "ext \<Rightarrow> transaction_dispatch_record \<Rightarrow> bool" where
  "dispatch_texts_ok X r \<longleftrightarrow>
     (let d = record_dispatch r; u = dispatch_unit d in
      identity_text_ok (unit_primary u) \<and> list_all identity_text_ok (unit_members u) \<and>
      nonce_ok (dispatch_nonce_of d) \<and> identity_text_ok (dispatch_reserved_from d) \<and>
      state_text_ok X (dispatch_reserved_state d) \<and>
      list_all (\<lambda>x. identity_text_ok (dependency_node x) \<and> identity_text_ok (dependency_evidence x))
        (dispatch_dependencies d) \<and>
      pred_option identity_text_ok (record_attempt_session r) \<and>
      pred_option identity_text_ok (record_effect_attempt r) \<and>
      list_all identity_text_ok (record_observations r) \<and> pred_option identity_text_ok (record_terminal r))"

definition run_texts_ok :: "ext \<Rightarrow> run_journal_record \<Rightarrow> bool" where
  "run_texts_ok X r \<longleftrightarrow>
     identity_text_ok (rj_transaction r) \<and> nonce_ok (rj_nonce r) \<and> pred_option identity_text_ok (rj_previous r) \<and>
     identity_text_ok (rj_run r) \<and> identity_text_ok (rj_progress r) \<and> state_text_ok X (rj_state r) \<and>
     list_all (dispatch_texts_ok X) (rj_dispatches r)"

lemma make_identity_ok: "digest_ok (sha256 X) \<Longrightarrow> identity_text_ok (make_identity X d fs)"
  by simp

lemma known_unit_restores:
  assumes "ledger_progress X p us" and "contains_unit X p r = Inr True"
  shows "restore_unit X (transaction_id (progress_transaction p)) (unit_kind r) (unit_primary r) (unit_members r) (unit_id r)
    = Inr r"
    and "unit_id r = ready_unit_identity X (transaction_id (progress_transaction p))
      \<lparr>spec_kind = unit_kind r, spec_primary = unit_primary r, spec_members = unit_members r\<rparr>"
proof -
  obtain u where u: "u \<in> set us" and r: "r = sealed_unit X p u" by (rule known_unit [OF assms])
  note us = ledger_progressD(2) [OF assms(1)]
  have "spec_kind u \<noteq> Operation_unit \<Longrightarrow> spec_members u = [spec_primary u]"
    using u by (auto simp: units_set [OF us] unit_of_def single_spec_def operation_spec_def split: if_splits)
  from restore_sealed_unit [OF units_primary [OF us u] this]
  show "restore_unit X (transaction_id (progress_transaction p)) (unit_kind r) (unit_primary r) (unit_members r) (unit_id r)
    = Inr r"
    by (simp add: r seal_unit_def)
  have e: "\<lparr>spec_kind = spec_kind u, spec_primary = spec_primary u, spec_members = spec_members u\<rparr> = u" by simp
  show "unit_id r = ready_unit_identity X (transaction_id (progress_transaction p))
      \<lparr>spec_kind = unit_kind r, spec_primary = unit_primary r, spec_members = unit_members r\<rparr>"
    by (simp add: r seal_unit_def e)
qed

lemma captured_sealed:
  assumes "capture_dependencies X p u = Inr ds" and "d \<in> set ds"
  shows "d = make_dependency X (dependency_node d) (dependency_evidence d)"
proof -
  obtain dss where dss: "mapE (capture_dependency X p) (external_predecessors p u) = Inr dss"
    and ds: "set ds = set (concat dss)"
    using assms(1) by (auto simp: capture_dependencies_def bindE_Inr_iff)
  have "\<forall>d \<in> set (concat dss). d = make_dependency X (dependency_node d) (dependency_evidence d)"
    if "mapE (capture_dependency X p) ns = Inr dss" for ns dss
    using that
  proof (induction ns arbitrary: dss)
    case (Cons n ns)
    then show ?case
      by (auto simp: bindE_Inr_iff capture_dependency_def make_dependency_def split: if_splits option.splits)
  qed simp
  with dss assms(2) ds show ?thesis by blast
qed

lemma dispatch_record_typed:
  assumes D: "digest_ok (sha256 X)" and I: "run_inv X us run" and S: "sealed_run X run"
    and b: "run_bounds (run_records run)" and r: "r \<in> set (run_records run)" and t: "dispatch_texts_ok X r"
  shows "dispatch_record_ok X (transaction_id (progress_transaction (run_progress run))) r"
proof -
  let ?d = "record_dispatch r" and ?u = "record_unit r"
  note T = t [unfolded dispatch_texts_ok_def Let_def]
  have H: "contains_unit X (run_progress run) ?u = Inr True"
    "capture_dependencies X (run_progress run) ?u = Inr (dispatch_dependencies ?d)"
    using run_invD(4) [OF I] r by (auto simp: history_ok_def validate_rehydrated_Inr)
  note U = known_unit_restores [OF run_invD(1) [OF I] H(1)]
  have sr: "sealed_record X r" using S r by (auto simp: sealed_run_def list_all_iff)
  have shape: "validate_record_shape r = Inr ()"
    using run_invD(3) [OF I] r by (auto simp: ledger_ok_def record_valid_def)
  have ids: "identity_text_ok (unit_id ?u)" "identity_text_ok (dispatch_id ?d)" "identity_text_ok (record_id r)"
    using U(2) sr D
    by (metis make_identity_ok ready_unit_identity_def,
      metis sealed_record_def sealed_dispatch_def make_dispatch_def transaction_dispatch.select_convs(6) make_identity_ok,
      metis sealed_record_def make_record_def transaction_dispatch_record.select_convs(7) make_identity_ok)
  have unit: "?u \<noteq> ?u \<or> unit_members ?u \<noteq> []"
    using U(1) by (auto simp: restore_unit_def split: if_splits)
  have dep: "list_all (dependency_ok X) (dispatch_dependencies ?d)"
    unfolding list_all_iff
  proof
    fix x
    assume x: "x \<in> set (dispatch_dependencies ?d)"
    note e = captured_sealed [OF H(2) x]
    have "dependency_id x = dependency_id (make_dependency X (dependency_node x) (dependency_evidence x))" using e by simp
    with D have "identity_text_ok (dependency_id x)" by (simp add: make_dependency_def)
    with e T x show "dependency_ok X x" by (auto simp: dependency_ok_def restore_dependency_def list_all_iff)
  qed
  have rd: "restore_dispatch X ?u (dispatch_nonce_of ?d) (dispatch_reserved_from ?d) (dispatch_reserved_state ?d)
      (dispatch_dependencies ?d) (dispatch_id ?d) = Inr ?d"
    using sr by (simp add: sealed_record_def sealed_dispatch_def restore_dispatch_def)
  have rr: "restore_record X ?d (record_state r) (record_attempt_session r) (record_effect_attempt r)
      (record_observations r) (record_terminal r) (record_id r) = Inr r"
    using sr shape by (simp add: sealed_record_def restore_record_def)
  have l: "length (unit_members ?u) \<le> maximum_transaction_run_member_count"
    "length (dispatch_dependencies ?d) \<le> maximum_transaction_run_dependency_count"
    "length (record_observations r) \<le> maximum_transaction_run_observation_count"
    using b r by (auto simp: run_bounds_def)
  show ?thesis
    unfolding dispatch_record_ok_def Let_def list_ok_def using T ids unit U(1) l dep rd rr by blast
qed

lemma made_policy_ok: "make_policy X c k f = Inr p \<Longrightarrow> digest_ok (sha256 X) \<Longrightarrow> policy_ok X p"
  by (auto simp: policy_ok_def restore_policy_def make_policy_def split: if_splits)

text \<open>The policy of a run is a value of \<^verbatim>\<open>make\<close>.\<close>

lemma journalled_typed:
  assumes D: "digest_ok (sha256 X)" and I: "run_inv X us run" and S: "sealed_run X run"
    and p: "make_policy X construction check containment = Inr (run_policy run)"
    and b: "run_bounds (run_records run)" and J: "journals X rec run" and t: "run_texts_ok X rec"
  shows "run_record_typed X rec"
proof -
  note T = t [unfolded run_texts_ok_def] and J' = journalsD [OF J]
  have pol: "policy_ok X (run_policy run)"
    using p D by (rule made_policy_ok)
  have ids: "identity_text_ok (rj_identity rec)" "identity_text_ok (rj_journal rec)"
    using D by (simp_all add: J'(9,11) run_record_identity_def journal_identity_def)
  have ds: "list_all (dispatch_record_ok X (rj_transaction rec)) (run_records run)"
    using dispatch_record_typed [OF D I S b] T by (auto simp: list_all_iff J'(5,10))
  show ?thesis
    using T ids pol ds b by (simp add: run_record_typed_def list_ok_def J'(4,5) run_bounds_def)
qed

end
