(* ===== verification/Sample_Stored.thy ===== *)
theory Sample_Stored
  imports Sample_Attempt Effect_Stored Run_Sealed
begin

text \<open>
  Values whose identities are proper texts, as the codecs demand: an attempt of a session with one
  lifecycle step, and a run that builds one package, with its first two snapshots.
\<close>

lemma sample_digest: "digest_ok (sha256 sample_ext)"
  by (auto simp: digest_ok_def sample_ext_def min_def)

lemma sample_codes: "ext_codes_ok sample_ext"
proof -
  have "range (application_outcome_code sample_ext) = {0 .. 6}"
    unfolding application_outcomes [symmetric] by (auto simp: sample_ext_def)
  moreover have "range (publication_outcome_code sample_ext) = {0 .. 5}"
    unfolding publication_outcomes [symmetric] by (auto simp: sample_ext_def)
  moreover have "inj (application_outcome_code sample_ext)" "inj (publication_outcome_code sample_ext)"
    by (auto simp: inj_def sample_ext_def split: application_attempt_outcome.splits state_publication_outcome.splits)
  ultimately show ?thesis by (simp add: ext_codes_ok_def codes_ok_def) (simp add: sample_ext_def)
qed

definition hex_name :: "char \<Rightarrow> string" where
  "hex_name c = replicate 64 c"

lemma hex_name_ok [simp]: "identity_text_ok (hex_name CHR ''0'')" "identity_text_ok (hex_name CHR ''b'')"
  by (simp_all add: hex_name_def identity_text_ok_def is_lower_hex_def list_all_iff)

lemma sample_nonce_ok [simp]: "nonce_ok sample_nonce"
  by (simp add: nonce_ok_def sample_nonce_def)

section \<open>An attempt\<close>

definition stored_attempt :: effect_attempt_record where
  "stored_attempt = admitted_record sample_ext (hex_name CHR ''0'') 1 0 sample_nonce"

lemma stored_admit: "admit sample_ext (hex_name CHR ''0'') 1 0 sample_nonce = Inr stored_attempt"
  by (simp add: admit_cases stored_attempt_def maximum_effect_lifecycle_count_def)

definition stored_intent :: effect_attempt_record where
  "stored_intent = seal_record sample_ext (before_intent_of stored_attempt)"

lemma stored_attempt_fields [simp]:
  "ea_stage stored_attempt = Admitted" "ea_before stored_attempt = []" "ea_before_total stored_attempt = 1"
  by (simp_all add: stored_attempt_def admitted_record_def seal_record_def)

lemma stored_attempt_valid: "effect_valid sample_ext stored_attempt" "totals_ok stored_attempt"
  using admit_Inr [OF stored_admit] by blast+

lemma stored_intent: "begin_before sample_ext stored_attempt 0 = Inr stored_intent"
  unfolding stored_intent_def
  using begin_before_guard [OF stored_attempt_valid, unfolded stored_attempt_fields] by simp

lemmas stored_typed = identities_typed_admit [OF sample_digest hex_name_ok(1) sample_nonce_ok stored_admit]
  identities_typed_step [OF sample_digest identities_typed_admit [OF sample_digest hex_name_ok(1) sample_nonce_ok
    stored_admit] step_begin_before [OF stored_intent]]

lemma encodable:
  assumes "identities_typed r" and "ea_before r = []" "ea_after r = []" "ea_application r = None"
    "ea_transaction_evidence r = None" "ea_publication_request r = None" "ea_publication r = None"
    "ea_terminal_outcome r = None" "ea_reconciled_state r = None"
  shows "encode_effect_attempt_record sample_ext r = Inr (record_bytes sample_ext r @ sha256 sample_ext (record_bytes sample_ext r))"
proof -
  have t: "length (text_bytes s) = 72" if "identity_text_ok s" for s
    using that by (simp add: identity_text_ok_def text_bytes_def)
  have o': "length (optional_bytes text_bytes v) \<le> 73" if "pred_option identity_text_ok v" for v
    using that by (cases v) (simp_all add: optional_bytes_def t bool_byte_def)
  have n: "length (ea_nonce r) = 32" "length (sha256 sample_ext bs) = 32" for bs
    using assms(1) sample_digest by (simp_all add: identities_typed_def nonce_ok_def digest_ok_def)
  have "length (optional_bytes count_bytes (ea_active_index r)) \<le> 9"
    by (cases "ea_active_index r") (simp_all add: optional_bytes_def count_bytes_def bool_byte_def)
  with o' [of "ea_previous r"] assms show ?thesis
    unfolding encode_iff effect_limit
    by (simp add: record_bytes_def t n identities_typed_def count_bytes_def facts_bytes_def enum_byte_def
        optional_bytes_def bool_byte_def header_bytes_def effect_magic_def)
qed

lemma stored_encoded:
  obtains bs bs' where "encode_effect_attempt_record sample_ext stored_attempt = Inr bs"
    and "encode_effect_attempt_record sample_ext stored_intent = Inr bs'"
  using that encodable [OF stored_typed(1)] encodable [OF stored_typed(2)]
  by (simp add: stored_intent_def before_intent_of_def stored_attempt_def admitted_record_def next_record_def seal_record_def)

section \<open>A run\<close>

definition build_session :: transaction_session where
  "build_session = \<lparr>transaction_id = hex_name CHR ''0'', transaction_program_of =
     \<lparr>program_identity = ''p'', program_nodes = [sample_node (hex_name CHR ''b'') Act_build], program_edges = [],
      program_find = (\<lambda>i. find (\<lambda>n. node_id n = i) [sample_node (hex_name CHR ''b'') Act_build])\<rparr>,
     transaction_installed = sample_state\<rparr>"

definition build_spec :: unit_spec where
  "build_spec = single_spec Construction_unit (hex_name CHR ''b'')"

lemma build_units: "units build_session = Inr [build_spec]"
  by code_simp

lemma build_session_ok: "session_ok build_session"
  by (simp add: session_ok_def program_ok_def build_session_def sample_node_def)

lemma build_sound: "sound_session build_session [] [build_spec]"
  using build_session_ok
  by (simp add: sound_session_def build_units effects_local_def session_ok_def program_ok_def)

definition build_begin :: transaction_progress where
  "build_begin = rebuilt sample_ext build_session sample_state [] [] [] [build_spec]"

lemma build_begin: "progress_begin sample_ext build_session = Inr build_begin"
  using rebuild_closed [OF build_sound, of sample_ext sample_state "[]" "[]"]
  by (simp add: progress_begin_def build_begin_def) (simp add: build_session_def)

lemma build_begin_fields [simp]:
  "progress_transaction build_begin = build_session" "progress_state build_begin = sample_state"
  by (simp_all add: build_begin_def)

lemma build_ledger: "ledger_progress sample_ext build_begin [build_spec]"
  by (simp add: build_begin_def)
    (use build_sound build_units build_session_ok rebuild_closed [OF build_sound] in
      \<open>simp add: ledger_progress_def progress_ok_def evidence_typed_def keyed_def effects_local_def sound_session_def\<close>)

definition build_run :: transaction_run where
  "build_run = run_of sample_ext build_begin sample_policy []"

lemma build_begins: "run_begin sample_ext build_begin sample_policy = Inr build_run"
  and build_run_inv: "run_inv sample_ext [build_spec] build_run"
  using run_begin_inv [OF build_ledger, of sample_policy]
  by (auto simp: run_begin_def make_run_Inr build_run_def unit_ids_distinct_def)

definition build_unit :: ready_transaction_unit where
  "build_unit = seal_unit sample_ext (hex_name CHR ''0'') build_spec"

lemma build_status: "progress_ready_units build_begin = [build_unit]" "\<not> progress_failed build_begin"
proof -
  have "bindE (progress_begin sample_ext build_session) (\<lambda>p. Inr (progress_ready_units p, progress_failed p)) =
      Inr ([build_unit], False)"
    by code_simp
  then show "progress_ready_units build_begin = [build_unit]" "\<not> progress_failed build_begin"
    by (simp_all add: build_begin)
qed

lemma build_unit_fields [simp]:
  "unit_kind build_unit = Construction_unit" "unit_primary build_unit = hex_name CHR ''b''"
  "unit_members build_unit = [hex_name CHR ''b'']"
  by (simp_all add: build_unit_def build_spec_def single_spec_def)

lemma build_run_fields [simp]:
  "run_progress build_run = build_begin" "run_policy build_run = sample_policy" "run_records build_run = []"
  by (simp_all add: build_run_def)

lemma build_dependencies: "capture_dependencies sample_ext build_begin build_unit = Inr []"
  by (simp add: capture_dependencies_def external_predecessors_def build_session_def sort_unique_def)

definition build_dispatch :: transaction_dispatch where
  "build_dispatch = reservation sample_ext build_run sample_nonce build_unit []"

definition build_reserved :: transaction_run where
  "build_reserved = reserved_run sample_ext build_run build_dispatch"

lemma build_reserve:
  shows "reserve_next sample_ext build_run sample_nonce = Inr (build_reserved, Some build_dispatch)"
    and build_reserved_inv: "run_inv sample_ext [build_spec] build_reserved"
  using reserve_next_selected [OF build_run_inv, of sample_nonce build_unit "[]"]
  by (simp_all add: nonce_used_def run_stopped_def build_status capacity_available_def sample_capacity
      active_count_def overlaps_active_def build_dependencies build_reserved_def build_dispatch_def)

definition build_record :: transaction_dispatch_record where
  "build_record = make_record sample_ext build_dispatch Reserved None None [] None"

lemma build_reserved_fields [simp]:
  "run_progress build_reserved = build_begin" "run_policy build_reserved = sample_policy"
  "run_records build_reserved = [build_record]"
  by (simp_all add: build_reserved_def reserved_run_def build_record_def)

lemma build_step: "run_step sample_ext build_run build_reserved"
  by (rule step_reserve) (rule build_reserve)

lemma build_bounds: "run_bounds (run_records build_reserved)"
  by (simp add: run_bounds_def build_record_def build_dispatch_def reservation_def make_dispatch_def make_record_def
      maximum_transaction_run_dispatch_count_def maximum_transaction_run_member_count_def)

text \<open>The snapshot with the reservation, the second of its journal.\<close>

definition build_snapshot :: run_journal_record where
  "build_snapshot = snapshot_of sample_ext (journal_identity sample_ext (hex_name CHR ''0'') sample_policy sample_nonce)
     (hex_name CHR ''0'') sample_nonce 1 (Some (hex_name CHR ''0'')) build_reserved"

lemma build_journals: "journals sample_ext build_snapshot build_reserved"
  unfolding journals_def
  by (simp add: build_snapshot_def build_session_def build_record_def make_record_def record_transitions_def)

lemma build_texts: "run_texts_ok sample_ext build_snapshot"
proof -
  have i: "identity_text_ok (progress_id build_begin)"
    by (simp add: build_begin_def rebuilt_def Let_def progress_identity_def sample_digest)
  have "identity_text_ok (run_id build_reserved)"
    by (simp add: build_reserved_def reserved_run_def run_of_def run_identity_def sample_digest)
  moreover have "dispatch_texts_ok sample_ext build_record"
    by (simp add: dispatch_texts_ok_def build_record_def make_record_def build_dispatch_def reservation_def
        make_dispatch_def i state_text_ok_def sample_state_def)
  ultimately show ?thesis
    by (simp add: run_texts_ok_def build_snapshot_def i state_text_ok_def sample_state_def)
qed

lemma build_policy: "make_policy sample_ext 1 1 Stop_after_terminal_failure = Inr sample_policy"
  by (simp add: sample_policy_def make_policy_def)

lemma build_sealed: "sealed_run sample_ext build_reserved"
  by (simp add: sealed_run_def build_record_def build_dispatch_def reservation_def)

lemma build_encoded:
  obtains bs where "encode_transaction_run_record build_snapshot = Inr bs"
proof -
  have p: "make_policy sample_ext 1 1 Stop_after_terminal_failure = Inr (run_policy build_reserved)"
    by (simp add: build_policy)
  have typed: "run_record_typed sample_ext build_snapshot"
    by (rule journalled_typed [OF sample_digest build_reserved_inv build_sealed p build_bounds build_journals build_texts])
  then have ok: "dispatch_record_ok sample_ext (hex_name CHR ''0'') build_record"
    by (simp add: run_record_typed_def build_snapshot_def list_ok_def)
  have "length (bytes_of_lower_hex s) \<le> length s" for s
    by (induction s rule: bytes_of_lower_hex.induct) simp_all
  then have i: "length (id_bytes s) \<le> 64" if "identity_text_ok s" for s
    using that by (simp add: id_bytes_def identity_text_ok_def) (metis)
  note R = ok [unfolded dispatch_record_ok_def Let_def] and T = typed [unfolded run_record_typed_def]
  have r: "length (dispatch_record_bytes build_record) \<le> 1000"
    using R i [of "record_id build_record"] i [of "dispatch_id (record_dispatch build_record)"]
      i [of "unit_id (record_unit build_record)"] i [of "dispatch_reserved_from (record_dispatch build_record)"]
      i [OF hex_name_ok(2)]
    by (simp add: dispatch_record_bytes_def Let_def list_bytes_def size_bytes_def enum_byte_def nonce_ok_def
        short_text_bytes_def optional_bytes_def bool_byte_def build_record_def make_record_def build_dispatch_def
        reservation_def make_dispatch_def sample_state_def)
  have "length (run_record_bytes build_snapshot) \<le> 2000"
    using T r i [of "rj_identity build_snapshot"] i [of "rj_journal build_snapshot"] i [of "rj_run build_snapshot"]
      i [of "rj_progress build_snapshot"] i [of "policy_id sample_policy"] i [OF hex_name_ok(1)]
    by (simp add: run_record_bytes_def list_bytes_def size_bytes_def nonce_ok_def short_text_bytes_def policy_ok_def
        optional_bytes_def bool_byte_def policy_bytes_def run_header_bytes_def encoding_magic_def build_snapshot_def
        sample_state_def)
  then have "length (run_record_bytes build_snapshot) \<le> maximum_transaction_run_encoding_size"
    by (simp add: maximum_transaction_run_encoding_size_def)
  with run_encode_iff [OF typed] that show thesis by blast
qed

end
