(* ===== verification/Codec_Properties.thy ===== *)
theory Codec_Properties
  imports Sample_Stored
begin

text \<open>
  The properties of \<^verbatim>\<open>src/effect_journal_codec.cpp\<close> and \<^verbatim>\<open>src/run_journal_codec.cpp\<close>, each with a witness.
  They rest on \<open>Effect_Stored\<close> and \<open>Run_Sealed\<close>.
\<close>

section \<open>Effect attempts\<close>

text \<open>C7. Decoding an effect attempt is exactly the inverse of encoding it: the bytes are accepted as a record
  just when the record is typed and valid and encodes to those very bytes, so that every record has one
  encoding and every other byte string is refused. The digest is assumed to have 32 bytes.\<close>

theorem effect_decoding_inverts_encoding:
  assumes "digest_ok (sha256 X)"
  shows "decode_effect_attempt_record X bs = Inr r \<longleftrightarrow>
    record_typed X r \<and> effect_restore X r = Inr r \<and> encode_effect_attempt_record X r = Inr bs"
  unfolding decode_Inr read_iff [OF assms] effect_restore_Inr by simp

lemma effect_decoding_inverts_encoding_witness:
  "\<exists>bs. encode_effect_attempt_record sample_ext stored_attempt = Inr bs \<and>
    decode_effect_attempt_record sample_ext bs = Inr stored_attempt"
proof -
  obtain bs where e: "encode_effect_attempt_record sample_ext stored_attempt = Inr bs" by (rule stored_encoded)
  have v: "effect_valid sample_ext stored_attempt" "totals_ok stored_attempt" using admit_Inr [OF stored_admit] by simp_all
  have "record_typed sample_ext stored_attempt"
    by (rule reached_record_typed [OF sample_codes identities_typed_admit [OF sample_digest hex_name_ok(1)
          sample_nonce_ok stored_admit] v e])
  with v e effect_decoding_inverts_encoding [OF sample_digest, of bs stored_attempt] show ?thesis
    by (auto simp: effect_restore_Inr)
qed

text \<open>C5. Whatever an admitted attempt becomes, what is written of it is read back as it was: along every
  sequence of journal operations, a record that the encoder accepts is decoded to itself. Assumed are a
  digest of 32 bytes, an application and a publication library that number their outcomes without gaps,
  and a session identity and a nonce of the identity types.\<close>

theorem reached_attempt_survives_storage:
  assumes "digest_ok (sha256 X)" and "ext_codes_ok X" and "identity_text_ok session" and "nonce_ok nonce"
    and "admit X session before_total after_total nonce = Inr r0" and "(effect_step X)\<^sup>*\<^sup>* r0 r"
    and "encode_effect_attempt_record X r = Inr bs"
  shows "decode_effect_attempt_record X bs = Inr r"
proof -
  have chain: "(effect_next X)\<^sup>*\<^sup>* r0 r"
    using assms(6) mono_rtranclp [of "effect_step X" "effect_next X"] effect_step_next by blast
  from chain_valid [OF this] admit_Inr [OF assms(5)] have v: "effect_valid X r" "totals_ok r" by simp_all
  have "identities_typed r"
    by (rule identities_typed_steps [OF assms(1) identities_typed_admit [OF assms(1,3,4,5)] assms(6)])
  from reached_record_typed [OF assms(2) this v assms(7)] v(1) assms(7) show ?thesis
    unfolding decode_Inr read_iff [OF assms(1)] by blast
qed

lemma reached_attempt_survives_storage_witness:
  "\<exists>bs. encode_effect_attempt_record sample_ext stored_intent = Inr bs \<and>
    decode_effect_attempt_record sample_ext bs = Inr stored_intent"
proof -
  obtain bs where "encode_effect_attempt_record sample_ext stored_intent = Inr bs" by (rule stored_encoded)
  with reached_attempt_survives_storage [OF sample_digest sample_codes hex_name_ok(1) sample_nonce_ok stored_admit
      r_into_rtranclp [of "effect_step sample_ext", OF step_begin_before [OF stored_intent]]]
  show ?thesis by blast
qed

text \<open>C9. The encoding has no room for all attempts the journal admits: with 14365 lifecycle facts a record no
  longer fits, whatever else it holds, and the encoder refuses it, although \<^verbatim>\<open>admit\<close> allows 65536 on each
  side.\<close>

theorem encoding_bounds_lifecycle_facts:
  assumes "list_all fact_typed (ea_before r @ ea_after r)" and "14365 \<le> length (ea_before r) + length (ea_after r)"
  shows "encode_effect_attempt_record X r = Inl (Effect_journal_error invalid_record)"
proof -
  have f: "length (fact_bytes f) = 73" if "fact_typed f" for f
    using that by (simp add: fact_typed_def fact_bytes_def text_bytes_def identity_text_ok_def bool_byte_def)
  have "length (concat (map fact_bytes fs)) = 73 * length fs" if "list_all fact_typed fs" for fs
    using that by (induction fs) (simp_all add: f)
  then have "length (facts_bytes (ea_before r)) + length (facts_bytes (ea_after r)) >
      73 * (length (ea_before r) + length (ea_after r))"
    using assms(1) by (simp add: facts_bytes_def count_bytes_def)
  then have "1048576 < length (record_bytes X r)" using assms(2) by (simp add: record_bytes_def)
  then have n: "encode_effect_attempt_record X r \<noteq> Inr bs" for bs
    using encode_iff [of X r bs] effect_limit by auto
  show ?thesis
  proof (cases "encode_effect_attempt_record X r")
    case (Inl e)
    with encode_fails [OF Inl] show ?thesis by simp
  qed (use n in blast)
qed

lemma encoding_bounds_lifecycle_facts_witness:
  "encode_effect_attempt_record sample_ext (stored_attempt
     \<lparr>ea_before := replicate 14365 \<lparr>fact_result = hex_name CHR ''0'', fact_succeeded = True\<rparr>\<rparr>) =
   Inl (Effect_journal_error invalid_record)"
  by (rule encoding_bounds_lifecycle_facts)
    (simp_all add: list_all_iff fact_typed_def stored_attempt_def admitted_record_def seal_record_def)

section \<open>Runs\<close>

text \<open>C8. Decoding a run snapshot is exactly the inverse of encoding it: the bytes are accepted as a snapshot
  just when it is typed, passes the checks of \<^verbatim>\<open>restore\<close> and encodes to those very bytes.\<close>

theorem run_decoding_inverts_encoding:
  "decode_transaction_run_record X bs = Inr r \<longleftrightarrow>
     run_record_typed X r \<and> run_journal_restore X r = Inr r \<and> encode_transaction_run_record r = Inr bs"
  by (rule run_decode_iff)

text \<open>C6. A run survives a restart: whatever sequence of dispatch operations led to it, if its snapshot fits the
  format and the journal's bounds, the bytes are decoded to that snapshot, and reopening it with the
  progress of the run gives back the run itself, with every reservation, dispatch and observation. The
  texts inside the records are assumed to be those of the identity types, and the state identity at most
  256 bytes long.\<close>

theorem stored_run_reopens:
  assumes "digest_ok (sha256 X)" and "make_policy X construction check containment = Inr policy"
    and "ledger_progress X p us" and "unit_ids_distinct X (progress_transaction p) us"
    and "run_begin X p policy = Inr run0" and "(run_step X)\<^sup>*\<^sup>* run0 run"
    and "journals X rec run" and "run_bounds (run_records run)" and "run_texts_ok X rec"
    and "encode_transaction_run_record rec = Inr bs"
  shows "bindE (decode_transaction_run_record X bs) (\<lambda>rec'. reopen X rec' (run_progress run)) = Inr run"
proof -
  have I0: "run_inv X us run0" and r0: "run_records run0 = []" "run_policy run0 = policy"
    using run_begin_inv [OF assms(3,4), of policy] assms(5) by (auto simp: run_begin_def make_run_Inr)
  have I: "run_inv X us run" and S: "sealed_run X run"
    using sealed_run_steps [OF assms(6) I0] r0 by (simp_all add: sealed_run_def)
  have pol: "run_policy run = policy"
    using run_steps_preserve [OF assms(6) I0] r0 by (simp add: run_forward_def)
  have v: "run_journal_restore X rec = Inr rec"
    using journals_valid [OF I assms(7,8)] by (simp add: run_record_valid_def run_journal_restore_def)
  have "decode_transaction_run_record X bs = Inr rec"
    unfolding run_decode_iff
    using journalled_typed [OF assms(1) I S _ assms(8,7,9)] assms(2,10) v pol by blast
  with reopen_journal [OF assms(7) I] show ?thesis by simp
qed

lemma stored_run_reopens_witness:
  "\<exists>bs. encode_transaction_run_record build_snapshot = Inr bs \<and>
    bindE (decode_transaction_run_record sample_ext bs) (\<lambda>rec. reopen sample_ext rec build_begin) = Inr build_reserved"
proof -
  obtain bs where e: "encode_transaction_run_record build_snapshot = Inr bs" by (rule build_encoded)
  have d: "unit_ids_distinct sample_ext (progress_transaction build_begin) [build_spec]"
    by (simp add: unit_ids_distinct_def)
  from stored_run_reopens [OF sample_digest build_policy build_ledger d build_begins
      r_into_rtranclp [of "run_step sample_ext", OF build_step] build_journals build_bounds build_texts e] e
  show ?thesis by auto
qed

end
