(* ===== verification/Spec2Isabelle.thy ===== *)
theory Spec2Isabelle
  imports Progress_Properties Dispatch_Properties Effect_Properties Run_Properties Execution_Properties
    Codec_Properties
begin

text \<open>
  \<^bold>\<open>A verification library of pkgctl\<close>

  pkgctl is a package transaction controller. A sealed transaction is a graph of nodes (build, check,
  install, upgrade, remove, lifecycle). The controller groups the nodes into units, hands ready units to
  executors, admits the terminal evidence they return and computes what is ready next. What it must
  survive is its own death: everything it decides is journalled, and after a crash it continues from the
  last record without repeating an effect on the target. The library models that core, from the
  bytes an identity is hashed from to the crash and restart of an effectful operation.

  \<^bold>\<open>Parts of the program and their theories\<close> (paths are under \<^verbatim>\<open>src/\<close> and \<^verbatim>\<open>include/pkgctl/\<close>)

  \<^item> \<open>Prelude\<close>: the exceptions of \<^verbatim>\<open>error.h\<close> and of the two journals, the result type \<open>exn + 'a\<close> with its
    combinators (\<open>bindE\<close>, \<open>require\<close>, \<open>reject\<close>, \<open>forE\<close>), \<^verbatim>\<open>std::sort\<close> with \<^verbatim>\<open>std::unique\<close>, \<^verbatim>\<open>std::to_string\<close>.
    \<open>Identity\<close> is \<^verbatim>\<open>identity.cpp\<close>, \<open>Nonce\<close> the three nonces of \<^verbatim>\<open>dispatch.cpp\<close>, \<^verbatim>\<open>run_journal.cpp\<close> and
    \<^verbatim>\<open>effect_journal.cpp\<close>.
  \<^item> \<open>External\<close>, \<open>Evidence\<close>: the values of the foreign libraries, with the fields the controller reads, and
    the controller's own requests, sessions and results of \<^verbatim>\<open>construction.h\<close>, \<^verbatim>\<open>check.h\<close>, \<^verbatim>\<open>effect.h\<close>.
  \<^item> \<open>Units\<close>, \<open>Statuses\<close>, \<open>Settle\<close>, \<open>Progression\<close>, \<open>Progress\<close>, \<open>Progress_Steps\<close>: \<^verbatim>\<open>progression.cpp\<close>. State:
    \<open>transaction_progress\<close>; operations \<open>progress_begin\<close>, \<open>rebuild\<close>, \<open>advance_construction\<close>, \<open>advance_check\<close>,
    \<open>advance_effect\<close>, \<open>restore_unit\<close>. \<open>Progress_Properties\<close> holds what they are proved to do.
  \<^item> \<open>Dispatch\<close>, \<open>Ledger\<close>, \<open>Ledger_Steps\<close>, \<open>Ledger_Runs\<close>, \<open>Ledger_Complete\<close>, \<open>Containment\<close>: \<^verbatim>\<open>dispatch.cpp\<close>.
    State: \<open>transaction_run\<close>, a progress with a ledger of dispatch records; the operations reserve, start,
    release, complete, observe and restore. \<open>Dispatch_Properties\<close>.
  \<^item> \<open>Effect_Journal\<close>, \<open>Effect_Attempt\<close>, \<open>Journal_Chain\<close>, \<open>Effect_Trace\<close>: \<^verbatim>\<open>effect_journal.cpp\<close>, the attempt record
    and its ten operations, its shape and successor validators. \<open>Effect_Properties\<close>.
  \<^item> \<open>Run_Journal\<close>, \<open>Run_Chain\<close>, \<open>Run_Durable\<close>: \<^verbatim>\<open>run_journal.cpp\<close>, the durable snapshots of a run, the live and
    the durable successor check, reopening. \<open>Run_Properties\<close>.
  \<^item> \<open>Effect_Request\<close>: the authority checks of \<^verbatim>\<open>effect.cpp\<close> on requests and sessions. \<open>Process\<close> and
    \<open>Effect_Driver\<close>: code that calls its environment, and the interfaces of \<^verbatim>\<open>effect.h\<close> and \<^verbatim>\<open>effect_store.h\<close> as
    records of functions over a shared environment; a call appends to a trace what was called and
    answered. \<open>Effect_Execution\<close>: the two executions of \<^verbatim>\<open>effect.cpp\<close>. \<open>Effect_Restart\<close>, \<open>Effect_Resume\<close>:
    \<^verbatim>\<open>effect_restart.cpp\<close>, \<^verbatim>\<open>effect_inspect.cpp\<close> and the continuation of \<^verbatim>\<open>effect.cpp\<close>.
  \<^item> \<open>Effect_Orderly\<close> (the write-ahead discipline as a property of traces), \<open>Effect_Writes\<close>, \<open>Effect_Durable\<close>
    (the execution keeps it), \<open>Effect_Resumed\<close>, \<open>Effect_Reopened\<close> (the continuation keeps it),
    \<open>Effect_History\<close> (crashes and restarts put together). \<open>Execution_Properties\<close>.
  \<^item> \<open>Codec\<close>: bytes as writers (functions that append within a limit) and readers (functions that return a value
    and the rest), the locale \<open>codec\<close> of a reader that accepts exactly one layout, and lists of such values.
    \<open>Effect_Codec\<close> is \<^verbatim>\<open>effect_journal_codec.cpp\<close>, \<open>Run_Codec\<close> is \<^verbatim>\<open>run_journal_codec.cpp\<close>; \<open>Effect_Codec_Laws\<close> and
    \<open>Run_Codec_Laws\<close> interpret \<open>codec\<close> on every part of a record, \<open>Effect_Stored\<close>, \<open>Run_Stored\<close> and \<open>Run_Sealed\<close>
    show that what the journals reach is what the decoders accept. \<open>Codec_Properties\<close>.
  \<^item> \<open>Sample\<close>, \<open>Sample_Operation\<close>, \<open>Sample_Attempt\<close>, \<open>Sample_Execution\<close>, \<open>Sample_Stored\<close>: concrete values for the witnesses.

  \<^bold>\<open>How the parts interact.\<close> \<open>submit_*\<close> of the dispatch calls \<open>advance_*\<close> of the progression and replaces
  one record; the run journal takes a snapshot of the run after every such operation and the next run
  must pass both its checks; an operation dispatch starts an effect attempt, whose journal is written by
  the execution, whose result is the evidence the dispatch completes with. The interfaces are locales:
  \<open>Journal_Chain\<close> states what both journals are (a step relation with a sequence, kept fields and a final
  stage) and is interpreted for attempts and for runs; \<open>Codec\<close> states what a reader of one layout is and is interpreted
  for every part of the stored records, \<open>Nonce\<close> what a nonce text is, interpreted for the three nonces.

  \<^bold>\<open>Conventions.\<close> Identities are their hexadecimal texts. An exception is its class and code; reading an
  absent optional or past a vector is \<open>Undefined_behaviour\<close>. Sequences, totals and capacities are 64-bit
  words. A loop that may return from its function is a recursion with the code after the loop as an
  argument. The fixpoint loop of \<^verbatim>\<open>derive_statuses\<close> runs on fuel \<open>settle_fuel us = length us + 2\<close>: every pass
  but the last settles a unit, so the fuel is never used up (\<open>status_loop_terminates\<close>); exhausted fuel would
  be \<open>Inl Diverges\<close>.

  \<^bold>\<open>Parameters.\<close> SHA-256, the numeric codes of foreign enumerations, the foreign parsers, the projection of a
  publication and the assessment of a foreign application journal are fields of \<open>ext\<close>. Drivers, stores and
  sinks are arbitrary; theorems on execution assume at most that a store returns the record it was given
  (\<open>store_echoes\<close>; the code compares the identity only). Hypotheses on digests are stated where they are
  needed, as the absence of the collisions in question.

  \<^bold>\<open>Not modelled.\<close> The evidence and session codecs, which serialise values through constructors of foreign
  libraries; construction and check execution, target observation and planning, which assemble requests
  for foreign libraries; the directory-based stores; the coordination of runs (\<^verbatim>\<open>run_*.cpp\<close>), planned next;
  reports, options and the command line, which are text and process plumbing.
\<close>

end
